(* ===== verification/Go_Prelude.thy ===== *)
theory Go_Prelude
  imports Main "HOL-Library.Word"
begin

text \<open>
  The parts of Go that every component of the provider uses, as plain HOL: error
  values with wrapping and \<open>errors.Is\<close>, the outcome of a call (a value, an error or
  a panic), stateful calls as functions from a state to an outcome and a new state,
  and the reasoning rules for them. Four kinds of rule are collected:
  \<^item> \<open>wp_simps\<close>: the weakest precondition of each way to compose calls;
  \<^item> \<open>ok_iffs\<close>: what it means that a composed call returned a value;
  \<^item> \<open>emit_intros\<close>: which events a call can add to an observed list of events,
    whatever the environment answers;
  \<^item> \<open>keep_intros\<close>: which part of the state a call leaves alone.
\<close>

named_theorems wp_simps \<open>weakest preconditions of the composed calls\<close>
named_theorems ok_iffs \<open>runs of the composed calls that return a value\<close>
named_theorems emit_intros \<open>events a composed call can emit\<close>
named_theorems keep_intros \<open>state a composed call leaves unchanged\<close>

section \<open>Errors\<close>

text \<open>
  \<open>api_error\<close> is what the Scaleway SDK and the Kubernetes client return; the provider
  only tells the not-found and the precondition-failed errors from the others. The
  sentinel errors are the package variables of the provider. \<open>Wrap\<close> is
  \<^verbatim>\<open>fmt.Errorf("...: %w", err)\<close>; its text is the constant part of the format.
\<close>

datatype api_error = ApiNotFound | ApiPreconditionFailed | ApiOther string

datatype go_error =
    ErrNoItemFound
  | ErrTooManyItemsFound
  | ErrLoadBalancerNotReady
  | ErrPrivateIPNotFound
  | ErrMachineHasNoIP
  | ErrBootstrapDataNotReady
  | ApiErr api_error
  | ErrNew string
  | Wrap string go_error

fun errors_Is :: "go_error \<Rightarrow> go_error \<Rightarrow> bool" where
  "errors_Is (Wrap m e) target = (Wrap m e = target \<or> errors_Is e target)"
| "errors_Is e target = (e = target)"

text \<open>\<^verbatim>\<open>errors.As(err, &pfe)\<close> with \<^verbatim>\<open>pfe *scw.PreconditionFailedError\<close>.\<close>

fun errors_As_PreconditionFailed :: "go_error \<Rightarrow> bool" where
  "errors_As_PreconditionFailed (Wrap m e) = errors_As_PreconditionFailed e"
| "errors_As_PreconditionFailed (ApiErr a) = (a = ApiPreconditionFailed)"
| "errors_As_PreconditionFailed e = False"

fun errors_unwrap_all :: "go_error \<Rightarrow> go_error" where
  "errors_unwrap_all (Wrap m e) = errors_unwrap_all e"
| "errors_unwrap_all e = e"

text \<open>\<^verbatim>\<open>err.Error()\<close>; the text of an API error is the one the API returned.\<close>

fun error_Error :: "go_error \<Rightarrow> string" where
  "error_Error ErrNoItemFound = ''no item found''"
| "error_Error ErrTooManyItemsFound = ''expected to find only one item''"
| "error_Error ErrLoadBalancerNotReady = ''loadbalancer is not ready''"
| "error_Error ErrPrivateIPNotFound = ''private IP not found in IPAM''"
| "error_Error ErrMachineHasNoIP = ''machine has no IP''"
| "error_Error ErrBootstrapDataNotReady =
     ''error retrieving bootstrap data: linked Machine's bootstrap.dataSecretName is nil''"
| "error_Error (ApiErr a) = (case a of ApiNotFound \<Rightarrow> ''not found''
     | ApiPreconditionFailed \<Rightarrow> ''precondition failed'' | ApiOther m \<Rightarrow> m)"
| "error_Error (ErrNew m) = m"
| "error_Error (Wrap m e) = m @ '': '' @ error_Error e"

definition sentinel :: "go_error \<Rightarrow> bool" where
  "sentinel e \<longleftrightarrow> (\<forall>m e'. e \<noteq> Wrap m e')"

lemma errors_Is_sentinel: "sentinel t \<Longrightarrow> errors_Is e t \<longleftrightarrow> errors_unwrap_all e = t"
  by (induction e) (auto simp: sentinel_def)

lemma sentinel_simps [simp]:
  "sentinel ErrNoItemFound" "sentinel ErrTooManyItemsFound" "sentinel ErrLoadBalancerNotReady"
  "sentinel ErrPrivateIPNotFound" "sentinel ErrMachineHasNoIP" "sentinel ErrBootstrapDataNotReady"
  by (simp_all add: sentinel_def)

section \<open>Outcomes and calls\<close>

datatype 'a outcome = Ok 'a | Err go_error | Panic

type_synonym ('s, 'a) go = "'s \<Rightarrow> 'a outcome \<times> 's"

definition ret :: "'a \<Rightarrow> ('s, 'a) go" where
  "ret x = (\<lambda>s. (Ok x, s))"

definition throw :: "go_error \<Rightarrow> ('s, 'a) go" where
  "throw e = (\<lambda>s. (Err e, s))"

definition panic :: "('s, 'a) go" where
  "panic = (\<lambda>s. (Panic, s))"

text \<open>\<^verbatim>\<open>x, err := m(); if err != nil { return err }; f(x)\<close>\<close>

definition bind :: "('s, 'a) go \<Rightarrow> ('a \<Rightarrow> ('s, 'b) go) \<Rightarrow> ('s, 'b) go" where
  "bind m f = (\<lambda>s. case m s of
      (Ok x, s') \<Rightarrow> f x s'
    | (Err e, s') \<Rightarrow> (Err e, s')
    | (Panic, s') \<Rightarrow> (Panic, s'))"

text \<open>\<^verbatim>\<open>x, err := m()\<close>, where the code goes on to inspect \<^verbatim>\<open>err\<close>.\<close>

definition attempt :: "('s, 'a) go \<Rightarrow> ('s, go_error + 'a) go" where
  "attempt m = (\<lambda>s. case m s of
      (Ok x, s') \<Rightarrow> (Ok (Inr x), s')
    | (Err e, s') \<Rightarrow> (Ok (Inl e), s')
    | (Panic, s') \<Rightarrow> (Panic, s'))"

text \<open>\<^verbatim>\<open>return fmt.Errorf("msg: %w", err)\<close> on the error of a call.\<close>

definition wrapping :: "string \<Rightarrow> ('s, 'a) go \<Rightarrow> ('s, 'a) go" where
  "wrapping msg m = (\<lambda>s. case m s of
      (Ok x, s') \<Rightarrow> (Ok x, s')
    | (Err e, s') \<Rightarrow> (Err (Wrap msg e), s')
    | (Panic, s') \<Rightarrow> (Panic, s'))"

text \<open>
  \<^verbatim>\<open>x, err := m(); if err != nil && !errors.Is(err, ErrNoItemFound) { return err }\<close>:
  not finding the item leaves the pointer \<^verbatim>\<open>x\<close> nil.
\<close>

definition optional :: "('s, 'a) go \<Rightarrow> ('s, 'a option) go" where
  "optional m = bind (attempt m) (\<lambda>r. case r of
      Inr x \<Rightarrow> ret (Some x)
    | Inl e \<Rightarrow> if errors_Is e ErrNoItemFound then ret None else throw e)"

definition gets :: "('s \<Rightarrow> 'a) \<Rightarrow> ('s, 'a) go" where
  "gets f = (\<lambda>s. (Ok (f s), s))"

definition modify :: "('s \<Rightarrow> 's) \<Rightarrow> ('s, unit) go" where
  "modify f = (\<lambda>s. (Ok (), f s))"

text \<open>Reading through a nil pointer panics.\<close>

definition deref :: "'a option \<Rightarrow> ('s, 'a) go" where
  "deref p = (case p of None \<Rightarrow> panic | Some x \<Rightarrow> ret x)"

text \<open>A pure function with an error result, called from stateful code.\<close>

definition lift_sum :: "go_error + 'a \<Rightarrow> ('s, 'a) go" where
  "lift_sum r = (case r of Inl e \<Rightarrow> throw e | Inr x \<Rightarrow> ret x)"

text \<open>A function of the program that does not touch the state but may panic.\<close>

definition lift_outcome :: "'a outcome \<Rightarrow> ('s, 'a) go" where
  "lift_outcome r = (\<lambda>s. (r, s))"

text \<open>\<^verbatim>\<open>for _, x := range xs { if err := f(x); err != nil { return err } }\<close>\<close>

fun for_each :: "('a \<Rightarrow> ('s, unit) go) \<Rightarrow> 'a list \<Rightarrow> ('s, unit) go" where
  "for_each f [] = ret ()"
| "for_each f (x # xs) = bind (f x) (\<lambda>_. for_each f xs)"

text \<open>The same over the elements of a list with the results collected.\<close>

fun map_sum_list :: "('a \<Rightarrow> go_error + 'b) \<Rightarrow> 'a list \<Rightarrow> go_error + 'b list" where
  "map_sum_list f [] = Inr []"
| "map_sum_list f (x # xs) = (case f x of Inl e \<Rightarrow> Inl e | Inr y \<Rightarrow>
     (case map_sum_list f xs of Inl e \<Rightarrow> Inl e | Inr ys \<Rightarrow> Inr (y # ys)))"

lemmas go_defs = ret_def throw_def panic_def bind_def attempt_def wrapping_def optional_def
  gets_def modify_def deref_def lift_sum_def

subsection \<open>Monad laws\<close>

lemma bind_ret [simp]: "bind (ret x) f = f x"
  by (simp add: bind_def ret_def)

lemma bind_throw [simp]: "bind (throw e) f = throw e"
  by (simp add: bind_def throw_def)

lemma bind_panic [simp]: "bind panic f = panic"
  by (simp add: bind_def panic_def)

lemma bind_assoc: "bind (bind m f) g = bind m (\<lambda>x. bind (f x) g)"
  by (rule ext) (simp add: bind_def split: prod.splits outcome.splits)

lemma attempt_ret [simp]: "attempt (ret x) = ret (Inr x)"
  by (simp add: attempt_def ret_def)

lemma attempt_throw [simp]: "attempt (throw e) = ret (Inl e)"
  by (simp add: attempt_def throw_def ret_def)

lemma deref_simps [simp]: "deref None = panic" "deref (Some x) = ret x"
  by (simp_all add: deref_def)

lemma lift_sum_simps [simp]: "lift_sum (Inl e) = throw e" "lift_sum (Inr x) = ret x"
  by (simp_all add: lift_sum_def)

lemma map_sum_list_Inr:
  "map_sum_list f xs = Inr ys \<longleftrightarrow> list_all2 (\<lambda>x y. f x = Inr y) xs ys"
proof (induction xs arbitrary: ys)
  case (Cons x xs)
  show ?case
    by (cases "f x"; cases "map_sum_list f xs")
      (auto simp: list_all2_Cons1 Cons.IH [symmetric])
qed auto

lemma map_sum_list_ok:
  "(\<And>x. x \<in> set xs \<Longrightarrow> \<exists>y. f x = Inr y) \<Longrightarrow> \<exists>ys. map_sum_list f xs = Inr ys"
  by (induction xs) (fastforce split: sum.splits)+

lemma map_sum_list_Inl:
  "map_sum_list f xs = Inl e \<Longrightarrow> \<exists>x \<in> set xs. f x = Inl e"
  by (induction xs) (auto split: sum.splits)

section \<open>Weakest preconditions\<close>

definition wp :: "('s, 'a) go \<Rightarrow> ('a outcome \<Rightarrow> 's \<Rightarrow> bool) \<Rightarrow> 's \<Rightarrow> bool" where
  "wp m Q s = (case m s of (r, s') \<Rightarrow> Q r s')"

lemma wp_iff: "wp m Q s \<longleftrightarrow> Q (fst (m s)) (snd (m s))"
  by (simp add: wp_def split: prod.splits)

lemma wp_mono: "wp m P s \<Longrightarrow> (\<And>r s'. P r s' \<Longrightarrow> Q r s') \<Longrightarrow> wp m Q s"
  by (simp add: wp_iff)

lemma wp_ret [wp_simps]: "wp (ret x) Q s = Q (Ok x) s"
  by (simp add: wp_def ret_def)

lemma wp_throw [wp_simps]: "wp (throw e) Q s = Q (Err e) s"
  by (simp add: wp_def throw_def)

lemma wp_panic [wp_simps]: "wp panic Q s = Q Panic s"
  by (simp add: wp_def panic_def)

lemma wp_bind [wp_simps]:
  "wp (bind m f) Q s = wp m (\<lambda>r s'. case r of
      Ok x \<Rightarrow> wp (f x) Q s' | Err e \<Rightarrow> Q (Err e) s' | Panic \<Rightarrow> Q Panic s') s"
  by (simp add: wp_def bind_def split: prod.splits outcome.splits)

lemma wp_attempt [wp_simps]:
  "wp (attempt m) Q s = wp m (\<lambda>r s'. case r of
      Ok x \<Rightarrow> Q (Ok (Inr x)) s' | Err e \<Rightarrow> Q (Ok (Inl e)) s' | Panic \<Rightarrow> Q Panic s') s"
  by (simp add: wp_def attempt_def split: prod.splits outcome.splits)

lemma wp_wrapping [wp_simps]:
  "wp (wrapping msg m) Q s = wp m (\<lambda>r s'. case r of
      Ok x \<Rightarrow> Q (Ok x) s' | Err e \<Rightarrow> Q (Err (Wrap msg e)) s' | Panic \<Rightarrow> Q Panic s') s"
  by (simp add: wp_def wrapping_def split: prod.splits outcome.splits)

lemma wp_optional [wp_simps]:
  "wp (optional m) Q s = wp m (\<lambda>r s'. case r of
      Ok x \<Rightarrow> Q (Ok (Some x)) s'
    | Err e \<Rightarrow> if errors_Is e ErrNoItemFound then Q (Ok None) s' else Q (Err e) s'
    | Panic \<Rightarrow> Q Panic s') s"
  by (simp add: optional_def wp_def attempt_def bind_def ret_def throw_def
      split: prod.splits outcome.splits)

lemma wp_gets [wp_simps]: "wp (gets f) Q s = Q (Ok (f s)) s"
  by (simp add: wp_def gets_def)

lemma wp_modify [wp_simps]: "wp (modify f) Q s = Q (Ok ()) (f s)"
  by (simp add: wp_def modify_def)

lemma wp_deref [wp_simps]:
  "wp (deref p) Q s = (case p of None \<Rightarrow> Q Panic s | Some x \<Rightarrow> Q (Ok x) s)"
  by (cases p) (simp_all add: wp_simps)

lemma wp_lift_sum [wp_simps]:
  "wp (lift_sum r) Q s = (case r of Inl e \<Rightarrow> Q (Err e) s | Inr x \<Rightarrow> Q (Ok x) s)"
  by (cases r) (simp_all add: wp_simps)

lemma wp_lift_outcome [wp_simps]: "wp (lift_outcome r) Q s = Q r s"
  by (simp add: wp_def lift_outcome_def)

lemma wp_if [wp_simps]: "wp (if b then m else n) Q s = (if b then wp m Q s else wp n Q s)"
  by simp

lemma wp_case_option [wp_simps]:
  "wp (case x of None \<Rightarrow> m | Some y \<Rightarrow> n y) Q s = (case x of None \<Rightarrow> wp m Q s | Some y \<Rightarrow> wp (n y) Q s)"
  by (cases x) simp_all

lemma wp_case_sum [wp_simps]:
  "wp (case x of Inl y \<Rightarrow> m y | Inr z \<Rightarrow> n z) Q s = (case x of Inl y \<Rightarrow> wp (m y) Q s | Inr z \<Rightarrow> wp (n z) Q s)"
  by (cases x) simp_all

text \<open>A loop rule: the invariant is kept by each turn that does not stop the loop.\<close>

lemma wp_for_each:
  assumes "I s"
    and "\<And>x s. x \<in> set xs \<Longrightarrow> I s \<Longrightarrow> wp (f x) (\<lambda>r s'. case r of
          Ok u \<Rightarrow> I s' | Err e \<Rightarrow> Q (Err e) s' | Panic \<Rightarrow> Q Panic s') s"
    and "\<And>s. I s \<Longrightarrow> Q (Ok ()) s"
  shows "wp (for_each f xs) Q s"
  using assms
proof (induction xs arbitrary: s)
  case Nil
  then show ?case by (simp add: wp_simps)
next
  case (Cons x xs)
  have "wp (f x) (\<lambda>r s'. case r of Ok u \<Rightarrow> I s' | Err e \<Rightarrow> Q (Err e) s' | Panic \<Rightarrow> Q Panic s') s"
    using Cons.prems by simp
  then show ?case
    unfolding for_each.simps wp_bind
    by (rule wp_mono) (auto split: outcome.splits intro!: Cons.IH Cons.prems)
qed

section \<open>Runs that return a value\<close>

lemma bind_Ok [ok_iffs]:
  "bind m f s = (Ok y, s') \<longleftrightarrow> (\<exists>x t. m s = (Ok x, t) \<and> f x t = (Ok y, s'))"
  by (auto simp: bind_def split: prod.splits outcome.splits)

lemma pure_Ok [ok_iffs]:
  "ret x s = (Ok y, s') \<longleftrightarrow> y = x \<and> s' = s"
  "throw e s = (Ok y, s') \<longleftrightarrow> False"
  "panic s = (Ok y, s') \<longleftrightarrow> False"
  "gets g s = (Ok z, s') \<longleftrightarrow> z = g s \<and> s' = s"
  "modify h s = (Ok u, s') \<longleftrightarrow> s' = h s"
  "lift_outcome q s = (Ok y, s') \<longleftrightarrow> q = Ok y \<and> s' = s"
  by (auto simp: go_defs lift_outcome_def)

lemma deref_Ok [ok_iffs]: "deref p s = (Ok y, s') \<longleftrightarrow> p = Some y \<and> s' = s"
  by (cases p) (auto simp: ok_iffs)

lemma lift_sum_Ok [ok_iffs]: "lift_sum r s = (Ok y, s') \<longleftrightarrow> r = Inr y \<and> s' = s"
  by (cases r) (auto simp: ok_iffs)

lemma wrapping_Ok [ok_iffs]: "wrapping msg m s = (Ok y, s') \<longleftrightarrow> m s = (Ok y, s')"
  by (auto simp: wrapping_def split: prod.splits outcome.splits)

lemma attempt_Ok [ok_iffs]:
  "attempt m s = (Ok r, s') \<longleftrightarrow> (case r of Inl e \<Rightarrow> m s = (Err e, s') | Inr x \<Rightarrow> m s = (Ok x, s'))"
  by (auto simp: attempt_def split: prod.splits outcome.splits sum.splits)

lemma optional_Ok [ok_iffs]:
  "optional m s = (Ok r, s') \<longleftrightarrow> (case r of Some x \<Rightarrow> m s = (Ok x, s')
     | None \<Rightarrow> (\<exists>e. m s = (Err e, s') \<and> errors_Is e ErrNoItemFound))"
  by (auto simp: optional_def attempt_def bind_def ret_def throw_def
      split: prod.splits outcome.splits option.splits if_splits)

lemma for_each_Ok [ok_iffs]:
  "for_each f [] s = (Ok u, s') \<longleftrightarrow> s' = s"
  "for_each f (x # xs) s = (Ok u, s') \<longleftrightarrow> (\<exists>t. f x s = (Ok (), t) \<and> for_each f xs t = (Ok (), s'))"
  by (auto simp: ok_iffs)

section \<open>Emitted events and unchanged state\<close>

text \<open>
  \<open>emits obs C m\<close>: whatever the state, running \<open>m\<close> only appends events of \<open>C\<close> to the
  observed list. \<open>keeps f m\<close>: running \<open>m\<close> leaves the part \<open>f\<close> of the state unchanged.
\<close>

definition emits :: "('s \<Rightarrow> 'e list) \<Rightarrow> 'e set \<Rightarrow> ('s, 'a) go \<Rightarrow> bool" where
  "emits obs C m \<longleftrightarrow> (\<forall>s. \<exists>es. obs (snd (m s)) = obs s @ es \<and> set es \<subseteq> C)"

definition keeps :: "('s \<Rightarrow> 'b) \<Rightarrow> ('s, 'a) go \<Rightarrow> bool" where
  "keeps f m \<longleftrightarrow> (\<forall>s. f (snd (m s)) = f s)"

lemma emitsD: "emits obs C m \<Longrightarrow> \<exists>es. obs (snd (m s)) = obs s @ es \<and> set es \<subseteq> C"
  by (simp add: emits_def)

lemma keepsD: "keeps f m \<Longrightarrow> f (snd (m s)) = f s"
  by (simp add: keeps_def)

lemma emits_mono: "emits obs C m \<Longrightarrow> C \<subseteq> D \<Longrightarrow> emits obs D m"
  unfolding emits_def by (meson order_trans)

lemma emits_pure:
  "emits obs C (ret x)" "emits obs C (throw e)" "emits obs C panic" "emits obs C (gets f)"
  "emits obs C (deref p)" "emits obs C (lift_sum r)" "emits obs C (lift_outcome q)"
  by (simp_all add: emits_def go_defs lift_outcome_def split: option.splits sum.splits)

lemma keeps_pure:
  "keeps f (ret x)" "keeps f (throw e)" "keeps f panic" "keeps f (gets g)"
  "keeps f (deref p)" "keeps f (lift_sum r)" "keeps f (lift_outcome q)"
  by (simp_all add: keeps_def go_defs lift_outcome_def split: option.splits sum.splits)

lemma emits_bind [emit_intros]:
  assumes m: "emits obs C m" and f: "\<And>x. emits obs C (f x)"
  shows "emits obs C (bind m f)"
  unfolding emits_def
proof
  fix s
  obtain r s' where ms: "m s = (r, s')" by fastforce
  obtain es where es: "obs s' = obs s @ es" "set es \<subseteq> C"
    using emitsD [OF m, of s] ms by auto
  show "\<exists>es. obs (snd (bind m f s)) = obs s @ es \<and> set es \<subseteq> C"
  proof (cases r)
    case (Ok x)
    obtain es' where "obs (snd (f x s')) = obs s' @ es'" "set es' \<subseteq> C"
      using emitsD [OF f, of x s'] by auto
    with es ms Ok show ?thesis
      by (intro exI [where x = "es @ es'"]) (simp add: bind_def)
  qed (use es ms in \<open>auto simp: bind_def\<close>)
qed

lemma keeps_bind [keep_intros]:
  assumes m: "keeps g m" and f: "\<And>x. keeps g (f x)"
  shows "keeps g (bind m f)"
  unfolding keeps_def
proof
  fix s
  obtain r s' where ms: "m s = (r, s')" by fastforce
  have "g s' = g s" using keepsD [OF m, of s] ms by simp
  then show "g (snd (bind m f s)) = g s"
    using keepsD [OF f] ms by (cases r) (auto simp: bind_def)
qed

lemma snd_attempt: "snd (attempt m s) = snd (m s)"
  by (simp add: attempt_def split: prod.splits outcome.splits)

lemma snd_wrapping: "snd (wrapping msg m s) = snd (m s)"
  by (simp add: wrapping_def split: prod.splits outcome.splits)

lemma snd_optional: "snd (optional m s) = snd (m s)"
  by (simp add: optional_def bind_def attempt_def ret_def throw_def split: prod.splits outcome.splits)

lemma emits_attempt [emit_intros]: "emits obs C m \<Longrightarrow> emits obs C (attempt m)"
  and emits_wrapping [emit_intros]: "emits obs C m \<Longrightarrow> emits obs C (wrapping msg m)"
  and emits_optional [emit_intros]: "emits obs C m \<Longrightarrow> emits obs C (optional m)"
  by (simp_all add: emits_def snd_attempt snd_wrapping snd_optional)

lemma keeps_attempt [keep_intros]: "keeps f m \<Longrightarrow> keeps f (attempt m)"
  and keeps_wrapping [keep_intros]: "keeps f m \<Longrightarrow> keeps f (wrapping msg m)"
  and keeps_optional [keep_intros]: "keeps f m \<Longrightarrow> keeps f (optional m)"
  by (simp_all add: keeps_def snd_attempt snd_wrapping snd_optional)

lemma emits_for_each [emit_intros]:
  "(\<And>x. x \<in> set xs \<Longrightarrow> emits obs C (f x)) \<Longrightarrow> emits obs C (for_each f xs)"
  by (induction xs) (auto intro!: emits_pure emits_bind)

lemma keeps_for_each [keep_intros]:
  "(\<And>x. x \<in> set xs \<Longrightarrow> keeps g (f x)) \<Longrightarrow> keeps g (for_each f xs)"
  by (induction xs) (auto intro!: keeps_pure keeps_bind)

lemma emits_if [emit_intros]:
  "(b \<Longrightarrow> emits obs C m) \<Longrightarrow> (\<not> b \<Longrightarrow> emits obs C n) \<Longrightarrow> emits obs C (if b then m else n)"
  by simp

lemma keeps_if [keep_intros]:
  "(b \<Longrightarrow> keeps g m) \<Longrightarrow> (\<not> b \<Longrightarrow> keeps g n) \<Longrightarrow> keeps g (if b then m else n)"
  by simp

lemma emits_case_option [emit_intros]:
  "(x = None \<Longrightarrow> emits obs C m) \<Longrightarrow> (\<And>y. x = Some y \<Longrightarrow> emits obs C (n y)) \<Longrightarrow>
   emits obs C (case x of None \<Rightarrow> m | Some y \<Rightarrow> n y)"
  by (cases x) simp_all

lemma keeps_case_option [keep_intros]:
  "(x = None \<Longrightarrow> keeps g m) \<Longrightarrow> (\<And>y. x = Some y \<Longrightarrow> keeps g (n y)) \<Longrightarrow>
   keeps g (case x of None \<Rightarrow> m | Some y \<Rightarrow> n y)"
  by (cases x) simp_all

lemma emits_case_sum [emit_intros]:
  "(\<And>y. x = Inl y \<Longrightarrow> emits obs C (m y)) \<Longrightarrow> (\<And>y. x = Inr y \<Longrightarrow> emits obs C (n y)) \<Longrightarrow>
   emits obs C (case x of Inl y \<Rightarrow> m y | Inr y \<Rightarrow> n y)"
  by (cases x) simp_all

lemma keeps_case_sum [keep_intros]:
  "(\<And>y. x = Inl y \<Longrightarrow> keeps g (m y)) \<Longrightarrow> (\<And>y. x = Inr y \<Longrightarrow> keeps g (n y)) \<Longrightarrow>
   keeps g (case x of Inl y \<Rightarrow> m y | Inr y \<Rightarrow> n y)"
  by (cases x) simp_all

declare emits_pure [emit_intros] keeps_pure [keep_intros]

lemma keeps_modify [keep_intros]: "(\<And>s. g (f s) = g s) \<Longrightarrow> keeps g (modify f)"
  by (simp add: keeps_def modify_def)

lemma emits_modify [emit_intros]: "(\<And>s. obs (f s) = obs s) \<Longrightarrow> emits obs C (modify f)"
  by (simp add: emits_def modify_def)

section \<open>Lists searched by the provider\<close>

text \<open>\<^verbatim>\<open>slices.IndexFunc\<close>, with \<open>None\<close> for -1, and the item at that index.\<close>

lemma find_eq_None: "find P xs = None \<longleftrightarrow> (\<forall>x \<in> set xs. \<not> P x)"
  by (auto simp: find_None_iff)

lemma find_SomeD: "find P xs = Some x \<Longrightarrow> x \<in> set xs \<and> P x"
  by (auto simp: find_Some_iff)

end
