(* ===== verification/Go_Strings.thy ===== *)
theory Go_Strings
  imports Go_Prelude
begin

text \<open>
  The functions of Go's \<^verbatim>\<open>strings\<close> and \<^verbatim>\<open>strconv\<close> packages that the provider calls:
  \<^verbatim>\<open>strings.Split\<close> on a one-byte separator and \<^verbatim>\<open>strconv.Atoi\<close> (64-bit \<^verbatim>\<open>int\<close>, as on
  the platforms the provider is built for), with the decimal printing that
  \<^verbatim>\<open>fmt\<close> and \<^verbatim>\<open>net\<close> use. A Go string is the list of its bytes.
\<close>

section \<open>Splitting\<close>

fun strings_Split :: "char \<Rightarrow> string \<Rightarrow> string list" where
  "strings_Split c [] = [[]]"
| "strings_Split c (x # xs) =
     (if x = c then [] # strings_Split c xs
      else (case strings_Split c xs of [] \<Rightarrow> [[x]] | y # ys \<Rightarrow> (x # y) # ys))"

fun strings_Join :: "char \<Rightarrow> string list \<Rightarrow> string" where
  "strings_Join c [] = []"
| "strings_Join c [x] = x"
| "strings_Join c (x # y # ys) = x @ c # strings_Join c (y # ys)"

lemma Split_not_Nil [simp]: "strings_Split c s \<noteq> []"
  by (induction s) (auto split: list.splits)

lemma Split_no_sep [simp]: "c \<notin> set s \<Longrightarrow> strings_Split c s = [s]"
  by (induction s) auto

lemma Split_append_sep [simp]:
  "c \<notin> set a \<Longrightarrow> strings_Split c (a @ c # b) = a # strings_Split c b"
  by (induction a) auto

lemma Split_pieces: "\<forall>p \<in> set (strings_Split c s). c \<notin> set p"
  by (induction s) (auto split: list.splits)

lemma length_Split: "length (strings_Split c s) = Suc (count_list s c)"
  by (induction s) (auto split: list.splits)

lemma Join_Split: "strings_Join c (strings_Split c s) = s"
proof (induction s)
  case (Cons x xs)
  obtain y ys where ys: "strings_Split c xs = y # ys"
    by (cases "strings_Split c xs") auto
  with Cons show ?case by (cases ys) auto
qed simp

section \<open>Decimal numbers\<close>

definition is_digit :: "char \<Rightarrow> bool" where
  "is_digit c \<longleftrightarrow> 48 \<le> (of_char c :: nat) \<and> (of_char c :: nat) \<le> 57"

definition digit_val :: "char \<Rightarrow> nat" where
  "digit_val c = of_char c - 48"

definition digit_char :: "nat \<Rightarrow> char" where
  "digit_char d = ''0123456789'' ! d"

fun itoa :: "nat \<Rightarrow> string" where
  "itoa n = (if n < 10 then [digit_char n] else itoa (n div 10) @ [digit_char (n mod 10)])"

declare itoa.simps [simp del]

definition digits_val :: "string \<Rightarrow> nat" where
  "digits_val s = foldl (\<lambda>a c. 10 * a + digit_val c) 0 s"

text \<open>
  \<^verbatim>\<open>strconv.Atoi\<close>: an optional sign, then one or more decimal digits and nothing else,
  with the value in the range of \<^verbatim>\<open>int64\<close>.
\<close>

definition atoi_syntax :: "go_error" where
  "atoi_syntax = ErrNew ''strconv.Atoi: invalid syntax''"

definition atoi_range :: "go_error" where
  "atoi_range = ErrNew ''strconv.Atoi: value out of range''"

definition strconv_Atoi :: "string \<Rightarrow> go_error + int" where
  "strconv_Atoi s =
     (let neg = (case s of c # _ \<Rightarrow> c = CHR ''-'' | [] \<Rightarrow> False);
          body = (case s of c # cs \<Rightarrow> if c = CHR ''-'' \<or> c = CHR ''+'' then cs else s | [] \<Rightarrow> []);
          n = int (digits_val body)
      in if body = [] \<or> \<not> list_all is_digit body then Inl atoi_syntax
         else if neg then (if n \<le> 2 ^ 63 then Inr (- n) else Inl atoi_range)
         else if n < 2 ^ 63 then Inr n else Inl atoi_range)"

lemma less_10_cases: "(d::nat) < 10 \<Longrightarrow> d \<in> {0, 1, 2, 3, 4, 5, 6, 7, 8, 9}"
  by auto

lemma digit_char_digit [simp]: "d < 10 \<Longrightarrow> is_digit (digit_char d)"
  by (drule less_10_cases) (auto simp: is_digit_def digit_char_def)

lemma digit_val_char [simp]: "d < 10 \<Longrightarrow> digit_val (digit_char d) = d"
  by (drule less_10_cases) (auto simp: digit_val_def digit_char_def)

lemma itoa_digits: "list_all is_digit (itoa n)"
proof (induction n rule: itoa.induct)
  case (1 n)
  then show ?case by (subst itoa.simps) simp
qed

lemma itoa_not_Nil [simp]: "itoa n \<noteq> []"
  by (subst itoa.simps) simp

lemma digits_val_itoa [simp]: "digits_val (itoa n) = n"
proof (induction n rule: itoa.induct)
  case (1 n)
  then show ?case by (subst itoa.simps) (simp add: digits_val_def)
qed

lemma not_digit_signs [simp]: "\<not> is_digit (CHR ''-'')" "\<not> is_digit (CHR ''+'')" "\<not> is_digit (CHR ''.'')"
  "\<not> is_digit (CHR ''/'')" "\<not> is_digit (CHR '':'')"
  by (simp_all add: is_digit_def)

lemma sep_notin_digits: "list_all is_digit s \<Longrightarrow> \<not> is_digit c \<Longrightarrow> c \<notin> set s"
  by (auto simp: list_all_iff)

lemma minus_notin_itoa [simp]: "CHR ''-'' \<notin> set (itoa n)"
  by (rule sep_notin_digits [OF itoa_digits]) simp

lemma Atoi_digits:
  assumes "s \<noteq> []" "list_all is_digit s"
  shows "strconv_Atoi s =
    (if int (digits_val s) < 2 ^ 63 then Inr (int (digits_val s)) else Inl atoi_range)"
  using assms by (cases s) (auto simp: strconv_Atoi_def)

lemma Atoi_itoa: "int n < 2 ^ 63 \<Longrightarrow> strconv_Atoi (itoa n) = Inr (int n)"
  by (simp add: Atoi_digits itoa_digits)

lemma Atoi_range: "strconv_Atoi s = Inr n \<Longrightarrow> - (2 ^ 63) \<le> n \<and> n < 2 ^ 63"
  by (auto simp: strconv_Atoi_def Let_def split: if_splits)

text \<open>A piece between minus signs has no minus sign, so its value is not negative.\<close>

lemma Atoi_nonneg: "strconv_Atoi s = Inr n \<Longrightarrow> CHR ''-'' \<notin> set s \<Longrightarrow> 0 \<le> n"
  by (cases s) (auto simp: strconv_Atoi_def Let_def split: if_splits)

end
