(* ===== verification/Go_Net.thy ===== *)
theory Go_Net
  imports Go_Strings
begin

unbundle bit_operations_syntax

text \<open>
  The functions of Go's \<^verbatim>\<open>net\<close> and \<^verbatim>\<open>net/netip\<close> packages (Go 1.22) that the provider
  calls: \<^verbatim>\<open>netip.ParseAddr\<close> with \<^verbatim>\<open>Is4\<close>, \<^verbatim>\<open>net.ParseCIDR\<close>, and the printing of
  \<^verbatim>\<open>net.IP\<close> and \<^verbatim>\<open>net.IPNet\<close>. Addresses and masks are lists of bytes, as in Go.
\<close>

type_synonym byte = "8 word"

section \<open>Parsing addresses\<close>

datatype netip_Addr = Addr4 "byte list" | Addr6 "byte list" string

definition addr_Is4 :: "netip_Addr \<Rightarrow> bool" where
  "addr_Is4 a = (case a of Addr4 _ \<Rightarrow> True | Addr6 _ _ \<Rightarrow> False)"

definition addr_error :: "string \<Rightarrow> go_error" where
  "addr_error msg = ErrNew (''ParseAddr: '' @ msg)"

text \<open>
  \<^verbatim>\<open>parseIPv4\<close>: the rest of the input, the value and the number of digits of the current
  octet (no digits: at the start or after a dot), the octets already read.
\<close>

fun parseIPv4_loop :: "string \<Rightarrow> nat \<Rightarrow> nat \<Rightarrow> byte list \<Rightarrow> go_error + byte list" where
  "parseIPv4_loop [] val digLen fields =
     (if length fields < 3 then Inl (addr_error ''IPv4 address too short'')
      else Inr (fields @ [of_nat val]))"
| "parseIPv4_loop (c # cs) val digLen fields =
     (if is_digit c then
        (if digLen = 1 \<and> val = 0 then Inl (addr_error ''IPv4 field has octet with leading zero'')
         else let val' = val * 10 + digit_val c in
           if val' > 255 then Inl (addr_error ''IPv4 field has value >255'')
           else parseIPv4_loop cs val' (digLen + 1) fields)
      else if c = CHR ''.'' then
        (if digLen = 0 \<or> cs = [] then Inl (addr_error ''IPv4 field must have at least one digit'')
         else if length fields = 3 then Inl (addr_error ''IPv4 address too long'')
         else parseIPv4_loop cs 0 0 (fields @ [of_nat val]))
      else Inl (addr_error ''unexpected character''))"

definition parseIPv4 :: "string \<Rightarrow> go_error + byte list" where
  "parseIPv4 s = parseIPv4_loop s 0 0 []"

definition is_hex :: "char \<Rightarrow> bool" where
  "is_hex c \<longleftrightarrow> is_digit c \<or> (97 \<le> (of_char c :: nat) \<and> (of_char c :: nat) \<le> 102)
     \<or> (65 \<le> (of_char c :: nat) \<and> (of_char c :: nat) \<le> 70)"

definition hex_val :: "char \<Rightarrow> nat" where
  "hex_val c = (if is_digit c then digit_val c
     else if 97 \<le> (of_char c :: nat) then of_char c - 87 else of_char c - 55)"

text \<open>
  The loop of \<^verbatim>\<open>parseIPv6\<close>: at most \<open>k\<close> more 16-bit groups fit (the loop guard
  \<^verbatim>\<open>i < 16\<close> with \<^verbatim>\<open>i = 16 - 2k\<close>), \<open>ell\<close> is the position of the ellipsis if one was
  read, \<open>acc\<close> the bytes so far. The result is the final \<open>acc\<close>, \<open>ell\<close> and rest.
\<close>

fun parseIPv6_loop ::
  "nat \<Rightarrow> nat option \<Rightarrow> byte list \<Rightarrow> string \<Rightarrow> go_error + (byte list \<times> nat option \<times> string)" where
  "parseIPv6_loop 0 ell acc s = Inr (acc, ell, s)"
| "parseIPv6_loop (Suc k) ell acc s =
     (let ds = takeWhile is_hex s; rest = dropWhile is_hex s; i = length acc;
          v = foldl (\<lambda>a c. 16 * a + hex_val c) 0 ds in
      if length ds > 4 then Inl (addr_error ''each group must have 4 or fewer digits'')
      else if ds = [] then Inl (addr_error ''each colon-separated field must have at least one digit'')
      else case rest of
        [] \<Rightarrow> Inr (acc @ [of_nat (v div 256), of_nat (v mod 256)], ell, [])
      | c # cs \<Rightarrow>
          if c = CHR ''.'' then
            (if ell = None \<and> i \<noteq> 12 then
               Inl (addr_error ''embedded IPv4 address must replace the final 2 fields of the address'')
             else if i + 4 > 16 then
               Inl (addr_error ''too many hex fields to fit an embedded IPv4 at the end of the address'')
             else case parseIPv4 s of Inl e \<Rightarrow> Inl e | Inr b4 \<Rightarrow> Inr (acc @ b4, ell, []))
          else let acc' = acc @ [of_nat (v div 256), of_nat (v mod 256)] in
            if c \<noteq> CHR '':'' then Inl (addr_error ''unexpected character, want colon'')
            else case cs of
              [] \<Rightarrow> Inl (addr_error ''colon must be followed by more characters'')
            | d # ds' \<Rightarrow>
                if d = CHR '':'' then
                  (if ell \<noteq> None then Inl (addr_error ''multiple :: in address'')
                   else if ds' = [] then Inr (acc', Some (length acc'), [])
                   else parseIPv6_loop k (Some (length acc')) acc' ds')
                else parseIPv6_loop k ell acc' (d # ds'))"

definition parseIPv6 :: "string \<Rightarrow> go_error + netip_Addr" where
  "parseIPv6 inp =
     (let s0 = takeWhile (\<lambda>c. c \<noteq> CHR ''%'') inp; z = dropWhile (\<lambda>c. c \<noteq> CHR ''%'') inp;
          zone = (case z of [] \<Rightarrow> [] | _ # cs \<Rightarrow> cs);
          lead = (take 2 s0 = ''::'');
          s = (if lead then drop 2 s0 else s0) in
      if z \<noteq> [] \<and> zone = [] then Inl (addr_error ''zone must be a non-empty string'')
      else if lead \<and> s = [] then Inr (Addr6 (replicate 16 0) zone)
      else case parseIPv6_loop 8 (if lead then Some 0 else None) [] s of
        Inl e \<Rightarrow> Inl e
      | Inr (acc, ell, rest) \<Rightarrow>
          if rest \<noteq> [] then Inl (addr_error ''trailing garbage after address'')
          else if length acc < 16 then
            (case ell of
               None \<Rightarrow> Inl (addr_error ''address string too short'')
             | Some p \<Rightarrow> Inr (Addr6 (take p acc @ replicate (16 - length acc) 0 @ drop p acc) zone))
          else if ell \<noteq> None then
            Inl (addr_error ''the :: must expand to at least one field of zeros'')
          else Inr (Addr6 acc zone))"

fun parseAddr_scan :: "string \<Rightarrow> string \<Rightarrow> go_error + netip_Addr" where
  "parseAddr_scan s [] = Inl (addr_error ''unable to parse IP'')"
| "parseAddr_scan s (c # cs) =
     (if c = CHR ''.'' then (case parseIPv4 s of Inl e \<Rightarrow> Inl e | Inr b \<Rightarrow> Inr (Addr4 b))
      else if c = CHR '':'' then parseIPv6 s
      else if c = CHR ''%'' then Inl (addr_error ''missing IPv6 address'')
      else parseAddr_scan s cs)"

definition netip_ParseAddr :: "string \<Rightarrow> go_error + netip_Addr" where
  "netip_ParseAddr s = parseAddr_scan s s"

section \<open>CIDR ranges\<close>

record IPNet =
  net_IP :: "byte list"
  net_Mask :: "byte list"

fun CIDRMask :: "nat \<Rightarrow> nat \<Rightarrow> byte list" where
  "CIDRMask ones 0 = []"
| "CIDRMask ones (Suc len) =
     (if 8 \<le> ones then 255 # CIDRMask (ones - 8) len
      else NOT (drop_bit ones 255) # CIDRMask 0 len)"

definition mask_bytes :: "byte list \<Rightarrow> byte list \<Rightarrow> byte list" where
  "mask_bytes ip m = map2 (\<lambda>a b. a AND b) ip m"

definition cidr_error :: go_error where
  "cidr_error = ErrNew ''invalid CIDR address''"

text \<open>
  \<^verbatim>\<open>net.ParseCIDR\<close>; the provider only uses the network it returns. The prefix length is
  read by \<^verbatim>\<open>dtoi\<close>, which gives up at 0xFFFFFF.
\<close>

definition net_ParseCIDR :: "string \<Rightarrow> go_error + IPNet" where
  "net_ParseCIDR s =
     (let addr = takeWhile (\<lambda>c. c \<noteq> CHR ''/'') s in
      case dropWhile (\<lambda>c. c \<noteq> CHR ''/'') s of
        [] \<Rightarrow> Inl cidr_error
      | _ # msk \<Rightarrow>
          (case netip_ParseAddr addr of
             Inl e \<Rightarrow> Inl cidr_error
           | Inr a \<Rightarrow>
               let bits = (case a of Addr4 _ \<Rightarrow> 32 | Addr6 _ _ \<Rightarrow> 128);
                   zone = (case a of Addr4 _ \<Rightarrow> [] | Addr6 _ z \<Rightarrow> z);
                   ip = (case a of Addr4 b \<Rightarrow> b | Addr6 b _ \<Rightarrow> b);
                   n = digits_val msk in
               if zone \<noteq> [] \<or> msk = [] \<or> \<not> list_all is_digit msk \<or> n \<ge> 16777215 \<or> n > bits
               then Inl cidr_error
               else let m = CIDRMask n (bits div 8) in
                 Inr \<lparr>net_IP = mask_bytes ip m, net_Mask = m\<rparr>))"

section \<open>Printing\<close>

definition IP_To4 :: "byte list \<Rightarrow> byte list option" where
  "IP_To4 ip = (if length ip = 4 then Some ip
     else if length ip = 16 \<and> take 10 ip = replicate 10 0 \<and> ip ! 10 = 255 \<and> ip ! 11 = 255
     then Some (drop 12 ip) else None)"

definition hex_char :: "nat \<Rightarrow> char" where
  "hex_char d = ''0123456789abcdef'' ! d"

fun hex_string :: "nat \<Rightarrow> string" where
  "hex_string n = (if n < 16 then [hex_char n] else hex_string (n div 16) @ [hex_char (n mod 16)])"

declare hex_string.simps [simp del]

definition hex_bytes :: "byte list \<Rightarrow> string" where
  "hex_bytes bs = concat (map (\<lambda>b. [hex_char (unat b div 16), hex_char (unat b mod 16)]) bs)"

definition string4 :: "byte list \<Rightarrow> string" where
  "string4 ip = strings_Join (CHR ''.'') (map (\<lambda>b. itoa (unat b)) ip)"

fun ip6_groups :: "byte list \<Rightarrow> nat list" where
  "ip6_groups (a # b # bs) = (unat a * 256 + unat b) # ip6_groups bs"
| "ip6_groups _ = []"

text \<open>The first longest run of at least two zero groups, as (start, end).\<close>

definition zero_run_step :: "nat list \<Rightarrow> nat \<times> nat \<Rightarrow> nat \<Rightarrow> nat \<times> nat" where
  "zero_run_step gs best i =
     (let l = length (takeWhile (\<lambda>g. g = 0) (drop i gs)) in
      if 2 \<le> l \<and> l > snd best - fst best then (i, i + l) else best)"

definition zero_run :: "nat list \<Rightarrow> nat \<times> nat" where
  "zero_run gs = foldl (zero_run_step gs) (255, 255) [0..<8]"

definition string6 :: "byte list \<Rightarrow> string" where
  "string6 ip = (let gs = ip6_groups ip; (zs, ze) = zero_run gs;
       j = (\<lambda>xs. strings_Join (CHR '':'') (map hex_string xs)) in
     if zs = 255 then j gs else j (take zs gs) @ ''::'' @ j (drop ze gs))"

definition IP_String :: "byte list \<Rightarrow> string" where
  "IP_String ip = (if ip = [] then ''<nil>''
     else if length ip \<noteq> 4 \<and> length ip \<noteq> 16 then CHR ''?'' # hex_bytes ip
     else case IP_To4 ip of Some p4 \<Rightarrow> string4 p4 | None \<Rightarrow> string6 ip)"

text \<open>\<^verbatim>\<open>simpleMaskLength\<close>: the number of leading one bits, if only zero bits follow.\<close>

definition byte_prefix :: "byte \<Rightarrow> nat option" where
  "byte_prefix b = find (\<lambda>n. NOT (drop_bit n (255 :: byte)) = b) [0..<8]"

fun simpleMaskLength :: "byte list \<Rightarrow> nat option" where
  "simpleMaskLength [] = Some 0"
| "simpleMaskLength (b # bs) =
     (if b = 255 then map_option (\<lambda>n. 8 + n) (simpleMaskLength bs)
      else if list_all (\<lambda>x. x = 0) bs then byte_prefix b else None)"

definition IPNet_String :: "IPNet \<Rightarrow> string" where
  "IPNet_String n =
     (let ip = (case IP_To4 (net_IP n) of Some p4 \<Rightarrow> p4 | None \<Rightarrow> net_IP n);
          m0 = net_Mask n;
          m = (if length m0 = 16 \<and> length ip = 4 then drop 12 m0 else m0) in
      if (length ip \<noteq> 4 \<and> length ip \<noteq> 16) \<or> (length m \<noteq> length ip) then ''<nil>''
      else (case simpleMaskLength m of
          Some l \<Rightarrow> IP_String ip @ ''/'' @ itoa l
        | None \<Rightarrow> IP_String ip @ ''/'' @ hex_bytes m))"

text \<open>A range is canonical when it is the way Go prints the network it denotes.\<close>

definition canonical_cidr :: "string \<Rightarrow> bool" where
  "canonical_cidr s = (case net_ParseCIDR s of Inl _ \<Rightarrow> False | Inr n \<Rightarrow> IPNet_String n = s)"

section \<open>Facts\<close>

lemma CIDRMask_4:
  "CIDRMask n 4 = [if 8 \<le> n then 255 else NOT (drop_bit n 255),
     if 16 \<le> n then 255 else NOT (drop_bit (n - 8) 255),
     if 24 \<le> n then 255 else NOT (drop_bit (n - 16) 255),
     if 32 \<le> n then 255 else NOT (drop_bit (n - 24) 255)]"
  by (auto simp: numeral_eq_Suc)

lemmas net_eval = canonical_cidr_def net_ParseCIDR_def netip_ParseAddr_def parseIPv4_def
  is_digit_def digit_val_def digits_val_def Let_def mask_bytes_def CIDRMask_4
  IPNet_String_def IP_To4_def byte_prefix_def IP_String_def string4_def itoa.simps
  digit_char_def upt_conv_Cons

lemma canonical_default: "canonical_cidr ''0.0.0.0/0''"
  by (simp add: net_eval)

lemma canonical_private: "canonical_cidr ''10.0.0.0/8''"
  by (simp add: net_eval)

lemma not_canonical_host_bits:
  "net_ParseCIDR ''10.1.2.3/8'' = net_ParseCIDR ''10.0.0.0/8''" "\<not> canonical_cidr ''10.1.2.3/8''"
  by (simp_all add: net_eval)

lemma canonical_parse:
  "canonical_cidr s \<longleftrightarrow> (\<exists>n. net_ParseCIDR s = Inr n \<and> IPNet_String n = s)"
  by (auto simp: canonical_cidr_def split: sum.splits)

lemma parseIPv4_loop_length:
  "parseIPv4_loop s v d fs = Inr b \<Longrightarrow> length fs \<le> 3 \<Longrightarrow> length b = 4"
  by (induction s v d fs rule: parseIPv4_loop.induct) (auto simp: Let_def split: if_splits)

lemma parseIPv4_length: "parseIPv4 s = Inr b \<Longrightarrow> length b = 4"
  by (simp add: parseIPv4_def parseIPv4_loop_length)

lemma length_CIDRMask [simp]: "length (CIDRMask n len) = len"
  by (induction n len rule: CIDRMask.induct) auto

end
