(* ===== verification/Scw_SDK.thy ===== *)
theory Scw_SDK
  imports Go_Net
begin

text \<open>
  The interface of scaleway-sdk-go as the provider uses it. The SDK and the cloud behind
  it are not part of the repository: every SDK function is a field of one of the API
  records below, so the model is a function of them and theorems hold for every way the
  cloud may answer. A function that talks to the cloud takes the state of the world and
  returns a response or an error and the new world, which may have changed in any way
  (another controller, a user, time). Only the fields the provider reads or sets occur;
  the page options are left out (\<^verbatim>\<open>WithAllPages\<close> makes a list call return every item).
  Enumerations of the SDK are Go strings: their last constructor stands for the values the
  provider does not name.
\<close>

type_synonym zone = string
type_synonym region = string
type_synonym ('w, 'r) act = "'w \<Rightarrow> (api_error + 'r) \<times> 'w"

section \<open>Instance API\<close>

datatype SecurityGroupPolicyValue = SecurityGroupPolicyAccept | SecurityGroupPolicyDrop
  | SecurityGroupPolicyOther string

datatype SecurityGroupRuleAction = SecurityGroupRuleActionAccept | SecurityGroupRuleActionDrop
  | SecurityGroupRuleActionOther string

datatype SecurityGroupRuleProtocol = SecurityGroupRuleProtocolANY | SecurityGroupRuleProtocolTCP
  | SecurityGroupRuleProtocolUDP | SecurityGroupRuleProtocolICMP
  | SecurityGroupRuleProtocolOther string

datatype SecurityGroupRuleDirection = SecurityGroupRuleDirectionInbound
  | SecurityGroupRuleDirectionOutbound | SecurityGroupRuleDirectionOther string

datatype VolumeVolumeType = VolumeVolumeTypeBSSD | VolumeVolumeTypeLSSD

datatype ServerState = ServerStateStopped | ServerStateOther string

datatype ServerActionKind = ServerActionPoweron | ServerActionTerminate

record InstanceIP =
  iip_ID :: string

record ServerIP =
  sip_ID :: string
  sip_Address :: "byte list"
  sip_Dynamic :: bool

record VolumeServer =
  vol_ID :: string
  vol_Boot :: bool

text \<open>
  \<^verbatim>\<open>server.Volumes\<close> is a Go map: the list holds its entries in the order in which a
  \<^verbatim>\<open>range\<close> loop visits them, which Go leaves open.
\<close>

record Server =
  srv_ID :: string
  srv_Name :: string
  srv_Zone :: zone
  srv_State :: ServerState
  srv_PublicIP :: "ServerIP option"
  srv_Volumes :: "(string \<times> VolumeServer) list"

record PrivateNIC =
  pnic_ID :: string
  pnic_PrivateNetworkID :: string

record InstanceSecurityGroup =
  isg_ID :: string
  isg_Name :: string
  isg_Zone :: zone
  isg_InboundDefaultPolicy :: SecurityGroupPolicyValue
  isg_OutboundDefaultPolicy :: SecurityGroupPolicyValue
  isg_EnableDefaultSecurity :: bool

record InstanceSecurityGroupRule =
  isr_Protocol :: SecurityGroupRuleProtocol
  isr_Direction :: SecurityGroupRuleDirection
  isr_Action :: SecurityGroupRuleAction
  isr_IPRange :: IPNet
  isr_DestPortFrom :: "32 word option"
  isr_DestPortTo :: "32 word option"

record SetSecurityGroupRulesRequestRule =
  rr_Action :: SecurityGroupRuleAction
  rr_Protocol :: SecurityGroupRuleProtocol
  rr_Direction :: SecurityGroupRuleDirection
  rr_IPRange :: IPNet
  rr_DestPortFrom :: "32 word option"
  rr_DestPortTo :: "32 word option"
  rr_Position :: "32 word"

record VolumeServerTemplate =
  vt_Size :: "64 word"
  vt_VolumeType :: VolumeVolumeType
  vt_Boot :: bool

record CreateServerRequest =
  cs_Zone :: zone
  cs_Name :: string
  cs_CommercialType :: string
  cs_DynamicIPRequired :: bool
  cs_RoutedIPEnabled :: bool
  cs_Image :: string
  cs_SecurityGroup :: "string option"
  cs_Volumes :: "(string \<times> VolumeServerTemplate) list"
  cs_PublicIP :: "string option"

record CreateSecurityGroupRequest =
  csg_Zone :: zone
  csg_Name :: string
  csg_Tags :: "string list"
  csg_InboundDefaultPolicy :: SecurityGroupPolicyValue
  csg_OutboundDefaultPolicy :: SecurityGroupPolicyValue
  csg_EnableDefaultSecurity :: bool
  csg_Stateful :: bool

record UpdateSecurityGroupRequest =
  usg_Zone :: zone
  usg_SecurityGroupID :: string
  usg_InboundDefaultPolicy :: SecurityGroupPolicyValue
  usg_OutboundDefaultPolicy :: SecurityGroupPolicyValue
  usg_EnableDefaultSecurity :: bool

record SetSecurityGroupRulesRequest =
  ssr_Zone :: zone
  ssr_SecurityGroupID :: string
  ssr_Rules :: "SetSecurityGroupRulesRequestRule list"

record 'w instance_API =
  instance_Zones :: "zone list"
  instance_ListServers :: "zone \<Rightarrow> string \<Rightarrow> ('w, Server list) act"
  instance_ListIPs :: "zone \<Rightarrow> string list \<Rightarrow> ('w, InstanceIP list) act"
  instance_ListPrivateNICs :: "zone \<Rightarrow> string \<Rightarrow> ('w, PrivateNIC list) act"
  instance_ListSecurityGroups ::
    "zone list \<Rightarrow> string option \<Rightarrow> string list \<Rightarrow> ('w, InstanceSecurityGroup list) act"
  instance_ListSecurityGroupRules :: "zone \<Rightarrow> string \<Rightarrow> ('w, InstanceSecurityGroupRule list) act"
  instance_GetAllServerUserData :: "zone \<Rightarrow> string \<Rightarrow> ('w, (string \<times> string) list) act"
  instance_CreateIP :: "zone \<Rightarrow> string list \<Rightarrow> ('w, InstanceIP) act"
  instance_CreateServer :: "CreateServerRequest \<Rightarrow> ('w, Server) act"
  instance_CreatePrivateNIC :: "zone \<Rightarrow> string \<Rightarrow> string \<Rightarrow> ('w, PrivateNIC) act"
  instance_SetServerUserData :: "zone \<Rightarrow> string \<Rightarrow> string \<Rightarrow> string \<Rightarrow> ('w, unit) act"
  instance_ServerAction :: "zone \<Rightarrow> string \<Rightarrow> ServerActionKind \<Rightarrow> ('w, unit) act"
  instance_DeleteIP :: "zone \<Rightarrow> string \<Rightarrow> ('w, unit) act"
  instance_DetachVolume :: "zone \<Rightarrow> string \<Rightarrow> ('w, unit) act"
  instance_DeleteVolume :: "zone \<Rightarrow> string \<Rightarrow> ('w, unit) act"
  instance_DeleteServer :: "zone \<Rightarrow> string \<Rightarrow> ('w, unit) act"
  instance_CreateSecurityGroup :: "CreateSecurityGroupRequest \<Rightarrow> ('w, InstanceSecurityGroup) act"
  instance_UpdateSecurityGroup :: "UpdateSecurityGroupRequest \<Rightarrow> ('w, unit) act"
  instance_DeleteSecurityGroup :: "zone \<Rightarrow> string \<Rightarrow> ('w, unit) act"
  instance_SetSecurityGroupRules :: "SetSecurityGroupRulesRequest \<Rightarrow> ('w, unit) act"

text \<open>The marketplace API: the ID of the local image with a label, for a server type.\<close>

record 'w marketplace_API =
  marketplace_GetLocalImageByLabel :: "string \<Rightarrow> zone \<Rightarrow> string \<Rightarrow> ('w, string) act"

section \<open>Load balancer API\<close>

text \<open>
  \<^verbatim>\<open>ACLMatch.IPSubnet\<close> is a slice of string pointers. Go compares pointers by address, so
  a pointer is modelled with its address.
\<close>

type_synonym strptr = "nat \<times> string"

datatype LBStatus = LBStatusReady | LBStatusOther string

datatype ACLActionType = ACLActionTypeAllow | ACLActionTypeDeny

record LBIP =
  lbip_ID :: string
  lbip_IPAddress :: string

record LB =
  lb_ID :: string
  lb_Name :: string
  lb_Zone :: zone
  lb_Status :: LBStatus
  lb_IP :: "LBIP list"

record Backend =
  be_ID :: string
  be_Name :: string
  be_Pool :: "string list"

record Frontend =
  fe_ID :: string
  fe_Name :: string
  fe_InboundPort :: "32 word"

record ACL =
  acl_ID :: string
  acl_Name :: string
  acl_Match :: "strptr list option"

record CreateBackendRequest =
  cb_Zone :: zone
  cb_LBID :: string
  cb_Name :: string
  cb_ForwardPort :: "32 word"
  cb_HealthCheckPort :: "32 word"
  cb_CheckMaxRetries :: "32 word"

record CreateFrontendRequest =
  cf_Zone :: zone
  cf_LBID :: string
  cf_Name :: string
  cf_InboundPort :: "32 word"
  cf_BackendID :: string

text \<open>The fields that creating and updating an ACL have in common.\<close>

record ACLRequest =
  ar_Name :: string
  ar_Action :: ACLActionType
  ar_IPSubnet :: "string list"
  ar_Index :: "32 word"

record 'w lb_API =
  lb_ListLBs :: "zone \<Rightarrow> string \<Rightarrow> ('w, LB list) act"
  lb_ListBackends :: "zone \<Rightarrow> string \<Rightarrow> string option \<Rightarrow> ('w, Backend list) act"
  lb_ListFrontends :: "zone \<Rightarrow> string \<Rightarrow> string option \<Rightarrow> ('w, Frontend list) act"
  lb_ListIPs :: "zone \<Rightarrow> string \<Rightarrow> string \<Rightarrow> ('w, LBIP list) act"
  lb_ListACLs :: "zone \<Rightarrow> string \<Rightarrow> string \<Rightarrow> ('w, ACL list) act"
  lb_ListLBPrivateNetworks :: "zone \<Rightarrow> string \<Rightarrow> ('w, string list) act"
  lb_CreateLB :: "zone \<Rightarrow> string \<Rightarrow> string \<Rightarrow> string option \<Rightarrow> ('w, LB) act"
  lb_AttachPrivateNetwork :: "zone \<Rightarrow> string \<Rightarrow> string \<Rightarrow> ('w, unit) act"
  lb_CreateBackend :: "CreateBackendRequest \<Rightarrow> ('w, Backend) act"
  lb_DeleteBackend :: "zone \<Rightarrow> string \<Rightarrow> ('w, unit) act"
  lb_CreateFrontend :: "CreateFrontendRequest \<Rightarrow> ('w, Frontend) act"
  lb_DeleteFrontend :: "zone \<Rightarrow> string \<Rightarrow> ('w, unit) act"
  lb_CreateACL :: "zone \<Rightarrow> string \<Rightarrow> ACLRequest \<Rightarrow> ('w, unit) act"
  lb_UpdateACL :: "zone \<Rightarrow> string \<Rightarrow> ACLRequest \<Rightarrow> ('w, unit) act"
  lb_DeleteACL :: "zone \<Rightarrow> string \<Rightarrow> ('w, unit) act"
  lb_DeleteLB :: "zone \<Rightarrow> string \<Rightarrow> bool \<Rightarrow> ('w, unit) act"
  lb_AddBackendServers :: "zone \<Rightarrow> string \<Rightarrow> string list \<Rightarrow> ('w, unit) act"
  lb_RemoveBackendServers :: "zone \<Rightarrow> string \<Rightarrow> string list \<Rightarrow> ('w, unit) act"

section \<open>VPC, public gateway and IPAM APIs\<close>

record PrivateNetwork =
  pn_ID :: string
  pn_Name :: string
  pn_DHCPEnabled :: bool

record 'w vpc_API =
  vpc_ListPrivateNetworks :: "region \<Rightarrow> string \<Rightarrow> string \<Rightarrow> ('w, PrivateNetwork list) act"
  vpc_CreatePrivateNetwork :: "region \<Rightarrow> string \<Rightarrow> IPNet list \<Rightarrow> ('w, PrivateNetwork) act"
  vpc_DeletePrivateNetwork :: "region \<Rightarrow> string \<Rightarrow> ('w, unit) act"

record GatewayIP =
  gip_ID :: string
  gip_Address :: "byte list"

record Gateway =
  gw_ID :: string
  gw_Name :: string
  gw_IP :: "GatewayIP option"

record CreateGatewayNetworkRequest =
  gn_Zone :: zone
  gn_GatewayID :: string
  gn_PrivateNetworkID :: string
  gn_EnableDHCP :: bool
  gn_EnableMasquerade :: bool
  gn_PushDefaultRoute :: bool

record ListGatewaysRequest =
  lg_Zones :: "zone list"
  lg_Name :: "string option"
  lg_ProjectID :: "string option"
  lg_PrivateNetworkID :: "string option"

record 'w vpcgw_API =
  vpcgw_Zones :: "zone list"
  vpcgw_ListGateways :: "ListGatewaysRequest \<Rightarrow> ('w, Gateway list) act"
  vpcgw_ListIPs :: "zone \<Rightarrow> bool option \<Rightarrow> string list \<Rightarrow> string \<Rightarrow> ('w, GatewayIP list) act"
  vpcgw_ListGatewayNetworks :: "zone \<Rightarrow> string \<Rightarrow> string \<Rightarrow> ('w, 32 word) act"
  vpcgw_CreateIP :: "zone \<Rightarrow> string list \<Rightarrow> ('w, GatewayIP) act"
  vpcgw_CreateGateway :: "zone \<Rightarrow> string \<Rightarrow> string \<Rightarrow> string \<Rightarrow> ('w, Gateway) act"
  vpcgw_CreateGatewayNetwork :: "CreateGatewayNetworkRequest \<Rightarrow> ('w, unit) act"
  vpcgw_DeleteGateway :: "zone \<Rightarrow> string \<Rightarrow> ('w, unit) act"
  vpcgw_DeleteIP :: "zone \<Rightarrow> string \<Rightarrow> ('w, unit) act"

text \<open>IPAM: the IPv4 or IPv6 addresses of a resource, here of an instance's private NIC.\<close>

record 'w ipam_API =
  ipam_ListIPs :: "region \<Rightarrow> string \<Rightarrow> string \<Rightarrow> bool \<Rightarrow> ('w, IPNet list) act"

section \<open>Pure functions of the SDK\<close>

text \<open>
  \<^verbatim>\<open>scw.ParseRegion\<close>, \<^verbatim>\<open>scw.ParseZone\<close>, \<^verbatim>\<open>Zone.Region\<close>, \<^verbatim>\<open>Region.GetZones\<close> and the constants
  \<^verbatim>\<open>scw.GB\<close> and \<^verbatim>\<open>scw.ZoneFrPar1\<close>; with them \<^verbatim>\<open>uuid.Parse\<close> of google/uuid (whether it
  accepts a string). \<^verbatim>\<open>scw.StringSlicePtr\<close> gives pointers to strings; its first argument here is
  the list of pointers that the caller holds from an API response.
\<close>

record SDK =
  scw_ParseRegion :: "string \<Rightarrow> go_error + region"
  scw_ParseZone :: "string \<Rightarrow> go_error + zone"
  scw_Zone_Region :: "zone \<Rightarrow> go_error + region"
  scw_Region_GetZones :: "region \<Rightarrow> zone list"
  scw_GB :: "64 word"
  uuid_Parse_ok :: "string \<Rightarrow> bool"
  scw_StringSlicePtr :: "strptr list \<Rightarrow> string list \<Rightarrow> strptr list"

end
