(* ===== verification/API_Types.thy ===== *)
theory API_Types
  imports Scw_SDK
begin

text \<open>
  The custom resources of \<^verbatim>\<open>api/v1beta1\<close>: the specs and statuses of ScalewayCluster and
  ScalewayMachine (pointer fields are options, \<^verbatim>\<open>json\<close> tags are left out) and the
  conversions of their string fields to values of the instance API: the port ranges, and
  the four string enumerations, which share the interface \<open>string_enum\<close>.
\<close>

section \<open>Cluster types\<close>

record APIEndpoint =
  ep_Host :: string
  ep_Port :: "32 word"

record SecurityGroupRule =
  sgr_Action :: string
  sgr_Protocol :: "string option"
  sgr_Ports :: "string option"
  sgr_IPRange :: "string option"

record SecurityGroupPolicy =
  sgp_Default :: "string option"
  sgp_Rules :: "SecurityGroupRule list"

record SecurityGroup =
  sg_Name :: string
  sg_Inbound :: "SecurityGroupPolicy option"
  sg_Outbound :: "SecurityGroupPolicy option"

record PrivateNetworkSpec =
  pns_Enabled :: bool
  pns_ID :: "string option"
  pns_Subnet :: "string option"

record PublicGatewaySpec =
  pgs_Enabled :: bool
  pgs_ID :: "string option"
  pgs_Type :: "string option"
  pgs_IP :: "string option"
  pgs_Zone :: "string option"

record LoadBalancerSpec =
  lbs_Zone :: "string option"
  lbs_Type :: "string option"
  lbs_IP :: "string option"
  lbs_AllowedRanges :: "string list"

record NetworkSpec =
  ns_PrivateNetwork :: "PrivateNetworkSpec option"
  ns_PublicGateway :: "PublicGatewaySpec option"
  ns_SecurityGroups :: "SecurityGroup list"

record ScalewayClusterSpec =
  spec_ControlPlaneEndpoint :: APIEndpoint
  spec_FailureDomains :: "string list"
  spec_Region :: string
  spec_Network :: "NetworkSpec option"
  spec_ControlPlaneLoadBalancer :: "LoadBalancerSpec option"
  spec_ScalewaySecretName :: string

record NetworkStatus =
  nst_PrivateNetworkID :: "string option"
  nst_PublicGatewayID :: "string option"

text \<open>\<^verbatim>\<open>FailureDomains\<close> maps a zone to its \<^verbatim>\<open>FailureDomainSpec\<close>, of which only
  \<^verbatim>\<open>ControlPlane\<close> is used.\<close>

record ScalewayClusterStatus =
  cst_Ready :: bool
  cst_FailureDomains :: "string \<rightharpoonup> bool"
  cst_Network :: "NetworkStatus option"

text \<open>What the provider uses of \<^verbatim>\<open>metav1.ObjectMeta\<close>.\<close>

record ObjectMeta =
  meta_Name :: string
  meta_Namespace :: string
  meta_UID :: string
  meta_Finalizers :: "string list"
  meta_DeletionTimestamp :: bool

record ScalewayCluster =
  sc_Meta :: ObjectMeta
  sc_Spec :: ScalewayClusterSpec
  sc_Status :: ScalewayClusterStatus

definition ClusterFinalizer :: string where
  "ClusterFinalizer = ''scalewaycluster.infrastructure.cluster.x-k8s.io''"

section \<open>Machine types\<close>

record ScalewayMachineSpec =
  ms_ProviderID :: "string option"
  ms_Image :: string
  ms_Type :: string
  ms_RootVolumeSize :: "64 word option"
  ms_RootVolumeType :: "string option"
  ms_PublicIP :: "bool option"
  ms_SecurityGroupName :: "string option"

datatype MachineAddress = MachineExternalIP string | MachineInternalIP string

record ScalewayMachineStatus =
  mst_Ready :: bool
  mst_Addresses :: "MachineAddress list"

record ScalewayMachine =
  sm_Meta :: ObjectMeta
  sm_Spec :: ScalewayMachineSpec
  sm_Status :: ScalewayMachineStatus

definition MachineFinalizer :: string where
  "MachineFinalizer = ''scalewaymachine.infrastructure.cluster.x-k8s.io''"

section \<open>Port ranges\<close>

text \<open>
  \<^verbatim>\<open>uint32(n)\<close> keeps the low 32 bits of the parsed \<^verbatim>\<open>int\<close>.
\<close>

definition ToRange :: "string option \<Rightarrow> go_error + (32 word option \<times> 32 word option)" where
  "ToRange p = (case p of
     None \<Rightarrow> Inr (None, None)
   | Some str \<Rightarrow>
      (case strings_Split (CHR ''-'') str of
        [s0] \<Rightarrow>
          (case strconv_Atoi s0 of
             Inl err \<Rightarrow> Inl (Wrap ''port is not a valid number'' err)
           | Inr n \<Rightarrow> Inr (Some (word_of_int n), None))
      | [s0, s1] \<Rightarrow>
          (case strconv_Atoi s0 of
             Inl err \<Rightarrow> Inl (Wrap ''from port is not a valid number'' err)
           | Inr from \<Rightarrow>
             (case strconv_Atoi s1 of
                Inl err \<Rightarrow> Inl (Wrap ''to port is not a valid number'' err)
              | Inr to \<Rightarrow>
                  if to < from then Inl (ErrNew ''invalid port range: from is higher than to'')
                  else Inr (Some (word_of_int from), Some (word_of_int to))))
      | _ \<Rightarrow> Inl (ErrNew ''port or port range is not correctly formatted'')))"

section \<open>Enumerations\<close>

definition ToInstance :: "string option \<Rightarrow> go_error + SecurityGroupRuleProtocol" where
  "ToInstance s = (case s of
     None \<Rightarrow> Inr SecurityGroupRuleProtocolANY
   | Some v \<Rightarrow>
       if v = ''ANY'' then Inr SecurityGroupRuleProtocolANY
       else if v = ''TCP'' then Inr SecurityGroupRuleProtocolTCP
       else if v = ''UDP'' then Inr SecurityGroupRuleProtocolUDP
       else if v = ''ICMP'' then Inr SecurityGroupRuleProtocolICMP
       else Inl (ErrNew (''unknown security group protocol: '' @ v)))"

definition ToInstancePolicy :: "string option \<Rightarrow> go_error + SecurityGroupPolicyValue" where
  "ToInstancePolicy s = (case s of
     None \<Rightarrow> Inr SecurityGroupPolicyAccept
   | Some v \<Rightarrow>
       if v = ''Accept'' then Inr SecurityGroupPolicyAccept
       else if v = ''Drop'' then Inr SecurityGroupPolicyDrop
       else Inl (ErrNew (''unknown action: '' @ v)))"

definition ToInstanceAction :: "string option \<Rightarrow> go_error + SecurityGroupRuleAction" where
  "ToInstanceAction s = (case s of
     None \<Rightarrow> Inr SecurityGroupRuleActionAccept
   | Some v \<Rightarrow>
       if v = ''Accept'' then Inr SecurityGroupRuleActionAccept
       else if v = ''Drop'' then Inr SecurityGroupRuleActionDrop
       else Inl (ErrNew (''unknown action: '' @ v)))"

definition ScalewayRootVolumeType :: "ScalewayMachineSpec \<Rightarrow> go_error + VolumeVolumeType" where
  "ScalewayRootVolumeType s = (case ms_RootVolumeType s of
     None \<Rightarrow> Inr VolumeVolumeTypeBSSD
   | Some v \<Rightarrow>
       if v = ''local'' then Inr VolumeVolumeTypeLSSD
       else if v = ''block'' then Inr VolumeVolumeTypeBSSD
       else Inl (ErrNew (''unsupported root volume type: '' @ v)))"

text \<open>
  The interface of such a conversion: a table of the values the API type documents, a
  default for an absent value, and an error for everything else.
\<close>

locale string_enum =
  fixes conv :: "string option \<Rightarrow> go_error + 'b"
    and table :: "(string \<times> 'b) list"
    and default :: 'b
  assumes conv_absent: "conv None = Inr default"
    and conv_known: "map_of table v = Some b \<Longrightarrow> conv (Some v) = Inr b"
    and conv_unknown: "map_of table v = None \<Longrightarrow> \<exists>m. conv (Some v) = Inl (ErrNew m)"
begin

lemma conv_Inr: "conv p = Inr b \<longleftrightarrow> (case p of None \<Rightarrow> b = default | Some v \<Rightarrow> map_of table v = Some b)"
proof (cases p)
  case (Some v)
  then show ?thesis
    by (cases "map_of table v") (auto dest: conv_unknown simp: conv_known)
qed (auto simp: conv_absent)

lemma conv_ok: "(\<exists>b. conv p = Inr b) \<longleftrightarrow> (\<forall>v. p = Some v \<longrightarrow> v \<in> fst ` set table)"
  by (cases p) (simp_all add: conv_Inr, metis domIff dom_map_of_conv_image_fst not_Some_eq)

lemma conv_no_sentinel: "conv p = Inl e \<Longrightarrow> \<exists>m. e = ErrNew m"
proof (cases p)
  case (Some v)
  assume "conv p = Inl e"
  with Some show ?thesis
    using conv_unknown [of v] conv_known [of v] by (cases "map_of table v") auto
qed (simp add: conv_absent)

end

interpretation protocol: string_enum ToInstance
  "[(''ANY'', SecurityGroupRuleProtocolANY), (''TCP'', SecurityGroupRuleProtocolTCP),
    (''UDP'', SecurityGroupRuleProtocolUDP), (''ICMP'', SecurityGroupRuleProtocolICMP)]"
  SecurityGroupRuleProtocolANY
  by unfold_locales (auto simp: ToInstance_def split: if_splits)

interpretation policy: string_enum ToInstancePolicy
  "[(''Accept'', SecurityGroupPolicyAccept), (''Drop'', SecurityGroupPolicyDrop)]"
  SecurityGroupPolicyAccept
  by unfold_locales (auto simp: ToInstancePolicy_def split: if_splits)

interpretation rule_action: string_enum ToInstanceAction
  "[(''Accept'', SecurityGroupRuleActionAccept), (''Drop'', SecurityGroupRuleActionDrop)]"
  SecurityGroupRuleActionAccept
  by unfold_locales (auto simp: ToInstanceAction_def split: if_splits)

interpretation root_volume: string_enum
  "\<lambda>v. ScalewayRootVolumeType (s\<lparr>ms_RootVolumeType := v\<rparr>)"
  "[(''local'', VolumeVolumeTypeLSSD), (''block'', VolumeVolumeTypeBSSD)]"
  VolumeVolumeTypeBSSD for s
  by unfold_locales (auto simp: ScalewayRootVolumeType_def split: if_splits)

section \<open>Properties of port ranges\<close>

lemma ToRange_single:
  "CHR ''-'' \<notin> set s \<Longrightarrow> strconv_Atoi s = Inr n \<Longrightarrow> ToRange (Some s) = Inr (Some (word_of_int n), None)"
  by (simp add: ToRange_def)

lemma ToRange_pair:
  "CHR ''-'' \<notin> set a \<Longrightarrow> CHR ''-'' \<notin> set b \<Longrightarrow>
   ToRange (Some (a @ CHR ''-'' # b)) = (case strconv_Atoi a of
      Inl err \<Rightarrow> Inl (Wrap ''from port is not a valid number'' err)
    | Inr from \<Rightarrow> (case strconv_Atoi b of
        Inl err \<Rightarrow> Inl (Wrap ''to port is not a valid number'' err)
      | Inr to \<Rightarrow> if to < from then Inl (ErrNew ''invalid port range: from is higher than to'')
          else Inr (Some (word_of_int from), Some (word_of_int to))))"
  by (simp add: ToRange_def)

text \<open>
  The shape of a successful result: which of the three forms the text has, and the numbers
  that were read, which are never negative.
\<close>

lemma ToRange_cases:
  assumes "ToRange p = Inr (f, t)"
  obtains (absent) "p = None" "f = None" "t = None"
  | (single) s n where "p = Some s" "strconv_Atoi s = Inr n" "0 \<le> n" "n < 2 ^ 63"
      "f = Some (word_of_int n)" "t = None"
  | (range) a b m n where "p = Some (a @ CHR ''-'' # b)" "strconv_Atoi a = Inr m"
      "strconv_Atoi b = Inr n" "0 \<le> m" "m \<le> n" "n < 2 ^ 63"
      "f = Some (word_of_int m)" "t = Some (word_of_int n)"
proof (cases p)
  case None
  with assms absent show ?thesis by (auto simp: ToRange_def)
next
  case (Some s)
  have pieces: "\<forall>q \<in> set (strings_Split (CHR ''-'') s). CHR ''-'' \<notin> set q"
    by (rule Split_pieces)
  from assms Some consider
    (one) s0 where "strings_Split (CHR ''-'') s = [s0]"
    | (two) s0 s1 where "strings_Split (CHR ''-'') s = [s0, s1]"
    by (auto simp: ToRange_def split: list.splits)
  then show ?thesis
  proof cases
    case one
    then have "s0 = s" using Join_Split [of "CHR ''-''" s] by simp
    with one assms Some show ?thesis
      using pieces Atoi_range Atoi_nonneg
      by (auto simp: ToRange_def split: sum.splits intro!: single)
  next
    case two
    then have s: "s = s0 @ CHR ''-'' # s1" using Join_Split [of "CHR ''-''" s] by simp
    obtain m n where mn: "strconv_Atoi s0 = Inr m" "strconv_Atoi s1 = Inr n" "\<not> n < m"
      "f = Some (word_of_int m)" "t = Some (word_of_int n)"
      using two assms Some by (auto simp: ToRange_def split: sum.splits if_splits)
    have "0 \<le> m" "n < 2 ^ 63"
      using two pieces Atoi_nonneg [OF mn(1)] Atoi_range [OF mn(2)] by auto
    with mn s Some show ?thesis by (intro range) auto
  qed
qed

text \<open>
  C35: reading back a printed port range. The text of a range \<open>a-b\<close> with \<open>a \<le> b\<close> (any
  numbers an \<^verbatim>\<open>int\<close> holds) is accepted and gives the two numbers modulo 2^32; the same for a
  single port, whose upper end is then absent. So a range of ports that fit in 32 bits is
  read exactly, and larger numbers are accepted and wrap around.
\<close>

theorem ToRange_reads_ports:
  assumes "a \<le> b" and "int b < 2 ^ 63"
  shows "\<exists>f t. ToRange (Some (itoa a)) = Inr (Some f, None)
    \<and> ToRange (Some (itoa a @ ''-'' @ itoa b)) = Inr (Some f, Some t)
    \<and> unat f = a mod 2 ^ 32 \<and> unat t = b mod 2 ^ 32"
proof (intro exI conjI)
  have a: "int a < 2 ^ 63" using assms by linarith
  show "ToRange (Some (itoa a)) = Inr (Some (of_nat a), None)"
    by (simp add: ToRange_single Atoi_itoa [OF a])
  show "ToRange (Some (itoa a @ ''-'' @ itoa b)) = Inr (Some (of_nat a), Some (of_nat b))"
    using assms by (simp add: ToRange_pair Atoi_itoa [OF a] Atoi_itoa [OF assms(2)])
qed (simp_all add: unat_of_nat)

theorem ToRange_reads_ports_witness:
  "\<exists>f t. ToRange (Some (itoa 80)) = Inr (Some f, None)
    \<and> ToRange (Some (itoa 80 @ ''-'' @ itoa 4294967376)) = Inr (Some f, Some t)
    \<and> unat f = 80 \<and> unat t = 80"
  using ToRange_reads_ports [of 80 4294967376] by simp

text \<open>
  The order of an accepted range. If a range is accepted and both numbers written in it
  are below 2^32, the lower end is at most the higher end; a range that is written the wrong
  way round is refused. Without the bound the order can be lost by the truncation to 32 bits.
\<close>

theorem ToRange_ordered:
  assumes "a < 2 ^ 32" and "b < 2 ^ 32"
  shows "case ToRange (Some (itoa a @ ''-'' @ itoa b)) of
      Inr (Some f, Some t) \<Rightarrow> a \<le> b \<and> f \<le> t
    | Inr _ \<Rightarrow> False
    | Inl e \<Rightarrow> b < a"
  using assms
  by (auto simp: ToRange_pair Atoi_itoa word_le_nat_alt unat_of_nat)

theorem ToRange_ordered_witness:
  "(case ToRange (Some (itoa 30000 @ ''-'' @ itoa 32767)) of
      Inr (Some f, Some t) \<Rightarrow> (30000 :: nat) \<le> 32767 \<and> f \<le> t
    | Inr _ \<Rightarrow> False
    | Inl e \<Rightarrow> (32767 :: nat) < 30000)
   \<and> ToRange (Some (itoa 1 @ ''-'' @ itoa 4294967296)) = Inr (Some 1, Some 0)"
proof
  show "ToRange (Some (itoa 1 @ ''-'' @ itoa 4294967296)) = Inr (Some 1, Some 0)"
    by (simp add: ToRange_pair Atoi_itoa)
qed (use ToRange_ordered [of 30000 32767] in simp)

end
