(* ===== verification/Environment.thy ===== *)
theory Environment
  imports API_Types
begin

text \<open>
  How stateful code of the provider reaches its environment. The state of a run holds the
  world (the cloud and the API server, an arbitrary type) and the trace of the calls that
  ask for a change, in order. A call that only reads leaves no mark in the trace. Nothing is
  assumed of what a call answers or does to the world.
\<close>

section \<open>Calls that ask for a change\<close>

datatype call =
    CallCreateIP zone "string list"
  | CallCreateServer CreateServerRequest
  | CallCreatePrivateNIC zone string string
  | CallSetServerUserData zone string string string
  | CallServerAction zone string ServerActionKind
  | CallDeleteIP zone string
  | CallDetachVolume zone string
  | CallDeleteVolume zone string
  | CallDeleteServer zone string
  | CallCreateSecurityGroup CreateSecurityGroupRequest
  | CallUpdateSecurityGroup UpdateSecurityGroupRequest
  | CallDeleteSecurityGroup zone string
  | CallSetSecurityGroupRules SetSecurityGroupRulesRequest
  | CallCreateLB zone string string "string option"
  | CallAttachPrivateNetwork zone string string
  | CallCreateBackend CreateBackendRequest
  | CallDeleteBackend zone string
  | CallCreateFrontend CreateFrontendRequest
  | CallDeleteFrontend zone string
  | CallCreateACL zone string ACLRequest
  | CallUpdateACL zone string ACLRequest
  | CallDeleteACL zone string
  | CallDeleteLB zone string bool
  | CallAddBackendServers zone string "string list"
  | CallRemoveBackendServers zone string "string list"
  | CallCreatePrivateNetwork region string "IPNet list"
  | CallDeletePrivateNetwork region string
  | CallCreateGatewayIP zone "string list"
  | CallCreateGateway zone string string string
  | CallCreateGatewayNetwork CreateGatewayNetworkRequest
  | CallDeleteGateway zone string
  | CallDeleteGatewayIP zone string
  | CallUpdateSecret string string
  | CallPatchCluster ScalewayCluster
  | CallPatchMachine ScalewayMachine

record 'w env =
  world :: 'w
  trace :: "call list"

definition api_result :: "api_error + 'a \<Rightarrow> 'a outcome" where
  "api_result r = (case r of Inl e \<Rightarrow> Err (ApiErr e) | Inr x \<Rightarrow> Ok x)"

definition sdk_read :: "('w, 'a) act \<Rightarrow> (('w, 'z) env_scheme, 'a) go" where
  "sdk_read f = (\<lambda>s. case f (world s) of (r, w) \<Rightarrow> (api_result r, s\<lparr>world := w\<rparr>))"

definition sdk_call :: "call \<Rightarrow> ('w, 'a) act \<Rightarrow> (('w, 'z) env_scheme, 'a) go" where
  "sdk_call ev f = (\<lambda>s. case f (world s) of
     (r, w) \<Rightarrow> (api_result r, s\<lparr>world := w, trace := trace s @ [ev]\<rparr>))"

section \<open>Reasoning rules\<close>

lemma api_result_simps [simp]: "api_result (Inl e) = Err (ApiErr e)" "api_result (Inr x) = Ok x"
  by (simp_all add: api_result_def)

lemma wp_sdk_read [wp_simps]:
  "wp (sdk_read f) Q s = (case f (world s) of (r, w) \<Rightarrow> Q (api_result r) (s\<lparr>world := w\<rparr>))"
  by (simp add: wp_def sdk_read_def split: prod.splits)

lemma wp_sdk_call [wp_simps]:
  "wp (sdk_call ev f) Q s = (case f (world s) of
     (r, w) \<Rightarrow> Q (api_result r) (s\<lparr>world := w, trace := trace s @ [ev]\<rparr>))"
  by (simp add: wp_def sdk_call_def split: prod.splits)

lemma sdk_read_Ok [ok_iffs]:
  "sdk_read f s = (Ok x, s') \<longleftrightarrow> (\<exists>w. f (world s) = (Inr x, w) \<and> s' = s\<lparr>world := w\<rparr>)"
  by (auto simp: sdk_read_def api_result_def split: prod.splits sum.splits)

lemma sdk_call_Ok [ok_iffs]:
  "sdk_call ev f s = (Ok x, s') \<longleftrightarrow>
     (\<exists>w. f (world s) = (Inr x, w) \<and> s' = s\<lparr>world := w, trace := trace s @ [ev]\<rparr>)"
  by (auto simp: sdk_call_def api_result_def split: prod.splits sum.splits)

lemma emits_sdk_read [emit_intros]: "emits trace C (sdk_read f)"
  by (simp add: emits_def sdk_read_def split: prod.splits)

lemma emits_sdk_call [emit_intros]: "ev \<in> C \<Longrightarrow> emits trace C (sdk_call ev f)"
  by (simp add: emits_def sdk_call_def split: prod.splits)

lemma keeps_sdk_read [keep_intros]: "(\<And>s w. g (s\<lparr>world := w\<rparr>) = g s) \<Longrightarrow> keeps g (sdk_read f)"
  by (simp add: keeps_def sdk_read_def split: prod.splits)

lemma keeps_sdk_call [keep_intros]:
  "(\<And>s w t. g (s\<lparr>world := w, trace := t\<rparr>) = g s) \<Longrightarrow> keeps g (sdk_call ev f)"
  by (simp add: keeps_def sdk_call_def split: prod.splits)

text \<open>A call that only reads: it may observe a changed world, and changes nothing else.\<close>

definition reads_only :: "(('w, 'z) env_scheme, 'a) go \<Rightarrow> bool" where
  "reads_only m \<longleftrightarrow> (\<forall>s. \<exists>w. snd (m s) = s\<lparr>world := w\<rparr>)"

named_theorems read_intros \<open>calls that only read\<close>

lemma env_world_self: "\<exists>w. s = s\<lparr>world := w\<rparr>"
  by (rule exI [where x = "world s"]) simp

lemma reads_only_pure [read_intros]:
  "reads_only (ret x)" "reads_only (throw e)" "reads_only panic" "reads_only (gets f)"
  "reads_only (deref p)" "reads_only (lift_sum r)" "reads_only (lift_outcome q)"
  by (auto simp: reads_only_def go_defs lift_outcome_def split: option.splits sum.splits intro: env_world_self)

lemma reads_only_sdk_read [read_intros]: "reads_only (sdk_read f)"
  by (auto simp: reads_only_def sdk_read_def split: prod.splits)

lemma reads_only_bind [read_intros]:
  assumes m: "reads_only m" and f: "\<And>x. reads_only (f x)"
  shows "reads_only (bind m f)"
  unfolding reads_only_def
proof
  fix s
  obtain r s' where ms: "m s = (r, s')" by fastforce
  obtain w where "s' = s\<lparr>world := w\<rparr>" using m ms unfolding reads_only_def by (metis snd_conv)
  moreover have "\<exists>w. snd (f x s') = s'\<lparr>world := w\<rparr>" for x
    using f [of x] unfolding reads_only_def by simp
  ultimately show "\<exists>w. snd (bind m f s) = s\<lparr>world := w\<rparr>"
    using ms by (cases r) (auto simp: bind_def)
qed

lemma reads_only_wrapping [read_intros]: "reads_only m \<Longrightarrow> reads_only (wrapping msg m)"
  by (simp add: reads_only_def snd_wrapping)

lemma reads_only_keeps:
  assumes m: "reads_only m" and g: "\<And>s w. g (s\<lparr>world := w\<rparr>) = g s"
  shows "keeps g m"
  unfolding keeps_def using m g unfolding reads_only_def by metis

lemma reads_only_emits: "reads_only m \<Longrightarrow> emits trace C m"
  using reads_only_keeps [of m trace] by (auto simp: emits_def keeps_def)

lemma emits_trace_empty: "emits trace {} m \<longleftrightarrow> keeps trace m"
  by (auto simp: emits_def keeps_def)

text \<open>The errors of the API are no sentinel errors of the provider.\<close>

definition api_errors_only :: "('s, 'a) go \<Rightarrow> bool" where
  "api_errors_only m \<longleftrightarrow> (\<forall>s e s'. m s = (Err e, s') \<longrightarrow> (\<exists>a. errors_unwrap_all e = ApiErr a))"

lemma api_errors_sdk_read [intro]: "api_errors_only (sdk_read f)"
  by (auto simp: api_errors_only_def sdk_read_def api_result_def split: prod.splits sum.splits)

lemma api_errors_wrapping [intro]: "api_errors_only m \<Longrightarrow> api_errors_only (wrapping msg m)"
  by (fastforce simp: api_errors_only_def wrapping_def split: prod.splits outcome.splits)

lemma api_errors_not_sentinel:
  "api_errors_only m \<Longrightarrow> m s = (Err e, s') \<Longrightarrow> sentinel t \<Longrightarrow> (\<And>a. t \<noteq> ApiErr a) \<Longrightarrow> \<not> errors_Is e t"
  by (fastforce simp: api_errors_only_def errors_Is_sentinel)

end
