(* ===== verification/Scw_Client.thy ===== *)
theory Scw_Client
  imports Environment
begin

text \<open>
  The client package (\<^verbatim>\<open>internal/service/scaleway/client\<close>): the record of API clients and the
  functions that find one resource. Ten of them list resources and take the first that
  matches; that is the interface \<open>finder\<close>, whose lemmas say what it means to find an item
  and not to find one. Two insist that at most one item carries the tags.
\<close>

section \<open>The client\<close>

record 'w Client =
  cl_ProjectID :: string
  cl_LoadBalancer :: "'w lb_API"
  cl_Instance :: "'w instance_API"
  cl_Marketplace :: "'w marketplace_API"
  cl_VPC :: "'w vpc_API"
  cl_VPCGW :: "'w vpcgw_API"
  cl_IPAM :: "'w ipam_API"
  cl_PublicGateway :: "'w vpcgw_API"

text \<open>
  What the provider uses of an \<^verbatim>\<open>scw.Client\<close>: its default project and the API clients that
  the SDK's constructors build on it.
\<close>

record 'w scw_Client =
  sw_DefaultProjectID :: "string option"
  sw_lb :: "'w lb_API"
  sw_instance :: "'w instance_API"
  sw_marketplace :: "'w marketplace_API"
  sw_vpc :: "'w vpc_API"
  sw_vpcgw :: "'w vpcgw_API"
  sw_ipam :: "'w ipam_API"

definition NewClient :: "'w scw_Client \<Rightarrow> 'w Client outcome" where
  "NewClient client = (case sw_DefaultProjectID client of
     None \<Rightarrow> Panic
   | Some projectID \<Rightarrow> Ok \<lparr>cl_ProjectID = projectID, cl_LoadBalancer = sw_lb client,
       cl_Instance = sw_instance client, cl_Marketplace = sw_marketplace client,
       cl_VPC = sw_vpc client, cl_VPCGW = sw_vpcgw client, cl_IPAM = sw_ipam client,
       cl_PublicGateway = sw_vpcgw client\<rparr>)"

section \<open>Finding one resource\<close>

definition first_match :: "('a \<Rightarrow> bool) \<Rightarrow> 'a list \<Rightarrow> ('s, 'a) go" where
  "first_match P xs = (case find P xs of Some x \<Rightarrow> ret x | None \<Rightarrow> throw ErrNoItemFound)"

definition only_item :: "'a list \<Rightarrow> ('s, 'a) go" where
  "only_item xs = (case xs of
     [] \<Rightarrow> throw ErrNoItemFound
   | [x] \<Rightarrow> ret x
   | _ \<Rightarrow> throw (Wrap ''found too many IPs'' ErrTooManyItemsFound))"

definition FindInstanceByName :: "'w Client \<Rightarrow> zone \<Rightarrow> string \<Rightarrow> (('w, 'z) env_scheme, Server) go" where
  "FindInstanceByName c zone name =
     bind (wrapping ''failed to list servers'' (sdk_read (instance_ListServers (cl_Instance c) zone name)))
       (first_match (\<lambda>server. srv_Name server = name))"

definition FindIPByTags :: "'w Client \<Rightarrow> zone \<Rightarrow> string list \<Rightarrow> (('w, 'z) env_scheme, InstanceIP) go" where
  "FindIPByTags c zone tags =
     bind (wrapping ''failed to list IPs'' (sdk_read (instance_ListIPs (cl_Instance c) zone tags))) only_item"

definition FindPrivateNICByPNID :: "'w Client \<Rightarrow> Server \<Rightarrow> string \<Rightarrow> (('w, 'z) env_scheme, PrivateNIC) go" where
  "FindPrivateNICByPNID c server pnID =
     bind (sdk_read (instance_ListPrivateNICs (cl_Instance c) (srv_Zone server) (srv_ID server)))
       (first_match (\<lambda>p. pnic_PrivateNetworkID p = pnID))"

definition FindSecurityGroupByName ::
  "'w Client \<Rightarrow> zone \<Rightarrow> string \<Rightarrow> (('w, 'z) env_scheme, InstanceSecurityGroup) go" where
  "FindSecurityGroupByName c zone name =
     bind (sdk_read (instance_ListSecurityGroups (cl_Instance c) [zone] (Some name) []))
       (first_match (\<lambda>sg. isg_Name sg = name))"

definition FindIPv4ByInstancePrivateNICID ::
  "'w Client \<Rightarrow> region \<Rightarrow> string \<Rightarrow> (('w, 'z) env_scheme, IPNet) go" where
  "FindIPv4ByInstancePrivateNICID c region pnicID =
     bind (sdk_read (ipam_ListIPs (cl_IPAM c) region (cl_ProjectID c) pnicID False))
       (first_match (\<lambda>_. True))"

definition FindLoadBalancerByName :: "'w Client \<Rightarrow> zone \<Rightarrow> string \<Rightarrow> (('w, 'z) env_scheme, LB) go" where
  "FindLoadBalancerByName c zone name =
     bind (sdk_read (lb_ListLBs (cl_LoadBalancer c) zone name)) (first_match (\<lambda>l. lb_Name l = name))"

definition FindLoadBalancerBackendByNames ::
  "'w Client \<Rightarrow> zone \<Rightarrow> string \<Rightarrow> string \<Rightarrow> (('w, 'z) env_scheme, Backend) go" where
  "FindLoadBalancerBackendByNames c zone lbName backendName =
     bind (FindLoadBalancerByName c zone lbName) (\<lambda>loadbalancer.
     bind (sdk_read (lb_ListBackends (cl_LoadBalancer c) zone (lb_ID loadbalancer) (Some backendName)))
       (first_match (\<lambda>b. be_Name b = backendName)))"

definition FindLoadBalancerFrontendByNames ::
  "'w Client \<Rightarrow> zone \<Rightarrow> string \<Rightarrow> string \<Rightarrow> (('w, 'z) env_scheme, Frontend) go" where
  "FindLoadBalancerFrontendByNames c zone lbName frontendName =
     bind (FindLoadBalancerByName c zone lbName) (\<lambda>loadbalancer.
     bind (sdk_read (lb_ListFrontends (cl_LoadBalancer c) zone (lb_ID loadbalancer) (Some frontendName)))
       (first_match (\<lambda>f. fe_Name f = frontendName)))"

definition FindLoadBalancerIP :: "'w Client \<Rightarrow> zone \<Rightarrow> string \<Rightarrow> (('w, 'z) env_scheme, LBIP) go" where
  "FindLoadBalancerIP c zone ip =
     bind (wrapping ''failed to list loadbalancer IPs''
         (sdk_read (lb_ListIPs (cl_LoadBalancer c) zone ip (cl_ProjectID c))))
       (first_match (\<lambda>lbIP. lbip_IPAddress lbIP = ip))"

definition FindLoadBalancerACLByName ::
  "'w Client \<Rightarrow> zone \<Rightarrow> string \<Rightarrow> string \<Rightarrow> (('w, 'z) env_scheme, ACL) go" where
  "FindLoadBalancerACLByName c zone frontendID name =
     bind (wrapping ''failed to list ACLs'' (sdk_read (lb_ListACLs (cl_LoadBalancer c) zone frontendID name)))
       (first_match (\<lambda>acl. acl_Name acl = name))"

definition FindPrivateNetworkByName ::
  "'w Client \<Rightarrow> region \<Rightarrow> string \<Rightarrow> (('w, 'z) env_scheme, PrivateNetwork) go" where
  "FindPrivateNetworkByName c region name =
     bind (sdk_read (vpc_ListPrivateNetworks (cl_VPC c) region name (cl_ProjectID c)))
       (first_match (\<lambda>pn. pn_Name pn = name))"

definition FindGatewayByName :: "'w Client \<Rightarrow> zone \<Rightarrow> string \<Rightarrow> (('w, 'z) env_scheme, Gateway) go" where
  "FindGatewayByName c zone name =
     bind (wrapping ''failed to list Public Gateways'' (sdk_read (vpcgw_ListGateways (cl_VPCGW c)
         \<lparr>lg_Zones = [zone], lg_Name = Some name, lg_ProjectID = Some (cl_ProjectID c),
          lg_PrivateNetworkID = None\<rparr>)))
       (first_match (\<lambda>gw. gw_Name gw = name))"

definition FindGatewayIP :: "'w Client \<Rightarrow> zone \<Rightarrow> string \<Rightarrow> (('w, 'z) env_scheme, GatewayIP) go" where
  "FindGatewayIP c zone ip =
     bind (wrapping ''failed to list vpcgw IPs''
         (sdk_read (vpcgw_ListIPs (cl_VPCGW c) zone (Some True) [] (cl_ProjectID c))))
       (first_match (\<lambda>vpcgwIP. IP_String (gip_Address vpcgwIP) = ip))"

definition FindGatewayIPByTags :: "'w Client \<Rightarrow> zone \<Rightarrow> string list \<Rightarrow> (('w, 'z) env_scheme, GatewayIP) go" where
  "FindGatewayIPByTags c zone tags =
     bind (wrapping ''failed to list IPs''
         (sdk_read (vpcgw_ListIPs (cl_VPCGW c) zone None tags (cl_ProjectID c)))) only_item"

definition FindGatewaysByPrivateNetworkID ::
  "'w Client \<Rightarrow> zone list \<Rightarrow> string \<Rightarrow> (('w, 'z) env_scheme, Gateway list) go" where
  "FindGatewaysByPrivateNetworkID c zones privateNetworkID =
     wrapping ''failed to list public gateways by private network ID''
       (sdk_read (vpcgw_ListGateways (cl_PublicGateway c)
         \<lparr>lg_Zones = zones, lg_Name = None, lg_ProjectID = None,
          lg_PrivateNetworkID = Some privateNetworkID\<rparr>))"

section \<open>The interface of a finder\<close>

lemma reads_first_match [read_intros]: "reads_only (first_match P xs)"
  by (simp add: first_match_def reads_only_pure split: option.split)

lemma reads_only_item [read_intros]: "reads_only (only_item xs)"
  by (simp add: only_item_def reads_only_pure split: list.split)

locale finder =
  fixes find_item :: "(('w, 'z) env_scheme, 'a) go"
    and list_items :: "(('w, 'z) env_scheme, 'a list) go"
    and wanted :: "'a \<Rightarrow> bool"
  assumes find_item_eq: "find_item = bind list_items (first_match wanted)"
    and list_reads: "reads_only list_items"
    and list_errors: "api_errors_only list_items"
begin

lemma find_reads: "reads_only find_item"
  unfolding find_item_eq by (intro read_intros list_reads)

lemma find_Ok:
  "find_item s = (Ok x, s') \<longleftrightarrow> (\<exists>xs. list_items s = (Ok xs, s') \<and> find wanted xs = Some x)"
  by (auto simp: find_item_eq bind_def first_match_def ret_def throw_def
      split: prod.splits outcome.splits option.splits)

lemma find_Ok_wanted: "find_item s = (Ok x, s') \<Longrightarrow> wanted x"
  by (auto simp: find_Ok dest: find_SomeD)

lemma find_NoItem:
  "(\<exists>e. find_item s = (Err e, s') \<and> errors_Is e ErrNoItemFound)
     \<longleftrightarrow> (\<exists>xs. list_items s = (Ok xs, s') \<and> (\<forall>x \<in> set xs. \<not> wanted x))"
proof -
  obtain r t where r: "list_items s = (r, t)" by fastforce
  show ?thesis
    using api_errors_not_sentinel [OF list_errors, of s]
    by (cases r) (auto simp: r find_item_eq bind_def first_match_def ret_def throw_def find_eq_None
        split: option.splits dest: find_SomeD)
qed

lemma optional_find:
  "optional find_item s = (Ok r, s') \<longleftrightarrow> (\<exists>xs. list_items s = (Ok xs, s') \<and> r = find wanted xs)"
proof -
  obtain q t where q: "list_items s = (q, t)" by fastforce
  show ?thesis
    using api_errors_not_sentinel [OF list_errors, of s]
    by (cases q) (auto simp: q optional_def attempt_def find_item_eq bind_def first_match_def
        ret_def throw_def split: option.splits)
qed

end

interpretation instance_by_name: finder "FindInstanceByName c zone name"
  "wrapping ''failed to list servers'' (sdk_read (instance_ListServers (cl_Instance c) zone name))"
  "\<lambda>server. srv_Name server = name" for c zone name
  by unfold_locales (auto simp: FindInstanceByName_def intro!: read_intros)

interpretation pnic_by_pn: finder "FindPrivateNICByPNID c server pnID"
  "sdk_read (instance_ListPrivateNICs (cl_Instance c) (srv_Zone server) (srv_ID server))"
  "\<lambda>p. pnic_PrivateNetworkID p = pnID" for c server pnID
  by unfold_locales (auto simp: FindPrivateNICByPNID_def intro!: read_intros)

interpretation sg_by_name: finder "FindSecurityGroupByName c zone name"
  "sdk_read (instance_ListSecurityGroups (cl_Instance c) [zone] (Some name) [])"
  "\<lambda>sg. isg_Name sg = name" for c zone name
  by unfold_locales (auto simp: FindSecurityGroupByName_def intro!: read_intros)

interpretation ip_of_pnic: finder "FindIPv4ByInstancePrivateNICID c region pnicID"
  "sdk_read (ipam_ListIPs (cl_IPAM c) region (cl_ProjectID c) pnicID False)"
  "\<lambda>_. True" for c region pnicID
  by unfold_locales (auto simp: FindIPv4ByInstancePrivateNICID_def intro!: read_intros)

interpretation lb_by_name: finder "FindLoadBalancerByName c zone name"
  "sdk_read (lb_ListLBs (cl_LoadBalancer c) zone name)"
  "\<lambda>l. lb_Name l = name" for c zone name
  by unfold_locales (auto simp: FindLoadBalancerByName_def intro!: read_intros)

interpretation lb_ip: finder "FindLoadBalancerIP c zone ip"
  "wrapping ''failed to list loadbalancer IPs'' (sdk_read (lb_ListIPs (cl_LoadBalancer c) zone ip (cl_ProjectID c)))"
  "\<lambda>lbIP. lbip_IPAddress lbIP = ip" for c zone ip
  by unfold_locales (auto simp: FindLoadBalancerIP_def intro!: read_intros)

interpretation acl_by_name: finder "FindLoadBalancerACLByName c zone frontendID name"
  "wrapping ''failed to list ACLs'' (sdk_read (lb_ListACLs (cl_LoadBalancer c) zone frontendID name))"
  "\<lambda>acl. acl_Name acl = name" for c zone frontendID name
  by unfold_locales (auto simp: FindLoadBalancerACLByName_def intro!: read_intros)

interpretation pn_by_name: finder "FindPrivateNetworkByName c region name"
  "sdk_read (vpc_ListPrivateNetworks (cl_VPC c) region name (cl_ProjectID c))"
  "\<lambda>pn. pn_Name pn = name" for c region name
  by unfold_locales (auto simp: FindPrivateNetworkByName_def intro!: read_intros)

interpretation gateway_by_name: finder "FindGatewayByName c zone name"
  "wrapping ''failed to list Public Gateways'' (sdk_read (vpcgw_ListGateways (cl_VPCGW c)
         \<lparr>lg_Zones = [zone], lg_Name = Some name, lg_ProjectID = Some (cl_ProjectID c),
          lg_PrivateNetworkID = None\<rparr>))"
  "\<lambda>gw. gw_Name gw = name" for c zone name
  by unfold_locales (auto simp: FindGatewayByName_def intro!: read_intros)

interpretation gateway_ip: finder "FindGatewayIP c zone ip"
  "wrapping ''failed to list vpcgw IPs'' (sdk_read (vpcgw_ListIPs (cl_VPCGW c) zone (Some True) [] (cl_ProjectID c)))"
  "\<lambda>vpcgwIP. IP_String (gip_Address vpcgwIP) = ip" for c zone ip
  by unfold_locales (auto simp: FindGatewayIP_def intro!: read_intros)

text \<open>The remaining functions only read, too.\<close>

lemma reads_FindIPByTags: "reads_only (FindIPByTags c zone tags)"
  unfolding FindIPByTags_def by (intro read_intros)

lemma reads_FindGatewayIPByTags: "reads_only (FindGatewayIPByTags c zone tags)"
  unfolding FindGatewayIPByTags_def by (intro read_intros)

lemma reads_FindGateways: "reads_only (FindGatewaysByPrivateNetworkID c zones pnID)"
  unfolding FindGatewaysByPrivateNetworkID_def by (intro read_intros)

lemma reads_FindBackend: "reads_only (FindLoadBalancerBackendByNames c zone lbName name)"
  unfolding FindLoadBalancerBackendByNames_def by (intro read_intros lb_by_name.find_reads)

lemma reads_FindFrontend: "reads_only (FindLoadBalancerFrontendByNames c zone lbName name)"
  unfolding FindLoadBalancerFrontendByNames_def by (intro read_intros lb_by_name.find_reads)

lemmas find_reads_rules [read_intros] =
  instance_by_name.find_reads pnic_by_pn.find_reads sg_by_name.find_reads ip_of_pnic.find_reads
  lb_by_name.find_reads lb_ip.find_reads acl_by_name.find_reads pn_by_name.find_reads
  gateway_by_name.find_reads gateway_ip.find_reads reads_FindIPByTags reads_FindGatewayIPByTags
  reads_FindGateways reads_FindBackend reads_FindFrontend

lemmas find_emits [emit_intros] = find_reads_rules [THEN reads_only_emits]

lemmas find_keeps [keep_intros] = find_reads_rules [THEN reads_only_keeps]

text \<open>
  The two lookups by tags find the only item, report that there is none, or refuse to choose.
\<close>

lemma only_item_iff:
  "only_item xs s = (Ok x, s) \<longleftrightarrow> xs = [x]"
  "only_item xs s = (Err ErrNoItemFound, s) \<longleftrightarrow> xs = []"
  by (auto simp: only_item_def ret_def throw_def split: list.splits)

end
