(* ===== verification/K8s_API.thy ===== *)
theory K8s_API
  imports Scw_Client
begin

text \<open>
  The interface of the Kubernetes side as the provider uses it: the objects of Cluster API
  that own the provider's objects, secrets, and the functions of controller-runtime,
  cluster-api and apimachinery. As with the SDK, each function is a field of a record and the
  model is a function of that record.
\<close>

record CapiCluster =
  cc_Namespace :: string
  cc_InfrastructureRef :: "string option"
  cc_InfrastructureReady :: bool

text \<open>\<open>cm_IsControlPlane\<close> is \<^verbatim>\<open>util.IsControlPlaneMachine\<close> of the machine.\<close>

record CapiMachine =
  cm_Namespace :: string
  cm_FailureDomain :: "string option"
  cm_DataSecretName :: "string option"
  cm_IsControlPlane :: bool

record Secret =
  sec_Name :: string
  sec_Namespace :: string
  sec_OwnerUIDs :: "string list"
  sec_Data :: "(string \<times> string) list"

record ClientOptions =
  co_AccessKey :: string
  co_SecretKey :: string
  co_ProjectID :: string
  co_APIURL :: "string option"

text \<open>
  \<^verbatim>\<open>patch.NewHelper\<close> records an object and returns a helper; the helper is represented by its
  \<^verbatim>\<open>Patch\<close> method. \<^verbatim>\<open>Update\<close> of a secret writes the answer of the API server back into the object. \<^verbatim>\<open>scw.NewClient\<close> belongs to the SDK and is listed here with the options
  that come from the secret.
\<close>

record 'w k8s_API =
  k_GetScalewayCluster :: "string \<Rightarrow> string \<Rightarrow> ('w, ScalewayCluster) act"
  k_GetScalewayMachine :: "string \<Rightarrow> string \<Rightarrow> ('w, ScalewayMachine) act"
  k_GetSecret :: "string \<Rightarrow> string \<Rightarrow> ('w, Secret) act"
  k_UpdateSecret :: "Secret \<Rightarrow> ('w, Secret) act"
  k_GetOwnerCluster :: "ObjectMeta \<Rightarrow> ('w, CapiCluster option) act"
  k_GetOwnerMachine :: "ObjectMeta \<Rightarrow> ('w, CapiMachine option) act"
  k_GetClusterFromMetadata :: "CapiMachine \<Rightarrow> ('w, CapiCluster) act"
  k_IsPausedCluster :: "CapiCluster \<Rightarrow> ScalewayCluster \<Rightarrow> bool"
  k_IsPausedMachine :: "CapiCluster \<Rightarrow> ScalewayMachine \<Rightarrow> bool"
  k_IsControlledBy :: "Secret \<Rightarrow> ScalewayCluster \<Rightarrow> bool"
  k_SetOwnerReference :: "ScalewayCluster \<Rightarrow> Secret \<Rightarrow> api_error + Secret"
  k_NewClusterHelper :: "ScalewayCluster \<Rightarrow> api_error + (ScalewayCluster \<Rightarrow> ('w, unit) act)"
  k_NewMachineHelper :: "ScalewayMachine \<Rightarrow> api_error + (ScalewayMachine \<Rightarrow> ('w, unit) act)"
  k_AddFinalizer :: "string list \<Rightarrow> string \<Rightarrow> string list \<times> bool"
  k_RemoveFinalizer :: "string list \<Rightarrow> string \<Rightarrow> string list"
  k_NewScwClient :: "ClientOptions \<Rightarrow> api_error + 'w scw_Client"

end
