(* ===== verification/Example_Objects.thy ===== *)
theory Example_Objects
  imports API_Types
begin

text \<open>
  Concrete objects at which theorems with hypotheses are applied: an SDK that knows the
  region fr-par and its three zones, clusters and machines. No definition of the model uses
  them.
\<close>

definition ex_zones :: "zone list" where
  "ex_zones = [''fr-par-1'', ''fr-par-2'', ''fr-par-3'']"

definition ex_sdk :: SDK where
  "ex_sdk = \<lparr>
     scw_ParseRegion = (\<lambda>s. if s = ''fr-par'' then Inr s else Inl (ErrNew ''bad region'')),
     scw_ParseZone = (\<lambda>s. if s \<in> set ex_zones then Inr s else Inl (ErrNew ''bad zone'')),
     scw_Zone_Region = (\<lambda>z. if z \<in> set ex_zones then Inr ''fr-par'' else Inl (ErrNew ''bad zone'')),
     scw_Region_GetZones = (\<lambda>r. if r = ''fr-par'' then ex_zones else []),
     scw_GB = 1000000000,
     uuid_Parse_ok = (\<lambda>s. s = ''uuid''),
     scw_StringSlicePtr = (\<lambda>live ss. zip [Suc (foldr max (map fst live) 0)..<Suc (foldr max (map fst live) 0) + length ss] ss)\<rparr>"

definition ex_meta :: "string \<Rightarrow> ObjectMeta" where
  "ex_meta n = \<lparr>meta_Name = n, meta_Namespace = ''default'', meta_UID = ''uid'',
     meta_Finalizers = [], meta_DeletionTimestamp = False\<rparr>"

definition ex_spec :: ScalewayClusterSpec where
  "ex_spec = \<lparr>spec_ControlPlaneEndpoint = \<lparr>ep_Host = [], ep_Port = 0\<rparr>,
     spec_FailureDomains = [''fr-par-2'', ''fr-par-1''], spec_Region = ''fr-par'',
     spec_Network = None, spec_ControlPlaneLoadBalancer = None, spec_ScalewaySecretName = ''secret''\<rparr>"

definition ex_status :: ScalewayClusterStatus where
  "ex_status = \<lparr>cst_Ready = False, cst_FailureDomains = Map.empty, cst_Network = None\<rparr>"

definition ex_cluster :: ScalewayCluster where
  "ex_cluster = \<lparr>sc_Meta = ex_meta ''c'', sc_Spec = ex_spec, sc_Status = ex_status\<rparr>"

definition ex_machine_spec :: ScalewayMachineSpec where
  "ex_machine_spec = \<lparr>ms_ProviderID = None, ms_Image = ''ubuntu_jammy'', ms_Type = ''PRO2-S'',
     ms_RootVolumeSize = Some 30, ms_RootVolumeType = None, ms_PublicIP = None,
     ms_SecurityGroupName = None\<rparr>"

definition ex_machine :: ScalewayMachine where
  "ex_machine = \<lparr>sm_Meta = ex_meta ''m'', sm_Spec = ex_machine_spec,
     sm_Status = \<lparr>mst_Ready = False, mst_Addresses = []\<rparr>\<rparr>"

lemmas ex_objects = ex_zones_def ex_sdk_def ex_meta_def ex_spec_def ex_status_def ex_cluster_def
  ex_machine_spec_def ex_machine_def

end
