(* ===== verification/Cluster_Webhook.thy ===== *)
theory Cluster_Webhook
  imports API_Types Example_Objects
begin

text \<open>
  The validating webhook of ScalewayCluster (\<^verbatim>\<open>api/v1beta1/scalewaycluster_webhook.go\<close>):
  \<^verbatim>\<open>validate\<close> and its parts, \<^verbatim>\<open>enforceImmutability\<close> and the three entry points, with the
  declarative meaning of an admitted cluster and the immutability of a cluster over any
  sequence of admitted updates. A field error keeps its path and its detail; the offending
  value it also carries is left out.
\<close>

section \<open>Field errors\<close>

datatype path_elem = Child string | Index nat

type_synonym path = "path_elem list"

datatype field_error = FieldInvalid path string | FieldDuplicate path

text \<open>The result of a validation: nil, or \<^verbatim>\<open>apierrors.NewInvalid\<close> with a kind and the errors.\<close>

datatype admission = Admitted | Rejected string "field_error list"

section \<open>Region, failure domains and load balancer\<close>

definition validateRegion :: "SDK \<Rightarrow> ScalewayCluster \<Rightarrow> field_error + region" where
  "validateRegion sdk r = (case scw_ParseRegion sdk (spec_Region (sc_Spec r)) of
     Inl err \<Rightarrow> Inl (FieldInvalid [Child ''spec'', Child ''region''] (error_Error err))
   | Inr region \<Rightarrow> Inr region)"

fun validateFailureDomains_loop ::
  "SDK \<Rightarrow> region \<Rightarrow> nat \<Rightarrow> zone set \<Rightarrow> string list \<Rightarrow> field_error option" where
  "validateFailureDomains_loop sdk region i dupeMap [] = None"
| "validateFailureDomains_loop sdk region i dupeMap (fd # fds) =
     (let f = [Child ''spec'', Child ''failureDomains'', Index i] in
      case scw_ParseZone sdk fd of
        Inl err \<Rightarrow> Some (FieldInvalid f (error_Error err))
      | Inr zone \<Rightarrow>
          (case scw_Zone_Region sdk zone of
             Inl err \<Rightarrow> Some (FieldInvalid f (error_Error err))
           | Inr zoneRegion \<Rightarrow>
               if region \<noteq> zoneRegion then
                 Some (FieldInvalid f ''failureDomain must be in the cluster region'')
               else if zone \<in> dupeMap then Some (FieldDuplicate f)
               else validateFailureDomains_loop sdk region (Suc i) (insert zone dupeMap) fds))"

definition validateFailureDomains :: "SDK \<Rightarrow> ScalewayCluster \<Rightarrow> region \<Rightarrow> field_error option" where
  "validateFailureDomains sdk r region =
     (if spec_FailureDomains (sc_Spec r) = [] then None
      else validateFailureDomains_loop sdk region 0 {} (spec_FailureDomains (sc_Spec r)))"

text \<open>The check of one zone, which the load balancer and the public gateway share.\<close>

definition validateZone :: "SDK \<Rightarrow> path \<Rightarrow> string \<Rightarrow> region \<Rightarrow> string \<Rightarrow> field_error option" where
  "validateZone sdk f msg region z = (case scw_ParseZone sdk z of
     Inl err \<Rightarrow> Some (FieldInvalid f (error_Error err))
   | Inr zone \<Rightarrow>
       (case scw_Zone_Region sdk zone of
          Inl err \<Rightarrow> Some (FieldInvalid f (error_Error err))
        | Inr zoneRegion \<Rightarrow> if zoneRegion \<noteq> region then Some (FieldInvalid f msg) else None))"

definition validateLoadBalancerSpec :: "SDK \<Rightarrow> ScalewayCluster \<Rightarrow> region \<Rightarrow> field_error option" where
  "validateLoadBalancerSpec sdk r region =
     (case spec_ControlPlaneLoadBalancer (sc_Spec r) of
        None \<Rightarrow> None
      | Some lbspec \<Rightarrow>
          (case lbs_Zone lbspec of
             None \<Rightarrow> None
           | Some z \<Rightarrow>
               validateZone sdk [Child ''spec'', Child ''controlPlaneLoadBalancer'', Child ''zone'']
                 ''loadbalancer zone must be in the cluster region'' region z))"

section \<open>Security groups\<close>

fun validateRules :: "path \<Rightarrow> nat \<Rightarrow> SecurityGroupRule list \<Rightarrow> field_error option" where
  "validateRules path i [] = None"
| "validateRules path i (rule # rules) =
     (let innerPath = path @ [Child ''rules'', Index i] in
      case ToInstanceAction (Some (sgr_Action rule)) of
        Inl err \<Rightarrow> Some (FieldInvalid (innerPath @ [Child ''action'']) (error_Error err))
      | Inr _ \<Rightarrow>
      (case ToInstance (sgr_Protocol rule) of
        Inl err \<Rightarrow> Some (FieldInvalid (innerPath @ [Child ''protocol'']) (error_Error err))
      | Inr proto \<Rightarrow>
      (case ToRange (sgr_Ports rule) of
        Inl err \<Rightarrow> Some (FieldInvalid (innerPath @ [Child ''ports'']) (error_Error err))
      | Inr _ \<Rightarrow>
          if (proto = SecurityGroupRuleProtocolANY \<or> proto = SecurityGroupRuleProtocolICMP)
            \<and> sgr_Ports rule \<noteq> None
          then Some (FieldInvalid (innerPath @ [Child ''ports''])
            ''ports must not be set when using ANY or ICMP protocols'')
          else case sgr_IPRange rule of
            None \<Rightarrow> validateRules path (Suc i) rules
          | Some ipRange \<Rightarrow>
              (case net_ParseCIDR ipRange of
                 Inl err \<Rightarrow> Some (FieldInvalid (innerPath @ [Child ''ipRange'']) (error_Error err))
               | Inr _ \<Rightarrow> validateRules path (Suc i) rules))))"

definition validateSecurityGroupPolicy :: "SecurityGroupPolicy option \<Rightarrow> path \<Rightarrow> field_error option" where
  "validateSecurityGroupPolicy sgp path = (case sgp of
     None \<Rightarrow> None
   | Some p \<Rightarrow>
       (case ToInstancePolicy (sgp_Default p) of
          Inl err \<Rightarrow> Some (FieldInvalid (path @ [Child ''default'']) (error_Error err))
        | Inr _ \<Rightarrow> validateRules path 0 (sgp_Rules p)))"

fun validateSecurityGroups :: "nat \<Rightarrow> string set \<Rightarrow> SecurityGroup list \<Rightarrow> field_error option" where
  "validateSecurityGroups i uniqueNames [] = None"
| "validateSecurityGroups i uniqueNames (sg # sgs) =
     (let path = [Child ''spec'', Child ''network'', Child ''securityGroups'', Index i] in
      if sg_Name sg \<in> uniqueNames then Some (FieldInvalid path ''duplicate name'')
      else case validateSecurityGroupPolicy (sg_Inbound sg) (path @ [Child ''inbound'']) of
        Some err \<Rightarrow> Some err
      | None \<Rightarrow>
          (case validateSecurityGroupPolicy (sg_Outbound sg) (path @ [Child ''outbound'']) of
             Some err \<Rightarrow> Some err
           | None \<Rightarrow> validateSecurityGroups (Suc i) (insert (sg_Name sg) uniqueNames) sgs))"

section \<open>Network\<close>

text \<open>
  The checks of the public gateway. The last one reads \<^verbatim>\<open>*PublicGateway.Zone\<close> to report that
  the zone is missing, which is exactly when the pointer is nil.
\<close>

definition validatePublicGateway ::
  "SDK \<Rightarrow> region \<Rightarrow> PublicGatewaySpec \<Rightarrow> PrivateNetworkSpec option \<Rightarrow> field_error option outcome" where
  "validatePublicGateway sdk region pg pn =
     (let gwpath = (\<lambda>f. [Child ''spec'', Child ''network'', Child ''publicGateway'', Child f]) in
      case (case pgs_Zone pg of
              None \<Rightarrow> None
            | Some z \<Rightarrow> validateZone sdk (gwpath ''zone'') ''public gateway must be in the cluster region'' region z) of
        Some err \<Rightarrow> Ok (Some err)
      | None \<Rightarrow>
        if pgs_ID pg \<noteq> None \<and> pgs_Type pg \<noteq> None then
          Ok (Some (FieldInvalid (gwpath ''type'') ''type should not be specified because id is set''))
        else if pgs_ID pg \<noteq> None \<and> pgs_IP pg \<noteq> None then
          Ok (Some (FieldInvalid (gwpath ''ip'') ''ip should not be specified because id is set''))
        else if pgs_ID pg \<noteq> None \<and> pgs_Zone pg = None then Panic
        else case pn of
          None \<Rightarrow> Ok None
        | Some p \<Rightarrow>
            if pns_Subnet p \<noteq> None \<and> pns_ID p \<noteq> None then
              Ok (Some (FieldInvalid
                [Child ''spec'', Child ''network'', Child ''privateNetwork'', Child ''subnet'']
                ''not compatible with an existing PrivateNetwork''))
            else Ok None)"

definition validateNetworkSpec :: "SDK \<Rightarrow> ScalewayCluster \<Rightarrow> region \<Rightarrow> field_error option outcome" where
  "validateNetworkSpec sdk r region = (case spec_Network (sc_Spec r) of
     None \<Rightarrow> Ok None
   | Some n \<Rightarrow>
       (case (case ns_PublicGateway n of
                None \<Rightarrow> Ok None
              | Some pg \<Rightarrow> validatePublicGateway sdk region pg (ns_PrivateNetwork n)) of
          Ok None \<Rightarrow> Ok (validateSecurityGroups 0 {} (ns_SecurityGroups n))
        | Ok (Some err) \<Rightarrow> Ok (Some err)
        | Err e \<Rightarrow> Err e
        | Panic \<Rightarrow> Panic))"

section \<open>Entry points\<close>

definition opt_list :: "'a option \<Rightarrow> 'a list" where
  "opt_list x = (case x of None \<Rightarrow> [] | Some y \<Rightarrow> [y])"

definition validate :: "SDK \<Rightarrow> ScalewayCluster \<Rightarrow> admission outcome" where
  "validate sdk r = (case validateRegion sdk r of
     Inl err \<Rightarrow> Ok (Rejected ''ScalewayCluster'' [err])
   | Inr region \<Rightarrow>
       (case validateNetworkSpec sdk r region of
          Ok nerr \<Rightarrow>
            (let allErrs = opt_list (validateFailureDomains sdk r region)
               @ opt_list (validateLoadBalancerSpec sdk r region) @ opt_list nerr in
             if allErrs = [] then Ok Admitted else Ok (Rejected ''ScalewayCluster'' allErrs))
        | Err e \<Rightarrow> Err e
        | Panic \<Rightarrow> Panic))"

definition emptyNetworkSpec :: NetworkSpec where
  "emptyNetworkSpec = \<lparr>ns_PrivateNetwork = None, ns_PublicGateway = None, ns_SecurityGroups = []\<rparr>"

definition emptyLoadBalancerSpec :: LoadBalancerSpec where
  "emptyLoadBalancerSpec = \<lparr>lbs_Zone = None, lbs_Type = None, lbs_IP = None, lbs_AllowedRanges = []\<rparr>"

text \<open>
  \<^verbatim>\<open>enforceImmutability\<close> first replaces nil networks and load balancers by empty ones, in
  the new and in the old object; \<^verbatim>\<open>ValidateUpdate\<close> then validates the object so changed.
\<close>

definition fillDefaults :: "ScalewayCluster \<Rightarrow> ScalewayCluster" where
  "fillDefaults r = r\<lparr>sc_Spec := (sc_Spec r)
     \<lparr>spec_Network := Some (case spec_Network (sc_Spec r) of None \<Rightarrow> emptyNetworkSpec | Some n \<Rightarrow> n),
      spec_ControlPlaneLoadBalancer := Some (case spec_ControlPlaneLoadBalancer (sc_Spec r) of
          None \<Rightarrow> emptyLoadBalancerSpec | Some l \<Rightarrow> l)\<rparr>\<rparr>"

definition network_of :: "ScalewayCluster \<Rightarrow> NetworkSpec" where
  "network_of r = (case spec_Network (sc_Spec r) of None \<Rightarrow> emptyNetworkSpec | Some n \<Rightarrow> n)"

definition loadBalancer_of :: "ScalewayCluster \<Rightarrow> LoadBalancerSpec" where
  "loadBalancer_of r = (case spec_ControlPlaneLoadBalancer (sc_Spec r) of
     None \<Rightarrow> emptyLoadBalancerSpec | Some l \<Rightarrow> l)"

definition immutable_err :: "string list \<Rightarrow> bool \<Rightarrow> field_error list" where
  "immutable_err p changed =
     (if changed then [FieldInvalid (map Child p) ''field is immutable''] else [])"

definition enforceImmutability :: "ScalewayCluster \<Rightarrow> ScalewayCluster \<Rightarrow> field_error list" where
  "enforceImmutability r old =
     immutable_err [''spec'', ''region''] (spec_Region (sc_Spec r) \<noteq> spec_Region (sc_Spec old))
   @ immutable_err [''spec'', ''scalewaySecretName'']
       (spec_ScalewaySecretName (sc_Spec r) \<noteq> spec_ScalewaySecretName (sc_Spec old))
   @ immutable_err [''spec'', ''network'', ''privateNetwork'']
       (ns_PrivateNetwork (network_of r) \<noteq> ns_PrivateNetwork (network_of old))
   @ immutable_err [''spec'', ''network'', ''publicGateway'']
       (ns_PublicGateway (network_of r) \<noteq> ns_PublicGateway (network_of old))
   @ immutable_err [''spec'', ''controlPlaneLoadBalancer'', ''zone'']
       (lbs_Zone (loadBalancer_of old) \<noteq> lbs_Zone (loadBalancer_of r))
   @ immutable_err [''spec'', ''controlPlaneLoadBalancer'', ''ip'']
       (lbs_IP (loadBalancer_of old) \<noteq> lbs_IP (loadBalancer_of r))"

definition ValidateCreate :: "SDK \<Rightarrow> ScalewayCluster \<Rightarrow> admission outcome" where
  "ValidateCreate sdk r = validate sdk r"

definition ValidateUpdate :: "SDK \<Rightarrow> ScalewayCluster \<Rightarrow> ScalewayCluster \<Rightarrow> admission outcome" where
  "ValidateUpdate sdk r old =
     (let errs = enforceImmutability r old in
      if errs \<noteq> [] then Ok (Rejected ''ScalewayCluster'' errs)
      else validate sdk (fillDefaults r))"

definition ValidateDelete :: "ScalewayCluster \<Rightarrow> admission outcome" where
  "ValidateDelete r = Ok Admitted"

section \<open>What an admitted cluster satisfies\<close>

definition zone_in_region :: "SDK \<Rightarrow> region \<Rightarrow> string \<Rightarrow> bool" where
  "zone_in_region sdk region z \<longleftrightarrow>
     (\<exists>zone. scw_ParseZone sdk z = Inr zone \<and> scw_Zone_Region sdk zone = Inr region)"

definition valid_failure_domains :: "SDK \<Rightarrow> region \<Rightarrow> string list \<Rightarrow> bool" where
  "valid_failure_domains sdk region fds \<longleftrightarrow>
     (\<forall>fd \<in> set fds. zone_in_region sdk region fd) \<and> distinct (map (scw_ParseZone sdk) fds)"

definition valid_rule :: "SecurityGroupRule \<Rightarrow> bool" where
  "valid_rule rule \<longleftrightarrow>
     (\<exists>a. ToInstanceAction (Some (sgr_Action rule)) = Inr a)
   \<and> (\<exists>proto. ToInstance (sgr_Protocol rule) = Inr proto
        \<and> (proto \<in> {SecurityGroupRuleProtocolANY, SecurityGroupRuleProtocolICMP} \<longrightarrow> sgr_Ports rule = None))
   \<and> (\<exists>range. ToRange (sgr_Ports rule) = Inr range)
   \<and> (\<forall>cidr. sgr_IPRange rule = Some cidr \<longrightarrow> (\<exists>net. net_ParseCIDR cidr = Inr net))"

definition valid_policy :: "SecurityGroupPolicy option \<Rightarrow> bool" where
  "valid_policy sgp \<longleftrightarrow> (\<forall>p. sgp = Some p \<longrightarrow>
     (\<exists>a. ToInstancePolicy (sgp_Default p) = Inr a) \<and> (\<forall>rule \<in> set (sgp_Rules p). valid_rule rule))"

definition valid_security_groups :: "SecurityGroup list \<Rightarrow> bool" where
  "valid_security_groups sgs \<longleftrightarrow> distinct (map sg_Name sgs)
     \<and> (\<forall>sg \<in> set sgs. valid_policy (sg_Inbound sg) \<and> valid_policy (sg_Outbound sg))"

definition valid_gateway :: "SDK \<Rightarrow> region \<Rightarrow> PublicGatewaySpec \<Rightarrow> PrivateNetworkSpec option \<Rightarrow> bool" where
  "valid_gateway sdk region pg pn \<longleftrightarrow>
     (\<forall>z. pgs_Zone pg = Some z \<longrightarrow> zone_in_region sdk region z)
   \<and> (pgs_ID pg \<noteq> None \<longrightarrow> pgs_Type pg = None \<and> pgs_IP pg = None \<and> pgs_Zone pg \<noteq> None)
   \<and> (\<forall>p. pn = Some p \<longrightarrow> pns_Subnet p = None \<or> pns_ID p = None)"

definition valid_network :: "SDK \<Rightarrow> region \<Rightarrow> NetworkSpec \<Rightarrow> bool" where
  "valid_network sdk region n \<longleftrightarrow>
     (\<forall>pg. ns_PublicGateway n = Some pg \<longrightarrow> valid_gateway sdk region pg (ns_PrivateNetwork n))
   \<and> valid_security_groups (ns_SecurityGroups n)"

definition valid_cluster :: "SDK \<Rightarrow> ScalewayCluster \<Rightarrow> bool" where
  "valid_cluster sdk r \<longleftrightarrow> (\<exists>region.
     scw_ParseRegion sdk (spec_Region (sc_Spec r)) = Inr region
   \<and> valid_failure_domains sdk region (spec_FailureDomains (sc_Spec r))
   \<and> (\<forall>l z. spec_ControlPlaneLoadBalancer (sc_Spec r) = Some l \<longrightarrow> lbs_Zone l = Some z \<longrightarrow>
        zone_in_region sdk region z)
   \<and> (\<forall>n. spec_Network (sc_Spec r) = Some n \<longrightarrow> valid_network sdk region n))"

text \<open>Each check, against the clause it decides.\<close>

lemma validateFailureDomains_loop_None:
  "validateFailureDomains_loop sdk region i D fds = None \<longleftrightarrow>
     (\<forall>fd \<in> set fds. zone_in_region sdk region fd) \<and> distinct (map (scw_ParseZone sdk) fds)
     \<and> (\<forall>fd \<in> set fds. \<forall>zone. scw_ParseZone sdk fd = Inr zone \<longrightarrow> zone \<notin> D)"
proof (induction fds arbitrary: i D)
  case (Cons fd fds)
  show ?case
    by (cases "scw_ParseZone sdk fd"; cases "scw_Zone_Region sdk (projr (scw_ParseZone sdk fd))")
      (auto simp: Cons.IH Let_def zone_in_region_def image_iff, metis+)
qed simp

lemma validateZone_None: "validateZone sdk f msg region z = None \<longleftrightarrow> zone_in_region sdk region z"
  by (auto simp: validateZone_def zone_in_region_def split: sum.splits)

lemma validateZone_Some: "validateZone sdk f msg region z = Some err \<Longrightarrow> \<not> zone_in_region sdk region z"
  using validateZone_None [of sdk f msg region z] by simp

lemma validateRules_None: "validateRules path i rules = None \<longleftrightarrow> (\<forall>rule \<in> set rules. valid_rule rule)"
proof (induction rules arbitrary: i)
  case (Cons rule rules)
  show ?case
    by (auto simp: Let_def valid_rule_def Cons.IH split: sum.splits option.splits)
qed simp

lemma validateSecurityGroupPolicy_None:
  "validateSecurityGroupPolicy sgp path = None \<longleftrightarrow> valid_policy sgp"
  by (auto simp: validateSecurityGroupPolicy_def valid_policy_def validateRules_None
      split: option.splits sum.splits)

lemma first_error_None [simp]:
  "(case x of None \<Rightarrow> y | Some e \<Rightarrow> Some e) = None \<longleftrightarrow> x = None \<and> y = None"
  by (cases x) simp_all

lemma validateSecurityGroups_None:
  "validateSecurityGroups i U sgs = None \<longleftrightarrow>
     valid_security_groups sgs \<and> sg_Name ` set sgs \<inter> U = {}"
proof (induction sgs arbitrary: i U)
  case (Cons sg sgs)
  then show ?case
    by (auto simp: Let_def valid_security_groups_def validateSecurityGroupPolicy_None)
qed (simp add: valid_security_groups_def)

lemma validatePublicGateway_None:
  "validatePublicGateway sdk region pg pn = Ok None \<longleftrightarrow> valid_gateway sdk region pg pn"
  by (cases "pgs_Zone pg")
    (auto simp: validatePublicGateway_def valid_gateway_def validateZone_None Let_def
      dest: validateZone_Some split: option.split)

lemma validatePublicGateway_Panic:
  "validatePublicGateway sdk region pg pn = Panic \<longleftrightarrow>
     pgs_ID pg \<noteq> None \<and> pgs_Type pg = None \<and> pgs_IP pg = None \<and> pgs_Zone pg = None"
  by (auto simp: validatePublicGateway_def Let_def split: option.splits)

lemma validatePublicGateway_no_Err [simp]: "validatePublicGateway sdk region pg pn \<noteq> Err e"
  by (auto simp: validatePublicGateway_def Let_def split: option.splits)

lemma validateNetworkSpec_None:
  "validateNetworkSpec sdk r region = Ok None \<longleftrightarrow>
     (\<forall>n. spec_Network (sc_Spec r) = Some n \<longrightarrow> valid_network sdk region n)"
  by (auto simp: validateNetworkSpec_def valid_network_def validateSecurityGroups_None
      validatePublicGateway_None [symmetric] split: option.splits outcome.splits)

lemma opt_list_Nil [simp]: "opt_list x = [] \<longleftrightarrow> x = None"
  by (simp add: opt_list_def split: option.splits)

lemma validateFailureDomains_None:
  "validateFailureDomains sdk r region = None \<longleftrightarrow>
     valid_failure_domains sdk region (spec_FailureDomains (sc_Spec r))"
  by (auto simp: validateFailureDomains_def valid_failure_domains_def validateFailureDomains_loop_None)

lemma validateLoadBalancerSpec_None:
  "validateLoadBalancerSpec sdk r region = None \<longleftrightarrow>
     (\<forall>l z. spec_ControlPlaneLoadBalancer (sc_Spec r) = Some l \<longrightarrow> lbs_Zone l = Some z \<longrightarrow>
        zone_in_region sdk region z)"
  by (cases "spec_ControlPlaneLoadBalancer (sc_Spec r)")
    (auto simp: validateLoadBalancerSpec_def validateZone_None split: option.split)

lemmas check_None = validateFailureDomains_None validateLoadBalancerSpec_None validateNetworkSpec_None

lemma validateNetworkSpec_no_Err: "validateNetworkSpec sdk r region \<noteq> Err e"
  by (auto simp: validateNetworkSpec_def split: option.splits outcome.splits)

lemma validate_Admitted: "validate sdk r = Ok Admitted \<longleftrightarrow> valid_cluster sdk r"
proof (cases "scw_ParseRegion sdk (spec_Region (sc_Spec r))")
  case (Inr region)
  show ?thesis
    unfolding valid_cluster_def validate_def check_None [symmetric]
    by (cases "validateNetworkSpec sdk r region") (simp_all add: Inr validateRegion_def Let_def)
qed (simp add: validate_def validateRegion_def valid_cluster_def)

lemma validateNetworkSpec_Panic:
  "validateNetworkSpec sdk r region = Panic \<longleftrightarrow> (\<exists>n pg. spec_Network (sc_Spec r) = Some n
     \<and> ns_PublicGateway n = Some pg \<and> validatePublicGateway sdk region pg (ns_PrivateNetwork n) = Panic)"
  by (auto simp: validateNetworkSpec_def split: outcome.splits option.splits)

lemma validate_Panic:
  "validate sdk r = Panic \<longleftrightarrow> (\<exists>region n pg. scw_ParseRegion sdk (spec_Region (sc_Spec r)) = Inr region
     \<and> spec_Network (sc_Spec r) = Some n \<and> ns_PublicGateway n = Some pg
     \<and> pgs_ID pg \<noteq> None \<and> pgs_Type pg = None \<and> pgs_IP pg = None \<and> pgs_Zone pg = None)"
proof (cases "scw_ParseRegion sdk (spec_Region (sc_Spec r))")
  case (Inr region)
  have "validate sdk r = Panic \<longleftrightarrow> validateNetworkSpec sdk r region = Panic"
    by (simp add: validate_def validateRegion_def Inr Let_def split: outcome.splits)
  then show ?thesis
    by (simp add: Inr validateNetworkSpec_Panic validatePublicGateway_Panic)
qed (simp add: validate_def validateRegion_def)

subsection \<open>Updates\<close>

text \<open>The fields of a cluster that no update may change, with nil read as empty.\<close>

definition immutable_view :: "ScalewayCluster \<Rightarrow> string \<times> string \<times> PrivateNetworkSpec option
    \<times> PublicGatewaySpec option \<times> string option \<times> string option" where
  "immutable_view r = (spec_Region (sc_Spec r), spec_ScalewaySecretName (sc_Spec r),
     ns_PrivateNetwork (network_of r), ns_PublicGateway (network_of r),
     lbs_Zone (loadBalancer_of r), lbs_IP (loadBalancer_of r))"

lemma enforceImmutability_Nil: "enforceImmutability r old = [] \<longleftrightarrow> immutable_view r = immutable_view old"
  by (auto simp: enforceImmutability_def immutable_err_def immutable_view_def)

lemma valid_fillDefaults [simp]: "valid_cluster sdk (fillDefaults r) \<longleftrightarrow> valid_cluster sdk r"
proof -
  have "valid_network sdk region emptyNetworkSpec" for region
    by (simp add: valid_network_def emptyNetworkSpec_def valid_security_groups_def)
  then show ?thesis
    by (auto simp: valid_cluster_def fillDefaults_def emptyLoadBalancerSpec_def split: option.splits)
qed

lemma ValidateUpdate_Admitted:
  "ValidateUpdate sdk r old = Ok Admitted \<longleftrightarrow>
     immutable_view r = immutable_view old \<and> valid_cluster sdk r"
  by (auto simp: ValidateUpdate_def Let_def enforceImmutability_Nil validate_Admitted)

text \<open>
  The life of a cluster in the API server: created with an admitted object, then replaced by
  admitted updates. Status changes do not pass through this webhook's fields.
\<close>

inductive cluster_life :: "SDK \<Rightarrow> ScalewayCluster \<Rightarrow> ScalewayCluster \<Rightarrow> bool" for sdk where
  created: "ValidateCreate sdk r = Ok Admitted \<Longrightarrow> cluster_life sdk r r"
| updated: "cluster_life sdk r0 old \<Longrightarrow> ValidateUpdate sdk r old = Ok Admitted \<Longrightarrow> cluster_life sdk r0 r"

inductive_cases cluster_lifeE: "cluster_life sdk r0 r"

lemma cluster_life_invariant:
  "cluster_life sdk r0 r \<Longrightarrow> immutable_view r = immutable_view r0 \<and> valid_cluster sdk r"
  by (induction rule: cluster_life.induct)
    (auto simp: ValidateCreate_def validate_Admitted ValidateUpdate_Admitted)

lemma ex_cluster_valid: "valid_cluster ex_sdk ex_cluster"
  by (simp add: valid_cluster_def ex_objects valid_failure_domains_def zone_in_region_def)

section \<open>Properties\<close>

text \<open>
  C10: the webhook decides validity. Creating a cluster is admitted exactly when its region
  parses, its failure domains are distinct zones of that region, the zones of the load
  balancer and of the public gateway are in the region, a public gateway given by ID has a
  zone and neither type nor IP, its private network does not have both an ID and a subnet
  (a check made only when a public gateway is given), the security groups have distinct names
  and every rule converts to a rule of the instance API.
\<close>

theorem cluster_admitted_iff_valid: "ValidateCreate sdk r = Ok Admitted \<longleftrightarrow> valid_cluster sdk r"
  by (simp add: ValidateCreate_def validate_Admitted)

text \<open>
  C34: when the webhook panics. Validation dereferences a nil pointer exactly when the region
  parses and a public gateway is given by ID with no zone, no type and no IP: the case in
  which the code means to report that the zone is needed.
\<close>

theorem cluster_validation_panics_iff:
  "ValidateCreate sdk r = Panic \<longleftrightarrow> (\<exists>region n pg.
     scw_ParseRegion sdk (spec_Region (sc_Spec r)) = Inr region
   \<and> spec_Network (sc_Spec r) = Some n \<and> ns_PublicGateway n = Some pg
   \<and> pgs_ID pg \<noteq> None \<and> pgs_Type pg = None \<and> pgs_IP pg = None \<and> pgs_Zone pg = None)"
  by (simp add: ValidateCreate_def validate_Panic)

text \<open>
  C32: over the whole life of a cluster (an admitted creation and any number of admitted
  updates) the region, the secret name, the private network, the public gateway and the zone
  and IP of the load balancer stay what they were at creation, and the cluster stays valid.
\<close>

theorem cluster_life_immutable:
  assumes "cluster_life sdk r0 r"
  shows "immutable_view r = immutable_view r0 \<and> valid_cluster sdk r"
  using assms by (rule cluster_life_invariant)

theorem cluster_life_immutable_witness:
  "immutable_view (ex_cluster\<lparr>sc_Spec := ex_spec\<lparr>spec_FailureDomains := [''fr-par-3'']\<rparr>\<rparr>)
     = immutable_view ex_cluster
   \<and> valid_cluster ex_sdk (ex_cluster\<lparr>sc_Spec := ex_spec\<lparr>spec_FailureDomains := [''fr-par-3'']\<rparr>\<rparr>)"
proof (rule cluster_life_immutable)
  show "cluster_life ex_sdk ex_cluster
      (ex_cluster\<lparr>sc_Spec := ex_spec\<lparr>spec_FailureDomains := [''fr-par-3'']\<rparr>\<rparr>)"
  proof (rule cluster_life.updated [OF cluster_life.created])
    show "ValidateCreate ex_sdk ex_cluster = Ok Admitted"
      by (simp add: ValidateCreate_def validate_Admitted ex_cluster_valid)
    show "ValidateUpdate ex_sdk (ex_cluster\<lparr>sc_Spec := ex_spec\<lparr>spec_FailureDomains := [''fr-par-3'']\<rparr>\<rparr>)
        ex_cluster = Ok Admitted"
      by (simp add: ValidateUpdate_Admitted immutable_view_def network_of_def loadBalancer_of_def
          valid_cluster_def ex_objects valid_failure_domains_def zone_in_region_def)
  qed
qed

end
