(* ===== verification/Scope.thy ===== *)
theory Scope
  imports K8s_API Cluster_Webhook
begin

text \<open>
  The scopes (\<^verbatim>\<open>internal/scope\<close>): what the services know of the cluster and the machine they
  work on. A scope is the state of a run: the machine scope extends the cluster scope, as
  the Go struct embeds it. The methods that only read the custom resources are functions of
  these objects; the ones that can fail or panic give an outcome.
\<close>

record 'w ClusterScope = "'w env" +
  scope_ScalewayCluster :: ScalewayCluster
  scope_InfrastructureReady :: bool

record 'w MachineScope = "'w ClusterScope" +
  scope_ScalewayMachine :: ScalewayMachine
  scope_Machine :: CapiMachine

section \<open>Cluster scope\<close>

definition DefaultLoadBalancerType :: string where
  "DefaultLoadBalancerType = ''LB-S''"

definition Region :: "ScalewayCluster \<Rightarrow> region" where
  "Region c = spec_Region (sc_Spec c)"

definition DefaultZone :: "ScalewayCluster \<Rightarrow> zone" where
  "DefaultZone c = spec_Region (sc_Spec c) @ ''-1''"

definition Zones :: "SDK \<Rightarrow> ScalewayCluster \<Rightarrow> zone list \<Rightarrow> zone list" where
  "Zones sdk c compatible =
     (let zones = filter (\<lambda>z. z \<in> set compatible \<or> compatible = []) (scw_Region_GetZones sdk (Region c)) in
      if zones = [] then [DefaultZone c] else zones)"

definition FailureDomains :: "SDK \<Rightarrow> ScalewayCluster \<Rightarrow> (string \<rightharpoonup> bool)" where
  "FailureDomains sdk c =
     foldl (\<lambda>fds zone.
         if spec_FailureDomains (sc_Spec c) \<noteq> [] then
           foldl (\<lambda>m fd. if fd = zone then m(zone \<mapsto> True) else m) fds (spec_FailureDomains (sc_Spec c))
         else fds(zone \<mapsto> True))
       Map.empty (Zones sdk c [])"

definition LoadBalancerZone :: "ScalewayCluster \<Rightarrow> zone" where
  "LoadBalancerZone c =
     (case Option.bind (spec_ControlPlaneLoadBalancer (sc_Spec c)) lbs_Zone of
        Some z \<Rightarrow> z
      | None \<Rightarrow> (case spec_FailureDomains (sc_Spec c) of fd # _ \<Rightarrow> fd | [] \<Rightarrow> DefaultZone c))"

definition PublicGatewayZone :: "ScalewayCluster \<Rightarrow> zone" where
  "PublicGatewayZone c =
     (case Option.bind (Option.bind (spec_Network (sc_Spec c)) ns_PublicGateway) pgs_Zone of
        Some z \<Rightarrow> z
      | None \<Rightarrow> (case spec_FailureDomains (sc_Spec c) of fd # _ \<Rightarrow> fd | [] \<Rightarrow> DefaultZone c))"

definition LoadBalancerType :: "ScalewayCluster \<Rightarrow> string" where
  "LoadBalancerType c =
     (case Option.bind (spec_ControlPlaneLoadBalancer (sc_Spec c)) lbs_Type of
        Some t \<Rightarrow> t | None \<Rightarrow> DefaultLoadBalancerType)"

text \<open>\<^verbatim>\<open>Spec.Network.PrivateNetwork\<close> and \<^verbatim>\<open>Spec.Network.PublicGateway\<close>, if both pointers are set.\<close>

definition privateNetworkSpec :: "ScalewayCluster \<Rightarrow> PrivateNetworkSpec option" where
  "privateNetworkSpec c = Option.bind (spec_Network (sc_Spec c)) ns_PrivateNetwork"

definition publicGatewaySpec :: "ScalewayCluster \<Rightarrow> PublicGatewaySpec option" where
  "publicGatewaySpec c = Option.bind (spec_Network (sc_Spec c)) ns_PublicGateway"

definition HasPrivateNetwork :: "ScalewayCluster \<Rightarrow> bool" where
  "HasPrivateNetwork c = (case privateNetworkSpec c of None \<Rightarrow> False | Some p \<Rightarrow> pns_Enabled p)"

definition ShouldManagePrivateNetwork :: "ScalewayCluster \<Rightarrow> bool" where
  "ShouldManagePrivateNetwork c =
     (HasPrivateNetwork c \<and> (case privateNetworkSpec c of None \<Rightarrow> False | Some p \<Rightarrow> pns_ID p = None))"

definition HasPublicGateway :: "ScalewayCluster \<Rightarrow> bool" where
  "HasPublicGateway c = (case publicGatewaySpec c of None \<Rightarrow> False | Some p \<Rightarrow> pgs_Enabled p)"

definition Name :: "ScalewayCluster \<Rightarrow> string" where
  "Name c = ''caps-'' @ meta_Name (sc_Meta c)"

text \<open>\<^verbatim>\<open>Status.Network.PrivateNetworkID\<close> is read without a check that \<^verbatim>\<open>Status.Network\<close> is set.\<close>

definition PrivateNetworkID :: "ScalewayCluster \<Rightarrow> string outcome" where
  "PrivateNetworkID c =
     (if \<not> HasPrivateNetwork c then Err (ErrNew ''cluster has no Private Network'')
      else case cst_Network (sc_Status c) of
        None \<Rightarrow> Panic
      | Some n \<Rightarrow>
          (case nst_PrivateNetworkID n of
             None \<Rightarrow> Err (ErrNew ''PrivateNetworkID not found in ScalewayCluster status'')
           | Some pnID \<Rightarrow> Ok pnID))"

definition SetStatusPrivateNetworkID :: "string \<Rightarrow> ScalewayCluster \<Rightarrow> ScalewayCluster" where
  "SetStatusPrivateNetworkID pnID c = c\<lparr>sc_Status := (sc_Status c)\<lparr>cst_Network :=
     (case cst_Network (sc_Status c) of
        None \<Rightarrow> Some \<lparr>nst_PrivateNetworkID = Some pnID, nst_PublicGatewayID = None\<rparr>
      | Some n \<Rightarrow> Some (n\<lparr>nst_PrivateNetworkID := Some pnID\<rparr>))\<rparr>\<rparr>"

definition Tags :: "ScalewayCluster \<Rightarrow> string list" where
  "Tags c = [''caps-cluster='' @ Name c]"

definition SecurityGroupName :: "ScalewayCluster \<Rightarrow> string \<Rightarrow> string" where
  "SecurityGroupName c name = Name c @ ''-'' @ name"

section \<open>Machine scope\<close>

definition NeedsPublicIP :: "ScalewayMachine \<Rightarrow> bool" where
  "NeedsPublicIP m = (case ms_PublicIP (sm_Spec m) of Some b \<Rightarrow> b | None \<Rightarrow> False)"

definition Machine_Tags :: "ScalewayCluster \<Rightarrow> ScalewayMachine \<Rightarrow> string list" where
  "Machine_Tags c m = [''caps-cluster='' @ meta_Name (sc_Meta c), ''caps-node='' @ meta_Name (sm_Meta m)]"

definition Machine_Zone :: "ScalewayCluster \<Rightarrow> CapiMachine \<Rightarrow> zone" where
  "Machine_Zone c cm = (case cm_FailureDomain cm of None \<Rightarrow> Region c @ ''-1'' | Some fd \<Rightarrow> fd)"

definition Machine_Name :: "ScalewayMachine \<Rightarrow> string" where
  "Machine_Name m = ''caps-'' @ meta_Name (sm_Meta m)"

definition ProviderID :: "ScalewayCluster \<Rightarrow> CapiMachine \<Rightarrow> string \<Rightarrow> string" where
  "ProviderID c cm serverID = ''scaleway://instance/'' @ Machine_Zone c cm @ ''/'' @ serverID"

definition GetRawBootstrapData :: "'w k8s_API \<Rightarrow> (('w, 'z) MachineScope_scheme, string) go" where
  "GetRawBootstrapData k =
     bind (gets scope_Machine) (\<lambda>cm.
     case cm_DataSecretName cm of
       None \<Rightarrow> throw ErrBootstrapDataNotReady
     | Some secretName \<Rightarrow>
         bind (sdk_read (k_GetSecret k (cm_Namespace cm) secretName)) (\<lambda>secret.
         case map_of (sec_Data secret) ''value'' of
           None \<Rightarrow> throw (ErrNew ''error retrieving bootstrap data: secret value key is missing'')
         | Some value \<Rightarrow> ret value))"

section \<open>Facts\<close>

lemma Zones_not_Nil: "Zones sdk c compatible \<noteq> []"
  by (simp add: Zones_def Let_def)

lemma foldl_upd_member:
  "foldl (\<lambda>m fd. if fd = zone then m(zone \<mapsto> True) else m) fds xs
     = (if zone \<in> set xs then fds(zone \<mapsto> True) else fds)"
  by (induction xs arbitrary: fds) auto

lemma foldl_upd_all:
  "foldl (\<lambda>fds z. if P z then fds(z \<mapsto> v) else fds) m zs
     = (\<lambda>z. if z \<in> set zs \<and> P z then Some v else m z)"
  by (induction zs arbitrary: m) (auto simp: fun_eq_iff)

lemma FailureDomains_eq:
  "FailureDomains sdk c = (\<lambda>z. if z \<in> set (Zones sdk c []) \<and>
     (spec_FailureDomains (sc_Spec c) = [] \<or> z \<in> set (spec_FailureDomains (sc_Spec c))) then Some True else None)"
  (is "?lhs = ?rhs")
proof -
  have "?lhs = foldl (\<lambda>fds z. if spec_FailureDomains (sc_Spec c) = [] \<or> z \<in> set (spec_FailureDomains (sc_Spec c))
      then fds(z \<mapsto> True) else fds) Map.empty (Zones sdk c [])"
    unfolding FailureDomains_def foldl_upd_member by (rule arg_cong [where f = "\<lambda>f. foldl f _ _"]) (auto simp: fun_eq_iff)
  then show ?thesis
    unfolding foldl_upd_all by (simp cong: if_cong)
qed

lemma SecurityGroupName_inj: "SecurityGroupName c a = SecurityGroupName c b \<longleftrightarrow> a = b"
  by (simp add: SecurityGroupName_def)

lemma ShouldManage_iff:
  "ShouldManagePrivateNetwork c \<longleftrightarrow> (\<exists>p. privateNetworkSpec c = Some p \<and> pns_Enabled p \<and> pns_ID p = None)"
  by (auto simp: ShouldManagePrivateNetwork_def HasPrivateNetwork_def split: option.splits)

lemma HasPrivateNetwork_SetStatus [simp]:
  "HasPrivateNetwork (SetStatusPrivateNetworkID pnID c) = HasPrivateNetwork c"
  by (simp add: HasPrivateNetwork_def privateNetworkSpec_def SetStatusPrivateNetworkID_def)

lemma sc_Spec_SetStatus [simp]:
  "sc_Spec (SetStatusPrivateNetworkID pnID c) = sc_Spec c"
  "sc_Meta (SetStatusPrivateNetworkID pnID c) = sc_Meta c"
  by (simp_all add: SetStatusPrivateNetworkID_def)

lemma PrivateNetworkID_SetStatus:
  "HasPrivateNetwork c \<Longrightarrow> PrivateNetworkID (SetStatusPrivateNetworkID pnID c) = Ok pnID"
  by (simp add: PrivateNetworkID_def) (simp add: SetStatusPrivateNetworkID_def split: option.splits)

lemma PrivateNetworkID_no_sentinel:
  "PrivateNetworkID c = Err e \<Longrightarrow> \<exists>m. e = ErrNew m"
  by (auto simp: PrivateNetworkID_def split: if_splits option.splits)

lemma reads_GetRawBootstrapData [read_intros]: "reads_only (GetRawBootstrapData k)"
  unfolding GetRawBootstrapData_def
  by (intro read_intros) (simp add: reads_only_pure reads_only_sdk_read reads_only_bind split: option.split)

section \<open>Properties\<close>

text \<open>
  The zones in which resources of a cluster are looked up or created. There is always at
  least one; they are zones of the cluster's region that the API supports, unless the region
  has no such zone, in which case it is the default zone alone.
\<close>

theorem Zones_spec:
  "Zones sdk c compatible \<noteq> []
   \<and> (let ok = {z \<in> set (scw_Region_GetZones sdk (Region c)). compatible = [] \<or> z \<in> set compatible} in
      set (Zones sdk c compatible) = (if ok = {} then {DefaultZone c} else ok))"
proof (cases "filter (\<lambda>z. z \<in> set compatible \<or> compatible = []) (scw_Region_GetZones sdk (Region c)) = []")
  case True
  then have "{z \<in> set (scw_Region_GetZones sdk (Region c)). compatible = [] \<or> z \<in> set compatible} = {}"
    by (auto simp: filter_empty_conv)
  with True show ?thesis by (simp add: Zones_def)
next
  case False
  then have "{z \<in> set (scw_Region_GetZones sdk (Region c)). compatible = [] \<or> z \<in> set compatible} \<noteq> {}"
    by (auto simp: filter_empty_conv)
  with False show ?thesis by (auto simp: Zones_def)
qed

text \<open>
  The failure domains of an admitted cluster. If the SDK keeps the text of a zone it
  parses and lists every zone of a region, then the failure domains that the cluster reports
  are exactly the ones its spec asks for, each usable for control planes; if the spec asks for
  none, they are all zones of the region.
\<close>

theorem FailureDomains_of_valid_cluster:
  assumes "valid_cluster sdk c"
    and keeps_text: "\<And>s z. scw_ParseZone sdk s = Inr z \<Longrightarrow> z = s"
    and keeps_region: "\<And>s r. scw_ParseRegion sdk s = Inr r \<Longrightarrow> r = s"
    and complete: "\<And>z r. scw_Zone_Region sdk z = Inr r \<Longrightarrow> z \<in> set (scw_Region_GetZones sdk r)"
  shows "dom (FailureDomains sdk c) = (if spec_FailureDomains (sc_Spec c) = []
      then set (Zones sdk c []) else set (spec_FailureDomains (sc_Spec c)))
    \<and> ran (FailureDomains sdk c) \<subseteq> {True}"
proof -
  obtain region where region: "scw_ParseRegion sdk (Region c) = Inr region"
    and fds: "\<forall>fd \<in> set (spec_FailureDomains (sc_Spec c)). zone_in_region sdk region fd"
    using assms(1) by (auto simp: valid_cluster_def valid_failure_domains_def Region_def)
  have "fd \<in> set (Zones sdk c [])" if fd: "fd \<in> set (spec_FailureDomains (sc_Spec c))" for fd
  proof -
    obtain z where "scw_ParseZone sdk fd = Inr z" "scw_Zone_Region sdk z = Inr region"
      using fds fd unfolding zone_in_region_def by blast
    then have "fd \<in> set (scw_Region_GetZones sdk (Region c))"
      using keeps_text keeps_region [OF region] complete by blast
    then show ?thesis by (auto simp: Zones_def Let_def)
  qed
  then have "dom (FailureDomains sdk c) = (if spec_FailureDomains (sc_Spec c) = []
      then set (Zones sdk c []) else set (spec_FailureDomains (sc_Spec c)))"
    unfolding FailureDomains_eq dom_def by auto
  moreover have "ran (FailureDomains sdk c) \<subseteq> {True}"
    unfolding FailureDomains_eq ran_def by auto
  ultimately show ?thesis by simp
qed

theorem FailureDomains_of_valid_cluster_witness:
  "dom (FailureDomains ex_sdk ex_cluster) = {''fr-par-1'', ''fr-par-2''}"
proof -
  have "dom (FailureDomains ex_sdk ex_cluster) = (if spec_FailureDomains (sc_Spec ex_cluster) = []
      then set (Zones ex_sdk ex_cluster []) else set (spec_FailureDomains (sc_Spec ex_cluster)))"
    by (rule FailureDomains_of_valid_cluster [OF ex_cluster_valid, THEN conjunct1])
      (auto simp: ex_objects split: if_splits)
  then show ?thesis by (auto simp: ex_objects)
qed

text \<open>
  Reading the ID of the private network. The code panics exactly when the cluster has a
  private network and its status has no network section; it succeeds exactly when the status
  holds the ID; recording an ID makes it readable and changes neither the spec nor the
  gateway ID that was recorded before.
\<close>

theorem PrivateNetworkID_outcomes:
  "(PrivateNetworkID c = Panic \<longleftrightarrow> HasPrivateNetwork c \<and> cst_Network (sc_Status c) = None)
   \<and> (PrivateNetworkID c = Ok pnID \<longleftrightarrow> HasPrivateNetwork c \<and>
        Option.bind (cst_Network (sc_Status c)) nst_PrivateNetworkID = Some pnID)
   \<and> PrivateNetworkID (SetStatusPrivateNetworkID pnID c) =
        (if HasPrivateNetwork c then Ok pnID else Err (ErrNew ''cluster has no Private Network''))
   \<and> Option.bind (cst_Network (sc_Status (SetStatusPrivateNetworkID pnID c))) nst_PublicGatewayID
      = Option.bind (cst_Network (sc_Status c)) nst_PublicGatewayID"
proof (intro conjI)
  show "PrivateNetworkID (SetStatusPrivateNetworkID pnID c) =
        (if HasPrivateNetwork c then Ok pnID else Err (ErrNew ''cluster has no Private Network''))"
    by (cases "HasPrivateNetwork c") (simp_all add: PrivateNetworkID_SetStatus, simp add: PrivateNetworkID_def)
qed (auto simp: PrivateNetworkID_def SetStatusPrivateNetworkID_def split: option.splits)

end
