(* ===== verification/Services.thy ===== *)
theory Services
  imports Scope
begin

text \<open>
  What the services have in common. Nearly every resource is handled by the idiom \<open>find it by
  name or tags; if there is none, create it\<close>: the combinator \<open>getOrCreate\<close> and the interface
  \<open>get_or_create\<close> with its laws. A service of the cluster controller is a pair \<open>Reconcile\<close>,
  \<open>Delete\<close>: the interface \<open>cluster_service\<close> says what the controller relies on.
\<close>

section \<open>Find or create\<close>

text \<open>
  \<^verbatim>\<open>x, err := find(); if err != nil && !errors.Is(err, ErrNoItemFound) { return err };
  if x == nil { x, err = create(); ... }\<close>
\<close>

definition getOrCreate :: "('s, 'a option) go \<Rightarrow> ('s, 'a) go \<Rightarrow> ('s, 'a) go" where
  "getOrCreate lookup create = bind lookup (\<lambda>r. case r of Some x \<Rightarrow> ret x | None \<Rightarrow> create)"

lemma getOrCreate_Ok:
  "getOrCreate lookup create s = (Ok x, s') \<longleftrightarrow>
     lookup s = (Ok (Some x), s') \<or> (\<exists>t. lookup s = (Ok None, t) \<and> create t = (Ok x, s'))"
  by (auto simp: getOrCreate_def ok_iffs split: option.splits)

lemma wp_getOrCreate [wp_simps]:
  "wp (getOrCreate lookup create) Q s = wp lookup (\<lambda>r t. case r of
      Ok (Some x) \<Rightarrow> Q (Ok x) t | Ok None \<Rightarrow> wp create Q t | Err e \<Rightarrow> Q (Err e) t | Panic \<Rightarrow> Q Panic t) s"
  unfolding getOrCreate_def wp_bind
  by (rule arg_cong [where f = "\<lambda>Q. wp lookup Q s"]) (auto simp: fun_eq_iff wp_simps split: outcome.split option.split)

lemma emits_getOrCreate [emit_intros]:
  "emits obs C lookup \<Longrightarrow> emits obs C create \<Longrightarrow> emits obs C (getOrCreate lookup create)"
  unfolding getOrCreate_def by (intro emit_intros)

lemma keeps_getOrCreate [keep_intros]:
  "keeps g lookup \<Longrightarrow> keeps g create \<Longrightarrow> keeps g (getOrCreate lookup create)"
  unfolding getOrCreate_def by (intro keep_intros)

lemma keeps_comp: "keeps f m \<Longrightarrow> keeps (\<lambda>s. g (f s)) m"
  by (simp add: keeps_def)

lemma reads_only_optional [read_intros]: "reads_only m \<Longrightarrow> reads_only (optional m)"
  by (simp add: reads_only_def snd_optional)

lemma reads_only_run: "reads_only m \<Longrightarrow> m s = (r, t) \<Longrightarrow> \<exists>w. t = s\<lparr>world := w\<rparr>"
  by (auto simp: reads_only_def dest!: spec [of _ s])

lemma emits_grows: "emits trace C m \<Longrightarrow> m s = (r, t) \<Longrightarrow> \<exists>es. trace t = trace s @ es \<and> set es \<subseteq> C"
  using emitsD [of trace C m s] by simp

lemma reads_only_trace: "reads_only m \<Longrightarrow> m s = (r, t) \<Longrightarrow> trace t = trace s"
  by (auto simp: reads_only_def dest!: spec [of _ s])

lemma reads_only_cluster:
  "reads_only m \<Longrightarrow> m s = (r, t) \<Longrightarrow> scope_ScalewayCluster t = scope_ScalewayCluster s"
  by (auto simp: reads_only_def dest!: spec [of _ s])

text \<open>
  \<open>made s es t\<close>: between \<open>s\<close> and \<open>t\<close> exactly the calls \<open>es\<close> were made, the world moved on, and
  nothing else changed.
\<close>

definition made :: "('w, 'z) env_scheme \<Rightarrow> call list \<Rightarrow> ('w, 'z) env_scheme \<Rightarrow> bool" where
  "made s es t \<longleftrightarrow> (\<exists>w. t = s\<lparr>world := w, trace := trace s @ es\<rparr>)"

lemma made_refl [simp]: "made s [] s"
  unfolding made_def by (rule exI [where x = "world s"]) simp

lemma made_step [simp]: "made s es (s\<lparr>world := w, trace := trace s @ es\<rparr>)"
  by (auto simp: made_def)

lemma made_trans [trans]: "made s es t \<Longrightarrow> made t fs u \<Longrightarrow> made s (es @ fs) u"
  by (auto simp: made_def)

lemma made_reads: "reads_only m \<Longrightarrow> m s = (r, t) \<Longrightarrow> made s [] t"
  by (auto simp: made_def dest: reads_only_run)

lemma made_read: "sdk_read f s = (r, t) \<Longrightarrow> made s [] t"
  by (rule made_reads [OF reads_only_sdk_read])

lemma made_call: "sdk_call ev f s = (r, t) \<Longrightarrow> made s [ev] t"
  by (auto simp: made_def sdk_call_def split: prod.splits)

lemma made_trace: "made s es t \<Longrightarrow> trace t = trace s @ es"
  by (auto simp: made_def)

lemma made_cluster: "made s es t \<Longrightarrow> scope_ScalewayCluster t = scope_ScalewayCluster s"
  by (auto simp: made_def)

lemma made_machine:
  "made s es t \<Longrightarrow> scope_ScalewayMachine t = scope_ScalewayMachine s \<and> scope_Machine t = scope_Machine s"
  by (auto simp: made_def)

lemma bind_run:
  assumes "bind m f s = (r, t)"
  obtains (Ok) x u where "m s = (Ok x, u)" "f x u = (r, t)"
    | (Err) e where "m s = (Err e, t)" "r = Err e"
    | (Panic) "m s = (Panic, t)" "r = Panic"
  using assms by (auto simp: bind_def split: prod.splits outcome.splits)

lemma made_wrapping: "(\<And>r t. m s = (r, t) \<Longrightarrow> made s es t) \<Longrightarrow> wrapping msg m s = (r, t) \<Longrightarrow> made s es t"
  by (metis prod.collapse snd_conv snd_wrapping)

text \<open>
  The laws: looking up only reads; creating asks for nothing outside \<open>C\<close>, and it cannot
  succeed without asking for something.
\<close>

locale get_or_create =
  fixes lookup :: "(('w, 'z) env_scheme, 'a option) go"
    and create :: "(('w, 'z) env_scheme, 'a) go"
    and C :: "call set"
  assumes lookup_reads: "reads_only lookup"
    and create_emits: "emits trace C create"
    and create_asks: "create s = (Ok x, s') \<Longrightarrow> trace s' \<noteq> trace s"
begin

lemma run_emits: "emits trace C (getOrCreate lookup create)"
  by (intro emit_intros reads_only_emits lookup_reads create_emits)

lemma found_iff:
  assumes "getOrCreate lookup create s = (Ok x, s')"
  shows "trace s' = trace s \<longleftrightarrow> lookup s = (Ok (Some x), s')"
  using assms create_asks unfolding getOrCreate_Ok by (metis reads_only_trace [OF lookup_reads] prod.inject)

lemma again_no_call:
  assumes "lookup s = (Ok (Some x), t)"
  shows "getOrCreate lookup create s = (Ok x, t) \<and> trace t = trace s"
  using assms reads_only_trace [OF lookup_reads] by (auto simp: getOrCreate_Ok)

lemma lookup_fails:
  assumes "lookup s = (Err e, t)"
  shows "getOrCreate lookup create s = (Err e, t) \<and> trace t = trace s"
  using assms reads_only_trace [OF lookup_reads] by (auto simp: getOrCreate_def bind_def)

end

section \<open>Calls that do not panic\<close>

named_theorems panic_intros \<open>calls that do not panic\<close>

definition no_panic :: "('s, 'a) go \<Rightarrow> bool" where
  "no_panic m \<longleftrightarrow> (\<forall>s. fst (m s) \<noteq> Panic)"

lemma no_panic_pure [panic_intros]:
  "no_panic (ret x)" "no_panic (throw e)" "no_panic (gets g)" "no_panic (modify h)" "no_panic (lift_sum r)"
  by (simp_all add: no_panic_def go_defs split: sum.split)

lemma no_panic_sdk [panic_intros]: "no_panic (sdk_read f)" "no_panic (sdk_call ev f)"
  by (simp_all add: no_panic_def sdk_read_def sdk_call_def api_result_def split: prod.split sum.split)

lemma no_panic_deref: "p \<noteq> None \<Longrightarrow> no_panic (deref p)"
  by (auto simp: no_panic_pure)

lemma no_panic_lift_outcome: "q \<noteq> Panic \<Longrightarrow> no_panic (lift_outcome q)"
  by (simp add: no_panic_def lift_outcome_def)

lemma no_panic_bind [panic_intros]: "no_panic m \<Longrightarrow> (\<And>x. no_panic (f x)) \<Longrightarrow> no_panic (bind m f)"
  unfolding no_panic_def bind_def by (auto split: prod.splits outcome.splits) (metis fst_conv)+

lemma no_panic_handled [panic_intros]:
  "no_panic m \<Longrightarrow> no_panic (attempt m)" "no_panic m \<Longrightarrow> no_panic (wrapping msg m)"
  "no_panic m \<Longrightarrow> no_panic (optional m)"
  unfolding no_panic_def optional_def attempt_def wrapping_def bind_def ret_def throw_def
  by (auto split: prod.splits outcome.splits) (metis fst_conv)+

lemma no_panic_branches [panic_intros]:
  "(b \<Longrightarrow> no_panic m) \<Longrightarrow> (\<not> b \<Longrightarrow> no_panic n) \<Longrightarrow> no_panic (if b then m else n)"
  "(p = None \<Longrightarrow> no_panic m) \<Longrightarrow> (\<And>y. p = Some y \<Longrightarrow> no_panic (k y)) \<Longrightarrow>
     no_panic (case p of None \<Rightarrow> m | Some y \<Rightarrow> k y)"
  by (simp_all split: option.split)

lemma no_panic_for_each [panic_intros]:
  "(\<And>x. x \<in> set xs \<Longrightarrow> no_panic (f x)) \<Longrightarrow> no_panic (for_each f xs)"
  by (induction xs) (auto intro!: panic_intros)

lemma no_panic_getOrCreate [panic_intros]:
  "no_panic lookup \<Longrightarrow> no_panic create \<Longrightarrow> no_panic (getOrCreate lookup create)"
  unfolding getOrCreate_def by (intro panic_intros)

lemma no_panic_first_match [panic_intros]: "no_panic (first_match P xs)" "no_panic (only_item ys)"
  by (simp_all add: first_match_def only_item_def no_panic_pure split: option.split list.split)

lemmas find_defs = FindInstanceByName_def FindIPByTags_def FindPrivateNICByPNID_def
  FindSecurityGroupByName_def FindIPv4ByInstancePrivateNICID_def FindLoadBalancerByName_def
  FindLoadBalancerIP_def FindLoadBalancerACLByName_def FindPrivateNetworkByName_def
  FindGatewayByName_def FindGatewayIP_def FindGatewayIPByTags_def FindGatewaysByPrivateNetworkID_def

lemma no_panic_find [panic_intros]:
  "no_panic (FindInstanceByName c zone name)" "no_panic (FindIPByTags c zone tags)"
  "no_panic (FindPrivateNICByPNID c server pnID)" "no_panic (FindSecurityGroupByName c zone name)"
  "no_panic (FindIPv4ByInstancePrivateNICID c region pnicID)" "no_panic (FindLoadBalancerByName c zone name)"
  "no_panic (FindLoadBalancerIP c zone ip)" "no_panic (FindLoadBalancerACLByName c zone frontendID name)"
  "no_panic (FindPrivateNetworkByName c region name)" "no_panic (FindGatewayByName c zone name)"
  "no_panic (FindGatewayIP c zone ip)" "no_panic (FindGatewayIPByTags c zone tags)"
  "no_panic (FindGatewaysByPrivateNetworkID c zones pnID)"
  unfolding find_defs by (intro panic_intros)+

lemma no_panic_find_by_names [panic_intros]:
  "no_panic (FindLoadBalancerBackendByNames c zone lbName name)"
  "no_panic (FindLoadBalancerFrontendByNames c zone lbName name)"
  unfolding FindLoadBalancerBackendByNames_def FindLoadBalancerFrontendByNames_def
  by (intro panic_intros)+

text \<open>At one state: what the call reads there may be what excludes the panic.\<close>

definition no_panic_at :: "('s, 'a) go \<Rightarrow> 's \<Rightarrow> bool" where
  "no_panic_at m s \<longleftrightarrow> fst (m s) \<noteq> Panic"

lemma no_panic_atI: "no_panic m \<Longrightarrow> no_panic_at m s"
  by (simp add: no_panic_def no_panic_at_def)

lemma no_panic_at_gets: "no_panic_at (f (g s)) s \<Longrightarrow> no_panic_at (bind (gets g) f) s"
  by (simp add: no_panic_at_def bind_def gets_def)

lemma no_panic_at_bind:
  "no_panic_at m s \<Longrightarrow> (\<And>x t. m s = (Ok x, t) \<Longrightarrow> no_panic_at (f x) t) \<Longrightarrow> no_panic_at (bind m f) s"
  by (auto simp: no_panic_at_def bind_def split: prod.splits outcome.splits)

lemma no_panic_at_wrapping: "no_panic_at m s \<Longrightarrow> no_panic_at (wrapping msg m) s"
  by (auto simp: no_panic_at_def wrapping_def split: prod.splits outcome.splits)

lemma no_panic_at_if:
  "(b \<Longrightarrow> no_panic_at m s) \<Longrightarrow> (\<not> b \<Longrightarrow> no_panic_at n s) \<Longrightarrow> no_panic_at (if b then m else n) s"
  by simp

lemma no_panic_at_getOrCreate:
  "no_panic_at lookup s \<Longrightarrow> (\<And>t. lookup s = (Ok None, t) \<Longrightarrow> no_panic_at create t) \<Longrightarrow>
   no_panic_at (getOrCreate lookup create) s"
  unfolding getOrCreate_def
  by (rule no_panic_at_bind) (auto intro: no_panic_atI panic_intros split: option.split)

text \<open>Evaluating a run on a concrete state.\<close>

lemmas run_defs = go_defs lift_outcome_def sdk_read_def sdk_call_def getOrCreate_def first_match_def
  only_item_def find_defs FindLoadBalancerBackendByNames_def FindLoadBalancerFrontendByNames_def
  ShouldManagePrivateNetwork_def HasPrivateNetwork_def HasPublicGateway_def privateNetworkSpec_def
  publicGatewaySpec_def Region_def Name_def DefaultZone_def Let_def

section \<open>Services of the cluster controller\<close>

text \<open>
  The parts of the cluster object that a service leaves alone: its metadata, its spec but for
  the control plane endpoint, and its readiness.
\<close>

definition cluster_frame :: "ScalewayCluster \<Rightarrow> ObjectMeta \<times> ScalewayClusterSpec \<times> bool" where
  "cluster_frame c = (sc_Meta c, (sc_Spec c)\<lparr>spec_ControlPlaneEndpoint := \<lparr>ep_Host = [], ep_Port = 0\<rparr>\<rparr>,
     cst_Ready (sc_Status c))"

locale cluster_service =
  fixes reconcile :: "(('w, 'z) ClusterScope_scheme, unit) go"
    and delete :: "(('w, 'z) ClusterScope_scheme, unit) go"
    and creates :: "call set"
    and deletes :: "call set"
  assumes reconcile_emits: "emits trace creates reconcile"
    and delete_emits: "emits trace deletes delete"
    and reconcile_frame: "keeps (\<lambda>s. cluster_frame (scope_ScalewayCluster s)) reconcile"
    and delete_cluster: "keeps scope_ScalewayCluster delete"
begin

lemma reconcile_meta: "keeps (\<lambda>s. sc_Meta (scope_ScalewayCluster s)) reconcile"
  using reconcile_frame by (auto simp: keeps_def cluster_frame_def)

lemma reconcile_ready: "keeps (\<lambda>s. cst_Ready (sc_Status (scope_ScalewayCluster s))) reconcile"
  using reconcile_frame by (auto simp: keeps_def cluster_frame_def)

lemma delete_frame: "keeps (\<lambda>s. g (scope_ScalewayCluster s)) delete"
  by (rule keeps_comp [OF delete_cluster])

lemma reconcile_then:
  "emits trace D m \<Longrightarrow> emits trace (creates \<union> D) (bind reconcile (\<lambda>_. m))"
  by (intro emit_intros emits_mono [OF reconcile_emits]) (auto intro: emits_mono)

lemma delete_then:
  "emits trace D m \<Longrightarrow> emits trace (deletes \<union> D) (bind delete (\<lambda>_. m))"
  by (intro emit_intros emits_mono [OF delete_emits]) (auto intro: emits_mono)

end

end
