(* ===== verification/Example_Cloud.thy ===== *)
theory Example_Cloud
  imports Services Example_Objects
begin

text \<open>
  A cloud at which theorems with hypotheses about the SDK are applied: every API answers with
  an error unless a witness replaces it. No definition of the model uses it.
\<close>

definition down :: "('w, 'r) act" where
  "down = (\<lambda>w. (Inl (ApiOther ''unavailable''), w))"

definition down_instance :: "'w instance_API" where
  "down_instance = \<lparr>instance_Zones = [''fr-par-1''], instance_ListServers = (\<lambda>_ _. down),
     instance_ListIPs = (\<lambda>_ _. down), instance_ListPrivateNICs = (\<lambda>_ _. down),
     instance_ListSecurityGroups = (\<lambda>_ _ _. down), instance_ListSecurityGroupRules = (\<lambda>_ _. down),
     instance_GetAllServerUserData = (\<lambda>_ _. down), instance_CreateIP = (\<lambda>_ _. down),
     instance_CreateServer = (\<lambda>_. down), instance_CreatePrivateNIC = (\<lambda>_ _ _. down),
     instance_SetServerUserData = (\<lambda>_ _ _ _. down), instance_ServerAction = (\<lambda>_ _ _. down),
     instance_DeleteIP = (\<lambda>_ _. down), instance_DetachVolume = (\<lambda>_ _. down),
     instance_DeleteVolume = (\<lambda>_ _. down), instance_DeleteServer = (\<lambda>_ _. down),
     instance_CreateSecurityGroup = (\<lambda>_. down), instance_UpdateSecurityGroup = (\<lambda>_. down),
     instance_DeleteSecurityGroup = (\<lambda>_ _. down), instance_SetSecurityGroupRules = (\<lambda>_. down)\<rparr>"

definition down_lb :: "'w lb_API" where
  "down_lb = \<lparr>lb_ListLBs = (\<lambda>_ _. down), lb_ListBackends = (\<lambda>_ _ _. down),
     lb_ListFrontends = (\<lambda>_ _ _. down), lb_ListIPs = (\<lambda>_ _ _. down), lb_ListACLs = (\<lambda>_ _ _. down),
     lb_ListLBPrivateNetworks = (\<lambda>_ _. down), lb_CreateLB = (\<lambda>_ _ _ _. down),
     lb_AttachPrivateNetwork = (\<lambda>_ _ _. down), lb_CreateBackend = (\<lambda>_. down),
     lb_DeleteBackend = (\<lambda>_ _. down), lb_CreateFrontend = (\<lambda>_. down), lb_DeleteFrontend = (\<lambda>_ _. down),
     lb_CreateACL = (\<lambda>_ _ _. down), lb_UpdateACL = (\<lambda>_ _ _. down), lb_DeleteACL = (\<lambda>_ _. down),
     lb_DeleteLB = (\<lambda>_ _ _. down), lb_AddBackendServers = (\<lambda>_ _ _. down),
     lb_RemoveBackendServers = (\<lambda>_ _ _. down)\<rparr>"

definition down_vpc :: "'w vpc_API" where
  "down_vpc = \<lparr>vpc_ListPrivateNetworks = (\<lambda>_ _ _. down), vpc_CreatePrivateNetwork = (\<lambda>_ _ _. down),
     vpc_DeletePrivateNetwork = (\<lambda>_ _. down)\<rparr>"

definition down_vpcgw :: "'w vpcgw_API" where
  "down_vpcgw = \<lparr>vpcgw_Zones = [''fr-par-1''], vpcgw_ListGateways = (\<lambda>_. down), vpcgw_ListIPs = (\<lambda>_ _ _ _. down),
     vpcgw_ListGatewayNetworks = (\<lambda>_ _ _. down), vpcgw_CreateIP = (\<lambda>_ _. down),
     vpcgw_CreateGateway = (\<lambda>_ _ _ _. down), vpcgw_CreateGatewayNetwork = (\<lambda>_. down),
     vpcgw_DeleteGateway = (\<lambda>_ _. down), vpcgw_DeleteIP = (\<lambda>_ _. down)\<rparr>"

definition down_client :: "'w Client" where
  "down_client = \<lparr>cl_ProjectID = ''project'', cl_LoadBalancer = down_lb, cl_Instance = down_instance,
     cl_Marketplace = \<lparr>marketplace_GetLocalImageByLabel = (\<lambda>_ _ _. down)\<rparr>, cl_VPC = down_vpc,
     cl_VPCGW = down_vpcgw, cl_IPAM = \<lparr>ipam_ListIPs = (\<lambda>_ _ _ _. down)\<rparr>, cl_PublicGateway = down_vpcgw\<rparr>"

definition ex_scope :: "ScalewayCluster \<Rightarrow> 'w \<Rightarrow> 'w ClusterScope" where
  "ex_scope sc w = \<lparr>world = w, trace = [], scope_ScalewayCluster = sc, scope_InfrastructureReady = False\<rparr>"

text \<open>A cluster that asks for a managed private network.\<close>

definition ex_pn_cluster :: ScalewayCluster where
  "ex_pn_cluster = ex_cluster\<lparr>sc_Spec := ex_spec\<lparr>spec_Network := Some \<lparr>ns_PrivateNetwork =
     Some \<lparr>pns_Enabled = True, pns_ID = None, pns_Subnet = None\<rparr>, ns_PublicGateway = None,
     ns_SecurityGroups = []\<rparr>\<rparr>\<rparr>"

lemmas ex_cloud = ex_objects down_def down_instance_def down_lb_def down_vpc_def down_vpcgw_def
  down_client_def ex_scope_def ex_pn_cluster_def

end
