(* ===== verification/Load_Balancer_ACL.thy ===== *)
theory Load_Balancer_ACL
  imports Example_Cloud
begin

text \<open>
  Access control lists of the load balancer. Two services keep an ACL: the load balancer
  service (\<^verbatim>\<open>ensureACL\<close>) for the allowed ranges, the gateways and the final deny rule, and the
  instance service for the public IP of a machine. Both find the ACL by name and delete, create
  or update it. What they have in common is the interface \<open>acl_keeper\<close>: the calls follow a plan
  that depends only on the ACL that was found.
\<close>

section \<open>Comparing the addresses of an ACL\<close>

text \<open>
  \<^verbatim>\<open>slices.Equal(scw.StringSlicePtr(ips), acl.Match.IPSubnet)\<close> compares slices of pointers: Go's
  \<^verbatim>\<open>==\<close> on pointers compares addresses.
\<close>

definition slices_Equal_ptr :: "strptr list \<Rightarrow> strptr list \<Rightarrow> bool" where
  "slices_Equal_ptr a b \<longleftrightarrow> map fst a = map fst b"

definition acl_differs :: "SDK \<Rightarrow> string list \<Rightarrow> ACL \<Rightarrow> bool" where
  "acl_differs sdk ips acl = (case acl_Match acl of
     None \<Rightarrow> True
   | Some subnet \<Rightarrow> \<not> slices_Equal_ptr (scw_StringSlicePtr sdk subnet ips) subnet)"

text \<open>
  Documented behaviour of \<^verbatim>\<open>StringSlicePtr\<close>: it points to the given strings, in order, and
  never into the memory of a response.
\<close>

definition fresh_pointers :: "SDK \<Rightarrow> bool" where
  "fresh_pointers sdk \<longleftrightarrow> (\<forall>live ips. map snd (scw_StringSlicePtr sdk live ips) = ips
     \<and> set (map fst (scw_StringSlicePtr sdk live ips)) \<inter> set (map fst live) = {})"

lemma max_le: "x \<in> set xs \<Longrightarrow> x \<le> foldr max xs (0 :: nat)"
  by (induction xs) auto

lemma fresh_pointers_ex_sdk: "fresh_pointers ex_sdk"
  unfolding fresh_pointers_def
proof (intro allI conjI)
  fix live :: "strptr list" and ips :: "string list"
  show "map snd (scw_StringSlicePtr ex_sdk live ips) = ips"
    by (simp add: ex_sdk_def del: upt_Suc)
  have "x \<notin> set (map fst live)" if "x \<in> set (map fst (scw_StringSlicePtr ex_sdk live ips))" for x
    using that max_le [of x "map fst live"]
    by (auto simp: ex_sdk_def simp del: upt_Suc dest!: set_zip_leftD)
  then show "set (map fst (scw_StringSlicePtr ex_sdk live ips)) \<inter> set (map fst live) = {}" by blast
qed

lemma acl_always_differs:
  assumes "fresh_pointers sdk" and "ips \<noteq> []"
  shows "acl_differs sdk ips acl"
proof (cases "acl_Match acl")
  case (Some subnet)
  have "scw_StringSlicePtr sdk subnet ips \<noteq> []"
    using assms unfolding fresh_pointers_def by (metis list.map_disc_iff)
  moreover have "set (map fst (scw_StringSlicePtr sdk subnet ips)) \<inter> set (map fst subnet) = {}"
    using assms(1) unfolding fresh_pointers_def by blast
  ultimately have "map fst (scw_StringSlicePtr sdk subnet ips) \<noteq> map fst subnet"
    by (cases "scw_StringSlicePtr sdk subnet ips") force+
  with Some show ?thesis by (simp add: acl_differs_def slices_Equal_ptr_def)
qed (simp add: acl_differs_def)

section \<open>The plan\<close>

definition acl_plan :: "zone \<Rightarrow> string \<Rightarrow> ACLRequest \<Rightarrow> ACL option \<Rightarrow> call list" where
  "acl_plan zone frontendID req found = (case found of
     None \<Rightarrow> if ar_IPSubnet req = [] then [] else [CallCreateACL zone frontendID req]
   | Some acl \<Rightarrow> if ar_IPSubnet req = [] then [CallDeleteACL zone (acl_ID acl)]
       else [CallUpdateACL zone (acl_ID acl) req])"

text \<open>The calls that a plan can consist of.\<close>

definition acl_calls :: "zone \<Rightarrow> string \<Rightarrow> ACLRequest \<Rightarrow> call set" where
  "acl_calls zone frontendID req = (if ar_IPSubnet req = [] then {CallDeleteACL zone i |i. True}
     else insert (CallCreateACL zone frontendID req) {CallUpdateACL zone i req |i. True})"

lemma plan_calls: "set (acl_plan zone frontendID req found) \<subseteq> acl_calls zone frontendID req"
  by (auto simp: acl_plan_def acl_calls_def split: option.splits)

lemma plan_length: "length (acl_plan zone frontendID req found) \<le> 1"
  by (simp add: acl_plan_def split: option.split)

text \<open>
  A keeper of the ACL \<open>ar_Name req\<close>: it either fails without a call, or finds out whether the ACL
  exists and then follows the plan, perhaps leaving out an update. It never panics.
\<close>

locale acl_keeper =
  fixes keep :: "(('w, 'z) env_scheme, unit) go"
    and zone :: zone
    and frontendID :: string
    and req :: ACLRequest
    and differs :: "ACL \<Rightarrow> bool"
  assumes keep_run: "keep s = (r, t) \<Longrightarrow>
      made s [] t \<and> (\<exists>e. r = Err e)
    \<or> (\<exists>found. (case found of None \<Rightarrow> True | Some acl \<Rightarrow> acl_Name acl = ar_Name req)
        \<and> (made s (acl_plan zone frontendID req found) t
           \<or> made s [] t \<and> (\<exists>acl. found = Some acl \<and> ar_IPSubnet req \<noteq> [] \<and> \<not> differs acl)))"
    and keep_no_panic: "no_panic keep"
begin

lemma keep_made: "keep s = (r, t) \<Longrightarrow> \<exists>es. made s es t \<and> set es \<subseteq> acl_calls zone frontendID req \<and> length es \<le> 1"
  using keep_run [of s r t] plan_calls [of zone frontendID req] plan_length [of zone frontendID req] by fastforce

lemma keep_emits: "emits trace (acl_calls zone frontendID req) keep"
  unfolding emits_def
proof
  fix s
  obtain r t where "keep s = (r, t)" by fastforce
  with keep_made [OF this] show "\<exists>es. trace (snd (keep s)) = trace s @ es \<and> set es \<subseteq> acl_calls zone frontendID req"
    by (auto dest!: made_trace)
qed

lemma keep_established:
  assumes "keep s = (Ok (), t)" and "ar_IPSubnet req \<noteq> []" and "\<And>acl. differs acl"
  shows "made s [CallCreateACL zone frontendID req] t \<or> (\<exists>i. made s [CallUpdateACL zone i req] t)"
  using keep_run [OF assms(1)] assms(2,3) by (auto simp: acl_plan_def split: option.splits)

lemma keep_removed:
  assumes "keep s = (Ok (), t)" and "ar_IPSubnet req = []"
  shows "made s [] t \<or> (\<exists>acl :: ACL. acl_Name acl = ar_Name req \<and> made s [CallDeleteACL zone (acl_ID acl)] t)"
  using keep_run [OF assms(1)] assms(2) by (auto simp: acl_plan_def split: option.splits)

end

end
