(* ===== verification/Loadbalancer.thy ===== *)
theory Loadbalancer
  imports Load_Balancer_ACL "HOL-Library.Sublist"
begin

text \<open>
  The load balancer service (\<^verbatim>\<open>internal/service/scaleway/loadbalancer\<close>): the load balancer of
  the control plane, its backend, frontend and ACLs, and the endpoint of the cluster.
\<close>

definition ControlPlaneBackendName :: string where
  "ControlPlaneBackendName = ''control-plane''"

definition ControlPlaneFrontendName :: string where
  "ControlPlaneFrontendName = ''control-plane''"

definition BackendControlPlanePort :: "32 word" where
  "BackendControlPlanePort = 6443"

definition DefaultFrontendControlPlanePort :: "32 word" where
  "DefaultFrontendControlPlanePort = 6443"

section \<open>The load balancer\<close>

text \<open>\<^verbatim>\<open>Spec.ControlPlaneLoadBalancer.IP\<close>, if both pointers are set.\<close>

definition loadBalancerIP :: "ScalewayCluster \<Rightarrow> string option" where
  "loadBalancerIP sc = Option.bind (spec_ControlPlaneLoadBalancer (sc_Spec sc)) lbs_IP"

definition lookupLB :: "'w Client \<Rightarrow> zone \<Rightarrow> (('w, 'z) ClusterScope_scheme, LB option) go" where
  "lookupLB c zone =
     bind (gets scope_ScalewayCluster) (\<lambda>sc. optional (FindLoadBalancerByName c zone (Name sc)))"

definition findLBIPID :: "'w Client \<Rightarrow> zone \<Rightarrow> string option \<Rightarrow> (('w, 'z) ClusterScope_scheme, string option) go" where
  "findLBIPID c zone ip = (case ip of
     None \<Rightarrow> ret None
   | Some i \<Rightarrow> bind (wrapping ''failed to find IP'' (FindLoadBalancerIP c zone i)) (\<lambda>found. ret (Some (lbip_ID found))))"

definition createLB :: "'w Client \<Rightarrow> zone \<Rightarrow> (('w, 'z) ClusterScope_scheme, LB) go" where
  "createLB c zone =
     bind (gets scope_ScalewayCluster) (\<lambda>sc.
     bind (findLBIPID c zone (loadBalancerIP sc)) (\<lambda>ipID.
     sdk_call (CallCreateLB zone (Name sc) (LoadBalancerType sc) ipID)
       (lb_CreateLB (cl_LoadBalancer c) zone (Name sc) (LoadBalancerType sc) ipID)))"

definition getOrCreateLB :: "'w Client \<Rightarrow> zone \<Rightarrow> (('w, 'z) ClusterScope_scheme, LB) go" where
  "getOrCreateLB c zone = getOrCreate (lookupLB c zone) (createLB c zone)"

definition ensurePrivateNetwork :: "'w Client \<Rightarrow> LB \<Rightarrow> string option \<Rightarrow> (('w, 'z) ClusterScope_scheme, unit) go" where
  "ensurePrivateNetwork c loadbalancer pnID = (case pnID of
     None \<Rightarrow> ret ()
   | Some pn \<Rightarrow>
       bind (sdk_read (lb_ListLBPrivateNetworks (cl_LoadBalancer c) (lb_Zone loadbalancer) (lb_ID loadbalancer))) (\<lambda>lbPNs.
       if pn \<in> set lbPNs then ret ()
       else sdk_call (CallAttachPrivateNetwork (lb_Zone loadbalancer) (lb_ID loadbalancer) pn)
         (lb_AttachPrivateNetwork (cl_LoadBalancer c) (lb_Zone loadbalancer) (lb_ID loadbalancer) pn)))"

section \<open>Backend and frontend\<close>

text \<open>
  The loop of \<^verbatim>\<open>ensureBackend\<close> and \<^verbatim>\<open>ensureFrontend\<close>: remember the candidate with the wanted
  name, delete the others.
\<close>

fun keep_named :: "('a \<Rightarrow> bool) \<Rightarrow> ('a \<Rightarrow> ('s, unit) go) \<Rightarrow> 'a option \<Rightarrow> 'a list \<Rightarrow> ('s, 'a option) go" where
  "keep_named wanted delete kept [] = ret kept"
| "keep_named wanted delete kept (x # xs) =
     (if wanted x then keep_named wanted delete (Some x) xs
      else bind (delete x) (\<lambda>_. keep_named wanted delete kept xs))"

definition backendRequest :: "LB \<Rightarrow> CreateBackendRequest" where
  "backendRequest loadbalancer = \<lparr>cb_Zone = lb_Zone loadbalancer, cb_LBID = lb_ID loadbalancer,
     cb_Name = ControlPlaneBackendName, cb_ForwardPort = BackendControlPlanePort,
     cb_HealthCheckPort = BackendControlPlanePort, cb_CheckMaxRetries = 5\<rparr>"

definition ensureBackend :: "'w Client \<Rightarrow> LB \<Rightarrow> (('w, 'z) ClusterScope_scheme, Backend) go" where
  "ensureBackend c loadbalancer =
     bind (sdk_read (lb_ListBackends (cl_LoadBalancer c) (lb_Zone loadbalancer) (lb_ID loadbalancer) None)) (\<lambda>backends.
     bind (keep_named (\<lambda>b. be_Name b = ControlPlaneBackendName)
         (\<lambda>b. sdk_call (CallDeleteBackend (lb_Zone loadbalancer) (be_ID b))
            (lb_DeleteBackend (cl_LoadBalancer c) (lb_Zone loadbalancer) (be_ID b)))
         None backends) (\<lambda>backend.
     case backend of
       Some b \<Rightarrow> ret b
     | None \<Rightarrow> sdk_call (CallCreateBackend (backendRequest loadbalancer))
         (lb_CreateBackend (cl_LoadBalancer c) (backendRequest loadbalancer))))"

definition frontendRequest :: "LB \<Rightarrow> Backend \<Rightarrow> CreateFrontendRequest" where
  "frontendRequest loadbalancer backend = \<lparr>cf_Zone = lb_Zone loadbalancer, cf_LBID = lb_ID loadbalancer,
     cf_Name = ControlPlaneFrontendName, cf_InboundPort = DefaultFrontendControlPlanePort,
     cf_BackendID = be_ID backend\<rparr>"

definition ensureFrontend :: "'w Client \<Rightarrow> LB \<Rightarrow> Backend \<Rightarrow> (('w, 'z) ClusterScope_scheme, Frontend) go" where
  "ensureFrontend c loadbalancer backend =
     bind (sdk_read (lb_ListFrontends (cl_LoadBalancer c) (lb_Zone loadbalancer) (lb_ID loadbalancer) None)) (\<lambda>frontends.
     bind (keep_named (\<lambda>f. fe_Name f = ControlPlaneFrontendName)
         (\<lambda>f. sdk_call (CallDeleteFrontend (lb_Zone loadbalancer) (fe_ID f))
            (lb_DeleteFrontend (cl_LoadBalancer c) (lb_Zone loadbalancer) (fe_ID f)))
         None frontends) (\<lambda>frontend.
     case frontend of
       Some f \<Rightarrow> ret f
     | None \<Rightarrow> sdk_call (CallCreateFrontend (frontendRequest loadbalancer backend))
         (lb_CreateFrontend (cl_LoadBalancer c) (frontendRequest loadbalancer backend))))"

section \<open>ACLs\<close>

definition aclRequest :: "string \<Rightarrow> string list \<Rightarrow> bool \<Rightarrow> 32 word \<Rightarrow> ACLRequest" where
  "aclRequest name ips deny index = \<lparr>ar_Name = name,
     ar_Action = (if deny then ACLActionTypeDeny else ACLActionTypeAllow),
     ar_IPSubnet = ips, ar_Index = index\<rparr>"

definition ensureACL ::
  "'w Client \<Rightarrow> SDK \<Rightarrow> zone \<Rightarrow> string \<Rightarrow> string \<Rightarrow> string list \<Rightarrow> bool \<Rightarrow> 32 word
     \<Rightarrow> (('w, 'z) ClusterScope_scheme, unit) go" where
  "ensureACL c sdk zone frontendID name ips deny index =
     bind (optional (FindLoadBalancerACLByName c zone frontendID name)) (\<lambda>acl.
     if ips = [] then
       (case acl of
          None \<Rightarrow> ret ()
        | Some a \<Rightarrow> sdk_call (CallDeleteACL zone (acl_ID a)) (lb_DeleteACL (cl_LoadBalancer c) zone (acl_ID a)))
     else
       (case acl of
          None \<Rightarrow> sdk_call (CallCreateACL zone frontendID (aclRequest name ips deny index))
            (lb_CreateACL (cl_LoadBalancer c) zone frontendID (aclRequest name ips deny index))
        | Some a \<Rightarrow>
            if acl_differs sdk ips a then
              sdk_call (CallUpdateACL zone (acl_ID a) (aclRequest name ips deny index))
                (lb_UpdateACL (cl_LoadBalancer c) zone (acl_ID a) (aclRequest name ips deny index))
            else ret ()))"

definition allowedRanges :: "ScalewayCluster \<Rightarrow> string list" where
  "allowedRanges sc = (case spec_ControlPlaneLoadBalancer (sc_Spec sc) of None \<Rightarrow> [] | Some l \<Rightarrow> lbs_AllowedRanges l)"

definition denyAll :: "ScalewayCluster \<Rightarrow> string list" where
  "denyAll sc = (if allowedRanges sc = [] then [] else [''0.0.0.0/0'', ''::/0''])"

definition gateway_ips :: "Gateway list \<Rightarrow> string list" where
  "gateway_ips gws = concat (map (\<lambda>gw. case gw_IP gw of None \<Rightarrow> [] | Some ip \<Rightarrow> [IP_String (gip_Address ip)]) gws)"

text \<open>The part of \<^verbatim>\<open>ensureACLs\<close> that sets the ACL of the public gateways.\<close>

definition ensureGatewayACL ::
  "'w Client \<Rightarrow> SDK \<Rightarrow> ScalewayCluster \<Rightarrow> Frontend \<Rightarrow> string option \<Rightarrow> (('w, 'z) ClusterScope_scheme, unit) go" where
  "ensureGatewayACL c sdk sc frontend pnID = (case pnID of
     Some pn \<Rightarrow>
       if HasPrivateNetwork sc then
         bind (FindGatewaysByPrivateNetworkID c (Zones sdk sc (vpcgw_Zones (cl_VPCGW c))) pn) (\<lambda>gws.
         ensureACL c sdk (LoadBalancerZone sc) (fe_ID frontend) ''public-gateway'' (gateway_ips gws) False 2)
       else ret ()
   | None \<Rightarrow> ret ())"

definition ensureACLs ::
  "'w Client \<Rightarrow> SDK \<Rightarrow> Frontend \<Rightarrow> string option \<Rightarrow> (('w, 'z) ClusterScope_scheme, unit) go" where
  "ensureACLs c sdk frontend pnID =
     bind (gets scope_ScalewayCluster) (\<lambda>sc.
     let zone = LoadBalancerZone sc in
     bind (wrapping ''failed to set allowed-ranges ACL''
         (ensureACL c sdk zone (fe_ID frontend) ''allowed-ranges'' (allowedRanges sc) False 1)) (\<lambda>_.
     bind (ensureGatewayACL c sdk sc frontend pnID) (\<lambda>_.
     ensureACL c sdk zone (fe_ID frontend) ''deny-all'' (denyAll sc) True 4)))"

section \<open>Reconcile and Delete\<close>

fun endpoint_ip :: "LBIP list \<Rightarrow> go_error + string" where
  "endpoint_ip [] = Inl (ErrNew ''loadbalancer has no IPs'')"
| "endpoint_ip (ip # ips) = (case netip_ParseAddr (lbip_IPAddress ip) of
     Inl e \<Rightarrow> Inl (Wrap ''failed to parse loadbalancer IP'' e)
   | Inr a \<Rightarrow> if addr_Is4 a then Inr (lbip_IPAddress ip) else endpoint_ip ips)"

definition SetControlPlaneEndpoint :: "string \<Rightarrow> 32 word \<Rightarrow> ScalewayCluster \<Rightarrow> ScalewayCluster" where
  "SetControlPlaneEndpoint host port sc =
     sc\<lparr>sc_Spec := (sc_Spec sc)\<lparr>spec_ControlPlaneEndpoint := \<lparr>ep_Host = host, ep_Port = port\<rparr>\<rparr>\<rparr>"

definition loadbalancer_Reconcile :: "'w Client \<Rightarrow> SDK \<Rightarrow> (('w, 'z) ClusterScope_scheme, unit) go" where
  "loadbalancer_Reconcile c sdk =
     bind (gets scope_ScalewayCluster) (\<lambda>sc.
     bind (getOrCreateLB c (LoadBalancerZone sc)) (\<lambda>loadbalancer.
     if lb_Status loadbalancer \<noteq> LBStatusReady then throw ErrLoadBalancerNotReady
     else
       bind (if HasPrivateNetwork sc then bind (lift_outcome (PrivateNetworkID sc)) (\<lambda>pn. ret (Some pn))
         else ret None) (\<lambda>pnID.
       bind (ensurePrivateNetwork c loadbalancer pnID) (\<lambda>_.
       bind (wrapping ''failed to ensure LoadBalancer backend'' (ensureBackend c loadbalancer)) (\<lambda>backend.
       bind (wrapping ''failed to ensure LoadBalancer frontend'' (ensureFrontend c loadbalancer backend)) (\<lambda>frontend.
       bind (wrapping ''failed to ensure LoadBalancer ACLs'' (ensureACLs c sdk frontend pnID)) (\<lambda>_.
       bind (lift_sum (endpoint_ip (lb_IP loadbalancer))) (\<lambda>host.
       modify (\<lambda>s. s\<lparr>scope_ScalewayCluster :=
         SetControlPlaneEndpoint host (fe_InboundPort frontend) (scope_ScalewayCluster s)\<rparr>)))))))))"

definition loadbalancer_Delete :: "'w Client \<Rightarrow> (('w, 'z) ClusterScope_scheme, unit) go" where
  "loadbalancer_Delete c =
     bind (gets scope_ScalewayCluster) (\<lambda>sc.
     bind (optional (FindLoadBalancerByName c (LoadBalancerZone sc) (Name sc))) (\<lambda>found.
     case found of
       None \<Rightarrow> ret ()
     | Some l \<Rightarrow>
         let releaseIP = (loadBalancerIP sc = None) in
         wrapping ''failed to delete load balancer''
           (sdk_call (CallDeleteLB (lb_Zone l) (lb_ID l) releaseIP)
             (lb_DeleteLB (cl_LoadBalancer c) (lb_Zone l) (lb_ID l) releaseIP))))"

section \<open>The interfaces\<close>

definition last_named :: "('a \<Rightarrow> bool) \<Rightarrow> 'a option \<Rightarrow> 'a list \<Rightarrow> 'a option" where
  "last_named wanted kept xs = (if filter wanted xs = [] then kept else Some (last (filter wanted xs)))"

lemma last_named_Cons:
  "last_named wanted kept (x # xs) = last_named wanted (if wanted x then Some x else kept) xs"
  by (simp add: last_named_def)

text \<open>
  The loop deletes the unwanted elements of a prefix of the list, in order; if it does not stop
  early the prefix is the whole list and the result is the last wanted element.
\<close>

lemma keep_named_made:
  assumes delete: "\<And>x s r t. delete x s = (r, t) \<Longrightarrow> made s [ev x] t"
    and "keep_named wanted delete kept xs s = (r, t)"
  shows "\<exists>ys. prefix ys xs \<and> made s (map ev (filter (\<lambda>x. \<not> wanted x) ys)) t
    \<and> (case r of Ok k \<Rightarrow> ys = xs \<and> k = last_named wanted kept xs | _ \<Rightarrow> True)"
  using assms(2)
proof (induction xs arbitrary: kept s)
  case Nil
  then show ?case by (auto simp: ret_def last_named_def)
next
  case (Cons x xs)
  show ?case
  proof (cases "wanted x")
    case True
    with Cons.prems Cons.IH [of "Some x" s] obtain ys where "prefix ys xs"
      "made s (map ev (filter (\<lambda>x. \<not> wanted x) ys)) t"
      "case r of Ok k \<Rightarrow> ys = xs \<and> k = last_named wanted (Some x) xs | _ \<Rightarrow> True" by auto
    with True show ?thesis
      by (intro exI [where x = "x # ys"]) (auto simp: last_named_Cons split: outcome.splits)
  next
    case False
    obtain q v where del: "delete x s = (q, v)" by fastforce
    note made_x = delete [OF del]
    show ?thesis
    proof (cases q)
      case (Ok u)
      with Cons.prems del False have "keep_named wanted delete kept xs v = (r, t)" by (simp add: bind_def)
      from Cons.IH [OF this] obtain ys where ys: "prefix ys xs"
        "made v (map ev (filter (\<lambda>x. \<not> wanted x) ys)) t"
        "case r of Ok k \<Rightarrow> ys = xs \<and> k = last_named wanted kept xs | _ \<Rightarrow> True" by auto
      from made_trans [OF made_x ys(2)] ys(1,3) False show ?thesis
        by (intro exI [where x = "x # ys"]) (auto simp: last_named_Cons split: outcome.splits)
    qed (use Cons.prems del False made_x in \<open>auto simp: bind_def intro!: exI [where x = "[x]"]\<close>)
  qed
qed

definition loadbalancer_creates :: "call set" where
  "loadbalancer_creates = {CallCreateLB z n t i |z n t i. True} \<union> {CallAttachPrivateNetwork z l p |z l p. True}
     \<union> range CallCreateBackend \<union> {CallDeleteBackend z i |z i. True}
     \<union> range CallCreateFrontend \<union> {CallDeleteFrontend z i |z i. True}
     \<union> {CallCreateACL z f r |z f r. True} \<union> {CallUpdateACL z i r |z i r. True} \<union> {CallDeleteACL z i |z i. True}"

definition loadbalancer_deletes :: "call set" where
  "loadbalancer_deletes = {CallDeleteLB z i b |z i b. True}"

lemma reads_findLBIPID [read_intros]: "reads_only (findLBIPID c zone ip)"
  unfolding findLBIPID_def by (cases ip) (auto intro!: read_intros)

interpretation load_balancer: get_or_create "lookupLB c zone" "createLB c zone"
  "{CallCreateLB z n t i |z n t i. True}" for c zone
proof
  show "reads_only (lookupLB c zone)" for c zone
    unfolding lookupLB_def by (intro read_intros)
  show "emits trace {CallCreateLB z n t i |z n t i. True} (createLB c zone)" for c zone
    unfolding createLB_def by (intro emit_intros reads_only_emits [OF reads_findLBIPID]) auto
  show "createLB c zone s = (Ok x, s') \<Longrightarrow> trace s' \<noteq> trace s" for c zone s x s'
    by (auto simp: createLB_def bind_Ok pure_Ok sdk_call_Ok dest!: reads_only_trace [OF reads_findLBIPID])
qed

interpretation lb_acl: acl_keeper "ensureACL c sdk zone frontendID name ips deny index" zone frontendID
  "aclRequest name ips deny index" "acl_differs sdk ips" for c sdk zone frontendID name ips deny index
proof
  fix s r t
  assume run: "ensureACL c sdk zone frontendID name ips deny index s = (r, t)"
  have reads: "reads_only (optional (FindLoadBalancerACLByName c zone frontendID name))" by (intro read_intros)
  show "made s [] t \<and> (\<exists>e. r = Err e)
    \<or> (\<exists>found. (case found of None \<Rightarrow> True | Some acl \<Rightarrow> acl_Name acl = ar_Name (aclRequest name ips deny index))
        \<and> (made s (acl_plan zone frontendID (aclRequest name ips deny index) found) t
           \<or> made s [] t \<and> (\<exists>acl. found = Some acl \<and> ar_IPSubnet (aclRequest name ips deny index) \<noteq> []
                \<and> \<not> acl_differs sdk ips acl)))"
    using run unfolding ensureACL_def
  proof (cases rule: bind_run)
    case (Ok found u)
    have read: "made s [] u" by (rule made_reads [OF reads Ok(1)])
    have name: "case found of None \<Rightarrow> True | Some acl \<Rightarrow> acl_Name acl = ar_Name (aclRequest name ips deny index)"
      using Ok(1) by (auto simp: ok_iffs aclRequest_def dest: acl_by_name.find_Ok_wanted split: option.splits)
    have "made u (acl_plan zone frontendID (aclRequest name ips deny index) found) t
        \<or> t = u \<and> (\<exists>acl. found = Some acl \<and> ips \<noteq> [] \<and> \<not> acl_differs sdk ips acl)"
      using Ok(2) by (auto simp: acl_plan_def aclRequest_def ret_def split: if_splits option.splits intro: made_call)
    with name show ?thesis
      using made_trans [OF read] read by (auto simp: aclRequest_def)
  next
    case (Err e)
    then show ?thesis using made_reads [OF reads] by blast
  next
    case Panic
    moreover have "no_panic (optional (FindLoadBalancerACLByName c zone frontendID name))" by (intro panic_intros)
    ultimately show ?thesis unfolding no_panic_def by (metis fst_conv)
  qed
next
  show "no_panic (ensureACL c sdk zone frontendID name ips deny index)"
    unfolding ensureACL_def by (intro panic_intros)
qed

lemma keeps_made: "(\<And>s r t. m s = (r, t) \<Longrightarrow> \<exists>es. made s es t) \<Longrightarrow> keeps scope_ScalewayCluster m"
  unfolding keeps_def by (metis made_cluster prod.collapse)

lemma keeps_ensureACL [keep_intros]: "keeps scope_ScalewayCluster (ensureACL c sdk zone frontendID name ips deny index)"
  by (rule keeps_made) (use lb_acl.keep_made in blast)

lemma emits_ensureACL [emit_intros]: "emits trace loadbalancer_creates (ensureACL c sdk zone frontendID name ips deny index)"
  by (rule emits_mono [OF lb_acl.keep_emits]) (auto simp: acl_calls_def loadbalancer_creates_def)

lemma emits_keep_named [emit_intros]:
  "(\<And>x. emits obs C (delete x)) \<Longrightarrow> emits obs C (keep_named wanted delete kept xs)"
  by (induction wanted delete kept xs rule: keep_named.induct) (auto intro!: emit_intros)

lemma keeps_keep_named [keep_intros]:
  "(\<And>x. keeps g (delete x)) \<Longrightarrow> keeps g (keep_named wanted delete kept xs)"
  by (induction wanted delete kept xs rule: keep_named.induct) (auto intro!: keep_intros)

lemma cluster_frame_SetEndpoint [simp]: "cluster_frame (SetControlPlaneEndpoint h p sc) = cluster_frame sc"
  by (simp add: cluster_frame_def SetControlPlaneEndpoint_def)

lemma keeps_lb_steps [keep_intros]:
  "keeps scope_ScalewayCluster (getOrCreateLB c zone)"
  "keeps scope_ScalewayCluster (ensurePrivateNetwork c l pn)"
  "keeps scope_ScalewayCluster (ensureBackend c l)"
  "keeps scope_ScalewayCluster (ensureFrontend c l b)"
  "keeps scope_ScalewayCluster (ensureACLs c sdk f pn)"
  unfolding getOrCreateLB_def lookupLB_def createLB_def findLBIPID_def ensurePrivateNetwork_def
    ensureBackend_def ensureFrontend_def ensureACLs_def ensureGatewayACL_def Let_def
  by (intro keep_intros; simp)+

lemma emits_lb_steps [emit_intros]:
  "emits trace loadbalancer_creates (ensurePrivateNetwork c l pn)"
  "emits trace loadbalancer_creates (ensureBackend c l)"
  "emits trace loadbalancer_creates (ensureFrontend c l b)"
  "emits trace loadbalancer_creates (ensureACLs c sdk f pn)"
  unfolding ensurePrivateNetwork_def ensureBackend_def ensureFrontend_def ensureACLs_def ensureGatewayACL_def Let_def
  by (intro emit_intros; auto simp: loadbalancer_creates_def)+

lemma emits_getOrCreateLB [emit_intros]: "emits trace loadbalancer_creates (getOrCreateLB c zone)"
  unfolding getOrCreateLB_def
  by (rule emits_mono [OF load_balancer.run_emits]) (auto simp: loadbalancer_creates_def)

interpretation loadbalancer: cluster_service "loadbalancer_Reconcile c sdk" "loadbalancer_Delete c"
  loadbalancer_creates loadbalancer_deletes for c sdk
proof
  show "emits trace loadbalancer_creates (loadbalancer_Reconcile c sdk)" for c sdk
    unfolding loadbalancer_Reconcile_def by (intro emit_intros) simp
  show "emits trace loadbalancer_deletes (loadbalancer_Delete c)" for c
    unfolding loadbalancer_Delete_def Let_def by (intro emit_intros) (auto simp: loadbalancer_deletes_def)
  show "keeps (\<lambda>s. cluster_frame (scope_ScalewayCluster s)) (loadbalancer_Reconcile c sdk)" for c sdk
    unfolding loadbalancer_Reconcile_def
    by (intro keep_intros keeps_lb_steps [THEN keeps_comp [where g = cluster_frame]]) simp_all
  show "keeps scope_ScalewayCluster (loadbalancer_Delete c)" for c
    unfolding loadbalancer_Delete_def Let_def by (intro keep_intros) simp_all
qed

section \<open>Facts\<close>

definition is_ipv4 :: "LBIP \<Rightarrow> bool option" where
  "is_ipv4 ip = (case netip_ParseAddr (lbip_IPAddress ip) of Inl _ \<Rightarrow> None | Inr a \<Rightarrow> Some (addr_Is4 a))"

definition first_ipv4 :: "LBIP list \<Rightarrow> LBIP \<Rightarrow> bool" where
  "first_ipv4 ips ip \<longleftrightarrow> (\<exists>before after. ips = before @ ip # after
     \<and> list_all (\<lambda>b. is_ipv4 b = Some False) before \<and> is_ipv4 ip = Some True)"

lemma first_ipv4_Cons:
  "first_ipv4 (x # xs) ip \<longleftrightarrow> is_ipv4 x = Some True \<and> ip = x \<or> is_ipv4 x = Some False \<and> first_ipv4 xs ip"
  (is "?L \<longleftrightarrow> ?R")
proof
  assume ?L
  then obtain before after where ip: "x # xs = before @ ip # after" "list_all (\<lambda>b. is_ipv4 b = Some False) before"
    "is_ipv4 ip = Some True" unfolding first_ipv4_def by blast
  then show ?R by (cases before) (auto simp: first_ipv4_def)
next
  assume ?R
  then show ?L
  proof (elim disjE conjE)
    assume "is_ipv4 x = Some True" "ip = x"
    then show ?L unfolding first_ipv4_def by (intro exI [where x = "[]"] exI [where x = xs]) auto
  next
    assume "is_ipv4 x = Some False" "first_ipv4 xs ip"
    then obtain before after where "xs = before @ ip # after" "list_all (\<lambda>b. is_ipv4 b = Some False) before"
      "is_ipv4 ip = Some True" unfolding first_ipv4_def by blast
    with \<open>is_ipv4 x = Some False\<close> show ?L
      unfolding first_ipv4_def by (intro exI [where x = "x # before"] exI [where x = after]) auto
  qed
qed

lemma endpoint_ip_first: "endpoint_ip ips = Inr h \<longleftrightarrow> (\<exists>ip. first_ipv4 ips ip \<and> h = lbip_IPAddress ip)"
proof (induction ips)
  case (Cons ip ips)
  then show ?case
    by (auto simp: first_ipv4_Cons is_ipv4_def split: sum.splits if_splits)
qed (simp add: first_ipv4_def)

text \<open>Both \<^verbatim>\<open>ensureBackend\<close> and \<^verbatim>\<open>ensureFrontend\<close>: list, keep the named one, delete the others, create it if missing.\<close>

lemma keep_or_create:
  assumes delete: "\<And>x s r t. delete x s = (r, t) \<Longrightarrow> made s [del x] t"
    and run: "bind (sdk_read f) (\<lambda>xs. bind (keep_named wanted delete None xs)
      (\<lambda>k. case k of Some x \<Rightarrow> ret x | None \<Rightarrow> sdk_call ev g)) s = (r, t)"
  shows "\<exists>xs ys new. prefix ys xs \<and> made s (map del (filter (\<lambda>x. \<not> wanted x) ys) @ new) t
    \<and> (case r of Ok x \<Rightarrow> fst (f (world s)) = Inr xs \<and> ys = xs
         \<and> (case last_named wanted None xs of Some y \<Rightarrow> x = y \<and> new = [] | None \<Rightarrow> new = [ev])
       | _ \<Rightarrow> new = [] \<or> new = [ev])"
  using run
proof (cases rule: bind_run)
  case (Ok xs u)
  have read: "made s [] u" "fst (f (world s)) = Inr xs" using Ok(1) by (auto simp: sdk_read_Ok made_def)
  show ?thesis
    using Ok(2)
  proof (cases rule: bind_run)
    case (Ok k v)
    from keep_named_made [of delete del, OF delete Ok(1)]
    have v: "made s (map del (filter (\<lambda>x. \<not> wanted x) xs)) v" "k = last_named wanted None xs"
      using made_trans [OF read(1)] by auto
    show ?thesis
    proof (cases k)
      case None
      then have "made v [ev] t" using Ok(2) by (auto intro: made_call)
      from made_trans [OF v(1) this] None v(2) read(2) show ?thesis
        by (intro exI [where x = xs] exI [where x = "[ev]"]) (auto split: outcome.split)
    next
      case (Some x)
      then have "r = Ok x" "t = v" using Ok(2) by (auto simp: ret_def)
      with v(1) v(2) [symmetric] Some read(2) show ?thesis
        by (intro exI [where x = xs] exI [where x = "[]"]) auto
    qed
  next
    case (Err e)
    from keep_named_made [where ev = del, OF _ Err(1)] delete obtain ys where
      "prefix ys xs" "made u (map del (filter (\<lambda>x. \<not> wanted x) ys)) t" by blast
    with made_trans [OF read(1) this(2)] Err(2) show ?thesis
      by (intro exI [where x = xs] exI [where x = ys] exI [where x = "[]"]) simp
  next
    case Panic
    from keep_named_made [where ev = del, OF _ Panic(1)] delete obtain ys where
      "prefix ys xs" "made u (map del (filter (\<lambda>x. \<not> wanted x) ys)) t" by blast
    with made_trans [OF read(1) this(2)] Panic(2) show ?thesis
      by (intro exI [where x = xs] exI [where x = ys] exI [where x = "[]"]) simp
  qed
qed (auto dest!: made_read intro!: exI [where x = "[]"])

section \<open>Properties\<close>

text \<open>
  C23: the endpoint of the cluster. If the load balancer is reconciled, it was ready, and the
  only change to the cluster object is that its endpoint now has the inbound port of the
  control plane frontend and the first address of the load balancer that is IPv4: every
  address before it parses and is not IPv4.
\<close>

theorem loadbalancer_Reconcile_endpoint:
  assumes "loadbalancer_Reconcile c sdk s = (Ok (), s')"
  shows "\<exists>l t pn t' b u f v ip.
     getOrCreateLB c (LoadBalancerZone (scope_ScalewayCluster s)) s = (Ok l, t) \<and> lb_Status l = LBStatusReady
   \<and> ensurePrivateNetwork c l pn t = (Ok (), t') \<and> ensureBackend c l t' = (Ok b, u)
   \<and> ensureFrontend c l b u = (Ok f, v)
   \<and> first_ipv4 (lb_IP l) ip
   \<and> scope_ScalewayCluster s'
       = SetControlPlaneEndpoint (lbip_IPAddress ip) (fe_InboundPort f) (scope_ScalewayCluster s)"
proof -
  let ?sc = "scope_ScalewayCluster s"
  from assms obtain l t pn u0 u1 b u f v w host
    where l: "getOrCreateLB c (LoadBalancerZone ?sc) s = (Ok l, t)" "lb_Status l = LBStatusReady"
    and pn: "(if HasPrivateNetwork ?sc then bind (lift_outcome (PrivateNetworkID ?sc)) (\<lambda>pn. ret (Some pn))
         else ret None) t = (Ok pn, u0)"
    and steps: "ensurePrivateNetwork c l pn u0 = (Ok (), u1)" "ensureBackend c l u1 = (Ok b, u)"
      "ensureFrontend c l b u = (Ok f, v)" "ensureACLs c sdk f pn v = (Ok (), w)"
    and ip: "endpoint_ip (lb_IP l) = Inr host"
    and s': "s' = w\<lparr>scope_ScalewayCluster := SetControlPlaneEndpoint host (fe_InboundPort f) (scope_ScalewayCluster w)\<rparr>"
    unfolding loadbalancer_Reconcile_def
    by (auto simp: bind_Ok pure_Ok wrapping_Ok lift_sum_Ok split: if_splits)
  have u0: "u0 = t"
    using pn by (auto simp: ok_iffs split: if_splits)
  then have "scope_ScalewayCluster w = ?sc"
    using keeps_lb_steps [THEN keepsD] l(1) steps by (metis snd_conv)
  moreover from ip obtain i where "first_ipv4 (lb_IP l) i" "host = lbip_IPAddress i"
    unfolding endpoint_ip_first by blast
  ultimately show ?thesis
    using l steps s' u0
    by (intro exI [where x = l] exI [where x = t] exI [where x = pn] exI [where x = u1] exI [where x = b]
        exI [where x = u] exI [where x = f] exI [where x = v] exI [where x = i]) simp
qed

text \<open>
  Keeping one backend. Whatever the outcome, the calls are deletions, in the order of the
  list, of backends that are not named like the control plane backend, and then at most the
  creation of that backend. If it succeeds, all such backends of the list were deleted; the
  result is the last one with the name, or else one was created, on port 6443.
\<close>

theorem ensureBackend_calls:
  "case ensureBackend c l s of (r, t) \<Rightarrow> \<exists>bs ys new. prefix ys bs
   \<and> made s (map (\<lambda>b. CallDeleteBackend (lb_Zone l) (be_ID b)) (filter (\<lambda>b. be_Name b \<noteq> ControlPlaneBackendName) ys) @ new) t
   \<and> (case r of
        Ok b \<Rightarrow> fst (lb_ListBackends (cl_LoadBalancer c) (lb_Zone l) (lb_ID l) None (world s)) = Inr bs \<and> ys = bs
          \<and> (case last_named (\<lambda>b. be_Name b = ControlPlaneBackendName) None bs of
               Some b' \<Rightarrow> b = b' \<and> new = [] | None \<Rightarrow> new = [CallCreateBackend (backendRequest l)])
      | _ \<Rightarrow> new = [] \<or> new = [CallCreateBackend (backendRequest l)])"
proof (cases "ensureBackend c l s")
  case (Pair r t)
  then show ?thesis
    using keep_or_create [where s = s and r = r and t = t and wanted = "\<lambda>b. be_Name b = ControlPlaneBackendName"
        and f = "lb_ListBackends (cl_LoadBalancer c) (lb_Zone l) (lb_ID l) None"
        and del = "\<lambda>b. CallDeleteBackend (lb_Zone l) (be_ID b)"
        and ev = "CallCreateBackend (backendRequest l)", OF made_call]
    unfolding ensureBackend_def by auto
qed

text \<open>A deny rule is created or updated.\<close>

definition denies :: "call \<Rightarrow> bool" where
  "denies ev = (case ev of CallCreateACL z f r \<Rightarrow> ar_Action r = ACLActionTypeDeny
     | CallUpdateACL z i r \<Rightarrow> ar_Action r = ACLActionTypeDeny | _ \<Rightarrow> False)"

lemma denies_acl_calls:
  "ev \<in> acl_calls zone fid (aclRequest name ips deny index) \<Longrightarrow> denies ev \<Longrightarrow> deny \<and> ips \<noteq> []"
  by (auto simp: acl_calls_def denies_def aclRequest_def split: if_splits)

lemma ensureGatewayACL_made:
  assumes "ensureGatewayACL c sdk sc frontend pnID s = (r, t)"
  shows "\<exists>es ips. made s es t
    \<and> set es \<subseteq> acl_calls (LoadBalancerZone sc) (fe_ID frontend) (aclRequest ''public-gateway'' ips False 2)"
proof (cases "\<exists>pn. pnID = Some pn \<and> HasPrivateNetwork sc")
  case True
  then obtain pn where "bind (FindGatewaysByPrivateNetworkID c (Zones sdk sc (vpcgw_Zones (cl_VPCGW c))) pn) (\<lambda>gws.
      ensureACL c sdk (LoadBalancerZone sc) (fe_ID frontend) ''public-gateway'' (gateway_ips gws) False 2) s = (r, t)"
    using assms by (auto simp: ensureGatewayACL_def)
  then show ?thesis
  proof (cases rule: bind_run)
    case (Ok gws u)
    have "made s [] u" by (rule made_reads [OF reads_FindGateways Ok(1)])
    then show ?thesis using lb_acl.keep_made [OF Ok(2)] made_trans by fastforce
  qed (use made_reads [OF reads_FindGateways] in fastforce)+
qed (use assms in \<open>auto simp: ensureGatewayACL_def ret_def intro!: exI [where x = "[]"] split: option.splits\<close>)

lemma ensureACLs_parts:
  assumes run: "ensureACLs c sdk frontend pnID s = (r, t)" and fresh: "fresh_pointers sdk"
    and sc: "sc = scope_ScalewayCluster s"
  shows "\<exists>allow gw deny. made s (allow @ gw @ deny) t
    \<and> set allow \<subseteq> acl_calls (LoadBalancerZone sc) (fe_ID frontend) (aclRequest ''allowed-ranges'' (allowedRanges sc) False 1)
    \<and> (\<exists>ips. set gw \<subseteq> acl_calls (LoadBalancerZone sc) (fe_ID frontend) (aclRequest ''public-gateway'' ips False 2))
    \<and> set deny \<subseteq> acl_calls (LoadBalancerZone sc) (fe_ID frontend) (aclRequest ''deny-all'' (denyAll sc) True 4)
    \<and> (deny = [] \<or> allowedRanges sc = [] \<or> (\<exists>ev. allow = [ev]))"
proof -
  let ?zone = "LoadBalancerZone sc" and ?fid = "fe_ID frontend"
  let ?A = "ensureACL c sdk ?zone ?fid ''allowed-ranges'' (allowedRanges sc) False 1"
  let ?D = "ensureACL c sdk ?zone ?fid ''deny-all'' (denyAll sc) True 4"
  have split: "bind (wrapping ''failed to set allowed-ranges ACL'' ?A)
      (\<lambda>_. bind (ensureGatewayACL c sdk sc frontend pnID) (\<lambda>_. ?D)) s = (r, t)"
    using run unfolding ensureACLs_def sc by (simp add: bind_def gets_def Let_def)
  obtain q u where A: "?A s = (q, u)" by fastforce
  from lb_acl.keep_made [OF A] obtain allow where allow: "made s allow u"
    "set allow \<subseteq> acl_calls ?zone ?fid (aclRequest ''allowed-ranges'' (allowedRanges sc) False 1)" by blast
  show ?thesis
  proof (cases q)
    case (Ok x)
    with split A have rest: "bind (ensureGatewayACL c sdk sc frontend pnID) (\<lambda>_. ?D) u = (r, t)"
      by (simp add: bind_def wrapping_def)
    have allow': "\<exists>as. made s as u \<and> (allowedRanges sc = [] \<or> (\<exists>ev. as = [ev]))
        \<and> set as \<subseteq> acl_calls ?zone ?fid (aclRequest ''allowed-ranges'' (allowedRanges sc) False 1)"
    proof (cases "allowedRanges sc = []")
      case False
      with lb_acl.keep_established [of c sdk ?zone ?fid _ _ _ _ s u] A Ok acl_always_differs [OF fresh] show ?thesis
        by (fastforce simp: aclRequest_def acl_calls_def)
    qed (use allow in auto)
    obtain p v where B: "ensureGatewayACL c sdk sc frontend pnID u = (p, v)" by fastforce
    from ensureGatewayACL_made [OF B] obtain gw ips where gw: "made u gw v"
      "set gw \<subseteq> acl_calls ?zone ?fid (aclRequest ''public-gateway'' ips False 2)" by blast
    have "\<exists>ds. made v ds t \<and> set ds \<subseteq> acl_calls ?zone ?fid (aclRequest ''deny-all'' (denyAll sc) True 4)"
    proof (cases p)
      case (Ok x)
      with rest B have "?D v = (r, t)" by (simp add: bind_def)
      then show ?thesis using lb_acl.keep_made by blast
    qed (use rest B in \<open>auto simp: bind_def intro!: exI [where x = "[]"]\<close>)
    with allow' gw show ?thesis
      using made_trans [OF _ made_trans [OF gw(1)]] by blast
  next
    case (Err e)
    with split A have "t = u" by (simp add: bind_def wrapping_def)
    with allow show ?thesis by (intro exI [where x = allow] exI [where x = "[]"]) auto
  next
    case Panic
    with split A have "t = u" by (simp add: bind_def wrapping_def)
    with allow show ?thesis by (intro exI [where x = allow] exI [where x = "[]"]) auto
  qed
qed

text \<open>
  C24: the deny rule never locks out the allowed ranges. In every run of the ACL step, failed
  or not, a call that creates or updates a deny rule happens only if the cluster has allowed
  ranges, and only after a call that created or updated the rule that allows exactly them.
\<close>

theorem deny_after_allow:
  assumes "fresh_pointers sdk" and "sc = scope_ScalewayCluster s"
    and "trace (snd (ensureACLs c sdk frontend pnID s)) = trace s @ before @ ev # after" and "denies ev"
  shows "allowedRanges sc \<noteq> [] \<and> (\<exists>allow \<in> set before. allow \<in> acl_calls (LoadBalancerZone sc) (fe_ID frontend)
      (aclRequest ''allowed-ranges'' (allowedRanges sc) False 1))"
proof -
  obtain r t where "ensureACLs c sdk frontend pnID s = (r, t)" by fastforce
  from ensureACLs_parts [OF this assms(1,2)] obtain allow gw deny ips where parts: "made s (allow @ gw @ deny) t"
    "set allow \<subseteq> acl_calls (LoadBalancerZone sc) (fe_ID frontend) (aclRequest ''allowed-ranges'' (allowedRanges sc) False 1)"
    "set gw \<subseteq> acl_calls (LoadBalancerZone sc) (fe_ID frontend) (aclRequest ''public-gateway'' ips False 2)"
    "set deny \<subseteq> acl_calls (LoadBalancerZone sc) (fe_ID frontend) (aclRequest ''deny-all'' (denyAll sc) True 4)"
    "deny = [] \<or> allowedRanges sc = [] \<or> (\<exists>ev. allow = [ev])" by blast
  then have es: "before @ ev # after = (allow @ gw) @ deny"
    using assms(3) \<open>_ = (r, t)\<close> by (simp add: made_trace)
  have "ev \<notin> set (allow @ gw)"
    using parts(2,3) assms(4) denies_acl_calls by fastforce
  then obtain d where before: "before = allow @ gw @ d" and ev: "ev \<in> set deny"
    using es by (auto simp: append_eq_append_conv2 append_eq_Cons_conv Cons_eq_append_conv)
  have "allowedRanges sc \<noteq> []"
    using ev parts(4) assms(4) denies_acl_calls by (fastforce simp: denyAll_def split: if_splits)
  then show ?thesis using parts(2,5) before ev by auto
qed

text \<open>An API with a ready load balancer that has no backend, no frontend and no ACL.\<close>

definition ex_lb :: "unit lb_API" where
  "ex_lb = down_lb\<lparr>
     lb_ListLBs := (\<lambda>z n w. (Inr [\<lparr>lb_ID = ''lb-1'', lb_Name = n, lb_Zone = z, lb_Status = LBStatusReady,
       lb_IP = [\<lparr>lbip_ID = ''ip-1'', lbip_IPAddress = ''51.15.0.1''\<rparr>]\<rparr>], w)),
     lb_ListBackends := (\<lambda>z l n w. (Inr [\<lparr>be_ID = ''b-0'', be_Name = ''old'', be_Pool = []\<rparr>], w)),
     lb_DeleteBackend := (\<lambda>z i w. (Inr (), w)),
     lb_CreateBackend := (\<lambda>r w. (Inr \<lparr>be_ID = ''b-1'', be_Name = cb_Name r, be_Pool = []\<rparr>, w)),
     lb_ListFrontends := (\<lambda>z l n w. (Inr [], w)),
     lb_CreateFrontend := (\<lambda>r w. (Inr \<lparr>fe_ID = ''f-1'', fe_Name = cf_Name r, fe_InboundPort = cf_InboundPort r\<rparr>, w)),
     lb_ListACLs := (\<lambda>z f n w. (Inr [], w)),
     lb_CreateACL := (\<lambda>z f r w. (Inr (), w))\<rparr>"

definition ex_lb_cluster :: ScalewayCluster where
  "ex_lb_cluster = ex_cluster\<lparr>sc_Spec := ex_spec\<lparr>spec_ControlPlaneLoadBalancer := Some \<lparr>lbs_Zone = None,
     lbs_Type = None, lbs_IP = None, lbs_AllowedRanges = [''10.0.0.0/8'']\<rparr>\<rparr>\<rparr>"

lemmas ex_lb_run = loadbalancer_Reconcile_def getOrCreateLB_def lookupLB_def ensurePrivateNetwork_def
  ensureBackend_def ensureFrontend_def ensureACLs_def ensureGatewayACL_def ensureACL_def allowedRanges_def
  denyAll_def run_defs LoadBalancerZone_def ex_lb_def ex_lb_cluster_def ex_cloud
  ControlPlaneBackendName_def frontendRequest_def backendRequest_def DefaultFrontendControlPlanePort_def

lemma ex_endpoint_ip: "endpoint_ip [\<lparr>lbip_ID = i, lbip_IPAddress = ''51.15.0.1''\<rparr>] = Inr ''51.15.0.1''"
  by (simp add: net_eval addr_Is4_def)

theorem loadbalancer_Reconcile_endpoint_witness:
  "\<exists>ip f. spec_ControlPlaneEndpoint (sc_Spec (scope_ScalewayCluster (snd (loadbalancer_Reconcile
     (down_client\<lparr>cl_LoadBalancer := ex_lb\<rparr>) ex_sdk (ex_scope ex_lb_cluster ())))))
   = \<lparr>ep_Host = lbip_IPAddress ip, ep_Port = fe_InboundPort (f :: Frontend)\<rparr> \<and> is_ipv4 ip = Some True"
proof -
  let ?c = "down_client\<lparr>cl_LoadBalancer := ex_lb\<rparr>"
  obtain s' where run: "loadbalancer_Reconcile ?c ex_sdk (ex_scope ex_lb_cluster ()) = (Ok (), s')"
    by (simp add: ex_lb_run ex_endpoint_ip del: endpoint_ip.simps)
  from loadbalancer_Reconcile_endpoint [OF run] obtain l f ip where "first_ipv4 (lb_IP (l :: LB)) ip"
    "scope_ScalewayCluster s' = SetControlPlaneEndpoint (lbip_IPAddress ip) (fe_InboundPort (f :: Frontend)) ex_lb_cluster"
    by (auto simp: ex_scope_def)
  then show ?thesis
    unfolding run first_ipv4_def
    by (intro exI [where x = ip] exI [where x = f]) (auto simp: SetControlPlaneEndpoint_def)
qed

theorem deny_after_allow_witness:
  "let s = ex_scope ex_lb_cluster (); c = down_client\<lparr>cl_LoadBalancer := ex_lb\<rparr>;
       f = \<lparr>fe_ID = ''f-1'', fe_Name = ''control-plane'', fe_InboundPort = 6443\<rparr> in
   \<exists>before ev. trace (snd (ensureACLs c ex_sdk f None s)) = before @ [ev] \<and> denies ev
     \<and> (\<exists>allow \<in> set before. allow \<in> acl_calls ''fr-par-2'' ''f-1'' (aclRequest ''allowed-ranges'' [''10.0.0.0/8''] False 1))"
proof -
  let ?s = "ex_scope ex_lb_cluster ()" and ?c = "down_client\<lparr>cl_LoadBalancer := ex_lb\<rparr>"
  let ?f = "\<lparr>fe_ID = ''f-1'', fe_Name = ''control-plane'', fe_InboundPort = 6443\<rparr>"
  let ?before = "[CallCreateACL ''fr-par-2'' ''f-1'' (aclRequest ''allowed-ranges'' [''10.0.0.0/8''] False 1)]"
  let ?ev = "CallCreateACL ''fr-par-2'' ''f-1'' (aclRequest ''deny-all'' [''0.0.0.0/0'', ''::/0''] True 4)"
  have trace: "trace (snd (ensureACLs ?c ex_sdk ?f None ?s)) = trace ?s @ ?before @ ?ev # []"
    by (simp add: ex_lb_run)
  have "denies ?ev" by (simp add: denies_def aclRequest_def)
  from deny_after_allow [OF fresh_pointers_ex_sdk refl trace this] trace this show ?thesis
    unfolding Let_def
    by (intro exI [where x = ?before] exI [where x = ?ev])
      (simp add: ex_lb_cluster_def ex_cloud allowedRanges_def LoadBalancerZone_def)
qed

text \<open>
  The addresses of an ACL are compared by pointer, so an ACL that is already as it should
  be is updated all the same: whenever the ACL exists and there are addresses to set, keeping
  it makes one update call, even if the addresses are equal.
\<close>

theorem ensureACL_always_updates:
  assumes "fresh_pointers sdk" "ips \<noteq> []" "FindLoadBalancerACLByName c zone frontendID name s = (Ok acl, t)"
  shows "trace (snd (ensureACL c sdk zone frontendID name ips deny index s))
    = trace s @ [CallUpdateACL zone (acl_ID acl) (aclRequest name ips deny index)]"
proof -
  have "optional (FindLoadBalancerACLByName c zone frontendID name) s = (Ok (Some acl), t)"
    using assms(3) by (simp add: optional_Ok)
  moreover have "trace t = trace s"
    by (rule reads_only_trace [OF acl_by_name.find_reads assms(3)])
  ultimately show ?thesis
    using assms(1,2) acl_always_differs
    by (simp add: ensureACL_def bind_def sdk_call_def split: prod.split)
qed

theorem ensureACL_always_updates_witness:
  "let acl = \<lparr>acl_ID = ''a-1'', acl_Name = ''deny-all'', acl_Match = Some [(7, ''0.0.0.0/0''), (8, ''::/0'')]\<rparr>;
       c = down_client\<lparr>cl_LoadBalancer := ex_lb\<lparr>lb_ListACLs := (\<lambda>z f n w. (Inr [acl], w))\<rparr>\<rparr> in
   trace (snd (ensureACL c ex_sdk ''fr-par-1'' ''f-1'' ''deny-all'' [''0.0.0.0/0'', ''::/0''] True 4 (ex_scope ex_lb_cluster ())))
     = [CallUpdateACL ''fr-par-1'' ''a-1'' (aclRequest ''deny-all'' [''0.0.0.0/0'', ''::/0''] True 4)]"
proof -
  let ?acl = "\<lparr>acl_ID = ''a-1'', acl_Name = ''deny-all'', acl_Match = Some [(7, ''0.0.0.0/0''), (8, ''::/0'')]\<rparr>"
  let ?c = "down_client\<lparr>cl_LoadBalancer := ex_lb\<lparr>lb_ListACLs := (\<lambda>z f n w. (Inr [?acl], w))\<rparr>\<rparr>"
  have find: "FindLoadBalancerACLByName ?c ''fr-par-1'' ''f-1'' ''deny-all'' (ex_scope ex_lb_cluster ())
      = (Ok ?acl, ex_scope ex_lb_cluster ())"
    by (simp add: run_defs ex_cloud ex_lb_def ex_lb_cluster_def)
  show ?thesis
    using ensureACL_always_updates [OF fresh_pointers_ex_sdk _ find, of "[''0.0.0.0/0'', ''::/0'']" True 4]
    by (simp add: Let_def ex_scope_def)
qed

text \<open>The load balancers that deleting has to remove.\<close>

definition balancers_to_delete :: "'w Client \<Rightarrow> ScalewayCluster \<Rightarrow> 'w \<Rightarrow> LB list" where
  "balancers_to_delete c sc w =
     (case fst (lb_ListLBs (cl_LoadBalancer c) (LoadBalancerZone sc) (Name sc) w) of
        Inr lbs \<Rightarrow> (case find (\<lambda>l. lb_Name l = Name sc) lbs of Some l \<Rightarrow> [l] | None \<Rightarrow> [])
      | Inl _ \<Rightarrow> [])"

text \<open>
  Deleting the load balancer. Whatever the outcome, the only call is the deletion of the
  load balancer that the API lists under the cluster's name; its IP is released with it exactly
  when the spec gave none, so an IP of the user is kept. If there is none, deleting succeeds.
\<close>

theorem loadbalancer_Delete_calls:
  "let sc = scope_ScalewayCluster s; lbs = balancers_to_delete c sc (world s) in
     trace (snd (loadbalancer_Delete c s))
       = trace s @ map (\<lambda>l. CallDeleteLB (lb_Zone l) (lb_ID l) (loadBalancerIP sc = None)) lbs
   \<and> (fst (loadbalancer_Delete c s) = Ok () \<or> (\<exists>l. lbs = [l])
      \<or> (\<exists>e. fst (lb_ListLBs (cl_LoadBalancer c) (LoadBalancerZone sc) (Name sc) (world s)) = Inl e))"
  by (cases "lb_ListLBs (cl_LoadBalancer c) (LoadBalancerZone (scope_ScalewayCluster s))
      (Name (scope_ScalewayCluster s)) (world s)")
    (auto simp: loadbalancer_Delete_def FindLoadBalancerByName_def first_match_def go_defs sdk_read_def
      sdk_call_def api_result_def balancers_to_delete_def Let_def
      split: sum.splits option.splits prod.splits)

end
