(* ===== verification/Plans.thy ===== *)
theory Plans
  imports Services "HOL-Library.Sublist"
begin

text \<open>
  Code that follows a plan. A plan is the list of calls that the code means to make; \<open>follows\<close>
  says that every run makes a prefix of it, the whole plan if it returns without an error. This
  is how a step of a service refines an abstract description of what it does to the cloud.
\<close>

named_theorems plan_intros \<open>code that follows a plan\<close>

definition follows :: "(('w, 'z) env_scheme, 'a) go \<Rightarrow> call list \<Rightarrow> bool" where
  "follows m es \<longleftrightarrow> (\<forall>s. case m s of (r, t) \<Rightarrow> \<exists>pre. prefix pre es \<and> made s pre t
     \<and> (case r of Ok _ \<Rightarrow> pre = es | _ \<Rightarrow> True))"

lemma followsD:
  "follows m es \<Longrightarrow> m s = (r, t) \<Longrightarrow> \<exists>pre. prefix pre es \<and> made s pre t \<and> (case r of Ok _ \<Rightarrow> pre = es | _ \<Rightarrow> True)"
  by (auto simp: follows_def dest!: spec [of _ s])

lemma followsI:
  "(\<And>s r t. m s = (r, t) \<Longrightarrow> \<exists>pre. prefix pre es \<and> made s pre t \<and> (case r of Ok _ \<Rightarrow> pre = es | _ \<Rightarrow> True)) \<Longrightarrow> follows m es"
  by (auto simp: follows_def)

lemma follows_reads: "reads_only m \<Longrightarrow> follows m []"
  by (rule followsI) (auto dest: made_reads split: outcome.split)

lemma follows_ret [plan_intros]: "follows (ret x) []"
  by (rule follows_reads) (rule reads_only_pure)

lemma follows_call [plan_intros]: "follows (sdk_call ev f) [ev]"
  by (rule followsI) (auto dest: made_call intro!: exI [where x = "[ev]"] split: outcome.split)

lemma follows_wrapping [plan_intros]: "follows m es \<Longrightarrow> follows (wrapping msg m) es"
  unfolding follows_def wrapping_def by (fastforce split: prod.splits outcome.splits)

lemma follows_bind:
  assumes m: "follows m es" and f: "\<And>x. follows (f x) fs"
  shows "follows (bind m f) (es @ fs)"
proof (rule followsI)
  fix s r t
  assume "bind m f s = (r, t)"
  then show "\<exists>pre. prefix pre (es @ fs) \<and> made s pre t \<and> (case r of Ok _ \<Rightarrow> pre = es @ fs | _ \<Rightarrow> True)"
  proof (cases rule: bind_run)
    case (Ok x u)
    from followsD [OF m Ok(1)] have "made s es u" by auto
    moreover obtain pre where "prefix pre fs" "made u pre t" "case r of Ok _ \<Rightarrow> pre = fs | _ \<Rightarrow> True"
      using followsD [OF f Ok(2)] by blast
    ultimately show ?thesis
      using made_trans by (intro exI [where x = "es @ pre"]) (auto split: outcome.splits)
  next
    case (Err e)
    with followsD [OF m Err(1)] show ?thesis by (auto intro: prefix_prefix)
  next
    case Panic
    with followsD [OF m Panic(1)] show ?thesis by (auto intro: prefix_prefix)
  qed
qed

lemma follows_then [plan_intros]: "follows m es \<Longrightarrow> follows n fs \<Longrightarrow> follows (bind m (\<lambda>_. n)) (es @ fs)"
  by (rule follows_bind)

lemma follows_for_each [plan_intros]:
  "(\<And>x. x \<in> set xs \<Longrightarrow> follows (f x) (ev x)) \<Longrightarrow> follows (for_each f xs) (concat (map ev xs))"
  by (induction xs) (auto intro!: follows_ret follows_bind)

lemma follows_if [plan_intros]:
  "(b \<Longrightarrow> follows m es) \<Longrightarrow> (\<not> b \<Longrightarrow> follows n fs) \<Longrightarrow> follows (if b then m else n) (if b then es else fs)"
  by simp

lemma follows_option [plan_intros]:
  "(p = None \<Longrightarrow> follows m es) \<Longrightarrow> (\<And>y. p = Some y \<Longrightarrow> follows (n y) (fs y)) \<Longrightarrow>
   follows (case p of None \<Rightarrow> m | Some y \<Rightarrow> n y) (case p of None \<Rightarrow> es | Some y \<Rightarrow> fs y)"
  by (cases p) simp_all

lemma reads_only_branches [read_intros]:
  "reads_only m \<Longrightarrow> reads_only (attempt m)"
  "(b \<Longrightarrow> reads_only m) \<Longrightarrow> (\<not> b \<Longrightarrow> reads_only n) \<Longrightarrow> reads_only (if b then m else n)"
  "(p = None \<Longrightarrow> reads_only m) \<Longrightarrow> (\<And>y. p = Some y \<Longrightarrow> reads_only (k y)) \<Longrightarrow>
     reads_only (case p of None \<Rightarrow> m | Some y \<Rightarrow> k y)"
  "(\<And>y. q = Inl y \<Longrightarrow> reads_only (g y)) \<Longrightarrow> (\<And>y. q = Inr y \<Longrightarrow> reads_only (h y)) \<Longrightarrow>
     reads_only (case q of Inl y \<Rightarrow> g y | Inr y \<Rightarrow> h y)"
  by (simp_all add: reads_only_def snd_attempt split: option.split sum.split)

section \<open>Code that only makes calls\<close>

text \<open>
  \<open>only_calls C m\<close>: a run of \<open>m\<close> makes calls of \<open>C\<close> and changes nothing else of the state. It
  gives both what the run emits and what it keeps.
\<close>

named_theorems call_intros \<open>code that only makes calls of a set\<close>

definition only_calls :: "call set \<Rightarrow> (('w, 'z) env_scheme, 'a) go \<Rightarrow> bool" where
  "only_calls C m \<longleftrightarrow> (\<forall>s. \<exists>es. made s es (snd (m s)) \<and> set es \<subseteq> C)"

lemma only_callsD: "only_calls C m \<Longrightarrow> m s = (r, t) \<Longrightarrow> \<exists>es. made s es t \<and> set es \<subseteq> C"
  by (auto simp: only_calls_def dest!: spec [of _ s])

lemma only_callsI: "(\<And>s r t. m s = (r, t) \<Longrightarrow> \<exists>es. made s es t \<and> set es \<subseteq> C) \<Longrightarrow> only_calls C m"
  unfolding only_calls_def by (metis prod.collapse)

lemma only_calls_reads: "reads_only m \<Longrightarrow> only_calls C m"
  by (rule only_callsI) (auto dest!: made_reads intro: exI [where x = "[]"])

lemma only_calls_pure [call_intros]:
  "only_calls C (ret x)" "only_calls C (throw e)" "only_calls C panic" "only_calls C (gets f)"
  "only_calls C (deref p)" "only_calls C (lift_sum r)" "only_calls C (lift_outcome q)" "only_calls C (sdk_read g)"
  by (simp_all add: only_calls_reads reads_only_pure reads_only_sdk_read)

lemma only_calls_call [call_intros]: "ev \<in> C \<Longrightarrow> only_calls C (sdk_call ev f)"
  by (rule only_callsI) (auto dest!: made_call)

lemma only_calls_bind [call_intros]:
  assumes m: "only_calls C m" and f: "\<And>x. only_calls C (f x)"
  shows "only_calls C (bind m f)"
proof (rule only_callsI)
  fix s r t
  assume "bind m f s = (r, t)"
  then show "\<exists>es. made s es t \<and> set es \<subseteq> C"
  proof (cases rule: bind_run)
    case (Ok x u)
    obtain es where "made s es u" "set es \<subseteq> C" using only_callsD [OF m Ok(1)] by blast
    moreover obtain fs where "made u fs t" "set fs \<subseteq> C" using only_callsD [OF f Ok(2)] by blast
    ultimately show ?thesis using made_trans by (intro exI [where x = "es @ fs"]) auto
  qed (use only_callsD [OF m] in blast)+
qed

lemma only_calls_handled [call_intros]:
  "only_calls C m \<Longrightarrow> only_calls C (attempt m)" "only_calls C m \<Longrightarrow> only_calls C (wrapping msg m)"
  "only_calls C m \<Longrightarrow> only_calls C (optional m)"
  by (simp_all add: only_calls_def snd_attempt snd_wrapping snd_optional)

lemma only_calls_branches [call_intros]:
  "(b \<Longrightarrow> only_calls C m) \<Longrightarrow> (\<not> b \<Longrightarrow> only_calls C n) \<Longrightarrow> only_calls C (if b then m else n)"
  "(p = None \<Longrightarrow> only_calls C m) \<Longrightarrow> (\<And>y. p = Some y \<Longrightarrow> only_calls C (k y)) \<Longrightarrow>
     only_calls C (case p of None \<Rightarrow> m | Some y \<Rightarrow> k y)"
  "(\<And>y. q = Inl y \<Longrightarrow> only_calls C (g y)) \<Longrightarrow> (\<And>y. q = Inr y \<Longrightarrow> only_calls C (h y)) \<Longrightarrow>
     only_calls C (case q of Inl y \<Rightarrow> g y | Inr y \<Rightarrow> h y)"
  by (simp_all split: option.split sum.split)

lemma only_calls_for_each [call_intros]:
  "(\<And>x. x \<in> set xs \<Longrightarrow> only_calls C (f x)) \<Longrightarrow> only_calls C (for_each f xs)"
  by (induction xs) (auto intro!: call_intros)

lemma only_calls_getOrCreate [call_intros]:
  "only_calls C lookup \<Longrightarrow> only_calls C create \<Longrightarrow> only_calls C (getOrCreate lookup create)"
  unfolding getOrCreate_def by (intro call_intros)

lemma only_calls_mono: "only_calls C m \<Longrightarrow> C \<subseteq> D \<Longrightarrow> only_calls D m"
  unfolding only_calls_def by (meson order_trans)

lemma only_calls_emits: "only_calls C m \<Longrightarrow> emits trace C m"
  unfolding only_calls_def emits_def by (metis made_trace)

lemma only_calls_cluster: "only_calls C m \<Longrightarrow> keeps scope_ScalewayCluster m"
  unfolding only_calls_def keeps_def by (metis made_cluster)

lemmas only_calls_find [call_intros] = find_reads_rules [THEN only_calls_reads]

end
