(* ===== verification/Example_Kubernetes.thy ===== *)
theory Example_Kubernetes
  imports Example_Cloud
begin

text \<open>
  An API server and a machine scope at which theorems about machines and controllers are
  applied. No definition of the model uses them.
\<close>

definition down_k8s :: "'w k8s_API" where
  "down_k8s = \<lparr>k_GetScalewayCluster = (\<lambda>_ _. down), k_GetScalewayMachine = (\<lambda>_ _. down), k_GetSecret = (\<lambda>_ _. down),
     k_UpdateSecret = (\<lambda>_. down), k_GetOwnerCluster = (\<lambda>_. down), k_GetOwnerMachine = (\<lambda>_. down),
     k_GetClusterFromMetadata = (\<lambda>_. down), k_IsPausedCluster = (\<lambda>_ _. False), k_IsPausedMachine = (\<lambda>_ _. False),
     k_IsControlledBy = (\<lambda>_ _. True), k_SetOwnerReference = (\<lambda>_ sec. Inr sec),
     k_NewClusterHelper = (\<lambda>_. Inr (\<lambda>_. down)), k_NewMachineHelper = (\<lambda>_. Inr (\<lambda>_. down)),
     k_AddFinalizer = (\<lambda>fs f. if f \<in> set fs then (fs, False) else (fs @ [f], True)),
     k_RemoveFinalizer = (\<lambda>fs f. filter (\<lambda>g. g \<noteq> f) fs),
     k_NewScwClient = (\<lambda>_. Inl (ApiOther ''unavailable''))\<rparr>"

definition ex_capi_machine :: CapiMachine where
  "ex_capi_machine = \<lparr>cm_Namespace = ''default'', cm_FailureDomain = Some ''fr-par-1'',
     cm_DataSecretName = Some ''bootstrap'', cm_IsControlPlane = True\<rparr>"

definition ex_public_machine :: ScalewayMachine where
  "ex_public_machine = ex_machine\<lparr>sm_Spec := ex_machine_spec\<lparr>ms_PublicIP := Some True\<rparr>\<rparr>"

definition ex_machine_scope :: "ScalewayMachine \<Rightarrow> 'w \<Rightarrow> 'w MachineScope" where
  "ex_machine_scope m w = \<lparr>world = w, trace = [], scope_ScalewayCluster = ex_cluster,
     scope_InfrastructureReady = True, scope_ScalewayMachine = m, scope_Machine = ex_capi_machine\<rparr>"

text \<open>A cloud with the load balancer of the cluster, in which a server can be created.\<close>

definition ex_server :: "string \<Rightarrow> Server" where
  "ex_server n = \<lparr>srv_ID = ''srv-1'', srv_Name = n, srv_Zone = ''fr-par-1'', srv_State = ServerStateStopped,
     srv_PublicIP = Some \<lparr>sip_ID = ''ip-1'', sip_Address = [51, 15, 0, 7], sip_Dynamic = False\<rparr>, srv_Volumes = []\<rparr>"

definition ex_machine_client :: "unit Client" where
  "ex_machine_client = down_client\<lparr>
     cl_LoadBalancer := down_lb\<lparr>
       lb_ListLBs := (\<lambda>z n w. (Inr [\<lparr>lb_ID = ''lb-1'', lb_Name = n, lb_Zone = z, lb_Status = LBStatusReady, lb_IP = []\<rparr>], w)),
       lb_ListBackends := (\<lambda>z l n w. (Inr [\<lparr>be_ID = ''b-1'', be_Name = ''control-plane'', be_Pool = []\<rparr>], w)),
       lb_ListFrontends := (\<lambda>z l n w. (Inr [\<lparr>fe_ID = ''f-1'', fe_Name = ''control-plane'', fe_InboundPort = 6443\<rparr>], w)),
       lb_ListACLs := (\<lambda>z f n w. (Inr [], w)), lb_CreateACL := (\<lambda>z f r w. (Inr (), w)),
       lb_AddBackendServers := (\<lambda>z b ips w. (Inr (), w))\<rparr>,
     cl_Marketplace := \<lparr>marketplace_GetLocalImageByLabel = (\<lambda>t z l w. (Inr ''image-1'', w))\<rparr>,
     cl_Instance := down_instance\<lparr>
       instance_ListServers := (\<lambda>z n w. (Inr [], w)), instance_ListIPs := (\<lambda>z ts w. (Inr [], w)),
       instance_CreateIP := (\<lambda>z ts w. (Inr \<lparr>iip_ID = ''ip-1''\<rparr>, w)),
       instance_CreateServer := (\<lambda>r w. (Inr (ex_server (cs_Name r)), w)),
       instance_GetAllServerUserData := (\<lambda>z i w. (Inr [], w)),
       instance_SetServerUserData := (\<lambda>z i key d w. (Inr (), w)),
       instance_ServerAction := (\<lambda>z i a w. (Inr (), w))\<rparr>\<rparr>"

definition ex_bootstrap_k8s :: "unit k8s_API" where
  "ex_bootstrap_k8s = down_k8s\<lparr>k_GetSecret := (\<lambda>ns n w. (Inr \<lparr>sec_Name = n, sec_Namespace = ns, sec_OwnerUIDs = [],
     sec_Data = [(''value'', ''#cloud-config'')]\<rparr>, w))\<rparr>"

lemmas ex_kubernetes = down_k8s_def ex_capi_machine_def ex_public_machine_def ex_machine_scope_def ex_server_def
  ex_machine_client_def ex_bootstrap_k8s_def ex_cloud

end
