(* ===== verification/Instance_Service.thy ===== *)
theory Instance_Service
  imports Loadbalancer Plans Example_Kubernetes
begin

text \<open>
  The instance service (\<^verbatim>\<open>internal/service/scaleway/instance\<close>): the IP, the server and the
  private NIC of a machine, its place in the load balancer of the control plane, its bootstrap
  data, and its removal.
\<close>

text \<open>Reading the objects of the machine scope.\<close>

definition with_scope ::
  "(ScalewayCluster \<Rightarrow> ScalewayMachine \<Rightarrow> CapiMachine \<Rightarrow> (('w, 'z) MachineScope_scheme, 'a) go)
     \<Rightarrow> (('w, 'z) MachineScope_scheme, 'a) go" where
  "with_scope f = (\<lambda>s. f (scope_ScalewayCluster s) (scope_ScalewayMachine s) (scope_Machine s) s)"

section \<open>IP, server and private NIC\<close>

definition isValidUUID :: "SDK \<Rightarrow> string \<Rightarrow> bool" where
  "isValidUUID sdk u = uuid_Parse_ok sdk u"

definition lookupIP :: "'w Client \<Rightarrow> (('w, 'z) MachineScope_scheme, InstanceIP option) go" where
  "lookupIP c = with_scope (\<lambda>sc m cm. optional (FindIPByTags c (Machine_Zone sc cm) (Machine_Tags sc m)))"

definition createIP :: "'w Client \<Rightarrow> (('w, 'z) MachineScope_scheme, InstanceIP) go" where
  "createIP c = with_scope (\<lambda>sc m cm.
     wrapping ''failed to create Instance IP''
       (sdk_call (CallCreateIP (Machine_Zone sc cm) (Machine_Tags sc m))
         (instance_CreateIP (cl_Instance c) (Machine_Zone sc cm) (Machine_Tags sc m))))"

definition getOrCreateIP :: "'w Client \<Rightarrow> (('w, 'z) MachineScope_scheme, InstanceIP option) go" where
  "getOrCreateIP c = with_scope (\<lambda>sc m cm.
     if \<not> NeedsPublicIP m then ret None
     else bind (getOrCreate (lookupIP c) (createIP c)) (\<lambda>ip. ret (Some ip)))"

definition rootVolumeSize :: "SDK \<Rightarrow> ScalewayMachineSpec \<Rightarrow> 64 word" where
  "rootVolumeSize sdk spec = (case ms_RootVolumeSize spec of None \<Rightarrow> 20 * scw_GB sdk | Some n \<Rightarrow> n * scw_GB sdk)"

definition findImage :: "'w Client \<Rightarrow> SDK \<Rightarrow> (('w, 'z) MachineScope_scheme, string) go" where
  "findImage c sdk = with_scope (\<lambda>sc m cm.
     let image = ms_Image (sm_Spec m) in
     if \<not> isValidUUID sdk image then
       wrapping ''failed to find image with label''
         (sdk_read (marketplace_GetLocalImageByLabel (cl_Marketplace c) (ms_Type (sm_Spec m)) (Machine_Zone sc cm) image))
     else ret image)"

definition findMachineSG :: "'w Client \<Rightarrow> (('w, 'z) MachineScope_scheme, string option) go" where
  "findMachineSG c = with_scope (\<lambda>sc m cm.
     case ms_SecurityGroupName (sm_Spec m) of
       None \<Rightarrow> ret None
     | Some name \<Rightarrow>
         bind (wrapping ''failed to find security group''
             (FindSecurityGroupByName c (Machine_Zone sc cm) (SecurityGroupName sc name))) (\<lambda>sg.
         ret (Some (isg_ID sg))))"

definition serverRequest ::
  "SDK \<Rightarrow> ScalewayCluster \<Rightarrow> ScalewayMachine \<Rightarrow> CapiMachine \<Rightarrow> string \<Rightarrow> string option \<Rightarrow> VolumeVolumeType
     \<Rightarrow> InstanceIP option \<Rightarrow> CreateServerRequest" where
  "serverRequest sdk sc m cm imageID sgID volType ip = \<lparr>cs_Zone = Machine_Zone sc cm, cs_Name = Machine_Name m,
     cs_CommercialType = ms_Type (sm_Spec m), cs_DynamicIPRequired = False, cs_RoutedIPEnabled = True,
     cs_Image = imageID, cs_SecurityGroup = sgID,
     cs_Volumes = [(''0'', \<lparr>vt_Size = rootVolumeSize sdk (sm_Spec m), vt_VolumeType = volType, vt_Boot = True\<rparr>)],
     cs_PublicIP = map_option iip_ID ip\<rparr>"

definition lookupServer :: "'w Client \<Rightarrow> (('w, 'z) MachineScope_scheme, Server option) go" where
  "lookupServer c = with_scope (\<lambda>sc m cm. optional (FindInstanceByName c (Machine_Zone sc cm) (Machine_Name m)))"

definition createServer :: "'w Client \<Rightarrow> SDK \<Rightarrow> InstanceIP option \<Rightarrow> (('w, 'z) MachineScope_scheme, Server) go" where
  "createServer c sdk ip = with_scope (\<lambda>sc m cm.
     bind (findImage c sdk) (\<lambda>imageID.
     bind (findMachineSG c) (\<lambda>sgID.
     bind (lift_sum (ScalewayRootVolumeType (sm_Spec m))) (\<lambda>volType.
     let req = serverRequest sdk sc m cm imageID sgID volType ip in
     wrapping ''failed to create server''
       (sdk_call (CallCreateServer req) (instance_CreateServer (cl_Instance c) req))))))"

definition getOrCreateServer :: "'w Client \<Rightarrow> SDK \<Rightarrow> InstanceIP option \<Rightarrow> (('w, 'z) MachineScope_scheme, Server) go" where
  "getOrCreateServer c sdk ip = getOrCreate (lookupServer c) (createServer c sdk ip)"

definition createPrivateNIC ::
  "'w Client \<Rightarrow> Server \<Rightarrow> string \<Rightarrow> (('w, 'z) MachineScope_scheme, PrivateNIC) go" where
  "createPrivateNIC c server pnID = with_scope (\<lambda>sc m cm.
     wrapping ''failed to create private NIC''
       (sdk_call (CallCreatePrivateNIC (Machine_Zone sc cm) (srv_ID server) pnID)
         (instance_CreatePrivateNIC (cl_Instance c) (Machine_Zone sc cm) (srv_ID server) pnID)))"

definition getOrCreatePrivateNIC ::
  "'w Client \<Rightarrow> Server \<Rightarrow> (('w, 'z) MachineScope_scheme, PrivateNIC option) go" where
  "getOrCreatePrivateNIC c server = with_scope (\<lambda>sc m cm.
     if \<not> HasPrivateNetwork sc then ret None
     else bind (lift_outcome (PrivateNetworkID sc)) (\<lambda>pnID.
       bind (getOrCreate (optional (FindPrivateNICByPNID c server pnID)) (createPrivateNIC c server pnID)) (\<lambda>pnic.
       ret (Some pnic))))"

section \<open>Addresses of a machine\<close>

record machineIPs =
  mi_Internal :: "string option"
  mi_External :: "string option"

definition NodeIP :: "machineIPs \<Rightarrow> string outcome" where
  "NodeIP m = (case mi_Internal m of
     Some i \<Rightarrow> Ok i
   | None \<Rightarrow> (case mi_External m of Some e \<Rightarrow> Ok e | None \<Rightarrow> Panic))"

definition findInternalIP :: "'w Client \<Rightarrow> PrivateNIC option \<Rightarrow> (('w, 'z) MachineScope_scheme, string option) go" where
  "findInternalIP c pnic = (case pnic of
     None \<Rightarrow> ret None
   | Some p \<Rightarrow> with_scope (\<lambda>sc m cm.
       bind (attempt (FindIPv4ByInstancePrivateNICID c (Region sc) (pnic_ID p))) (\<lambda>r.
       case r of
         Inl e \<Rightarrow> if errors_Is e ErrNoItemFound then throw ErrPrivateIPNotFound else throw e
       | Inr privateIP \<Rightarrow> ret (Some (IP_String (net_IP privateIP))))))"

definition getMachineIPs ::
  "'w Client \<Rightarrow> Server \<Rightarrow> PrivateNIC option \<Rightarrow> (('w, 'z) MachineScope_scheme, machineIPs) go" where
  "getMachineIPs c server pnic =
     bind (findInternalIP c pnic) (\<lambda>internal.
     let m = \<lparr>mi_Internal = internal,
           mi_External = map_option (\<lambda>ip. IP_String (sip_Address ip)) (srv_PublicIP server)\<rparr> in
     if mi_External m = None \<and> mi_Internal m = None then throw ErrMachineHasNoIP else ret m)"

section \<open>Bootstrap data\<close>

record bootstrapValues =
  bv_NodeIP :: string
  bv_ProviderID :: string

text \<open>
  \<^verbatim>\<open>text/template\<close> with the delimiters \<^verbatim>\<open>[[[\<close> and \<^verbatim>\<open>]]]\<close>: parsing gives a template or an error,
  executing a template on the values gives text or an error. The bootstrap data comes from a
  secret and may use all of the template language, so the engine is a parameter.
\<close>

type_synonym template_engine = "string \<Rightarrow> go_error + (bootstrapValues \<Rightarrow> go_error + string)"

definition patchBootstrapData :: "template_engine \<Rightarrow> string \<Rightarrow> bootstrapValues \<Rightarrow> go_error + string" where
  "patchBootstrapData engine bootstrap values = (case engine bootstrap of
     Inl e \<Rightarrow> Inl (Wrap ''unable to parse bootstrap data template'' e)
   | Inr tmpl \<Rightarrow> (case tmpl values of
       Inl e \<Rightarrow> Inl (Wrap ''failed to execute bootstrap data template'' e)
     | Inr render \<Rightarrow> Inr render))"

definition ensureCloudInit ::
  "'w Client \<Rightarrow> 'w k8s_API \<Rightarrow> template_engine \<Rightarrow> Server \<Rightarrow> machineIPs \<Rightarrow> (('w, 'z) MachineScope_scheme, unit) go" where
  "ensureCloudInit c k engine server ips =
     (if srv_State server \<noteq> ServerStateStopped then ret ()
      else
        bind (sdk_read (instance_GetAllServerUserData (cl_Instance c) (srv_Zone server) (srv_ID server))) (\<lambda>userdata.
        case map_of userdata ''cloud-init'' of
          Some _ \<Rightarrow> ret ()
        | None \<Rightarrow>
            bind (GetRawBootstrapData k) (\<lambda>raw.
            bind (lift_outcome (NodeIP ips)) (\<lambda>nodeIP. with_scope (\<lambda>sc m cm.
            bind (lift_sum (patchBootstrapData engine raw
                \<lparr>bv_NodeIP = nodeIP, bv_ProviderID = ProviderID sc cm (srv_ID server)\<rparr>)) (\<lambda>bootstrap.
            sdk_call (CallSetServerUserData (srv_Zone server) (srv_ID server) ''cloud-init'' bootstrap)
              (instance_SetServerUserData (cl_Instance c) (srv_Zone server) (srv_ID server) ''cloud-init'' bootstrap)))))))"

definition ensureServerStarted :: "'w Client \<Rightarrow> Server \<Rightarrow> (('w, 'z) MachineScope_scheme, unit) go" where
  "ensureServerStarted c server =
     (if srv_State server \<noteq> ServerStateStopped then ret ()
      else sdk_call (CallServerAction (srv_Zone server) (srv_ID server) ServerActionPoweron)
        (instance_ServerAction (cl_Instance c) (srv_Zone server) (srv_ID server) ServerActionPoweron))"

section \<open>The load balancer\<close>

text \<open>\<^verbatim>\<open>ensureLoadBalancerACL\<close> after the frontend was found.\<close>

definition ensureMachineACL ::
  "'w Client \<Rightarrow> SDK \<Rightarrow> zone \<Rightarrow> string \<Rightarrow> string \<Rightarrow> string option \<Rightarrow> (('w, 'z) MachineScope_scheme, unit) go" where
  "ensureMachineACL c sdk zone frontendID name publicIP =
     bind (wrapping ''failed to find load balancer ACL''
         (optional (FindLoadBalancerACLByName c zone frontendID name))) (\<lambda>acl.
     case publicIP of
       None \<Rightarrow>
         (case acl of
            None \<Rightarrow> ret ()
          | Some a \<Rightarrow> wrapping ''failed to delete load balancer ACL''
              (sdk_call (CallDeleteACL zone (acl_ID a)) (lb_DeleteACL (cl_LoadBalancer c) zone (acl_ID a))))
     | Some ip \<Rightarrow>
         (case acl of
            None \<Rightarrow> sdk_call (CallCreateACL zone frontendID (aclRequest name [ip] False 3))
              (lb_CreateACL (cl_LoadBalancer c) zone frontendID (aclRequest name [ip] False 3))
          | Some a \<Rightarrow>
              if acl_differs sdk [ip] a then
                sdk_call (CallUpdateACL zone (acl_ID a) (aclRequest name [ip] False 3))
                  (lb_UpdateACL (cl_LoadBalancer c) zone (acl_ID a) (aclRequest name [ip] False 3))
              else ret ()))"

definition ensureLoadBalancerACL ::
  "'w Client \<Rightarrow> SDK \<Rightarrow> string option \<Rightarrow> (('w, 'z) MachineScope_scheme, unit) go" where
  "ensureLoadBalancerACL c sdk publicIP = with_scope (\<lambda>sc m cm.
     bind (wrapping ''failed to find load balancer frontend''
         (FindLoadBalancerFrontendByNames c (LoadBalancerZone sc) (Name sc) ControlPlaneFrontendName)) (\<lambda>frontend.
     ensureMachineACL c sdk (LoadBalancerZone sc) (fe_ID frontend) (Machine_Name m) publicIP))"

definition ensureControlPlaneLoadBalancer ::
  "'w Client \<Rightarrow> machineIPs \<Rightarrow> bool \<Rightarrow> (('w, 'z) MachineScope_scheme, unit) go" where
  "ensureControlPlaneLoadBalancer c ips deletion = with_scope (\<lambda>sc m cm.
     if \<not> cm_IsControlPlane cm then ret ()
     else
       bind (wrapping ''failed to find load balancer backend''
           (FindLoadBalancerBackendByNames c (LoadBalancerZone sc) (Name sc) ControlPlaneBackendName)) (\<lambda>backend.
       bind (lift_outcome (NodeIP ips)) (\<lambda>nodeIP.
       if deletion \<and> nodeIP \<in> set (be_Pool backend) then
         sdk_call (CallRemoveBackendServers (LoadBalancerZone sc) (be_ID backend) [nodeIP])
           (lb_RemoveBackendServers (cl_LoadBalancer c) (LoadBalancerZone sc) (be_ID backend) [nodeIP])
       else if \<not> deletion \<and> nodeIP \<notin> set (be_Pool backend) then
         sdk_call (CallAddBackendServers (LoadBalancerZone sc) (be_ID backend) [nodeIP])
           (lb_AddBackendServers (cl_LoadBalancer c) (LoadBalancerZone sc) (be_ID backend) [nodeIP])
       else ret ())))"

section \<open>Reconcile and Delete\<close>

definition machineAddresses :: "machineIPs \<Rightarrow> MachineAddress list" where
  "machineAddresses ips =
     (case mi_External ips of None \<Rightarrow> [] | Some e \<Rightarrow> [MachineExternalIP e])
   @ (case mi_Internal ips of None \<Rightarrow> [] | Some i \<Rightarrow> [MachineInternalIP i])"

definition SetMachineResult :: "string \<Rightarrow> MachineAddress list \<Rightarrow> ScalewayMachine \<Rightarrow> ScalewayMachine" where
  "SetMachineResult providerID addrs m = m\<lparr>sm_Spec := (sm_Spec m)\<lparr>ms_ProviderID := Some providerID\<rparr>,
     sm_Status := (sm_Status m)\<lparr>mst_Addresses := addrs\<rparr>\<rparr>"

text \<open>The first half of \<^verbatim>\<open>Reconcile\<close>, until the machine is known to the load balancer.\<close>

definition prepareMachine :: "'w Client \<Rightarrow> SDK \<Rightarrow> (('w, 'z) MachineScope_scheme, Server \<times> machineIPs) go" where
  "prepareMachine c sdk =
     bind (getOrCreateIP c) (\<lambda>ip.
     bind (getOrCreateServer c sdk ip) (\<lambda>server.
     bind (getOrCreatePrivateNIC c server) (\<lambda>pnic.
     bind (getMachineIPs c server pnic) (\<lambda>ips.
     bind (ensureControlPlaneLoadBalancer c ips False) (\<lambda>_.
     bind (ensureLoadBalancerACL c sdk (mi_External ips)) (\<lambda>_.
     ret (server, ips)))))))"

definition instance_Reconcile ::
  "'w Client \<Rightarrow> SDK \<Rightarrow> 'w k8s_API \<Rightarrow> template_engine \<Rightarrow> (('w, 'z) MachineScope_scheme, unit) go" where
  "instance_Reconcile c sdk k engine =
     bind (prepareMachine c sdk) (\<lambda>p.
     let server = fst p; ips = snd p in
     bind (ensureCloudInit c k engine server ips) (\<lambda>_.
     bind (ensureServerStarted c server) (\<lambda>_.
     modify (\<lambda>s. s\<lparr>scope_ScalewayMachine := SetMachineResult
       (ProviderID (scope_ScalewayCluster s) (scope_Machine s) (srv_ID server))
       (machineAddresses ips) (scope_ScalewayMachine s)\<rparr>))))"

text \<open>Removing a control plane machine from the load balancer.\<close>

definition leaveLoadBalancer :: "'w Client \<Rightarrow> Server \<Rightarrow> (('w, 'z) MachineScope_scheme, unit) go" where
  "leaveLoadBalancer c server = with_scope (\<lambda>sc m cm.
     if \<not> cm_IsControlPlane cm then ret ()
     else
       bind (if HasPrivateNetwork sc then
           bind (lift_outcome (PrivateNetworkID sc)) (\<lambda>pnID.
           bind (wrapping ''failed to find PrivateNIC by PNID'' (FindPrivateNICByPNID c server pnID)) (\<lambda>p. ret (Some p)))
         else ret None) (\<lambda>pnic.
       bind (attempt (getMachineIPs c server pnic)) (\<lambda>r.
       case r of
         Inl e \<Rightarrow>
           if errors_Is e ErrMachineHasNoIP then ret ()
           else throw (Wrap ''failed to get machine IPs for control-plane machine'' e)
       | Inr ips \<Rightarrow> bind (optional (ensureControlPlaneLoadBalancer c ips True)) (\<lambda>_. ret ()))))"

text \<open>Removing the IP, the volumes and the server.\<close>

definition detachVolume :: "'w Client \<Rightarrow> Server \<Rightarrow> VolumeServer \<Rightarrow> (('w, 'z) MachineScope_scheme, unit) go" where
  "detachVolume c server v =
     sdk_call (CallDetachVolume (srv_Zone server) (vol_ID v)) (instance_DetachVolume (cl_Instance c) (srv_Zone server) (vol_ID v))"

definition deleteFlexibleIP :: "'w Client \<Rightarrow> Server \<Rightarrow> (('w, 'z) MachineScope_scheme, unit) go" where
  "deleteFlexibleIP c server = (case srv_PublicIP server of
     None \<Rightarrow> ret ()
   | Some ip \<Rightarrow>
       if sip_Dynamic ip then ret ()
       else sdk_call (CallDeleteIP (srv_Zone server) (sip_ID ip)) (instance_DeleteIP (cl_Instance c) (srv_Zone server) (sip_ID ip)))"

definition deleteBootVolume :: "'w Client \<Rightarrow> Server \<Rightarrow> (('w, 'z) MachineScope_scheme, unit) go" where
  "deleteBootVolume c server = (case map_of (srv_Volumes server) ''0'' of
     None \<Rightarrow> ret ()
   | Some v \<Rightarrow>
       if \<not> vol_Boot v then ret ()
       else
         bind (wrapping ''failed to detach boot volume'' (detachVolume c server v)) (\<lambda>_.
         wrapping ''failed to delete instance volume''
           (sdk_call (CallDeleteVolume (srv_Zone server) (vol_ID v)) (instance_DeleteVolume (cl_Instance c) (srv_Zone server) (vol_ID v)))))"

definition destroyServer :: "'w Client \<Rightarrow> Server \<Rightarrow> (('w, 'z) MachineScope_scheme, unit) go" where
  "destroyServer c server =
     bind (deleteFlexibleIP c server) (\<lambda>_.
     bind (for_each (\<lambda>v. if vol_Boot (snd v) then ret () else wrapping ''failed to detach volume'' (detachVolume c server (snd v)))
       (srv_Volumes server)) (\<lambda>_.
     if srv_State server = ServerStateStopped then
       bind (deleteBootVolume c server) (\<lambda>_.
       wrapping ''failed to delete instance''
         (sdk_call (CallDeleteServer (srv_Zone server) (srv_ID server))
           (instance_DeleteServer (cl_Instance c) (srv_Zone server) (srv_ID server))))
     else
       wrapping ''failed to terminate server''
         (sdk_call (CallServerAction (srv_Zone server) (srv_ID server) ServerActionTerminate)
           (instance_ServerAction (cl_Instance c) (srv_Zone server) (srv_ID server) ServerActionTerminate))))"

definition instance_Delete :: "'w Client \<Rightarrow> SDK \<Rightarrow> (('w, 'z) MachineScope_scheme, unit) go" where
  "instance_Delete c sdk =
     bind (lookupServer c) (\<lambda>found.
     case found of
       None \<Rightarrow> ret ()
     | Some server \<Rightarrow>
         bind (optional (ensureLoadBalancerACL c sdk None)) (\<lambda>_.
         bind (leaveLoadBalancer c server) (\<lambda>_.
         destroyServer c server)))"

section \<open>The interfaces\<close>

lemma with_scope_run: "with_scope f s = f (scope_ScalewayCluster s) (scope_ScalewayMachine s) (scope_Machine s) s"
  by (simp add: with_scope_def)

lemma with_scope_rules:
  "(\<And>sc m cm. reads_only (f sc m cm)) \<Longrightarrow> reads_only (with_scope f)"
  "(\<And>sc m cm. no_panic (f sc m cm)) \<Longrightarrow> no_panic (with_scope f)"
  "(\<And>sc m cm. only_calls C (f sc m cm)) \<Longrightarrow> only_calls C (with_scope f)"
  by (auto simp: reads_only_def no_panic_def only_calls_def with_scope_def)

declare with_scope_rules(1) [read_intros] with_scope_rules(2) [panic_intros] with_scope_rules(3) [call_intros]

interpretation machine_ip: get_or_create "lookupIP c" "createIP c" "{CallCreateIP z ts |z ts. True}" for c
proof
  show "reads_only (lookupIP c)" for c
    unfolding lookupIP_def by (intro read_intros)
  show "emits trace {CallCreateIP z ts |z ts. True} (createIP c)" for c
    unfolding createIP_def by (intro only_calls_emits call_intros) auto
qed (auto simp: createIP_def with_scope_run ok_iffs)

lemma reads_findImage [read_intros]: "reads_only (findImage c sdk)"
  unfolding findImage_def Let_def by (intro read_intros)

lemma reads_findMachineSG [read_intros]: "reads_only (findMachineSG c)"
  unfolding findMachineSG_def by (intro read_intros)

interpretation machine_server: get_or_create "lookupServer c" "createServer c sdk ip" "range CallCreateServer" for c sdk ip
proof
  show "reads_only (lookupServer c)" for c
    unfolding lookupServer_def by (intro read_intros)
  show "emits trace (range CallCreateServer) (createServer c sdk ip)" for c sdk ip
    unfolding createServer_def Let_def
    by (intro only_calls_emits call_intros only_calls_reads [OF reads_findImage] only_calls_reads [OF reads_findMachineSG]) auto
  show "createServer c sdk ip s = (Ok x, s') \<Longrightarrow> trace s' \<noteq> trace s" for c sdk ip s x s'
    by (auto simp: createServer_def with_scope_run ok_iffs Let_def
        dest!: reads_only_trace [OF reads_findImage] reads_only_trace [OF reads_findMachineSG])
qed

interpretation machine_nic: get_or_create "optional (FindPrivateNICByPNID c server pnID)" "createPrivateNIC c server pnID"
  "{CallCreatePrivateNIC z i p |z i p. True}" for c server pnID
proof
  show "reads_only (optional (FindPrivateNICByPNID c server pnID))" for c server pnID
    by (intro read_intros)
  show "emits trace {CallCreatePrivateNIC z i p |z i p. True} (createPrivateNIC c server pnID)" for c server pnID
    unfolding createPrivateNIC_def by (intro only_calls_emits call_intros) auto
qed (auto simp: createPrivateNIC_def with_scope_run ok_iffs)

definition machineIPList :: "string option \<Rightarrow> string list" where
  "machineIPList ip = (case ip of None \<Rightarrow> [] | Some i \<Rightarrow> [i])"

interpretation machine_acl: acl_keeper "ensureMachineACL c sdk zone frontendID name publicIP" zone frontendID
  "aclRequest name (machineIPList publicIP) False 3" "acl_differs sdk (machineIPList publicIP)"
  for c sdk zone frontendID name publicIP
proof
  fix s r t
  assume run: "ensureMachineACL c sdk zone frontendID name publicIP s = (r, t)"
  let ?find = "wrapping ''failed to find load balancer ACL'' (optional (FindLoadBalancerACLByName c zone frontendID name))"
  let ?req = "aclRequest name (machineIPList publicIP) False 3"
  have reads: "reads_only ?find" by (intro read_intros)
  show "made s [] t \<and> (\<exists>e. r = Err e)
    \<or> (\<exists>found. (case found of None \<Rightarrow> True | Some acl \<Rightarrow> acl_Name acl = ar_Name ?req)
        \<and> (made s (acl_plan zone frontendID ?req found) t
           \<or> made s [] t \<and> (\<exists>acl. found = Some acl \<and> ar_IPSubnet ?req \<noteq> []
                \<and> \<not> acl_differs sdk (machineIPList publicIP) acl)))"
    using run unfolding ensureMachineACL_def
  proof (cases rule: bind_run)
    case (Ok found u)
    have read: "made s [] u" by (rule made_reads [OF reads Ok(1)])
    have name: "case found of None \<Rightarrow> True | Some acl \<Rightarrow> acl_Name acl = ar_Name ?req"
      using Ok(1) by (auto simp: ok_iffs aclRequest_def dest: acl_by_name.find_Ok_wanted split: option.splits)
    have "made u (acl_plan zone frontendID ?req found) t
        \<or> t = u \<and> (\<exists>acl. found = Some acl \<and> machineIPList publicIP \<noteq> [] \<and> \<not> acl_differs sdk (machineIPList publicIP) acl)"
      using Ok(2) by (auto simp: acl_plan_def aclRequest_def machineIPList_def ret_def
          split: if_splits option.splits intro: made_call made_wrapping)
    with name show ?thesis
      using made_trans [OF read] read by (auto simp: aclRequest_def)
  next
    case (Err e)
    then show ?thesis using made_reads [OF reads] by blast
  next
    case Panic
    moreover have "no_panic ?find" by (intro panic_intros)
    ultimately show ?thesis unfolding no_panic_def by (metis fst_conv)
  qed
next
  show "no_panic (ensureMachineACL c sdk zone frontendID name publicIP)"
    unfolding ensureMachineACL_def by (intro panic_intros)
qed

section \<open>Deleting a machine\<close>

text \<open>What has to be done to the instance, in this order.\<close>

definition destroy_plan :: "Server \<Rightarrow> call list" where
  "destroy_plan server =
     (case srv_PublicIP server of None \<Rightarrow> []
      | Some ip \<Rightarrow> if sip_Dynamic ip then [] else [CallDeleteIP (srv_Zone server) (sip_ID ip)])
   @ concat (map (\<lambda>v. if vol_Boot (snd v) then [] else [CallDetachVolume (srv_Zone server) (vol_ID (snd v))]) (srv_Volumes server))
   @ (if srv_State server = ServerStateStopped then
        (case map_of (srv_Volumes server) ''0'' of None \<Rightarrow> []
         | Some v \<Rightarrow> if \<not> vol_Boot v then [] else
             [CallDetachVolume (srv_Zone server) (vol_ID v)] @ [CallDeleteVolume (srv_Zone server) (vol_ID v)])
        @ [CallDeleteServer (srv_Zone server) (srv_ID server)]
      else [CallServerAction (srv_Zone server) (srv_ID server) ServerActionTerminate])"

lemma destroyServer_follows: "follows (destroyServer c server) (destroy_plan server)"
  unfolding destroyServer_def destroy_plan_def deleteFlexibleIP_def deleteBootVolume_def detachVolume_def
  by (intro plan_intros)

definition leave_calls :: "call set" where
  "leave_calls = {CallDeleteACL z i |z i. True} \<union> {CallRemoveBackendServers z b ips |z b ips. True}"

lemma emits_keeper_only:
  "only_calls (acl_calls zone fid (aclRequest name (machineIPList ip) False 3)) (ensureMachineACL c sdk zone fid name ip)"
  by (rule only_callsI) (use machine_acl.keep_made in blast)

lemma leave_ACL: "only_calls leave_calls (ensureLoadBalancerACL c sdk None)"
  unfolding ensureLoadBalancerACL_def
  by (intro call_intros only_calls_mono [OF emits_keeper_only])
    (auto simp: leave_calls_def acl_calls_def aclRequest_def machineIPList_def)

lemma reads_findInternalIP [read_intros]: "reads_only (findInternalIP c pnic)"
  unfolding findInternalIP_def by (intro read_intros)

lemma reads_getMachineIPs [read_intros]: "reads_only (getMachineIPs c server pnic)"
  unfolding getMachineIPs_def Let_def by (intro read_intros)

lemma leave_backend: "only_calls leave_calls (leaveLoadBalancer c server)"
  unfolding leaveLoadBalancer_def ensureControlPlaneLoadBalancer_def
  by (intro call_intros only_calls_reads [OF reads_getMachineIPs]) (auto simp: leave_calls_def)

section \<open>Reconciling a machine\<close>

definition started_calls :: "Server \<Rightarrow> call list" where
  "started_calls server = (if srv_State server \<noteq> ServerStateStopped then []
     else [CallServerAction (srv_Zone server) (srv_ID server) ServerActionPoweron])"

lemma ensureServerStarted_follows: "follows (ensureServerStarted c server) (started_calls server)"
  unfolding ensureServerStarted_def started_calls_def by (intro plan_intros)

lemma ensureCloudInit_calls:
  "only_calls {CallSetServerUserData (srv_Zone server) (srv_ID server) ''cloud-init'' d |d. True}
     (ensureCloudInit c k engine server ips)"
  unfolding ensureCloudInit_def
  by (intro call_intros only_calls_reads [OF reads_GetRawBootstrapData]) auto

text \<open>After \<^verbatim>\<open>ensureCloudInit\<close> succeeded on a stopped server, its cloud-init data is there or was just set.\<close>

definition bootstrapped :: "'w Client \<Rightarrow> Server \<Rightarrow> call list \<Rightarrow> bool" where
  "bootstrapped c server es \<longleftrightarrow>
     (\<exists>d. CallSetServerUserData (srv_Zone server) (srv_ID server) ''cloud-init'' d \<in> set es)
   \<or> (\<exists>ud w w' v. instance_GetAllServerUserData (cl_Instance c) (srv_Zone server) (srv_ID server) w = (Inr ud, w')
        \<and> map_of ud ''cloud-init'' = Some v)"

lemma ensureCloudInit_Ok:
  assumes run: "ensureCloudInit c k engine server ips s = (Ok (), t)" and "srv_State server = ServerStateStopped"
  shows "\<exists>es. made s es t \<and> bootstrapped c server es"
proof -
  obtain ud u where ud: "sdk_read (instance_GetAllServerUserData (cl_Instance c) (srv_Zone server) (srv_ID server)) s = (Ok ud, u)"
    and rest: "(case map_of ud ''cloud-init'' of Some _ \<Rightarrow> ret () | None \<Rightarrow>
        bind (GetRawBootstrapData k) (\<lambda>raw. bind (lift_outcome (NodeIP ips)) (\<lambda>nodeIP. with_scope (\<lambda>sc m cm.
          bind (lift_sum (patchBootstrapData engine raw \<lparr>bv_NodeIP = nodeIP, bv_ProviderID = ProviderID sc cm (srv_ID server)\<rparr>))
          (\<lambda>bootstrap. sdk_call (CallSetServerUserData (srv_Zone server) (srv_ID server) ''cloud-init'' bootstrap)
            (instance_SetServerUserData (cl_Instance c) (srv_Zone server) (srv_ID server) ''cloud-init'' bootstrap)))))) u = (Ok (), t)"
    using run assms(2) unfolding ensureCloudInit_def by (auto simp: bind_Ok)
  show ?thesis
  proof (cases "map_of ud ''cloud-init''")
    case (Some v)
    have "made s [] t" using made_read [OF ud] rest Some by (simp add: ret_def)
    moreover have "bootstrapped c server []" using ud Some unfolding bootstrapped_def sdk_read_Ok by blast
    ultimately show ?thesis by blast
  next
    case None
    with rest obtain v d where "made u [] v" and
      "made v [CallSetServerUserData (srv_Zone server) (srv_ID server) ''cloud-init'' d] t"
      by (auto simp: bind_Ok pure_Ok with_scope_run lift_sum_Ok dest!: made_reads [OF reads_GetRawBootstrapData] made_call)
    with made_trans [OF made_read [OF ud] made_trans] show ?thesis
      by (fastforce simp: bootstrapped_def)
  qed
qed

definition prepare_calls :: "call set" where
  "prepare_calls = {CallCreateIP z ts |z ts. True} \<union> range CallCreateServer \<union> {CallCreatePrivateNIC z i p |z i p. True}
     \<union> {CallAddBackendServers z b ips |z b ips. True}
     \<union> {CallCreateACL z f r |z f r. True} \<union> {CallUpdateACL z i r |z i r. True} \<union> {CallDeleteACL z i |z i. True}"

lemma prepareMachine_calls: "only_calls prepare_calls (prepareMachine c sdk)"
  unfolding prepareMachine_def getOrCreateIP_def lookupIP_def createIP_def getOrCreateServer_def createServer_def
    getOrCreatePrivateNIC_def createPrivateNIC_def ensureControlPlaneLoadBalancer_def ensureLoadBalancerACL_def Let_def
  by (intro call_intros only_calls_mono [OF emits_keeper_only] only_calls_reads [OF reads_findImage]
      only_calls_reads [OF reads_findMachineSG] only_calls_reads [OF reads_getMachineIPs]
      only_calls_reads [OF machine_server.lookup_reads])
    (auto simp: prepare_calls_def acl_calls_def)

lemma instance_Reconcile_parts:
  assumes "instance_Reconcile c sdk k engine s = (r, t)"
  shows "\<exists>pre ini st server. trace t = trace s @ pre @ ini @ st \<and> set pre \<subseteq> prepare_calls
    \<and> set ini \<subseteq> {CallSetServerUserData (srv_Zone server) (srv_ID server) ''cloud-init'' d |d. True}
    \<and> prefix st (started_calls server) \<and> (st = [] \<or> bootstrapped c server ini)"
proof -
  obtain q u where prep: "prepareMachine c sdk s = (q, u)" by fastforce
  obtain pre where pre: "made s pre u" "set pre \<subseteq> prepare_calls" using only_callsD [OF prepareMachine_calls prep] by blast
  show ?thesis
  proof (cases "\<exists>server ips. q = Ok (server, ips)")
    case False
    with assms prep have "t = u" by (cases q) (auto simp: instance_Reconcile_def bind_def)
    with pre show ?thesis by (intro exI [where x = pre] exI [where x = "[]"]) (auto dest: made_trace)
  next
    case True
    then obtain server ips where q: "q = Ok (server, ips)" by blast
    obtain p v where init: "ensureCloudInit c k engine server ips u = (p, v)" by fastforce
    obtain ini where ini: "made u ini v" "set ini \<subseteq> {CallSetServerUserData (srv_Zone server) (srv_ID server) ''cloud-init'' d |d. True}"
      using only_callsD [OF ensureCloudInit_calls init] by blast
    show ?thesis
    proof (cases "p = Ok ()")
      case False
      with assms prep q init have "t = v" by (cases p) (auto simp: instance_Reconcile_def bind_def)
      with pre ini show ?thesis
        by (intro exI [where x = pre] exI [where x = ini] exI [where x = "[]"] exI [where x = server]) (auto dest!: made_trace)
    next
      case True
      obtain p' w where start: "ensureServerStarted c server v = (p', w)" by fastforce
      obtain st where st: "prefix st (started_calls server)" "made v st w"
        using followsD [OF ensureServerStarted_follows start] by blast
      have "trace t = trace w"
        using assms prep q init start True by (cases p') (auto simp: instance_Reconcile_def bind_def modify_def)
      moreover have "st = [] \<or> (\<exists>es. made u es v \<and> bootstrapped c server es)"
        using ensureCloudInit_Ok [of c k engine server ips u v] init True st(1)
        by (cases "srv_State server = ServerStateStopped") (auto simp: started_calls_def)
      then have "st = [] \<or> bootstrapped c server ini"
        using made_trace [OF ini(1)] made_trace by fastforce
      ultimately show ?thesis
        using pre ini st
        by (intro exI [where x = pre] exI [where x = ini] exI [where x = st] exI [where x = server]) (auto dest!: made_trace)
    qed
  qed
qed

lemma getMachineIPs_Ok:
  assumes "getMachineIPs c server pnic s = (Ok ips, t)"
  shows "mi_External ips = map_option (\<lambda>ip. IP_String (sip_Address ip)) (srv_PublicIP server)
    \<and> (\<exists>a as. machineAddresses ips = a # as) \<and> (\<exists>ip. NodeIP ips = Ok ip)"
  using assms
  by (auto simp: getMachineIPs_def bind_Ok Let_def pure_Ok machineAddresses_def NodeIP_def split: if_splits option.split)

lemma prepareMachine_ips:
  assumes "prepareMachine c sdk s = (Ok (server, ips), u)"
  shows "mi_External ips = map_option (\<lambda>ip. IP_String (sip_Address ip)) (srv_PublicIP server)
    \<and> (\<exists>a as. machineAddresses ips = a # as)"
  using assms by (auto simp: prepareMachine_def bind_Ok pure_Ok dest: getMachineIPs_Ok)

lemma leave_then_destroy:
  assumes "bind (optional (ensureLoadBalancerACL c sdk None)) (\<lambda>_. bind (leaveLoadBalancer c server)
      (\<lambda>_. destroyServer c server)) s = (r, t)"
  shows "\<exists>lb pre. made s (lb @ pre) t \<and> set lb \<subseteq> leave_calls \<and> prefix pre (destroy_plan server)
    \<and> (case r of Ok _ \<Rightarrow> pre = destroy_plan server | _ \<Rightarrow> True)"
proof -
  have leave: "only_calls leave_calls (bind (optional (ensureLoadBalancerACL c sdk None)) (\<lambda>_. leaveLoadBalancer c server))"
    by (intro call_intros leave_ACL leave_backend)
  have "bind (bind (optional (ensureLoadBalancerACL c sdk None)) (\<lambda>_. leaveLoadBalancer c server))
      (\<lambda>_. destroyServer c server) s = (r, t)"
    using assms by (simp add: bind_assoc)
  then show ?thesis
  proof (cases rule: bind_run)
    case (Ok x u)
    obtain lb where "made s lb u" "set lb \<subseteq> leave_calls" using only_callsD [OF leave Ok(1)] by blast
    moreover obtain pre where "prefix pre (destroy_plan server)" "made u pre t"
      "case r of Ok _ \<Rightarrow> pre = destroy_plan server | _ \<Rightarrow> True"
      using followsD [OF destroyServer_follows Ok(2)] by blast
    ultimately show ?thesis using made_trans by blast
  next
    case (Err e)
    obtain lb where "made s lb t" "set lb \<subseteq> leave_calls" using only_callsD [OF leave Err(1)] by blast
    with Err(2) show ?thesis by (intro exI [where x = lb] exI [where x = "[]"]) simp
  next
    case Panic
    obtain lb where "made s lb t" "set lb \<subseteq> leave_calls" using only_callsD [OF leave Panic(1)] by blast
    with Panic(2) show ?thesis by (intro exI [where x = lb] exI [where x = "[]"]) simp
  qed
qed

section \<open>Properties\<close>

text \<open>
  C9: a server is started only with its bootstrap data. In every run of the reconciliation of
  a machine, the only action asked of a server is to power on; it is the last call of the run,
  and before it the cloud-init data of that server was set, or the API reported that the server
  has it already.
\<close>

theorem poweron_after_cloud_init:
  assumes "trace (snd (instance_Reconcile c sdk k engine s)) = trace s @ before @ CallServerAction z i a # after"
  shows "a = ServerActionPoweron \<and> after = [] \<and>
    ((\<exists>d. CallSetServerUserData z i ''cloud-init'' d \<in> set before)
     \<or> (\<exists>ud w w' v. instance_GetAllServerUserData (cl_Instance c) z i w = (Inr ud, w') \<and> map_of ud ''cloud-init'' = Some v))"
proof -
  obtain r t where run: "instance_Reconcile c sdk k engine s = (r, t)" by fastforce
  from instance_Reconcile_parts [OF run] obtain pre ini st server where
    parts: "trace t = trace s @ pre @ ini @ st" "set pre \<subseteq> prepare_calls"
      "set ini \<subseteq> {CallSetServerUserData (srv_Zone server) (srv_ID server) ''cloud-init'' d |d. True}"
      "prefix st (started_calls server)" "st = [] \<or> bootstrapped c server ini" by blast
  have es: "before @ CallServerAction z i a # after = (pre @ ini) @ st" using assms run parts(1) by simp
  have "CallServerAction z i a \<notin> set (pre @ ini)"
    using parts(2,3) by (auto simp: prepare_calls_def)
  then have "CallServerAction z i a \<in> set st"
    using es by (metis Un_iff in_set_conv_decomp set_append)
  then have st: "st = [CallServerAction (srv_Zone server) (srv_ID server) ServerActionPoweron]"
    "CallServerAction z i a = CallServerAction (srv_Zone server) (srv_ID server) ServerActionPoweron"
    using parts(4) by (auto simp: started_calls_def prefix_Cons split: if_splits)
  then have "before @ CallServerAction z i a # after = (pre @ ini) @ [CallServerAction z i a]" using es by simp
  then have "before = pre @ ini" "after = []"
    using \<open>_ \<notin> _\<close> by (auto simp: append_eq_append_conv2 append_eq_Cons_conv Cons_eq_append_conv)
  with st parts(5) show ?thesis by (auto simp: bootstrapped_def)
qed

text \<open>
  C20: what a reconciled machine records. On success the provider ID names the zone and the
  server, the recorded addresses are the public IP of the server and then its private IP, and
  there is at least one; nothing else of the machine changes, nor does the cluster object.
\<close>

theorem instance_Reconcile_result:
  assumes "instance_Reconcile c sdk k engine s = (Ok (), t)"
  shows "\<exists>server ips u. prepareMachine c sdk s = (Ok (server, ips), u)
    \<and> mi_External ips = map_option (\<lambda>ip. IP_String (sip_Address ip)) (srv_PublicIP server)
    \<and> (\<exists>a as. machineAddresses ips = a # as)
    \<and> scope_ScalewayMachine t = SetMachineResult
        (''scaleway://instance/'' @ Machine_Zone (scope_ScalewayCluster s) (scope_Machine s) @ ''/'' @ srv_ID server)
        (machineAddresses ips) (scope_ScalewayMachine s)
    \<and> scope_ScalewayCluster t = scope_ScalewayCluster s"
proof -
  obtain server ips u v w where prep: "prepareMachine c sdk s = (Ok (server, ips), u)"
    and steps: "ensureCloudInit c k engine server ips u = (Ok (), v)" "ensureServerStarted c server v = (Ok (), w)"
    and t: "t = w\<lparr>scope_ScalewayMachine := SetMachineResult
       (ProviderID (scope_ScalewayCluster w) (scope_Machine w) (srv_ID server))
       (machineAddresses ips) (scope_ScalewayMachine w)\<rparr>"
    using assms unfolding instance_Reconcile_def Let_def by (auto simp: bind_Ok pure_Ok)
  obtain es where "made s es w"
    using only_callsD [OF prepareMachine_calls prep] only_callsD [OF ensureCloudInit_calls steps(1)]
      followsD [OF ensureServerStarted_follows steps(2)] made_trans by metis
  then have "scope_ScalewayCluster w = scope_ScalewayCluster s" "scope_ScalewayMachine w = scope_ScalewayMachine s"
    "scope_Machine w = scope_Machine s" using made_cluster made_machine by blast+
  with prep prepareMachine_ips [OF prep] t show ?thesis
    by (intro exI [where x = server] exI [where x = ips] exI [where x = u]) (simp add: ProviderID_def)
qed


text \<open>Running the service on the concrete cloud: a server with a public IP is created and started.\<close>

definition ex_engine :: template_engine where
  "ex_engine bootstrap = Inr (\<lambda>v. Inr bootstrap)"

definition ex_reconcile :: "unit outcome \<times> unit MachineScope" where
  "ex_reconcile = instance_Reconcile ex_machine_client ex_sdk ex_bootstrap_k8s ex_engine (ex_machine_scope ex_public_machine ())"

lemmas ex_reconcile_run = instance_Reconcile_def prepareMachine_def getOrCreateIP_def lookupIP_def createIP_def
  getOrCreateServer_def lookupServer_def createServer_def findImage_def findMachineSG_def serverRequest_def
  ScalewayRootVolumeType_def getOrCreatePrivateNIC_def getMachineIPs_def findInternalIP_def
  ensureControlPlaneLoadBalancer_def ensureLoadBalancerACL_def ensureMachineACL_def ensureCloudInit_def
  ensureServerStarted_def GetRawBootstrapData_def patchBootstrapData_def NodeIP_def with_scope_def NeedsPublicIP_def
  isValidUUID_def Machine_Zone_def Machine_Name_def LoadBalancerZone_def ControlPlaneFrontendName_def
  ControlPlaneBackendName_def run_defs ex_engine_def ex_kubernetes

lemma ex_reconcile_Ok: "fst ex_reconcile = Ok ()"
  unfolding ex_reconcile_def by (simp add: ex_reconcile_run)

lemma ex_reconcile_trace:
  "\<exists>before. trace (snd ex_reconcile) = before @ [CallServerAction ''fr-par-1'' ''srv-1'' ServerActionPoweron]"
  unfolding ex_reconcile_def by (simp add: ex_reconcile_run)

theorem poweron_after_cloud_init_witness:
  "\<exists>before. trace (snd ex_reconcile) = before @ [CallServerAction ''fr-par-1'' ''srv-1'' ServerActionPoweron]
   \<and> (\<exists>d. CallSetServerUserData ''fr-par-1'' ''srv-1'' ''cloud-init'' d \<in> set before)"
proof -
  obtain before where before: "trace (snd ex_reconcile) = before @ [CallServerAction ''fr-par-1'' ''srv-1'' ServerActionPoweron]"
    using ex_reconcile_trace by blast
  have "trace (snd ex_reconcile) = trace (ex_machine_scope ex_public_machine ())
      @ before @ CallServerAction ''fr-par-1'' ''srv-1'' ServerActionPoweron # []"
    using before by (simp add: ex_machine_scope_def)
  from poweron_after_cloud_init [OF this [unfolded ex_reconcile_def]] before show ?thesis
    by (auto simp: ex_machine_client_def)
qed

theorem instance_Reconcile_result_witness:
  "\<exists>server ips. scope_ScalewayMachine (snd ex_reconcile) = SetMachineResult
     (''scaleway://instance/fr-par-1/'' @ srv_ID (server :: Server)) (machineAddresses (ips :: machineIPs)) ex_public_machine"
proof -
  have run: "instance_Reconcile ex_machine_client ex_sdk ex_bootstrap_k8s ex_engine (ex_machine_scope ex_public_machine ())
      = (Ok (), snd ex_reconcile)"
    using ex_reconcile_Ok unfolding ex_reconcile_def by (metis prod.collapse)
  from instance_Reconcile_result [OF run] obtain server ips where
    "scope_ScalewayMachine (snd ex_reconcile) = SetMachineResult (''scaleway://instance/''
       @ Machine_Zone (scope_ScalewayCluster (ex_machine_scope ex_public_machine ()))
           (scope_Machine (ex_machine_scope ex_public_machine ())) @ ''/'' @ srv_ID (server :: Server))
       (machineAddresses (ips :: machineIPs)) (scope_ScalewayMachine (ex_machine_scope ex_public_machine ()))" by blast
  then show ?thesis
    by (intro exI [where x = server] exI [where x = ips])
      (simp add: ex_machine_scope_def ex_capi_machine_def Machine_Zone_def)
qed

section \<open>What a reconciliation asks for\<close>

text \<open>Calls at the states in which the scope holds given objects.\<close>

definition scoped_calls ::
  "ScalewayCluster \<Rightarrow> ScalewayMachine \<Rightarrow> CapiMachine \<Rightarrow> call set \<Rightarrow> (('w, 'z) MachineScope_scheme, 'a) go \<Rightarrow> bool" where
  "scoped_calls sc m cm C p \<longleftrightarrow> (\<forall>s. scope_ScalewayCluster s = sc \<and> scope_ScalewayMachine s = m \<and> scope_Machine s = cm \<longrightarrow>
     (\<exists>es. made s es (snd (p s)) \<and> set es \<subseteq> C))"

lemma scopedI: "only_calls C p \<Longrightarrow> scoped_calls sc m cm C p"
  by (simp add: only_calls_def scoped_calls_def)

lemma scoped_with_scope: "scoped_calls sc m cm C (f sc m cm) \<Longrightarrow> scoped_calls sc m cm C (with_scope f)"
  by (simp add: scoped_calls_def with_scope_def)

lemma scoped_bind:
  assumes p: "scoped_calls sc m cm C p"
    and f: "\<And>x s t. p s = (Ok x, t) \<Longrightarrow> scope_ScalewayMachine s = m \<Longrightarrow> scoped_calls sc m cm C (f x)"
  shows "scoped_calls sc m cm C (bind p f)"
  unfolding scoped_calls_def
proof (intro allI impI)
  fix s :: "('a, 'b) MachineScope_scheme"
  assume s: "scope_ScalewayCluster s = sc \<and> scope_ScalewayMachine s = m \<and> scope_Machine s = cm"
  obtain r u where ps: "p s = (r, u)" by fastforce
  obtain es where es: "made s es u" "set es \<subseteq> C" using p s ps unfolding scoped_calls_def by (metis snd_conv)
  show "\<exists>es. made s es (snd (bind p f s)) \<and> set es \<subseteq> C"
  proof (cases r)
    case (Ok x)
    have "scoped_calls sc m cm C (f x)" using f ps Ok s by blast
    moreover have "scope_ScalewayCluster u = sc \<and> scope_ScalewayMachine u = m \<and> scope_Machine u = cm"
      using s es(1) made_cluster made_machine by blast
    ultimately obtain fs where "made u fs (snd (f x u))" "set fs \<subseteq> C" unfolding scoped_calls_def by blast
    with es made_trans [OF es(1)] ps Ok show ?thesis
      by (intro exI [where x = "es @ fs"]) (auto simp: bind_def)
  qed (use es ps in \<open>auto simp: bind_def\<close>)
qed

lemma scoped_wrapping: "scoped_calls sc m cm C p \<Longrightarrow> scoped_calls sc m cm C (wrapping msg p)"
  by (simp add: scoped_calls_def snd_wrapping)

lemma scoped_if:
  "(b \<Longrightarrow> scoped_calls sc m cm C p) \<Longrightarrow> (\<not> b \<Longrightarrow> scoped_calls sc m cm C q) \<Longrightarrow> scoped_calls sc m cm C (if b then p else q)"
  by simp

lemma scoped_getOrCreate:
  "scoped_calls sc m cm C lookup \<Longrightarrow> scoped_calls sc m cm C create \<Longrightarrow> scoped_calls sc m cm C (getOrCreate lookup create)"
  unfolding getOrCreate_def
  by (rule scoped_bind) (auto intro: scopedI call_intros split: option.split)

text \<open>What the calls for a machine may ask.\<close>

definition machine_call :: "SDK \<Rightarrow> ScalewayCluster \<Rightarrow> ScalewayMachine \<Rightarrow> CapiMachine \<Rightarrow> call \<Rightarrow> bool" where
  "machine_call sdk sc m cm ev = (case ev of
     CallCreateIP z tags \<Rightarrow> NeedsPublicIP m \<and> z = Machine_Zone sc cm \<and> tags = Machine_Tags sc m
   | CallCreateServer req \<Rightarrow> cs_Zone req = Machine_Zone sc cm \<and> cs_Name req = Machine_Name m
       \<and> cs_CommercialType req = ms_Type (sm_Spec m) \<and> (cs_PublicIP req = None) = (\<not> NeedsPublicIP m)
       \<and> cs_DynamicIPRequired req = False
       \<and> map (\<lambda>v. vt_Size (snd v)) (cs_Volumes req) = [rootVolumeSize sdk (sm_Spec m)]
   | CallCreatePrivateNIC z i p \<Rightarrow> z = Machine_Zone sc cm \<and> PrivateNetworkID sc = Ok p
   | CallAddBackendServers z b ips \<Rightarrow> cm_IsControlPlane cm \<and> z = LoadBalancerZone sc
   | CallCreateACL z f req \<Rightarrow> z = LoadBalancerZone sc \<and> ar_Name req = Machine_Name m \<and> ar_Action req = ACLActionTypeAllow
   | CallUpdateACL z i req \<Rightarrow> z = LoadBalancerZone sc \<and> ar_Name req = Machine_Name m \<and> ar_Action req = ACLActionTypeAllow
   | CallDeleteACL z i \<Rightarrow> z = LoadBalancerZone sc
   | CallSetServerUserData z i key d \<Rightarrow> key = ''cloud-init''
   | CallServerAction z i a \<Rightarrow> a = ServerActionPoweron
   | _ \<Rightarrow> False)"

lemma getOrCreateIP_scoped:
  "scoped_calls sc m cm (Collect (machine_call sdk sc m cm)) (getOrCreateIP c)"
  unfolding getOrCreateIP_def createIP_def
  by (intro scoped_with_scope scoped_if scoped_bind scoped_getOrCreate scoped_wrapping)
    (auto intro!: scopedI call_intros only_calls_reads [OF machine_ip.lookup_reads] simp: machine_call_def)

lemma getOrCreateIP_None:
  "getOrCreateIP c s = (Ok ip, t) \<Longrightarrow> (ip = None) = (\<not> NeedsPublicIP (scope_ScalewayMachine s))"
  by (auto simp: getOrCreateIP_def with_scope_run ok_iffs split: if_splits)

lemma getOrCreateServer_scoped:
  assumes "(ip = None) = (\<not> NeedsPublicIP m)"
  shows "scoped_calls sc m cm (Collect (machine_call sdk sc m cm)) (getOrCreateServer c sdk ip)"
  unfolding getOrCreateServer_def createServer_def Let_def using assms
  by (intro scoped_with_scope scoped_bind scoped_getOrCreate scoped_wrapping)
    (auto intro!: scopedI call_intros only_calls_reads [OF machine_server.lookup_reads]
      only_calls_reads [OF reads_findImage] only_calls_reads [OF reads_findMachineSG]
      simp: machine_call_def serverRequest_def)

lemma getOrCreatePrivateNIC_scoped:
  "scoped_calls sc m cm (Collect (machine_call sdk sc m cm)) (getOrCreatePrivateNIC c server)"
  unfolding getOrCreatePrivateNIC_def createPrivateNIC_def
  by (intro scoped_with_scope scoped_if scoped_bind scoped_getOrCreate scoped_wrapping)
    (auto intro!: scopedI call_intros simp: machine_call_def pure_Ok)

lemma ensureControlPlane_scoped:
  "scoped_calls sc m cm (Collect (machine_call sdk sc m cm)) (ensureControlPlaneLoadBalancer c ips False)"
  unfolding ensureControlPlaneLoadBalancer_def
  by (intro scoped_with_scope scoped_if scoped_bind)
    (auto intro!: scopedI call_intros simp: machine_call_def)

lemma ensureLoadBalancerACL_scoped:
  "scoped_calls sc m cm (Collect (machine_call sdk sc m cm)) (ensureLoadBalancerACL c sdk' ip)"
  unfolding ensureLoadBalancerACL_def
  by (intro scoped_with_scope scopedI call_intros only_calls_mono [OF emits_keeper_only])
    (auto simp: acl_calls_def machine_call_def aclRequest_def split: if_splits)

lemma prepareMachine_scoped: "scoped_calls sc m cm (Collect (machine_call sdk sc m cm)) (prepareMachine c sdk)"
  unfolding prepareMachine_def
  by (intro scoped_bind getOrCreateIP_scoped getOrCreateServer_scoped getOrCreatePrivateNIC_scoped
      ensureControlPlane_scoped ensureLoadBalancerACL_scoped scopedI [OF only_calls_reads [OF reads_getMachineIPs]] scopedI call_intros)
    (auto dest: getOrCreateIP_None)

lemma ensureCloudInit_scoped:
  "scoped_calls sc m cm (Collect (machine_call sdk sc m cm)) (ensureCloudInit c k engine server ips)"
  by (rule scopedI [OF only_calls_mono [OF ensureCloudInit_calls]]) (auto simp: machine_call_def)

lemma ensureServerStarted_scoped:
  "scoped_calls sc m cm (Collect (machine_call sdk sc m cm)) (ensureServerStarted c server)"
  unfolding ensureServerStarted_def by (intro scopedI call_intros) (auto simp: machine_call_def)

text \<open>
  A reconciliation asks for what the machine's spec says and nothing else. Whatever the
  outcome, every call is one of these: an IP for the machine's zone and tags, only if the spec
  wants a public IP; a server with the machine's name, zone and type, the root volume size of
  the spec, no dynamic IP, and a public IP exactly if the spec wants one; a NIC on the recorded
  private network; a place in the backend, only for a control plane machine; an allow rule
  under the machine's name; the cloud-init data; the power-on.
\<close>

theorem instance_Reconcile_calls:
  "let sc = scope_ScalewayCluster s; m = scope_ScalewayMachine s; cm = scope_Machine s in
   \<exists>es. trace (snd (instance_Reconcile c sdk k engine s)) = trace s @ es \<and> list_all (machine_call sdk sc m cm) es"
proof -
  let ?sc = "scope_ScalewayCluster s" and ?m = "scope_ScalewayMachine s" and ?cm = "scope_Machine s"
  let ?C = "Collect (machine_call sdk ?sc ?m ?cm)"
  let ?core = "bind (prepareMachine c sdk) (\<lambda>p. bind (ensureCloudInit c k engine (fst p) (snd p)) (\<lambda>_. ensureServerStarted c (fst p)))"
  have "scoped_calls ?sc ?m ?cm ?C ?core"
    by (intro scoped_bind prepareMachine_scoped ensureCloudInit_scoped ensureServerStarted_scoped)
  then obtain es where es: "made s es (snd (?core s))" "set es \<subseteq> ?C"
    unfolding scoped_calls_def by blast
  have "trace (snd (?core s)) = trace s @ es" by (rule made_trace [OF es(1)])
  moreover have "trace (snd (instance_Reconcile c sdk k engine s)) = trace (snd (?core s))"
    by (simp add: instance_Reconcile_def Let_def bind_def modify_def split: prod.splits outcome.splits)
  ultimately show ?thesis using es(2) by (auto simp: Let_def list_all_iff)
qed

lemma first_match_Ok: "first_match P xs s = (Ok x, t) \<longleftrightarrow> find P xs = Some x \<and> t = s"
  by (auto simp: first_match_def pure_Ok split: option.split)

lemma ensureControlPlane_joins:
  assumes "ensureControlPlaneLoadBalancer c ips False s = (Ok (), t)" "cm_IsControlPlane (scope_Machine s)"
  shows "\<exists>nodeIP b es. NodeIP ips = Ok nodeIP \<and> be_Name (b :: Backend) = ControlPlaneBackendName \<and> made s es t
    \<and> (nodeIP \<in> set (be_Pool b)
       \<or> CallAddBackendServers (LoadBalancerZone (scope_ScalewayCluster s)) (be_ID b) [nodeIP] \<in> set es)"
proof -
  let ?zone = "LoadBalancerZone (scope_ScalewayCluster s)"
  obtain b u nodeIP where find: "FindLoadBalancerBackendByNames c ?zone (Name (scope_ScalewayCluster s)) ControlPlaneBackendName s = (Ok b, u)"
    and ip: "NodeIP ips = Ok nodeIP"
    and rest: "(if nodeIP \<notin> set (be_Pool b) then sdk_call (CallAddBackendServers ?zone (be_ID b) [nodeIP])
        (lb_AddBackendServers (cl_LoadBalancer c) ?zone (be_ID b) [nodeIP]) else ret ()) u = (Ok (), t)"
    using assms by (auto simp: ensureControlPlaneLoadBalancer_def with_scope_run bind_Ok pure_Ok wrapping_Ok)
  have read: "made s [] u" by (rule made_reads [OF reads_FindBackend find])
  have name: "be_Name b = ControlPlaneBackendName"
    using find by (auto simp: FindLoadBalancerBackendByNames_def bind_Ok first_match_Ok dest: find_SomeD)
  show ?thesis
  proof (cases "nodeIP \<in> set (be_Pool b)")
    case True
    with rest read ip name show ?thesis by (auto simp: pure_Ok)
  next
    case False
    with rest have "made u [CallAddBackendServers ?zone (be_ID b) [nodeIP]] t" by (auto intro: made_call)
    from made_trans [OF read this] ip name show ?thesis by (auto intro!: exI [where x = b])
  qed
qed

lemma prefix_made:
  assumes "getOrCreateIP c s = (Ok ip, x0)" "getOrCreateServer c sdk ip x0 = (Ok server, x1)"
    "getOrCreatePrivateNIC c server x1 = (Ok nic, x2)" "getMachineIPs c server nic x2 = (Ok ips, x3)"
  shows "\<exists>es. made s es x3"
proof -
  have "only_calls UNIV (getOrCreateIP c)" "only_calls UNIV (getOrCreateServer c sdk ip)" "only_calls UNIV (getOrCreatePrivateNIC c server)"
    unfolding getOrCreateIP_def lookupIP_def createIP_def getOrCreateServer_def createServer_def getOrCreatePrivateNIC_def
      createPrivateNIC_def Let_def
    by (intro call_intros only_calls_reads [OF reads_findImage] only_calls_reads [OF reads_findMachineSG]
      only_calls_reads [OF machine_server.lookup_reads]; simp)+
  from only_callsD [OF this(1) assms(1)] only_callsD [OF this(2) assms(2)] only_callsD [OF this(3) assms(3)]
    made_reads [OF reads_getMachineIPs assms(4)]
  show ?thesis using made_trans by metis
qed

lemma suffix_made:
  assumes "ensureLoadBalancerACL c sdk ip x = (Ok (), u)"
    "ensureCloudInit c k engine server ips u = (Ok (), v)" "ensureServerStarted c server v = (Ok (), w)"
  shows "\<exists>es. made x es w"
proof -
  have "only_calls UNIV (ensureLoadBalancerACL c sdk ip)"
    unfolding ensureLoadBalancerACL_def by (intro call_intros only_calls_mono [OF emits_keeper_only]) simp
  from only_callsD [OF this assms(1)] only_callsD [OF ensureCloudInit_calls assms(2)]
    followsD [OF ensureServerStarted_follows assms(3)]
  show ?thesis using made_trans by metis
qed



end
