(* ===== verification/Secret_Client.thy ===== *)
theory Secret_Client
  imports Instance_Service
begin

text \<open>
  \<^verbatim>\<open>internal/controller/secret.go\<close>: the credentials of a cluster come from a secret, of which the
  cluster becomes an owner.
\<close>

definition lift_api :: "api_error + 'a \<Rightarrow> ('s, 'a) go" where
  "lift_api r = (case r of Inl e \<Rightarrow> throw (ApiErr e) | Inr x \<Rightarrow> ret x)"

text \<open>\<^verbatim>\<open>string(secret.Data[key])\<close>: a missing key gives the empty string.\<close>

definition secret_data :: "Secret \<Rightarrow> string \<Rightarrow> string" where
  "secret_data secret key = (case map_of (sec_Data secret) key of None \<Rightarrow> [] | Some v \<Rightarrow> v)"

definition takeOwnership :: "'w k8s_API \<Rightarrow> ScalewayCluster \<Rightarrow> Secret \<Rightarrow> (('w, 'z) env_scheme, Secret) go" where
  "takeOwnership k scalewayCluster secret =
     (if k_IsControlledBy k secret scalewayCluster \<or> meta_UID (sc_Meta scalewayCluster) \<in> set (sec_OwnerUIDs secret)
      then ret secret
      else
        bind (wrapping ''failed to set owner reference for secret'' (lift_api (k_SetOwnerReference k scalewayCluster secret))) (\<lambda>owned.
        wrapping ''failed to update secret''
          (sdk_call (CallUpdateSecret (sec_Namespace owned) (sec_Name owned)) (k_UpdateSecret k owned))))"

definition clientOptions :: "Secret \<Rightarrow> ClientOptions" where
  "clientOptions secret = \<lparr>co_AccessKey = secret_data secret ''accessKey'', co_SecretKey = secret_data secret ''secretKey'',
     co_ProjectID = secret_data secret ''projectID'',
     co_APIURL = (if secret_data secret ''apiURL'' \<noteq> [] then Some (secret_data secret ''apiURL'') else None)\<rparr>"

definition clientFromSecret :: "'w k8s_API \<Rightarrow> ScalewayCluster \<Rightarrow> (('w, 'z) env_scheme, 'w scw_Client) go" where
  "clientFromSecret k scalewayCluster =
     bind (sdk_read (k_GetSecret k (meta_Namespace (sc_Meta scalewayCluster)) (spec_ScalewaySecretName (sc_Spec scalewayCluster)))) (\<lambda>secret.
     bind (takeOwnership k scalewayCluster secret) (\<lambda>owned.
     lift_api (k_NewScwClient k (clientOptions owned))))"

lemma lift_api_rules:
  "reads_only (lift_api r)" "no_panic (lift_api q)" "only_calls C (lift_api p)" "emits obs D (lift_api o')" "keeps g (lift_api k')"
  by (simp_all add: lift_api_def read_intros panic_intros call_intros emit_intros keep_intros split: sum.split)

declare lift_api_rules(1) [read_intros] lift_api_rules(2) [panic_intros] lift_api_rules(3) [call_intros]
  lift_api_rules(4) [emit_intros] lift_api_rules(5) [keep_intros]

lemma lift_api_Ok [ok_iffs]: "lift_api r s = (Ok x, t) \<longleftrightarrow> r = Inr x \<and> t = s"
  by (auto simp: lift_api_def pure_Ok split: sum.split)

lemma no_panic_clientFromSecret: "no_panic (clientFromSecret k sc)"
  unfolding clientFromSecret_def takeOwnership_def by (intro panic_intros)

lemma clientFromSecret_calls: "only_calls {CallUpdateSecret ns n |ns n. True} (clientFromSecret k sc)"
  unfolding clientFromSecret_def takeOwnership_def by (intro call_intros) auto

lemma takeOwnership_once:
  assumes "takeOwnership k sc secret s = (r, t)"
  shows "\<exists>es. trace t = trace s @ es \<and> length es \<le> 1 \<and> set es \<subseteq> {CallUpdateSecret ns n |ns n. True}"
proof (cases "k_IsControlledBy k secret sc \<or> meta_UID (sc_Meta sc) \<in> set (sec_OwnerUIDs secret)")
  case True
  with assms show ?thesis by (simp add: takeOwnership_def ret_def)
next
  case False
  with assms show ?thesis
    by (cases "k_SetOwnerReference k sc secret")
      (auto simp: takeOwnership_def bind_def wrapping_def lift_api_def throw_def ret_def sdk_call_def split: prod.splits outcome.splits)
qed

lemma clientFromSecret_once:
  assumes "clientFromSecret k sc s = (r, t)"
  shows "\<exists>es. trace t = trace s @ es \<and> length es \<le> 1 \<and> set es \<subseteq> {CallUpdateSecret ns n |ns n. True}"
  using assms unfolding clientFromSecret_def
proof (cases rule: bind_run)
  case (Ok secret u)
  have read: "trace u = trace s" using made_trace [OF made_read [OF Ok(1)]] by simp
  from Ok(2) show ?thesis
  proof (cases rule: bind_run)
    case (Ok owned v)
    moreover have "trace t = trace v" using reads_only_trace [OF lift_api_rules(1) Ok(2)] .
    ultimately show ?thesis using takeOwnership_once [OF Ok(1)] read by simp
  qed (use takeOwnership_once [of k sc secret u] read in auto)
qed (use made_trace [OF made_read] in fastforce)+

text \<open>
  C36: the client comes from the secret. If it succeeds, the client was built from the data of
  the secret that the spec names, as read or as the API server returned it after the update;
  the secret was updated exactly once if the cluster neither controlled nor owned it, and not
  at all otherwise.
\<close>

theorem clientFromSecret_spec:
  assumes "clientFromSecret k sc s = (Ok client, t)"
  shows "\<exists>secret w owned. k_GetSecret k (meta_Namespace (sc_Meta sc)) (spec_ScalewaySecretName (sc_Spec sc)) (world s) = (Inr secret, w)
    \<and> k_NewScwClient k (clientOptions owned) = Inr client
    \<and> (if k_IsControlledBy k secret sc \<or> meta_UID (sc_Meta sc) \<in> set (sec_OwnerUIDs secret)
       then owned = secret \<and> trace t = trace s
       else \<exists>new w'. k_SetOwnerReference k sc secret = Inr new \<and> k_UpdateSecret k new w = (Inr owned, w')
         \<and> trace t = trace s @ [CallUpdateSecret (sec_Namespace new) (sec_Name new)])"
proof -
  obtain secret u owned v where read: "sdk_read (k_GetSecret k (meta_Namespace (sc_Meta sc)) (spec_ScalewaySecretName (sc_Spec sc))) s = (Ok secret, u)"
    and own: "takeOwnership k sc secret u = (Ok owned, v)"
    and new: "k_NewScwClient k (clientOptions owned) = Inr client" "t = v"
    using assms by (auto simp: clientFromSecret_def bind_Ok lift_api_Ok)
  from read obtain w where w: "k_GetSecret k (meta_Namespace (sc_Meta sc)) (spec_ScalewaySecretName (sc_Spec sc)) (world s) = (Inr secret, w)"
    "u = s\<lparr>world := w\<rparr>" by (auto simp: sdk_read_Ok)
  have "if k_IsControlledBy k secret sc \<or> meta_UID (sc_Meta sc) \<in> set (sec_OwnerUIDs secret)
       then owned = secret \<and> trace t = trace s
       else \<exists>new w'. k_SetOwnerReference k sc secret = Inr new \<and> k_UpdateSecret k new w = (Inr owned, w')
         \<and> trace t = trace s @ [CallUpdateSecret (sec_Namespace new) (sec_Name new)]"
    using own w(2) new(2) by (auto simp: takeOwnership_def pure_Ok bind_Ok wrapping_Ok lift_api_Ok sdk_call_Ok)
  with w(1) new(1) show ?thesis by blast
qed

definition ex_scw :: "unit scw_Client" where
  "ex_scw = \<lparr>sw_DefaultProjectID = Some ''project'', sw_lb = down_lb, sw_instance = down_instance,
     sw_marketplace = \<lparr>marketplace_GetLocalImageByLabel = (\<lambda>_ _ _. down)\<rparr>, sw_vpc = down_vpc, sw_vpcgw = down_vpcgw,
     sw_ipam = \<lparr>ipam_ListIPs = (\<lambda>_ _ _ _. down)\<rparr>\<rparr>"

definition ex_secret_k8s :: "unit k8s_API" where
  "ex_secret_k8s = ex_bootstrap_k8s\<lparr>k_IsControlledBy := (\<lambda>_ _. False), k_UpdateSecret := (\<lambda>sec w. (Inr sec, w)),
     k_NewScwClient := (\<lambda>_. Inr ex_scw)\<rparr>"

theorem clientFromSecret_spec_witness:
  "\<exists>ns n. trace (snd (clientFromSecret ex_secret_k8s ex_cluster (ex_scope ex_cluster ()))) = [CallUpdateSecret ns n]"
proof -
  obtain t where run: "clientFromSecret ex_secret_k8s ex_cluster (ex_scope ex_cluster ()) = (Ok ex_scw, t)"
    by (simp add: clientFromSecret_def takeOwnership_def lift_api_def ex_secret_k8s_def ex_kubernetes run_defs)
  have "\<not> (k_IsControlledBy ex_secret_k8s secret ex_cluster \<or> meta_UID (sc_Meta ex_cluster) \<in> set (sec_OwnerUIDs secret))"
    if "k_GetSecret ex_secret_k8s (meta_Namespace (sc_Meta ex_cluster)) (spec_ScalewaySecretName (sc_Spec ex_cluster)) w = (Inr secret, w')" for secret w w'
    using that by (auto simp: ex_secret_k8s_def ex_bootstrap_k8s_def)
  with clientFromSecret_spec [OF run] run show ?thesis
    by (fastforce simp: ex_scope_def)
qed

end
