(* ===== verification/Securitygroup.thy ===== *)
theory Securitygroup
  imports Example_Cloud "HOL-Library.Sublist"
begin

text \<open>
  The security group service (\<^verbatim>\<open>internal/service/scaleway/securitygroup\<close>): every security group
  of the spec exists in every zone of the region, with the default policies and the rules of the
  spec, and groups of the cluster that are not in the spec are deleted.
\<close>

section \<open>Policies and rules\<close>

definition defaultPolicy :: "SecurityGroupPolicy option \<Rightarrow> go_error + SecurityGroupPolicyValue" where
  "defaultPolicy securityGroupPolicy = (case securityGroupPolicy of
     None \<Rightarrow> Inr SecurityGroupPolicyAccept
   | Some p \<Rightarrow> (case sgp_Default p of
       None \<Rightarrow> Inr SecurityGroupPolicyAccept
     | Some d \<Rightarrow> ToInstancePolicy (Some d)))"

text \<open>The IP range of a rule, by default every IPv4 address.\<close>

definition ruleIPRange :: "SecurityGroupRule \<Rightarrow> string" where
  "ruleIPRange rule = (case sgr_IPRange rule of None \<Rightarrow> ''0.0.0.0/0'' | Some r \<Rightarrow> r)"

text \<open>One turn of the loop of \<^verbatim>\<open>compareRules\<close>.\<close>

definition compareRule :: "SecurityGroupRule \<Rightarrow> InstanceSecurityGroupRule \<Rightarrow> go_error + bool" where
  "compareRule a b = (case ToInstance (sgr_Protocol a) of Inl e \<Rightarrow> Inl e | Inr expectedProtocol \<Rightarrow>
     if expectedProtocol \<noteq> isr_Protocol b then Inr False
     else case ToInstanceAction (Some (sgr_Action a)) of Inl e \<Rightarrow> Inl e | Inr expectedAction \<Rightarrow>
     if expectedAction \<noteq> isr_Action b then Inr False
     else if ruleIPRange a \<noteq> IPNet_String (isr_IPRange b) then Inr False
     else case ToRange (sgr_Ports a) of Inl e \<Rightarrow> Inl e | Inr (from, to) \<Rightarrow>
     if from \<noteq> isr_DestPortFrom b then Inr False
     else Inr (to = isr_DestPortTo b))"

fun compareRules_loop :: "(SecurityGroupRule \<times> InstanceSecurityGroupRule) list \<Rightarrow> go_error + bool" where
  "compareRules_loop [] = Inr True"
| "compareRules_loop ((a, b) # ps) = (case compareRule a b of
     Inl e \<Rightarrow> Inl e
   | Inr False \<Rightarrow> Inr False
   | Inr True \<Rightarrow> compareRules_loop ps)"

definition compareRules :: "SecurityGroupRule list \<Rightarrow> InstanceSecurityGroupRule list \<Rightarrow> go_error + bool" where
  "compareRules a b = (if length a \<noteq> length b then Inr False else compareRules_loop (zip a b))"

definition toInstanceRequestRule ::
  "32 word \<Rightarrow> SecurityGroupRule \<Rightarrow> SecurityGroupRuleDirection \<Rightarrow> go_error + SetSecurityGroupRulesRequestRule" where
  "toInstanceRequestRule position rule direction =
     (case ToInstanceAction (Some (sgr_Action rule)) of Inl e \<Rightarrow> Inl e | Inr action \<Rightarrow>
      case ToInstance (sgr_Protocol rule) of Inl e \<Rightarrow> Inl e | Inr protocol \<Rightarrow>
      case ToRange (sgr_Ports rule) of Inl e \<Rightarrow> Inl e | Inr (from, to) \<Rightarrow>
      case net_ParseCIDR (ruleIPRange rule) of Inl e \<Rightarrow> Inl e | Inr ipNet \<Rightarrow>
      Inr \<lparr>rr_Action = action, rr_Protocol = protocol, rr_Direction = direction, rr_IPRange = ipNet,
           rr_DestPortFrom = from, rr_DestPortTo = to, rr_Position = position\<rparr>)"

text \<open>The loops that number the rules of one direction from 1.\<close>

definition requestRules ::
  "SecurityGroupRuleDirection \<Rightarrow> SecurityGroupRule list \<Rightarrow> go_error + SetSecurityGroupRulesRequestRule list" where
  "requestRules direction rules =
     map_sum_list (\<lambda>(i, rule). toInstanceRequestRule (word_of_nat (i + 1)) rule direction) (List.enumerate 0 rules)"

definition policyRules :: "SecurityGroupPolicy option \<Rightarrow> SecurityGroupRule list" where
  "policyRules p = (case p of None \<Rightarrow> [] | Some q \<Rightarrow> sgp_Rules q)"

section \<open>ensureSecurityGroups\<close>

definition createSGRequest ::
  "ScalewayCluster \<Rightarrow> zone \<Rightarrow> string \<Rightarrow> SecurityGroupPolicyValue \<Rightarrow> SecurityGroupPolicyValue
     \<Rightarrow> CreateSecurityGroupRequest" where
  "createSGRequest sc zone name inbound outbound = \<lparr>csg_Zone = zone, csg_Name = SecurityGroupName sc name,
     csg_Tags = Tags sc, csg_InboundDefaultPolicy = inbound, csg_OutboundDefaultPolicy = outbound,
     csg_EnableDefaultSecurity = False, csg_Stateful = True\<rparr>"

definition updateSGRequest ::
  "zone \<Rightarrow> string \<Rightarrow> SecurityGroupPolicyValue \<Rightarrow> SecurityGroupPolicyValue \<Rightarrow> UpdateSecurityGroupRequest" where
  "updateSGRequest zone sgID inbound outbound = \<lparr>usg_Zone = zone, usg_SecurityGroupID = sgID,
     usg_InboundDefaultPolicy = inbound, usg_OutboundDefaultPolicy = outbound,
     usg_EnableDefaultSecurity = False\<rparr>"

text \<open>Create the group in a zone, or update its default policies.\<close>

definition ensureSG ::
  "'w Client \<Rightarrow> ScalewayCluster \<Rightarrow> InstanceSecurityGroup list \<Rightarrow> SecurityGroup \<Rightarrow> zone
     \<Rightarrow> (('w, 'z) ClusterScope_scheme, InstanceSecurityGroup) go" where
  "ensureSG c sc existingSGs sg zone =
     bind (lift_sum (defaultPolicy (sg_Inbound sg))) (\<lambda>inbound.
     bind (lift_sum (defaultPolicy (sg_Outbound sg))) (\<lambda>outbound.
     case find (\<lambda>e. isg_Name e = SecurityGroupName sc (sg_Name sg) \<and> isg_Zone e = zone) existingSGs of
       None \<Rightarrow> wrapping ''failed to create security group''
         (sdk_call (CallCreateSecurityGroup (createSGRequest sc zone (sg_Name sg) inbound outbound))
           (instance_CreateSecurityGroup (cl_Instance c) (createSGRequest sc zone (sg_Name sg) inbound outbound)))
     | Some e \<Rightarrow>
         if isg_InboundDefaultPolicy e \<noteq> inbound \<or> isg_OutboundDefaultPolicy e \<noteq> outbound
           \<or> isg_EnableDefaultSecurity e then
           bind (wrapping ''failed to update security group''
             (sdk_call (CallUpdateSecurityGroup (updateSGRequest zone (isg_ID e) inbound outbound))
               (instance_UpdateSecurityGroup (cl_Instance c) (updateSGRequest zone (isg_ID e) inbound outbound))))
             (\<lambda>_. ret e)
         else ret e))"

text \<open>Compare the rules of the group with the spec and set them all if they differ.\<close>

definition ensureRules ::
  "'w Client \<Rightarrow> SecurityGroup \<Rightarrow> zone \<Rightarrow> InstanceSecurityGroup \<Rightarrow> (('w, 'z) ClusterScope_scheme, unit) go" where
  "ensureRules c sg zone instanceSG =
     bind (wrapping ''failed to list security group rules''
       (sdk_read (instance_ListSecurityGroupRules (cl_Instance c) (isg_Zone instanceSG) (isg_ID instanceSG)))) (\<lambda>rules.
     bind (wrapping ''failed to compare inbound rules with instance inbound rules''
       (lift_sum (compareRules (policyRules (sg_Inbound sg))
         (filter (\<lambda>r. isr_Direction r = SecurityGroupRuleDirectionInbound) rules)))) (\<lambda>compareInbound.
     bind (wrapping ''failed to compare outbound rules with instance outbound rules''
       (lift_sum (compareRules (policyRules (sg_Outbound sg))
         (filter (\<lambda>r. isr_Direction r = SecurityGroupRuleDirectionOutbound) rules)))) (\<lambda>compareOutbound.
     if \<not> compareInbound \<or> \<not> compareOutbound then
       bind (lift_sum (requestRules SecurityGroupRuleDirectionInbound (policyRules (sg_Inbound sg)))) (\<lambda>newIn.
       bind (lift_sum (requestRules SecurityGroupRuleDirectionOutbound (policyRules (sg_Outbound sg)))) (\<lambda>newOut.
       let req = \<lparr>ssr_Zone = zone, ssr_SecurityGroupID = isg_ID instanceSG, ssr_Rules = newIn @ newOut\<rparr> in
       wrapping ''failed to set security group rules''
         (sdk_call (CallSetSecurityGroupRules req) (instance_SetSecurityGroupRules (cl_Instance c) req))))
     else ret ())))"

definition wantedSG :: "ScalewayCluster \<Rightarrow> SecurityGroup list \<Rightarrow> InstanceSecurityGroup \<Rightarrow> bool" where
  "wantedSG sc securityGroups existingSG =
     list_ex (\<lambda>sg. SecurityGroupName sc (sg_Name sg) = isg_Name existingSG) securityGroups"

definition deleteSG :: "'w Client \<Rightarrow> InstanceSecurityGroup \<Rightarrow> (('w, 'z) ClusterScope_scheme, unit) go" where
  "deleteSG c existingSG =
     wrapping ''failed to delete existing security group''
       (sdk_call (CallDeleteSecurityGroup (isg_Zone existingSG) (isg_ID existingSG))
         (instance_DeleteSecurityGroup (cl_Instance c) (isg_Zone existingSG) (isg_ID existingSG)))"

definition ensureSecurityGroups ::
  "'w Client \<Rightarrow> SDK \<Rightarrow> SecurityGroup list \<Rightarrow> (('w, 'z) ClusterScope_scheme, unit) go" where
  "ensureSecurityGroups c sdk securityGroups =
     bind (gets scope_ScalewayCluster) (\<lambda>sc.
     let zones = Zones sdk sc (instance_Zones (cl_Instance c)) in
     bind (wrapping ''failed to list security groups''
       (sdk_read (instance_ListSecurityGroups (cl_Instance c) zones None (Tags sc)))) (\<lambda>existingSGs.
     bind (for_each (\<lambda>e. if wantedSG sc securityGroups e then ret () else deleteSG c e) existingSGs) (\<lambda>_.
     for_each (\<lambda>sg. for_each (\<lambda>zone.
       bind (ensureSG c sc existingSGs sg zone) (\<lambda>instanceSG. ensureRules c sg zone instanceSG)) zones)
       securityGroups)))"

definition securitygroup_Reconcile :: "'w Client \<Rightarrow> SDK \<Rightarrow> (('w, 'z) ClusterScope_scheme, unit) go" where
  "securitygroup_Reconcile c sdk =
     bind (gets scope_ScalewayCluster) (\<lambda>sc.
     ensureSecurityGroups c sdk (case spec_Network (sc_Spec sc) of None \<Rightarrow> [] | Some n \<Rightarrow> ns_SecurityGroups n))"

definition securitygroup_Delete :: "'w Client \<Rightarrow> SDK \<Rightarrow> (('w, 'z) ClusterScope_scheme, unit) go" where
  "securitygroup_Delete c sdk = ensureSecurityGroups c sdk []"

section \<open>The interface\<close>

definition securitygroup_creates :: "call set" where
  "securitygroup_creates = range CallCreateSecurityGroup \<union> range CallUpdateSecurityGroup
     \<union> range CallSetSecurityGroupRules \<union> {CallDeleteSecurityGroup z i |z i. True}"

definition securitygroup_deletes :: "call set" where
  "securitygroup_deletes = {CallDeleteSecurityGroup z i |z i. True}"

lemma keeps_ensureSecurityGroups: "keeps scope_ScalewayCluster (ensureSecurityGroups c sdk sgs)"
  unfolding ensureSecurityGroups_def ensureSG_def ensureRules_def deleteSG_def Let_def
  by (intro keep_intros) simp_all

interpretation securitygroup: cluster_service "securitygroup_Reconcile c sdk" "securitygroup_Delete c sdk"
  securitygroup_creates securitygroup_deletes for c sdk
proof
  show "emits trace securitygroup_creates (securitygroup_Reconcile c sdk)" for c sdk
    unfolding securitygroup_Reconcile_def ensureSecurityGroups_def ensureSG_def ensureRules_def deleteSG_def Let_def
    by (intro emit_intros) (auto simp: securitygroup_creates_def)
  show "emits trace securitygroup_deletes (securitygroup_Delete c sdk)" for c sdk
    unfolding securitygroup_Delete_def ensureSecurityGroups_def for_each.simps deleteSG_def Let_def
    by (intro emit_intros) (auto simp: securitygroup_deletes_def)
  show "keeps (\<lambda>s. cluster_frame (scope_ScalewayCluster s)) (securitygroup_Reconcile c sdk)" for c sdk
    unfolding securitygroup_Reconcile_def
    by (intro keep_intros keeps_comp [OF keeps_ensureSecurityGroups])
  show "keeps scope_ScalewayCluster (securitygroup_Delete c sdk)" for c sdk
    unfolding securitygroup_Delete_def by (rule keeps_ensureSecurityGroups)
qed

section \<open>Errors are errors of the API\<close>

named_theorems api_intros \<open>calls that fail only with errors of the API\<close>

lemma api_errors_bind [api_intros]:
  assumes "api_errors_only m" "\<And>x. api_errors_only (f x)"
  shows "api_errors_only (bind m f)"
  unfolding api_errors_only_def
proof (intro allI impI)
  fix s e t
  assume "bind m f s = (Err e, t)"
  then show "\<exists>a. errors_unwrap_all e = ApiErr a"
    by (cases rule: bind_run) (use assms in \<open>unfold api_errors_only_def, blast\<close>)+
qed

lemma api_errors_pure [api_intros]: "api_errors_only (ret x)" "api_errors_only (gets g)"
  by (auto simp: api_errors_only_def ret_def gets_def)

lemma api_errors_lift_sum: "\<exists>y. r = Inr y \<Longrightarrow> api_errors_only (lift_sum r)"
  by (auto intro: api_intros)

lemma api_errors_calls [api_intros]: "api_errors_only (sdk_call ev f)" "api_errors_only (sdk_read g)"
  by (auto simp: api_errors_only_def sdk_call_def sdk_read_def api_result_def split: prod.splits sum.splits)

lemma api_errors_for_each [api_intros]:
  "(\<And>x. x \<in> set xs \<Longrightarrow> api_errors_only (f x)) \<Longrightarrow> api_errors_only (for_each f xs)"
  by (induction xs) (auto intro!: api_intros)

lemma api_errors_branches [api_intros]:
  "(b \<Longrightarrow> api_errors_only m) \<Longrightarrow> (\<not> b \<Longrightarrow> api_errors_only n) \<Longrightarrow> api_errors_only (if b then m else n)"
  "(p = None \<Longrightarrow> api_errors_only m) \<Longrightarrow> (\<And>y. p = Some y \<Longrightarrow> api_errors_only (k y)) \<Longrightarrow>
     api_errors_only (case p of None \<Rightarrow> m | Some y \<Rightarrow> k y)"
  by (simp_all split: option.split)

declare api_errors_wrapping [api_intros]

section \<open>Facts about rules\<close>

lemma valid_policy_default: "valid_policy p \<Longrightarrow> \<exists>d. defaultPolicy p = Inr d"
  by (auto simp: valid_policy_def defaultPolicy_def split: option.split)

lemma valid_rule_compare: "valid_rule a \<Longrightarrow> \<exists>r. compareRule a b = Inr r"
  by (auto simp: valid_rule_def compareRule_def split: prod.split)

lemma valid_rules_compare: "(\<And>a. a \<in> set as \<Longrightarrow> valid_rule a) \<Longrightarrow> \<exists>r. compareRules as bs = Inr r"
proof -
  have "(\<And>a b. (a, b) \<in> set ps \<Longrightarrow> valid_rule a) \<Longrightarrow> \<exists>r. compareRules_loop ps = Inr r" for ps
  proof (induction ps rule: compareRules_loop.induct)
    case (2 a b ps)
    then obtain q where "compareRule a b = Inr q" using valid_rule_compare by (metis list.set_intros(1))
    with 2 show ?case by (cases q) auto
  qed auto
  then show "(\<And>a. a \<in> set as \<Longrightarrow> valid_rule a) \<Longrightarrow> \<exists>r. compareRules as bs = Inr r"
    unfolding compareRules_def by (metis set_zip_leftD)
qed

lemma default_range_parses: "\<exists>n. net_ParseCIDR ''0.0.0.0/0'' = Inr n"
  using canonical_default unfolding canonical_parse by blast

lemma valid_rule_request: "valid_rule r \<Longrightarrow> \<exists>rr. toInstanceRequestRule pos r d = Inr rr"
  using default_range_parses
  by (auto simp: valid_rule_def toInstanceRequestRule_def ruleIPRange_def split: prod.split option.split)

lemma valid_rules_request: "(\<And>r. r \<in> set rs \<Longrightarrow> valid_rule r) \<Longrightarrow> \<exists>rrs. requestRules d rs = Inr rrs"
  unfolding requestRules_def
  by (rule map_sum_list_ok) (auto simp: in_set_enumerate_eq intro!: valid_rule_request)

lemma valid_policy_rules: "valid_policy p \<Longrightarrow> r \<in> set (policyRules p) \<Longrightarrow> valid_rule r"
  by (auto simp: valid_policy_def policyRules_def split: option.splits)

lemma valid_cluster_groups:
  "valid_cluster sdk sc \<Longrightarrow> valid_security_groups (case spec_Network (sc_Spec sc) of None \<Rightarrow> [] | Some n \<Rightarrow> ns_SecurityGroups n)"
  by (auto simp: valid_cluster_def valid_network_def valid_security_groups_def split: option.split)

lemma ensureRules_errors:
  assumes "valid_policy (sg_Inbound sg)" "valid_policy (sg_Outbound sg)"
  shows "api_errors_only (ensureRules c sg zone e)"
  unfolding ensureRules_def Let_def
  by (intro api_intros api_errors_lift_sum valid_rules_compare valid_rules_request)
    (auto dest: valid_policy_rules [OF assms(1)] valid_policy_rules [OF assms(2)])

lemma ensureSG_errors:
  assumes "valid_policy (sg_Inbound sg)" "valid_policy (sg_Outbound sg)"
  shows "api_errors_only (ensureSG c sc existing sg zone)"
  unfolding ensureSG_def by (intro api_intros api_errors_lift_sum valid_policy_default assms)

lemma ensureSecurityGroups_errors:
  assumes "valid_security_groups sgs"
  shows "api_errors_only (ensureSecurityGroups c sdk sgs)"
  unfolding ensureSecurityGroups_def Let_def deleteSG_def
  using assms unfolding valid_security_groups_def
  by (intro api_intros ensureSG_errors ensureRules_errors) auto

lemma no_panic_ensureSecurityGroups: "no_panic (ensureSecurityGroups c sdk sgs)"
  unfolding ensureSecurityGroups_def ensureSG_def ensureRules_def deleteSG_def Let_def
  by (intro panic_intros)

section \<open>Properties\<close>

text \<open>
  C29: what the webhook admits, the service can apply. On a cluster that the webhook admits,
  reconciling the security groups never panics, and it fails only with an error of the API:
  every policy, protocol, action, port range and IP range of the spec converts.
\<close>

theorem securitygroup_admitted:
  assumes "valid_cluster sdk (scope_ScalewayCluster s)"
  shows "case fst (securitygroup_Reconcile c sdk s) of
    Ok _ \<Rightarrow> True | Err e \<Rightarrow> (\<exists>a. errors_unwrap_all e = ApiErr a) | Panic \<Rightarrow> False"
proof -
  let ?sgs = "case spec_Network (sc_Spec (scope_ScalewayCluster s)) of None \<Rightarrow> [] | Some n \<Rightarrow> ns_SecurityGroups n"
  obtain r t where run: "ensureSecurityGroups c sdk ?sgs s = (r, t)" by fastforce
  then have "fst (securitygroup_Reconcile c sdk s) = r"
    by (simp add: securitygroup_Reconcile_def bind_def gets_def)
  moreover have "r \<noteq> Panic"
    using no_panic_ensureSecurityGroups [of c sdk ?sgs] run unfolding no_panic_def by (metis fst_conv)
  moreover have "\<exists>a. errors_unwrap_all e = ApiErr a" if "r = Err e" for e
    using ensureSecurityGroups_errors [OF valid_cluster_groups [OF assms], of c sdk] run that
    unfolding api_errors_only_def by blast
  ultimately show ?thesis by (cases r) auto
qed

definition ex_sg :: "string option \<Rightarrow> SecurityGroup" where
  "ex_sg cidr = \<lparr>sg_Name = ''nodes'', sg_Inbound = Some \<lparr>sgp_Default = None, sgp_Rules = [
     \<lparr>sgr_Action = ''Drop'', sgr_Protocol = None, sgr_Ports = None, sgr_IPRange = cidr\<rparr>]\<rparr>, sg_Outbound = None\<rparr>"

definition ex_sg_cluster :: ScalewayCluster where
  "ex_sg_cluster = ex_cluster\<lparr>sc_Spec := ex_spec\<lparr>spec_Network := Some \<lparr>ns_PrivateNetwork = None,
     ns_PublicGateway = None, ns_SecurityGroups = [ex_sg (Some ''10.0.0.0/8'')]\<rparr>\<rparr>\<rparr>"

lemma ex_sg_cluster_valid: "valid_cluster ex_sdk ex_sg_cluster"
proof -
  have "\<exists>n. net_ParseCIDR ''10.0.0.0/8'' = Inr n"
    using canonical_private unfolding canonical_parse by blast
  then show ?thesis
    by (simp add: ex_sg_cluster_def ex_sg_def ex_objects valid_cluster_def valid_failure_domains_def zone_in_region_def
        valid_network_def valid_security_groups_def valid_policy_def valid_rule_def ToInstance_def ToInstanceAction_def
        ToInstancePolicy_def ToRange_def)
qed

theorem securitygroup_admitted_witness:
  "\<exists>e a. fst (securitygroup_Reconcile down_client ex_sdk (ex_scope ex_sg_cluster ())) = Err e \<and> errors_unwrap_all e = ApiErr a"
proof -
  have run: "fst (securitygroup_Reconcile down_client ex_sdk (ex_scope ex_sg_cluster ()))
      = Err (Wrap ''failed to list security groups'' (ApiErr (ApiOther ''unavailable'')))"
    by (simp add: securitygroup_Reconcile_def ensureSecurityGroups_def run_defs ex_cloud ex_sg_cluster_def)
  have "valid_cluster ex_sdk (scope_ScalewayCluster (ex_scope ex_sg_cluster ()))"
    using ex_sg_cluster_valid by (simp add: ex_scope_def)
  from securitygroup_admitted [OF this, of down_client] run show ?thesis by simp
qed

text \<open>The rule that the API returns for a rule that was set.\<close>

definition stored_rule :: "SetSecurityGroupRulesRequestRule \<Rightarrow> InstanceSecurityGroupRule" where
  "stored_rule rr = \<lparr>isr_Protocol = rr_Protocol rr, isr_Direction = rr_Direction rr, isr_Action = rr_Action rr,
     isr_IPRange = rr_IPRange rr, isr_DestPortFrom = rr_DestPortFrom rr, isr_DestPortTo = rr_DestPortTo rr\<rparr>"

lemma toInstanceRequestRule_Inr:
  "toInstanceRequestRule pos rule d = Inr rr \<longleftrightarrow> (\<exists>action protocol lo hi n.
     ToInstanceAction (Some (sgr_Action rule)) = Inr action \<and> ToInstance (sgr_Protocol rule) = Inr protocol
   \<and> ToRange (sgr_Ports rule) = Inr (lo, hi) \<and> net_ParseCIDR (ruleIPRange rule) = Inr n
   \<and> rr = \<lparr>rr_Action = action, rr_Protocol = protocol, rr_Direction = d, rr_IPRange = n,
        rr_DestPortFrom = lo, rr_DestPortTo = hi, rr_Position = pos\<rparr>)"
  unfolding toInstanceRequestRule_def
  by (cases "ToInstanceAction (Some (sgr_Action rule))"; cases "ToInstance (sgr_Protocol rule)";
      cases "ToRange (sgr_Ports rule)"; cases "net_ParseCIDR (ruleIPRange rule)") auto

lemma requestRule_fields:
  assumes "toInstanceRequestRule pos rule d = Inr rr"
  shows "rr_Position rr = pos" "rr_Direction rr = d" "ToInstanceAction (Some (sgr_Action rule)) = Inr (rr_Action rr)"
    "ToInstance (sgr_Protocol rule) = Inr (rr_Protocol rr)" "net_ParseCIDR (ruleIPRange rule) = Inr (rr_IPRange rr)"
    "ToRange (sgr_Ports rule) = Inr (rr_DestPortFrom rr, rr_DestPortTo rr)"
  using assms by (auto simp: toInstanceRequestRule_Inr)

lemma compareRule_stored:
  assumes "toInstanceRequestRule pos rule d = Inr rr"
  shows "compareRule rule (stored_rule rr) = Inr (canonical_cidr (ruleIPRange rule))"
proof -
  obtain action protocol lo hi n where "ToInstanceAction (Some (sgr_Action rule)) = Inr action"
    "ToInstance (sgr_Protocol rule) = Inr protocol" "ToRange (sgr_Ports rule) = Inr (lo, hi)"
    "net_ParseCIDR (ruleIPRange rule) = Inr n"
    "stored_rule rr = \<lparr>isr_Protocol = protocol, isr_Direction = d, isr_Action = action, isr_IPRange = n,
       isr_DestPortFrom = lo, isr_DestPortTo = hi\<rparr>"
    using assms by (auto simp: toInstanceRequestRule_Inr stored_rule_def)
  then show ?thesis
    by (auto simp: compareRule_def canonical_cidr_def)
qed

lemma compareRules_all2:
  "list_all2 (\<lambda>a b. compareRule a b = Inr (P a)) as bs \<Longrightarrow> compareRules as bs = Inr (list_all P as)"
proof -
  have "list_all2 (\<lambda>a b. compareRule a b = Inr (P a)) as bs \<Longrightarrow> compareRules_loop (zip as bs) = Inr (list_all P as)"
    by (induction rule: list_all2_induct) (auto split: bool.split)
  then show "list_all2 (\<lambda>a b. compareRule a b = Inr (P a)) as bs \<Longrightarrow> ?thesis"
    by (simp add: compareRules_def list_all2_lengthD)
qed

lemma requestRules_all2:
  "requestRules d rules = Inr rrs \<Longrightarrow>
   list_all2 (\<lambda>rule rr. \<exists>pos. toInstanceRequestRule pos rule d = Inr rr) rules rrs"
  unfolding requestRules_def map_sum_list_Inr
  by (auto simp: list_all2_conv_all_nth nth_enumerate_eq)

text \<open>
  C30: when the rules settle. After rules were set, and if the API returns them as they were
  sent, comparing them with the spec says that they are equal exactly when every IP range of
  the spec is written in the canonical form of its network; otherwise they are set again at
  every reconciliation, as for 10.1.2.3/8.
\<close>

theorem rules_settle_iff_canonical:
  assumes "requestRules d rules = Inr rrs"
  shows "compareRules rules (map stored_rule rrs) = Inr (list_all (\<lambda>r. canonical_cidr (ruleIPRange r)) rules)"
proof (rule compareRules_all2)
  show "list_all2 (\<lambda>a b. compareRule a b = Inr (canonical_cidr (ruleIPRange a))) rules (map stored_rule rrs)"
    using requestRules_all2 [OF assms] compareRule_stored
    by (fastforce simp: list_all2_conv_all_nth)
qed

theorem rules_settle_iff_canonical_witness:
  "\<exists>rrs. requestRules SecurityGroupRuleDirectionInbound (policyRules (sg_Inbound (ex_sg (Some ''10.1.2.3/8'')))) = Inr rrs
   \<and> compareRules (policyRules (sg_Inbound (ex_sg (Some ''10.1.2.3/8'')))) (map stored_rule rrs) = Inr False"
proof -
  let ?rules = "policyRules (sg_Inbound (ex_sg (Some ''10.1.2.3/8'')))"
  obtain n where "net_ParseCIDR ''10.1.2.3/8'' = Inr n"
    using canonical_private not_canonical_host_bits(1) unfolding canonical_parse by auto
  then obtain rrs where rrs: "requestRules SecurityGroupRuleDirectionInbound ?rules = Inr rrs"
    by (simp add: requestRules_def policyRules_def ex_sg_def toInstanceRequestRule_def ToInstance_def
        ToInstanceAction_def ToRange_def ruleIPRange_def)
  from rules_settle_iff_canonical [OF rrs] have "compareRules ?rules (map stored_rule rrs) = Inr False"
    using not_canonical_host_bits(2) by (simp add: policyRules_def ex_sg_def ruleIPRange_def)
  with rrs show ?thesis by blast
qed

text \<open>
  C31: the order of rules is kept. If the rules of one direction convert, each becomes the rule
  at the same place of the request, in the same direction, and their positions count from 1 as
  32-bit numbers.
\<close>

theorem requestRules_positions:
  assumes "requestRules d rules = Inr rrs"
  shows "map rr_Position rrs = map word_of_nat [1..<Suc (length rules)] \<and> list_all (\<lambda>rr. rr_Direction rr = d) rrs
    \<and> list_all2 (\<lambda>rule rr. ToInstanceAction (Some (sgr_Action rule)) = Inr (rr_Action rr)
        \<and> ToInstance (sgr_Protocol rule) = Inr (rr_Protocol rr) \<and> net_ParseCIDR (ruleIPRange rule) = Inr (rr_IPRange rr)
        \<and> ToRange (sgr_Ports rule) = Inr (rr_DestPortFrom rr, rr_DestPortTo rr)) rules rrs"
proof -
  have len: "length rrs = length rules"
    using requestRules_all2 [OF assms] list_all2_lengthD by fastforce
  have nth: "toInstanceRequestRule (word_of_nat (i + 1)) (rules ! i) d = Inr (rrs ! i)" if "i < length rules" for i
    using assms that len unfolding requestRules_def map_sum_list_Inr
    by (auto simp: list_all2_conv_all_nth nth_enumerate_eq)
  note fields = requestRule_fields [OF nth]
  have "map rr_Position rrs = map word_of_nat [1..<Suc (length rules)]"
    by (rule nth_equalityI) (use fields(1) len in \<open>auto simp del: upt_Suc\<close>)
  moreover have "list_all (\<lambda>rr. rr_Direction rr = d) rrs"
    unfolding list_all_length using fields(2) len by simp
  ultimately show ?thesis
    unfolding list_all2_conv_all_nth using fields(3-6) len by simp
qed

theorem requestRules_positions_witness:
  "\<exists>rrs. requestRules SecurityGroupRuleDirectionInbound (policyRules (sg_Inbound (ex_sg None))) = Inr rrs
   \<and> map rr_Position rrs = [1]"
proof -
  obtain rrs where rrs: "requestRules SecurityGroupRuleDirectionInbound (policyRules (sg_Inbound (ex_sg None))) = Inr rrs"
    using default_range_parses
    by (auto simp: requestRules_def policyRules_def ex_sg_def toInstanceRequestRule_def ToInstance_def
        ToInstanceAction_def ToRange_def ruleIPRange_def)
  with requestRules_positions [OF rrs] show ?thesis by (auto simp: policyRules_def ex_sg_def)
qed

text \<open>The groups of the cluster that the API lists, by tag, in the zones of the region.\<close>

definition listedSGs :: "'w Client \<Rightarrow> SDK \<Rightarrow> ScalewayCluster \<Rightarrow> 'w \<Rightarrow> InstanceSecurityGroup list" where
  "listedSGs c sdk sc w =
     (case fst (instance_ListSecurityGroups (cl_Instance c) (Zones sdk sc (instance_Zones (cl_Instance c))) None (Tags sc) w) of
        Inr sgs \<Rightarrow> sgs | Inl _ \<Rightarrow> [])"

definition call_deleteSG :: "InstanceSecurityGroup \<Rightarrow> call" where
  "call_deleteSG e = CallDeleteSecurityGroup (isg_Zone e) (isg_ID e)"

lemma for_each_deletes:
  assumes "for_each (\<lambda>e. if P e then ret () else deleteSG c e) es s = (r, t)"
  shows "\<exists>ys. prefix ys es \<and> made s (map call_deleteSG (filter (\<lambda>e. \<not> P e) ys)) t \<and> (case r of Ok u \<Rightarrow> ys = es | _ \<Rightarrow> True)"
  using assms
proof (induction es arbitrary: s)
  case Nil
  then show ?case by (auto simp: ret_def)
next
  case (Cons e es)
  show ?case
  proof (cases "P e")
    case True
    with Cons.prems Cons.IH [of s] obtain ys where "prefix ys es"
      "made s (map call_deleteSG (filter (\<lambda>e. \<not> P e) ys)) t" "case r of Ok u \<Rightarrow> ys = es | _ \<Rightarrow> True" by auto
    with True show ?thesis by (intro exI [where x = "e # ys"]) (auto split: outcome.splits)
  next
    case False
    obtain q v where del: "deleteSG c e s = (q, v)" by fastforce
    then have e: "made s [call_deleteSG e] v"
      unfolding deleteSG_def call_deleteSG_def by (auto intro: made_wrapping made_call)
    show ?thesis
    proof (cases q)
      case (Ok u)
      with Cons.prems del False have "for_each (\<lambda>e. if P e then ret () else deleteSG c e) es v = (r, t)"
        by (simp add: bind_def)
      from Cons.IH [OF this] obtain ys where ys: "prefix ys es"
        "made v (map call_deleteSG (filter (\<lambda>e. \<not> P e) ys)) t" "case r of Ok u \<Rightarrow> ys = es | _ \<Rightarrow> True" by auto
      from made_trans [OF e ys(2)] ys(1,3) False show ?thesis
        by (intro exI [where x = "e # ys"]) (auto split: outcome.splits)
    qed (use Cons.prems del False e in \<open>auto simp: bind_def intro!: exI [where x = "[e]"]\<close>)
  qed
qed

lemma ensureSecurityGroups_split:
  "ensureSecurityGroups c sdk sgs s = (let sc = scope_ScalewayCluster s; zones = Zones sdk sc (instance_Zones (cl_Instance c)) in
     case instance_ListSecurityGroups (cl_Instance c) zones None (Tags sc) (world s) of
       (Inl e, w) \<Rightarrow> (Err (Wrap ''failed to list security groups'' (ApiErr e)), s\<lparr>world := w\<rparr>)
     | (Inr es, w) \<Rightarrow> bind (for_each (\<lambda>e. if wantedSG sc sgs e then ret () else deleteSG c e) es) (\<lambda>_.
         for_each (\<lambda>sg. for_each (\<lambda>zone.
           bind (ensureSG c sc es sg zone) (\<lambda>instanceSG. ensureRules c sg zone instanceSG)) zones) sgs) (s\<lparr>world := w\<rparr>))"
  unfolding ensureSecurityGroups_def Let_def
  by (simp add: bind_def gets_def wrapping_def sdk_read_def split: prod.split sum.split)

lemma deletes_then:
  assumes emits: "emits trace C m"
    and run: "bind (for_each (\<lambda>e. if P e then ret () else deleteSG c e) es) (\<lambda>_. m) s = (r, t)"
  shows "\<exists>ys zs. trace t = trace s @ map call_deleteSG (filter (\<lambda>e. \<not> P e) ys) @ zs \<and> set zs \<subseteq> C
    \<and> prefix ys es \<and> (case r of Ok u \<Rightarrow> ys = es | _ \<Rightarrow> True)"
  using run
proof (cases rule: bind_run)
  case (Ok x u)
  from for_each_deletes [OF Ok(1)] have "trace u = trace s @ map call_deleteSG (filter (\<lambda>e. \<not> P e) es)"
    by (auto dest: made_trace)
  moreover obtain zs where "trace t = trace u @ zs" "set zs \<subseteq> C" using emits_grows [OF emits Ok(2)] by blast
  ultimately show ?thesis by (intro exI [where x = es] exI [where x = zs]) (auto split: outcome.split)
next
  case (Err e)
  with for_each_deletes [OF Err(1)] show ?thesis by (fastforce dest: made_trace)
next
  case Panic
  with for_each_deletes [OF Panic(1)] show ?thesis by (fastforce dest: made_trace)
qed

text \<open>
  Only groups that are not in the spec are deleted. Whatever the outcome, the calls of
  \<^verbatim>\<open>ensureSecurityGroups\<close> begin with deletions, in the order of the list, of groups that carry
  the cluster's tags and whose name is not the name of a group of the spec; no later call is a
  deletion, and if the call succeeds every such group was deleted.
\<close>

theorem ensureSecurityGroups_deletes:
  "case ensureSecurityGroups c sdk sgs s of (r, t) \<Rightarrow> \<exists>ys zs.
     trace t = trace s @ map call_deleteSG (filter (\<lambda>e. \<not> wantedSG (scope_ScalewayCluster s) sgs e) ys) @ zs
   \<and> set zs \<subseteq> range CallCreateSecurityGroup \<union> range CallUpdateSecurityGroup \<union> range CallSetSecurityGroupRules
   \<and> prefix ys (listedSGs c sdk (scope_ScalewayCluster s) (world s))
   \<and> (case r of Ok u \<Rightarrow> ys = listedSGs c sdk (scope_ScalewayCluster s) (world s) | _ \<Rightarrow> True)"
proof (cases "ensureSecurityGroups c sdk sgs s")
  case (Pair r t)
  let ?sc = "scope_ScalewayCluster s" and ?C = "range CallCreateSecurityGroup \<union> range CallUpdateSecurityGroup \<union> range CallSetSecurityGroupRules"
  let ?zones = "Zones sdk ?sc (instance_Zones (cl_Instance c))"
  obtain q w where list: "instance_ListSecurityGroups (cl_Instance c) ?zones None (Tags ?sc) (world s) = (q, w)" by fastforce
  show ?thesis
  proof (cases q)
    case (Inl e)
    with Pair list show ?thesis
      by (auto simp: ensureSecurityGroups_split listedSGs_def Let_def)
  next
    case (Inr es)
    then have listed: "listedSGs c sdk ?sc (world s) = es" using list by (simp add: listedSGs_def)
    let ?second = "for_each (\<lambda>sg. for_each (\<lambda>zone.
           bind (ensureSG c ?sc es sg zone) (\<lambda>instanceSG. ensureRules c sg zone instanceSG)) ?zones) sgs"
    have emits: "emits trace ?C ?second"
      unfolding ensureSG_def ensureRules_def Let_def by (intro emit_intros) auto
    have run: "bind (for_each (\<lambda>e. if wantedSG ?sc sgs e then ret () else deleteSG c e) es) (\<lambda>_. ?second) (s\<lparr>world := w\<rparr>) = (r, t)"
      using Pair list Inr by (simp add: ensureSecurityGroups_split Let_def)
    from deletes_then [OF emits run] show ?thesis unfolding Pair listed by simp
  qed
qed

text \<open>A group of the spec is as it should be in a zone: nothing differs from what the API answers.\<close>

definition settledSG ::
  "'w Client \<Rightarrow> ScalewayCluster \<Rightarrow> InstanceSecurityGroup list \<Rightarrow> 'w \<Rightarrow> SecurityGroup \<Rightarrow> zone \<Rightarrow> bool" where
  "settledSG c sc es w sg zone \<longleftrightarrow> (\<exists>e rules.
     find (\<lambda>e. isg_Name e = SecurityGroupName sc (sg_Name sg) \<and> isg_Zone e = zone) es = Some e
   \<and> defaultPolicy (sg_Inbound sg) = Inr (isg_InboundDefaultPolicy e)
   \<and> defaultPolicy (sg_Outbound sg) = Inr (isg_OutboundDefaultPolicy e) \<and> \<not> isg_EnableDefaultSecurity e
   \<and> instance_ListSecurityGroupRules (cl_Instance c) (isg_Zone e) (isg_ID e) w = (Inr rules, w)
   \<and> compareRules (policyRules (sg_Inbound sg)) (filter (\<lambda>r. isr_Direction r = SecurityGroupRuleDirectionInbound) rules) = Inr True
   \<and> compareRules (policyRules (sg_Outbound sg)) (filter (\<lambda>r. isr_Direction r = SecurityGroupRuleDirectionOutbound) rules) = Inr True)"

lemma settledSG_quiet:
  assumes "settledSG c sc es (world s) sg zone"
  shows "bind (ensureSG c sc es sg zone) (\<lambda>e. ensureRules c sg zone e) s = (Ok (), s)"
  using assms
  by (auto simp: settledSG_def ensureSG_def ensureRules_def bind_def lift_sum_def ret_def wrapping_def sdk_read_def)

lemma for_each_skip: "(\<And>x. x \<in> set xs \<Longrightarrow> f x s = (Ok (), s)) \<Longrightarrow> for_each f xs s = (Ok (), s)"
  by (induction xs) (auto simp: ret_def bind_def)

text \<open>
  A settled cloud is left alone. If the API lists only groups of the spec, and every group
  of the spec exists in every zone with its default policies and its rules, then reconciling
  the security groups succeeds, makes no call that changes anything and leaves the state as it is.
\<close>

theorem ensureSecurityGroups_quiet:
  assumes "instance_ListSecurityGroups (cl_Instance c) (Zones sdk (scope_ScalewayCluster s) (instance_Zones (cl_Instance c)))
      None (Tags (scope_ScalewayCluster s)) (world s) = (Inr es, world s)"
    and "list_all (wantedSG (scope_ScalewayCluster s) sgs) es"
    and "\<And>sg zone. sg \<in> set sgs \<Longrightarrow> zone \<in> set (Zones sdk (scope_ScalewayCluster s) (instance_Zones (cl_Instance c))) \<Longrightarrow>
      settledSG c (scope_ScalewayCluster s) es (world s) sg zone"
  shows "ensureSecurityGroups c sdk sgs s = (Ok (), s)"
proof -
  let ?sc = "scope_ScalewayCluster s"
  have "for_each (\<lambda>e. if wantedSG ?sc sgs e then ret () else deleteSG c e) es s = (Ok (), s)"
    by (rule for_each_skip) (use assms(2) in \<open>auto simp: list_all_iff ret_def\<close>)
  moreover have "for_each (\<lambda>sg. for_each (\<lambda>zone. bind (ensureSG c ?sc es sg zone) (\<lambda>e. ensureRules c sg zone e))
      (Zones sdk ?sc (instance_Zones (cl_Instance c)))) sgs s = (Ok (), s)"
    by (intro for_each_skip settledSG_quiet assms(3))
  ultimately show ?thesis
    using assms(1) by (simp add: ensureSecurityGroups_split Let_def bind_def)
qed

theorem ensureSecurityGroups_quiet_witness:
  "let e = \<lparr>isg_ID = ''sg-1'', isg_Name = ''caps-c-nodes'', isg_Zone = ''fr-par-1'',
         isg_InboundDefaultPolicy = SecurityGroupPolicyAccept, isg_OutboundDefaultPolicy = SecurityGroupPolicyAccept,
         isg_EnableDefaultSecurity = False\<rparr>;
       c = down_client\<lparr>cl_Instance := down_instance\<lparr>instance_ListSecurityGroups := (\<lambda>z n t w. (Inr [e], w)),
         instance_ListSecurityGroupRules := (\<lambda>z i w. (Inr [], w))\<rparr>\<rparr> in
   ensureSecurityGroups c ex_sdk [\<lparr>sg_Name = ''nodes'', sg_Inbound = None, sg_Outbound = None\<rparr>] (ex_scope ex_cluster ())
     = (Ok (), ex_scope ex_cluster ())"
  unfolding Let_def
proof (rule ensureSecurityGroups_quiet)
  show "list_all (wantedSG (scope_ScalewayCluster (ex_scope ex_cluster ()))
      [\<lparr>sg_Name = ''nodes'', sg_Inbound = None, sg_Outbound = None\<rparr>])
    [\<lparr>isg_ID = ''sg-1'', isg_Name = ''caps-c-nodes'', isg_Zone = ''fr-par-1'',
      isg_InboundDefaultPolicy = SecurityGroupPolicyAccept, isg_OutboundDefaultPolicy = SecurityGroupPolicyAccept,
      isg_EnableDefaultSecurity = False\<rparr>]"
    by (simp add: wantedSG_def SecurityGroupName_def Name_def ex_cloud)
qed (auto simp: settledSG_def defaultPolicy_def compareRules_def policyRules_def SecurityGroupName_def Name_def
    Zones_def Region_def ex_cloud)

end
