(* ===== verification/Vpc.thy ===== *)
theory Vpc
  imports Example_Cloud
begin

text \<open>
  The VPC service (\<^verbatim>\<open>internal/service/scaleway/vpc\<close>): it finds or creates the private network of
  a cluster whose spec asks for a managed one, records its ID, and deletes it.
\<close>

definition pn_subnets :: "PrivateNetworkSpec \<Rightarrow> go_error + IPNet list" where
  "pn_subnets spec = (case pns_Subnet spec of
     None \<Rightarrow> Inr []
   | Some subnet \<Rightarrow> (case net_ParseCIDR subnet of
       Inl e \<Rightarrow> Inl (Wrap ''failed to parse PrivateNetwork subnet'' e)
     | Inr ipNet \<Rightarrow> Inr [ipNet]))"

definition createPN :: "'w Client \<Rightarrow> (('w, 'z) ClusterScope_scheme, PrivateNetwork) go" where
  "createPN c =
     bind (gets scope_ScalewayCluster) (\<lambda>sc.
     bind (deref (privateNetworkSpec sc)) (\<lambda>spec.
     bind (lift_sum (pn_subnets spec)) (\<lambda>subnets.
     sdk_call (CallCreatePrivateNetwork (Region sc) (Name sc) subnets)
       (vpc_CreatePrivateNetwork (cl_VPC c) (Region sc) (Name sc) subnets))))"

definition lookupPN :: "'w Client \<Rightarrow> (('w, 'z) ClusterScope_scheme, PrivateNetwork option) go" where
  "lookupPN c =
     bind (gets scope_ScalewayCluster) (\<lambda>sc. optional (FindPrivateNetworkByName c (Region sc) (Name sc)))"

definition getOrCreatePN :: "'w Client \<Rightarrow> (('w, 'z) ClusterScope_scheme, PrivateNetwork) go" where
  "getOrCreatePN c =
     bind (getOrCreate (lookupPN c) (createPN c)) (\<lambda>pn.
     if \<not> pn_DHCPEnabled pn then throw (ErrNew ''DHCP is not enabled in the specified Private Network'')
     else ret pn)"

definition vpc_Reconcile :: "'w Client \<Rightarrow> (('w, 'z) ClusterScope_scheme, unit) go" where
  "vpc_Reconcile c =
     bind (gets scope_ScalewayCluster) (\<lambda>sc.
     if \<not> ShouldManagePrivateNetwork sc then ret ()
     else bind (wrapping ''failed to get or create Private Network'' (getOrCreatePN c)) (\<lambda>pn.
       modify (\<lambda>s. s\<lparr>scope_ScalewayCluster :=
         SetStatusPrivateNetworkID (pn_ID pn) (scope_ScalewayCluster s)\<rparr>)))"

definition vpc_Delete :: "'w Client \<Rightarrow> (('w, 'z) ClusterScope_scheme, unit) go" where
  "vpc_Delete c =
     bind (gets scope_ScalewayCluster) (\<lambda>sc.
     if \<not> ShouldManagePrivateNetwork sc then ret ()
     else bind (optional (FindPrivateNetworkByName c (Region sc) (Name sc))) (\<lambda>found.
       case found of
         None \<Rightarrow> ret ()
       | Some pn \<Rightarrow> sdk_call (CallDeletePrivateNetwork (Region sc) (pn_ID pn))
           (vpc_DeletePrivateNetwork (cl_VPC c) (Region sc) (pn_ID pn))))"

section \<open>The interfaces\<close>

definition vpc_creates :: "call set" where
  "vpc_creates = {CallCreatePrivateNetwork r n ns |r n ns. True}"

definition vpc_deletes :: "call set" where
  "vpc_deletes = {CallDeletePrivateNetwork r i |r i. True}"

lemma createPN_Ok:
  "createPN c s = (Ok pn, s') \<longleftrightarrow>
     (\<exists>spec subnets w. privateNetworkSpec (scope_ScalewayCluster s) = Some spec
       \<and> pn_subnets spec = Inr subnets
       \<and> vpc_CreatePrivateNetwork (cl_VPC c) (Region (scope_ScalewayCluster s))
           (Name (scope_ScalewayCluster s)) subnets (world s) = (Inr pn, w)
       \<and> s' = s\<lparr>world := w, trace := trace s @ [CallCreatePrivateNetwork
           (Region (scope_ScalewayCluster s)) (Name (scope_ScalewayCluster s)) subnets]\<rparr>)"
  by (auto simp: createPN_def ok_iffs)

interpretation private_network: get_or_create "lookupPN c" "createPN c" vpc_creates for c
proof
  show "reads_only (lookupPN c)" for c
    unfolding lookupPN_def by (intro read_intros)
  show "emits trace vpc_creates (createPN c)" for c
    unfolding createPN_def by (intro emit_intros) (auto simp: vpc_creates_def)
qed (auto simp: createPN_Ok)

lemma cluster_frame_SetStatus [simp]: "cluster_frame (SetStatusPrivateNetworkID pnID c) = cluster_frame c"
  by (simp add: cluster_frame_def SetStatusPrivateNetworkID_def)

lemma keeps_getOrCreatePN: "keeps scope_ScalewayCluster (getOrCreatePN c)"
  unfolding getOrCreatePN_def lookupPN_def createPN_def by (intro keep_intros) simp_all

interpretation vpc: cluster_service "vpc_Reconcile c" "vpc_Delete c" vpc_creates vpc_deletes for c
proof
  show "emits trace vpc_creates (vpc_Reconcile c)" for c
    unfolding vpc_Reconcile_def getOrCreatePN_def
    by (intro emit_intros private_network.run_emits) simp
  show "emits trace vpc_deletes (vpc_Delete c)" for c
    unfolding vpc_Delete_def by (intro emit_intros) (auto simp: vpc_deletes_def)
  show "keeps (\<lambda>s. cluster_frame (scope_ScalewayCluster s)) (vpc_Reconcile c)" for c
    unfolding vpc_Reconcile_def
    by (intro keep_intros keeps_comp [where g = cluster_frame, OF keeps_getOrCreatePN]) simp
  show "keeps scope_ScalewayCluster (vpc_Delete c)" for c
    unfolding vpc_Delete_def by (intro keep_intros) simp_all
qed

section \<open>Facts\<close>

lemma ShouldManage_SetStatus [simp]:
  "ShouldManagePrivateNetwork (SetStatusPrivateNetworkID pnID c) = ShouldManagePrivateNetwork c"
  "privateNetworkSpec (SetStatusPrivateNetworkID pnID c) = privateNetworkSpec c"
  "Region (SetStatusPrivateNetworkID pnID c) = Region c"
  "Name (SetStatusPrivateNetworkID pnID c) = Name c"
  by (simp_all add: ShouldManagePrivateNetwork_def privateNetworkSpec_def Region_def Name_def)

lemma SetStatus_again [simp]:
  "SetStatusPrivateNetworkID pnID (SetStatusPrivateNetworkID pnID c) = SetStatusPrivateNetworkID pnID c"
  by (simp add: SetStatusPrivateNetworkID_def split: option.splits)

lemma lookupPN_run:
  "lookupPN c s = optional (FindPrivateNetworkByName c (Region (scope_ScalewayCluster s))
     (Name (scope_ScalewayCluster s))) s"
  by (simp add: lookupPN_def bind_def gets_def)

lemma lookupPN_Some:
  "lookupPN c s = (Ok (Some pn), s') \<longleftrightarrow> (\<exists>xs w. s' = s\<lparr>world := w\<rparr> \<and>
     vpc_ListPrivateNetworks (cl_VPC c) (Region (scope_ScalewayCluster s)) (Name (scope_ScalewayCluster s))
       (cl_ProjectID c) (world s) = (Inr xs, w)
     \<and> find (\<lambda>p. pn_Name p = Name (scope_ScalewayCluster s)) xs = Some pn)"
  unfolding lookupPN_run pn_by_name.optional_find by (auto simp: ok_iffs)

lemma vpc_Reconcile_Ok:
  "vpc_Reconcile c s = (Ok u, s') \<longleftrightarrow>
     (if ShouldManagePrivateNetwork (scope_ScalewayCluster s)
      then \<exists>pn t. getOrCreate (lookupPN c) (createPN c) s = (Ok pn, t) \<and> pn_DHCPEnabled pn
        \<and> s' = t\<lparr>scope_ScalewayCluster := SetStatusPrivateNetworkID (pn_ID pn) (scope_ScalewayCluster t)\<rparr>
      else s' = s)"
  by (auto simp: vpc_Reconcile_def getOrCreatePN_def ok_iffs)

lemma ShouldManage_HasPrivateNetwork: "ShouldManagePrivateNetwork c \<Longrightarrow> HasPrivateNetwork c"
  by (simp add: ShouldManagePrivateNetwork_def)

lemma getOrCreatePN_no_panic:
  assumes "ShouldManagePrivateNetwork (scope_ScalewayCluster s)"
  shows "no_panic_at (getOrCreatePN c) s"
  unfolding getOrCreatePN_def
proof (intro no_panic_at_bind no_panic_at_getOrCreate)
  show "no_panic_at (lookupPN c) s"
    unfolding lookupPN_def by (intro no_panic_atI panic_intros)
  fix t
  assume "lookupPN c s = (Ok None, t)"
  then have "scope_ScalewayCluster t = scope_ScalewayCluster s"
    by (rule reads_only_cluster [OF private_network.lookup_reads])
  with assms show "no_panic_at (createPN c) t"
    unfolding createPN_def
    by (intro no_panic_at_gets no_panic_atI panic_intros no_panic_deref) (auto simp: ShouldManage_iff)
qed (intro no_panic_atI panic_intros)

lemma vpc_Reconcile_no_panic: "no_panic_at (vpc_Reconcile c) s"
  unfolding vpc_Reconcile_def
  by (intro no_panic_at_gets no_panic_at_if no_panic_at_bind no_panic_at_wrapping getOrCreatePN_no_panic)
    (auto intro: no_panic_atI panic_intros)

lemma vpc_Reconcile_Err:
  "vpc_Reconcile c s = (Err e, s') \<Longrightarrow> scope_ScalewayCluster s' = scope_ScalewayCluster s"
  using keepsD [OF keeps_getOrCreatePN, of c s]
  by (auto simp: vpc_Reconcile_def bind_def gets_def wrapping_def modify_def ret_def
      split: if_splits prod.splits outcome.splits)

lemma getOrCreatePN_run:
  assumes "getOrCreate (lookupPN c) (createPN c) s = (Ok pn, t)"
  shows "\<exists>es. made s es t \<and> (es = [] \<and> pn_Name pn = Name (scope_ScalewayCluster s)
       \<or> (\<exists>spec subnets. privateNetworkSpec (scope_ScalewayCluster s) = Some spec \<and> pn_subnets spec = Inr subnets
         \<and> es = [CallCreatePrivateNetwork (Region (scope_ScalewayCluster s)) (Name (scope_ScalewayCluster s)) subnets]))"
  using assms unfolding getOrCreate_Ok
proof (elim disjE exE conjE)
  assume found: "lookupPN c s = (Ok (Some pn), t)"
  with made_reads [OF private_network.lookup_reads found] show ?thesis
    by (auto simp: lookupPN_Some dest!: find_SomeD)
next
  fix t'
  assume none: "lookupPN c s = (Ok None, t')" and create: "createPN c t' = (Ok pn, t)"
  have read: "made s [] t'" by (rule made_reads [OF private_network.lookup_reads none])
  have "\<exists>spec subnets. privateNetworkSpec (scope_ScalewayCluster s) = Some spec \<and> pn_subnets spec = Inr subnets
      \<and> made t' [CallCreatePrivateNetwork (Region (scope_ScalewayCluster s)) (Name (scope_ScalewayCluster s)) subnets] t"
    using create made_cluster [OF read] by (auto simp: createPN_Ok)
  then show ?thesis using made_trans [OF read] by fastforce
qed

section \<open>Properties\<close>


text \<open>
  Reconciling the private network settles at once. If listing networks does not change the
  cloud, and a network that was created is the one that the list then gives for its name, then
  after a successful reconciliation another one succeeds, asks for nothing and leaves the
  cluster object as it is.
\<close>

theorem vpc_Reconcile_settles:
  assumes list_reads: "\<And>r n p w x w'. vpc_ListPrivateNetworks (cl_VPC c) r n p w = (x, w') \<Longrightarrow> w' = w"
    and created_listed: "\<And>r n ns w pn w'. vpc_CreatePrivateNetwork (cl_VPC c) r n ns w = (Inr pn, w') \<Longrightarrow>
      \<exists>xs. vpc_ListPrivateNetworks (cl_VPC c) r n (cl_ProjectID c) w' = (Inr xs, w')
        \<and> find (\<lambda>p. pn_Name p = n) xs = Some pn"
    and run: "vpc_Reconcile c s = (Ok (), s')"
  shows "vpc_Reconcile c s' = (Ok (), s')"
proof (cases "ShouldManagePrivateNetwork (scope_ScalewayCluster s)")
  case True
  let ?sc = "scope_ScalewayCluster s"
  from True run obtain pn t where pn: "getOrCreate (lookupPN c) (createPN c) s = (Ok pn, t)" "pn_DHCPEnabled pn"
    "s' = t\<lparr>scope_ScalewayCluster := SetStatusPrivateNetworkID (pn_ID pn) (scope_ScalewayCluster t)\<rparr>"
    by (auto simp: vpc_Reconcile_Ok)
  have "scope_ScalewayCluster t = ?sc \<and> (\<exists>xs. vpc_ListPrivateNetworks (cl_VPC c) (Region ?sc) (Name ?sc)
      (cl_ProjectID c) (world t) = (Inr xs, world t) \<and> find (\<lambda>p. pn_Name p = Name ?sc) xs = Some pn)"
    using pn(1) unfolding getOrCreate_Ok
  proof (elim disjE exE conjE)
    assume "lookupPN c s = (Ok (Some pn), t)"
    then show ?thesis using list_reads by (fastforce simp: lookupPN_Some)
  next
    fix t'
    assume "lookupPN c s = (Ok None, t')" and "createPN c t' = (Ok pn, t)"
    then show ?thesis
      using reads_only_cluster [OF private_network.lookup_reads, of c s _ t']
      by (auto simp: createPN_Ok dest: created_listed)
  qed
  then have "lookupPN c s' = (Ok (Some pn), s')"
    using pn(3) by (auto simp: lookupPN_Some)
  then have "getOrCreate (lookupPN c) (createPN c) s' = (Ok pn, s')"
    using private_network.again_no_call by blast
  with True pn(2,3) \<open>_ \<and> _\<close> show ?thesis
    unfolding vpc_Reconcile_Ok by auto
next
  case False
  with run show ?thesis by (auto simp: vpc_Reconcile_Ok)
qed

text \<open>A cloud that keeps a list of private networks.\<close>

definition ex_vpc :: "PrivateNetwork list vpc_API" where
  "ex_vpc = down_vpc\<lparr>
     vpc_ListPrivateNetworks := (\<lambda>r n p w. (Inr (filter (\<lambda>pn. pn_Name pn = n) w), w)),
     vpc_CreatePrivateNetwork := (\<lambda>r n ns w.
       let pn = \<lparr>pn_ID = ''pn-1'', pn_Name = n, pn_DHCPEnabled = True\<rparr> in (Inr pn, pn # w))\<rparr>"

theorem vpc_Reconcile_settles_witness:
  "let c = down_client\<lparr>cl_VPC := ex_vpc\<rparr>; s' = snd (vpc_Reconcile c (ex_scope ex_pn_cluster [])) in
   trace s' = [CallCreatePrivateNetwork ''fr-par'' ''caps-c'' []] \<and> vpc_Reconcile c s' = (Ok (), s')"
proof -
  let ?c = "down_client\<lparr>cl_VPC := ex_vpc\<rparr>"
  let ?s = "ex_scope ex_pn_cluster []"
  obtain s' where run: "vpc_Reconcile ?c ?s = (Ok (), s')"
    and trace: "trace s' = [CallCreatePrivateNetwork ''fr-par'' ''caps-c'' []]"
    by (simp add: vpc_Reconcile_def getOrCreatePN_def lookupPN_def createPN_def pn_subnets_def
        ex_vpc_def ex_cloud run_defs)
  have "vpc_Reconcile ?c s' = (Ok (), s')"
    by (rule vpc_Reconcile_settles [OF _ _ run]) (auto simp: ex_vpc_def down_client_def Let_def)
  with run trace show ?thesis by simp
qed

text \<open>The network that deleting has to remove: the first listed under the cluster's name, if it is managed.\<close>

definition networks_to_delete :: "'w Client \<Rightarrow> ScalewayCluster \<Rightarrow> 'w \<Rightarrow> PrivateNetwork list" where
  "networks_to_delete c sc w =
     (if ShouldManagePrivateNetwork sc then
        case fst (vpc_ListPrivateNetworks (cl_VPC c) (Region sc) (Name sc) (cl_ProjectID c) w) of
          Inr pns \<Rightarrow> (case find (\<lambda>pn. pn_Name pn = Name sc) pns of Some pn \<Rightarrow> [pn] | None \<Rightarrow> [])
        | Inl _ \<Rightarrow> []
      else [])"

text \<open>
  Deleting the private network. Whatever the outcome, the cluster object is not changed,
  and the calls are exactly the deletion, in the cluster's region, of the network that the API
  lists under the cluster's name, if the provider manages it; an existing network that the spec
  names is never deleted. If there is nothing to delete and the list could be read, deleting
  succeeds.
\<close>

theorem vpc_Delete_calls:
  "let sc = scope_ScalewayCluster s; pns = networks_to_delete c sc (world s) in
     scope_ScalewayCluster (snd (vpc_Delete c s)) = sc
   \<and> trace (snd (vpc_Delete c s)) = trace s @ map (\<lambda>pn. CallDeletePrivateNetwork (Region sc) (pn_ID pn)) pns
   \<and> (fst (vpc_Delete c s) = Ok () \<or> (\<exists>pn. pns = [pn])
      \<or> (\<exists>e. fst (vpc_ListPrivateNetworks (cl_VPC c) (Region sc) (Name sc) (cl_ProjectID c) (world s)) = Inl e))"
proof (cases "ShouldManagePrivateNetwork (scope_ScalewayCluster s)")
  case True
  show ?thesis
    by (cases "vpc_ListPrivateNetworks (cl_VPC c) (Region (scope_ScalewayCluster s))
        (Name (scope_ScalewayCluster s)) (cl_ProjectID c) (world s)")
      (auto simp: True vpc_Delete_def FindPrivateNetworkByName_def first_match_def go_defs sdk_read_def
        sdk_call_def api_result_def networks_to_delete_def Let_def
        split: sum.splits option.splits prod.splits)
qed (simp add: vpc_Delete_def bind_def gets_def ret_def networks_to_delete_def)

end
