(* ===== verification/Vpcgw.thy ===== *)
theory Vpcgw
  imports Vpc
begin

text \<open>
  The public gateway service (\<^verbatim>\<open>internal/service/scaleway/vpcgw\<close>): it finds or creates the
  gateway and its IP, attaches the gateway to the private network, and deletes what it created.
\<close>

definition defaultVPCGWType :: string where
  "defaultVPCGWType = ''VPC-GW-S''"

definition lookupGatewayIP :: "'w Client \<Rightarrow> zone \<Rightarrow> (('w, 'z) ClusterScope_scheme, GatewayIP option) go" where
  "lookupGatewayIP c zone =
     bind (gets scope_ScalewayCluster) (\<lambda>sc. optional (FindGatewayIPByTags c zone (Tags sc)))"

definition createGatewayIP :: "'w Client \<Rightarrow> zone \<Rightarrow> (('w, 'z) ClusterScope_scheme, GatewayIP) go" where
  "createGatewayIP c zone =
     bind (gets scope_ScalewayCluster) (\<lambda>sc.
     sdk_call (CallCreateGatewayIP zone (Tags sc)) (vpcgw_CreateIP (cl_VPCGW c) zone (Tags sc)))"

definition vpcgw_getOrCreateIP ::
  "'w Client \<Rightarrow> zone \<Rightarrow> string option \<Rightarrow> (('w, 'z) ClusterScope_scheme, GatewayIP) go" where
  "vpcgw_getOrCreateIP c zone existingIP = (case existingIP of
     Some _ \<Rightarrow>
       bind (gets scope_ScalewayCluster) (\<lambda>sc.
       bind (deref (Option.bind (publicGatewaySpec sc) pgs_IP)) (\<lambda>ip.
       wrapping ''failed to find IP'' (FindGatewayIP c zone ip)))
   | None \<Rightarrow> getOrCreate (lookupGatewayIP c zone) (createGatewayIP c zone))"

definition lookupGateway :: "'w Client \<Rightarrow> zone \<Rightarrow> (('w, 'z) ClusterScope_scheme, Gateway option) go" where
  "lookupGateway c zone =
     bind (gets scope_ScalewayCluster) (\<lambda>sc.
     wrapping ''failed to find Public Gateway by name'' (optional (FindGatewayByName c zone (Name sc))))"

definition createGateway :: "'w Client \<Rightarrow> zone \<Rightarrow> (('w, 'z) ClusterScope_scheme, Gateway) go" where
  "createGateway c zone =
     bind (gets scope_ScalewayCluster) (\<lambda>sc.
     bind (deref (publicGatewaySpec sc)) (\<lambda>spec.
     bind (vpcgw_getOrCreateIP c zone (pgs_IP spec)) (\<lambda>ip.
     let vpcgwType = (case pgs_Type spec of None \<Rightarrow> defaultVPCGWType | Some t \<Rightarrow> t) in
     wrapping ''failed to create Public Gateway''
       (sdk_call (CallCreateGateway zone (Name sc) (gip_ID ip) vpcgwType)
         (vpcgw_CreateGateway (cl_VPCGW c) zone (Name sc) (gip_ID ip) vpcgwType)))))"

definition getOrCreateGateway :: "'w Client \<Rightarrow> zone \<Rightarrow> (('w, 'z) ClusterScope_scheme, Gateway) go" where
  "getOrCreateGateway c zone = getOrCreate (lookupGateway c zone) (createGateway c zone)"

definition gatewayNetworkRequest :: "zone \<Rightarrow> string \<Rightarrow> string \<Rightarrow> CreateGatewayNetworkRequest" where
  "gatewayNetworkRequest zone gatewayID pnID =
     \<lparr>gn_Zone = zone, gn_GatewayID = gatewayID, gn_PrivateNetworkID = pnID, gn_EnableDHCP = True,
      gn_EnableMasquerade = True, gn_PushDefaultRoute = True\<rparr>"

definition vpcgw_Reconcile :: "'w Client \<Rightarrow> (('w, 'z) ClusterScope_scheme, unit) go" where
  "vpcgw_Reconcile c =
     bind (gets scope_ScalewayCluster) (\<lambda>sc.
     if \<not> HasPrivateNetwork sc \<or> \<not> HasPublicGateway sc then ret ()
     else
       let zone = PublicGatewayZone sc in
       bind (deref (publicGatewaySpec sc)) (\<lambda>spec.
       bind (case pgs_ID spec of
           Some i \<Rightarrow> ret i
         | None \<Rightarrow> bind (getOrCreateGateway c zone) (\<lambda>gw. ret (gw_ID gw))) (\<lambda>gatewayID.
       bind (lift_outcome (PrivateNetworkID sc)) (\<lambda>pnID.
       bind (sdk_read (vpcgw_ListGatewayNetworks (cl_VPCGW c) zone gatewayID pnID)) (\<lambda>totalCount.
       if totalCount = 0 then
         sdk_call (CallCreateGatewayNetwork (gatewayNetworkRequest zone gatewayID pnID))
           (vpcgw_CreateGatewayNetwork (cl_VPCGW c) (gatewayNetworkRequest zone gatewayID pnID))
       else ret ())))))"

definition vpcgw_deleteGateway :: "'w Client \<Rightarrow> zone \<Rightarrow> Gateway \<Rightarrow> (('w, 'z) ClusterScope_scheme, unit) go" where
  "vpcgw_deleteGateway c zone gw =
     wrapping ''failed to delete PublicGateway''
       (sdk_call (CallDeleteGateway zone (gw_ID gw)) (vpcgw_DeleteGateway (cl_PublicGateway c) zone (gw_ID gw)))"

definition vpcgw_releaseIP :: "'w Client \<Rightarrow> zone \<Rightarrow> string list \<Rightarrow> (('w, 'z) ClusterScope_scheme, unit) go" where
  "vpcgw_releaseIP c zone tags =
     bind (wrapping ''failed to find Public Gateway IP'' (optional (FindGatewayIPByTags c zone tags))) (\<lambda>ip.
     case ip of
       None \<Rightarrow> ret ()
     | Some i \<Rightarrow> wrapping ''failed to delete Public Gateway IP''
         (sdk_call (CallDeleteGatewayIP zone (gip_ID i)) (vpcgw_DeleteIP (cl_PublicGateway c) zone (gip_ID i))))"

definition vpcgw_Delete :: "'w Client \<Rightarrow> (('w, 'z) ClusterScope_scheme, unit) go" where
  "vpcgw_Delete c =
     bind (gets scope_ScalewayCluster) (\<lambda>sc.
     if \<not> HasPrivateNetwork sc \<or> \<not> HasPublicGateway sc then ret ()
     else
       bind (deref (publicGatewaySpec sc)) (\<lambda>spec.
       if pgs_ID spec \<noteq> None then ret ()
       else
         let zone = PublicGatewayZone sc in
         bind (wrapping ''failed to find PublicGateway'' (optional (FindGatewayByName c zone (Name sc)))) (\<lambda>gw.
         bind (case gw of
             None \<Rightarrow> ret ()
           | Some g \<Rightarrow> vpcgw_deleteGateway c zone g) (\<lambda>_.
         if pgs_IP spec = None then vpcgw_releaseIP c zone (Tags sc) else ret ()))))"

section \<open>The interfaces\<close>

definition vpcgw_creates :: "call set" where
  "vpcgw_creates = {CallCreateGatewayIP z ts |z ts. True} \<union> {CallCreateGateway z n i t |z n i t. True}
     \<union> range CallCreateGatewayNetwork"

definition vpcgw_deletes :: "call set" where
  "vpcgw_deletes = {CallDeleteGateway z i |z i. True} \<union> {CallDeleteGatewayIP z i |z i. True}"

interpretation gateway_ip_by_tags: get_or_create "lookupGatewayIP c zone" "createGatewayIP c zone"
  "{CallCreateGatewayIP z ts |z ts. True}" for c zone
proof
  show "reads_only (lookupGatewayIP c zone)" for c zone
    unfolding lookupGatewayIP_def by (intro read_intros)
  show "emits trace {CallCreateGatewayIP z ts |z ts. True} (createGatewayIP c zone)" for c zone
    unfolding createGatewayIP_def by (intro emit_intros) auto
qed (auto simp: createGatewayIP_def ok_iffs)

lemma emits_vpcgw_getOrCreateIP: "emits trace {CallCreateGatewayIP z ts |z ts. True} (vpcgw_getOrCreateIP c zone ip)"
  unfolding vpcgw_getOrCreateIP_def by (intro emit_intros gateway_ip_by_tags.run_emits)

lemma createGateway_emits:
  "emits trace ({CallCreateGatewayIP z ts |z ts. True} \<union> {CallCreateGateway z n i t |z n i t. True})
     (createGateway c zone)"
  unfolding createGateway_def Let_def
  by (intro emit_intros emits_mono [OF emits_vpcgw_getOrCreateIP]) auto

interpretation gateway: get_or_create "lookupGateway c zone" "createGateway c zone"
  "{CallCreateGatewayIP z ts |z ts. True} \<union> {CallCreateGateway z n i t |z n i t. True}" for c zone
proof
  show "reads_only (lookupGateway c zone)" for c zone
    unfolding lookupGateway_def by (intro read_intros)
  show "createGateway c zone s = (Ok x, s') \<Longrightarrow> trace s' \<noteq> trace s" for c zone s x s'
    by (auto simp: createGateway_def ok_iffs Let_def dest!: emits_grows [OF emits_vpcgw_getOrCreateIP])
qed (rule createGateway_emits)

lemma keeps_getOrCreateGateway: "keeps scope_ScalewayCluster (getOrCreateGateway c zone)"
  unfolding getOrCreateGateway_def lookupGateway_def createGateway_def vpcgw_getOrCreateIP_def
    lookupGatewayIP_def createGatewayIP_def Let_def
  by (intro keep_intros) simp_all

lemma keeps_vpcgw_Reconcile: "keeps scope_ScalewayCluster (vpcgw_Reconcile c)"
  unfolding vpcgw_Reconcile_def Let_def by (intro keep_intros keeps_getOrCreateGateway) simp_all

interpretation vpcgw: cluster_service "vpcgw_Reconcile c" "vpcgw_Delete c" vpcgw_creates vpcgw_deletes for c
proof
  show "emits trace vpcgw_creates (vpcgw_Reconcile c)" for c
    unfolding vpcgw_Reconcile_def getOrCreateGateway_def Let_def
    by (intro emit_intros emits_mono [OF gateway.run_emits]) (auto simp: vpcgw_creates_def)
  show "emits trace vpcgw_deletes (vpcgw_Delete c)" for c
    unfolding vpcgw_Delete_def vpcgw_deleteGateway_def vpcgw_releaseIP_def Let_def
    by (intro emit_intros) (auto simp: vpcgw_deletes_def)
  show "keeps (\<lambda>s. cluster_frame (scope_ScalewayCluster s)) (vpcgw_Reconcile c)" for c
    by (rule keeps_comp [OF keeps_vpcgw_Reconcile])
  show "keeps scope_ScalewayCluster (vpcgw_Delete c)" for c
    unfolding vpcgw_Delete_def vpcgw_deleteGateway_def vpcgw_releaseIP_def Let_def
    by (intro keep_intros) simp_all
qed

section \<open>Facts\<close>

definition gateway_type :: "PublicGatewaySpec \<Rightarrow> string" where
  "gateway_type spec = (case pgs_Type spec of None \<Rightarrow> defaultVPCGWType | Some t \<Rightarrow> t)"

lemma HasPublicGateway_spec: "HasPublicGateway sc \<Longrightarrow> \<exists>spec. publicGatewaySpec sc = Some spec \<and> pgs_Enabled spec"
  by (auto simp: HasPublicGateway_def split: option.splits)

lemma vpcgw_getOrCreateIP_run:
  assumes "vpcgw_getOrCreateIP c zone ip s = (Ok gip, t)"
  shows "made s [] t \<or> made s [CallCreateGatewayIP zone (Tags (scope_ScalewayCluster s))] t \<and> ip = None"
proof (cases ip)
  case (Some a)
  have "reads_only (vpcgw_getOrCreateIP c zone ip)"
    unfolding Some vpcgw_getOrCreateIP_def by (simp, intro read_intros)
  from made_reads [OF this assms] show ?thesis by simp
next
  case None
  have "made s [CallCreateGatewayIP zone (Tags (scope_ScalewayCluster s))] t"
    if "made s [] t'" "createGatewayIP c zone t' = (Ok gip, t)" for t'
    using that made_cluster [OF that(1)] made_trans [OF that(1) made_call]
    by (fastforce simp: createGatewayIP_def ok_iffs made_def)
  then show ?thesis
    using assms None made_reads [OF gateway_ip_by_tags.lookup_reads, of c zone s]
    unfolding vpcgw_getOrCreateIP_def by (simp add: getOrCreate_Ok) blast
qed

text \<open>How a gateway was obtained with the calls \<open>es\<close>: found by name, or created, perhaps after its IP.\<close>

definition gateway_obtained ::
  "'w Client \<Rightarrow> ScalewayCluster \<Rightarrow> PublicGatewaySpec \<Rightarrow> zone \<Rightarrow> Gateway \<Rightarrow> call list \<Rightarrow> bool" where
  "gateway_obtained c sc spec zone gw es \<longleftrightarrow>
     es = [] \<and> gw_Name gw = Name sc
   \<or> (\<exists>i w w'. vpcgw_CreateGateway (cl_VPCGW c) zone (Name sc) i (gateway_type spec) w = (Inr gw, w')
       \<and> (es = [CallCreateGateway zone (Name sc) i (gateway_type spec)]
          \<or> es = [CallCreateGatewayIP zone (Tags sc), CallCreateGateway zone (Name sc) i (gateway_type spec)]
             \<and> pgs_IP spec = None))"

lemma getOrCreateGateway_run:
  assumes run: "getOrCreateGateway c zone s = (Ok gw, t)"
    and sc: "sc = scope_ScalewayCluster s" and spec: "publicGatewaySpec sc = Some spec"
  shows "\<exists>es. made s es t \<and> gateway_obtained c sc spec zone gw es"
  using run unfolding getOrCreateGateway_def getOrCreate_Ok
proof (elim disjE exE conjE)
  assume found: "lookupGateway c zone s = (Ok (Some gw), t)"
  then have "gw_Name gw = Name sc"
    using sc by (auto simp: lookupGateway_def ok_iffs dest: gateway_by_name.find_Ok_wanted)
  then show ?thesis
    using made_reads [OF gateway.lookup_reads found] unfolding gateway_obtained_def by blast
next
  fix t'
  assume none: "lookupGateway c zone s = (Ok None, t')" and create: "createGateway c zone t' = (Ok gw, t)"
  have read: "made s [] t'" by (rule made_reads [OF gateway.lookup_reads none])
  from create obtain gip u where ip: "vpcgw_getOrCreateIP c zone (pgs_IP spec) t' = (Ok gip, u)"
    and gw: "sdk_call (CallCreateGateway zone (Name sc) (gip_ID gip) (gateway_type spec))
       (vpcgw_CreateGateway (cl_VPCGW c) zone (Name sc) (gip_ID gip) (gateway_type spec)) u = (Ok gw, t)"
    using made_cluster [OF read] sc spec
    by (auto simp: createGateway_def bind_Ok wrapping_Ok pure_Ok deref_Ok Let_def gateway_type_def)
  from gw obtain w w' where made_gw:
    "vpcgw_CreateGateway (cl_VPCGW c) zone (Name sc) (gip_ID gip) (gateway_type spec) w = (Inr gw, w')"
    by (auto simp: sdk_call_Ok)
  from vpcgw_getOrCreateIP_run [OF ip] show ?thesis
  proof (elim disjE conjE)
    assume "made t' [] u"
    from made_trans [OF read made_trans [OF this made_call [OF gw]]] made_gw show ?thesis
      unfolding gateway_obtained_def by fastforce
  next
    assume "made t' [CallCreateGatewayIP zone (Tags (scope_ScalewayCluster t'))] u" "pgs_IP spec = None"
    with made_trans [OF read made_trans [OF this(1) made_call [OF gw]]] made_cluster [OF read] sc made_gw show ?thesis
      unfolding gateway_obtained_def by fastforce
  qed
qed

section \<open>Properties\<close>


text \<open>A gateway API that has no gateway and no IP, and creates both.\<close>

definition ex_vpcgw :: "unit vpcgw_API" where
  "ex_vpcgw = down_vpcgw\<lparr>
     vpcgw_ListGateways := (\<lambda>r w. (Inr [], w)), vpcgw_ListIPs := (\<lambda>z f ts p w. (Inr [], w)),
     vpcgw_ListGatewayNetworks := (\<lambda>z g p w. (Inr 0, w)),
     vpcgw_CreateIP := (\<lambda>z ts w. (Inr \<lparr>gip_ID = ''ip-1'', gip_Address = []\<rparr>, w)),
     vpcgw_CreateGateway := (\<lambda>z n i t w. (Inr \<lparr>gw_ID = ''gw-1'', gw_Name = n, gw_IP = None\<rparr>, w)),
     vpcgw_CreateGatewayNetwork := (\<lambda>r w. (Inr (), w))\<rparr>"

definition ex_gw_cluster :: "ScalewayCluster" where
  "ex_gw_cluster = SetStatusPrivateNetworkID ''pn-1'' (ex_cluster\<lparr>sc_Spec := ex_spec\<lparr>spec_Network :=
     Some \<lparr>ns_PrivateNetwork = Some \<lparr>pns_Enabled = True, pns_ID = None, pns_Subnet = None\<rparr>,
       ns_PublicGateway = Some \<lparr>pgs_Enabled = True, pgs_ID = None, pgs_Type = None, pgs_IP = None, pgs_Zone = None\<rparr>,
       ns_SecurityGroups = []\<rparr>\<rparr>\<rparr>)"


text \<open>
  C40: a private network that already exists cannot be used. If the spec names an existing
  private network and an existing gateway and the status has no network section, reconciling
  the private network and then the gateway ends in a panic, without a call: nothing records
  the ID of an existing network.
\<close>

theorem existing_network_panics:
  assumes "privateNetworkSpec sc = Some pn" "pns_Enabled pn" "pns_ID pn = Some i"
    and "publicGatewaySpec sc = Some gw" "pgs_Enabled gw" "pgs_ID gw = Some g"
    and "cst_Network (sc_Status sc) = None" and "scope_ScalewayCluster s = sc"
  shows "bind (vpc_Reconcile c) (\<lambda>_. vpcgw_Reconcile c) s = (Panic, s)"
  using assms
  by (simp add: vpc_Reconcile_def vpcgw_Reconcile_def run_defs PrivateNetworkID_def)

theorem existing_network_panics_witness:
  "\<exists>sc. valid_cluster ex_sdk sc
     \<and> bind (vpc_Reconcile down_client) (\<lambda>_. vpcgw_Reconcile down_client) (ex_scope sc ()) = (Panic, ex_scope sc ())"
proof -
  let ?pn = "\<lparr>pns_Enabled = True, pns_ID = Some ''pn'', pns_Subnet = None\<rparr>"
  let ?gw = "\<lparr>pgs_Enabled = True, pgs_ID = Some ''gw'', pgs_Type = None, pgs_IP = None, pgs_Zone = Some ''fr-par-1''\<rparr>"
  let ?sc = "ex_cluster\<lparr>sc_Spec := ex_spec\<lparr>spec_Network :=
     Some \<lparr>ns_PrivateNetwork = Some ?pn, ns_PublicGateway = Some ?gw, ns_SecurityGroups = []\<rparr>\<rparr>\<rparr>"
  have "valid_cluster ex_sdk ?sc"
    by (simp add: valid_cluster_def ex_objects valid_failure_domains_def zone_in_region_def valid_network_def
        valid_gateway_def valid_security_groups_def)
  moreover have "bind (vpc_Reconcile down_client) (\<lambda>_. vpcgw_Reconcile down_client) (ex_scope ?sc ())
      = (Panic, ex_scope ?sc ())"
    by (rule existing_network_panics [where sc = ?sc and pn = ?pn and gw = ?gw])
      (simp_all add: privateNetworkSpec_def publicGatewaySpec_def ex_objects ex_scope_def)
  ultimately show ?thesis by blast
qed

text \<open>
  The gateways that deleting has to remove: the first that the API lists under the cluster's
  name, if the provider manages the gateway.
\<close>

definition manages_gateway :: "ScalewayCluster \<Rightarrow> bool" where
  "manages_gateway sc \<longleftrightarrow> HasPrivateNetwork sc \<and> HasPublicGateway sc
     \<and> Option.bind (publicGatewaySpec sc) pgs_ID = None"

definition gateways_to_delete :: "'w Client \<Rightarrow> ScalewayCluster \<Rightarrow> 'w \<Rightarrow> Gateway list" where
  "gateways_to_delete c sc w =
     (if manages_gateway sc then
        case fst (vpcgw_ListGateways (cl_VPCGW c) \<lparr>lg_Zones = [PublicGatewayZone sc], lg_Name = Some (Name sc),
            lg_ProjectID = Some (cl_ProjectID c), lg_PrivateNetworkID = None\<rparr> w) of
          Inr gws \<Rightarrow> (case find (\<lambda>g. gw_Name g = Name sc) gws of Some g \<Rightarrow> [g] | None \<Rightarrow> [])
        | Inl _ \<Rightarrow> []
      else [])"

lemma vpcgw_releaseIP_calls:
  assumes "vpcgw_releaseIP c zone tags s = (r, t)"
  shows "\<exists>ips :: GatewayIP list. made s (map (\<lambda>i. CallDeleteGatewayIP zone (gip_ID i)) ips) t \<and> length ips \<le> 1"
proof -
  have reads: "reads_only (wrapping msg (optional (FindGatewayIPByTags c zone tags)))" for msg
    by (intro read_intros)
  have none: "\<exists>ips :: GatewayIP list. made s (map (\<lambda>i. CallDeleteGatewayIP zone (gip_ID i)) ips) t \<and> length ips \<le> 1"
    if "made s [] t" for t
    using that by (auto intro: exI [where x = "[]"])
  show ?thesis
    using assms unfolding vpcgw_releaseIP_def
  proof (cases rule: bind_run)
    case (Ok ip u)
    have u: "made s [] u" by (rule made_reads [OF reads Ok(1)])
    show ?thesis
    proof (cases ip)
      case None
      with Ok(2) u none show ?thesis by (simp add: ret_def)
    next
      case (Some i)
      with Ok(2) have "made u [CallDeleteGatewayIP zone (gip_ID i)] t" by (auto intro: made_wrapping made_call)
      from made_trans [OF u this] show ?thesis by (auto intro!: exI [where x = "[i]"])
    qed
  qed (use none made_reads [OF reads] in blast)+
qed

lemma vpcgw_Delete_listed:
  assumes managed: "manages_gateway (scope_ScalewayCluster s)"
    and spec: "publicGatewaySpec (scope_ScalewayCluster s) = Some spec"
    and listed: "fst (vpcgw_ListGateways (cl_VPCGW c) \<lparr>lg_Zones = [PublicGatewayZone (scope_ScalewayCluster s)],
       lg_Name = Some (Name (scope_ScalewayCluster s)), lg_ProjectID = Some (cl_ProjectID c),
       lg_PrivateNetworkID = None\<rparr> (world s)) = Inr gws"
  shows "\<exists>ips :: GatewayIP list. trace (snd (vpcgw_Delete c s)) = trace s
       @ map (\<lambda>g. CallDeleteGateway (PublicGatewayZone (scope_ScalewayCluster s)) (gw_ID g))
           (gateways_to_delete c (scope_ScalewayCluster s) (world s))
       @ map (\<lambda>i. CallDeleteGatewayIP (PublicGatewayZone (scope_ScalewayCluster s)) (gip_ID i)) ips
     \<and> length ips \<le> (if pgs_IP spec = None then 1 else 0)"
proof -
  let ?sc = "scope_ScalewayCluster s"
  let ?zone = "PublicGatewayZone ?sc"
  obtain r t where run: "vpcgw_Delete c s = (r, t)" by fastforce
  let ?find = "wrapping ''failed to find PublicGateway'' (optional (FindGatewayByName c ?zone (Name ?sc)))"
  obtain w where found: "?find s = (Ok (find (\<lambda>g. gw_Name g = Name ?sc) gws), s\<lparr>world := w\<rparr>)"
    using listed by (cases "vpcgw_ListGateways (cl_VPCGW c) \<lparr>lg_Zones = [?zone], lg_Name = Some (Name ?sc),
          lg_ProjectID = Some (cl_ProjectID c), lg_PrivateNetworkID = None\<rparr> (world s)")
      (auto simp: wrapping_Ok gateway_by_name.optional_find sdk_read_Ok)
  let ?rest = "if pgs_IP spec = None then vpcgw_releaseIP c ?zone (Tags ?sc) else ret ()"
  have rest: "\<exists>ips :: GatewayIP list. trace t = trace u @ map (\<lambda>i. CallDeleteGatewayIP ?zone (gip_ID i)) ips
      \<and> length ips \<le> (if pgs_IP spec = None then 1 else 0)" if "?rest u = (r, t)" for u
    using that vpcgw_releaseIP_calls [of c ?zone "Tags ?sc" u r t] made_trace
    by (fastforce simp: ret_def split: if_splits)
  have split: "bind (case find (\<lambda>g. gw_Name g = Name ?sc) gws of None \<Rightarrow> ret () | Some g \<Rightarrow> vpcgw_deleteGateway c ?zone g)
      (\<lambda>_. ?rest) (s\<lparr>world := w\<rparr>) = (r, t)"
    using run managed spec found
    by (simp add: vpcgw_Delete_def manages_gateway_def bind_def gets_def deref_def ret_def Let_def)
  show ?thesis
  proof (cases "find (\<lambda>g. gw_Name g = Name ?sc) gws")
    case None
    with split rest [of "s\<lparr>world := w\<rparr>"] run managed spec listed show ?thesis
      by (simp add: gateways_to_delete_def Let_def)
  next
    case (Some g)
    obtain q u where del: "vpcgw_deleteGateway c ?zone g (s\<lparr>world := w\<rparr>) = (q, u)" by fastforce
    then have "made (s\<lparr>world := w\<rparr>) [CallDeleteGateway ?zone (gw_ID g)] u"
      unfolding vpcgw_deleteGateway_def by (auto intro: made_wrapping made_call)
    then have "trace u = trace s @ [CallDeleteGateway ?zone (gw_ID g)]"
      by (simp add: made_trace)
    with split Some del rest [of u] run managed spec listed show ?thesis
      by (cases q) (auto simp: gateways_to_delete_def Let_def bind_def intro: exI [where x = "[]"])
  qed
qed

text \<open>
  Deleting the public gateway. The calls are, in this order, the deletion of the managed
  gateway that the API lists under the cluster's name, and then at most one release of an IP;
  an IP is released only if the gateway is managed and the spec gives no IP of its own, so a
  gateway or an IP of the user is never deleted.
\<close>

theorem vpcgw_Delete_calls:
  "\<exists>ips :: GatewayIP list. let sc = scope_ScalewayCluster s; zone = PublicGatewayZone sc in
     trace (snd (vpcgw_Delete c s)) = trace s
       @ map (\<lambda>g. CallDeleteGateway zone (gw_ID g)) (gateways_to_delete c sc (world s))
       @ map (\<lambda>i. CallDeleteGatewayIP zone (gip_ID i)) ips
   \<and> length ips \<le> (if manages_gateway sc \<and> Option.bind (publicGatewaySpec sc) pgs_IP = None then 1 else 0)"
proof (cases "manages_gateway (scope_ScalewayCluster s)")
  case True
  let ?sc = "scope_ScalewayCluster s"
  let ?zone = "PublicGatewayZone ?sc"
  obtain spec where spec: "publicGatewaySpec ?sc = Some spec"
    using True HasPublicGateway_spec unfolding manages_gateway_def by blast
  obtain r t where run: "vpcgw_Delete c s = (r, t)" by fastforce
  show ?thesis
  proof (cases "fst (vpcgw_ListGateways (cl_VPCGW c) \<lparr>lg_Zones = [?zone], lg_Name = Some (Name ?sc),
            lg_ProjectID = Some (cl_ProjectID c), lg_PrivateNetworkID = None\<rparr> (world s))")
    case (Inl e)
    then have "trace t = trace s"
      using run spec True
      by (auto simp: vpcgw_Delete_def manages_gateway_def FindGatewayByName_def go_defs sdk_read_def Let_def
          split: prod.splits if_splits)
    with Inl run show ?thesis by (simp add: gateways_to_delete_def Let_def)
  next
    case (Inr gws)
    then show ?thesis using vpcgw_Delete_listed [OF True spec] by (simp add: spec True Let_def)
  qed
next
  case False
  then have "vpcgw_Delete c s = (Ok (), s)"
    using HasPublicGateway_spec [of "scope_ScalewayCluster s"]
    by (auto simp: vpcgw_Delete_def manages_gateway_def bind_def gets_def ret_def)
  with False show ?thesis by (simp add: gateways_to_delete_def Let_def)
qed

end
