(* ===== verification/Controllers.thy ===== *)
theory Controllers
  imports Secret_Client Securitygroup Vpcgw
begin

text \<open>
  What the two controllers share: the result of a reconciliation, the deferred closing of a
  scope, and the order of the calls of code that works in phases.
\<close>

section \<open>Results and deferred calls\<close>

text \<open>
  \<^verbatim>\<open>ctrl.Result\<close>, with the delay in nanoseconds as in \<^verbatim>\<open>time.Duration\<close>. The controllers return an
  empty result with every error, so that a pair \<^verbatim>\<open>(ctrl.Result, error)\<close> is an outcome.
\<close>

record ctrl_Result =
  res_RequeueAfter :: int

definition time_Second :: int where
  "time_Second = 1000000000"

definition no_requeue :: ctrl_Result where
  "no_requeue = \<lparr>res_RequeueAfter = 0\<rparr>"

definition requeue_soon :: ctrl_Result where
  "requeue_soon = \<lparr>res_RequeueAfter = 2 * time_Second\<rparr>"

lemma results_differ [simp]: "requeue_soon \<noteq> no_requeue" "no_requeue \<noteq> requeue_soon"
  by (simp_all add: requeue_soon_def no_requeue_def time_Second_def)

text \<open>
  \<^verbatim>\<open>defer func() { if err := close(); err != nil && retErr == nil { retErr = err } }()\<close> followed by
  the code it is deferred to: \<^verbatim>\<open>close\<close> runs however that code ends, also when it panics, and its
  error is only reported if there is no other.
\<close>

definition deferred :: "('s, unit) go \<Rightarrow> ('s, 'a) go \<Rightarrow> ('s, 'a) go" where
  "deferred close m = (\<lambda>s. case m s of (r, t) \<Rightarrow> (case close t of (q, u) \<Rightarrow>
     (case q of
        Ok _ \<Rightarrow> r
      | Err e \<Rightarrow> (case r of Ok _ \<Rightarrow> Err e | _ \<Rightarrow> r)
      | Panic \<Rightarrow> Panic, u)))"

lemma deferred_run:
  "deferred close m s = (r, u) \<Longrightarrow> \<exists>q t p. m s = (q, t) \<and> close t = (p, u) \<and>
     r = (case p of Ok _ \<Rightarrow> q | Err e \<Rightarrow> (case q of Ok _ \<Rightarrow> Err e | _ \<Rightarrow> q) | Panic \<Rightarrow> Panic)"
  by (auto simp: deferred_def split: prod.splits)

lemma bind_gets_run: "bind (gets g) f s = f (g s) s"
  by (simp add: bind_def gets_def)

lemma bind_Ok_run: "m s = (Ok x, t) \<Longrightarrow> bind m f s = f x t"
  by (simp add: bind_def)

lemma bind_attempt_run:
  "m s = (q, u) \<Longrightarrow> bind (attempt m) f s = (case q of Ok x \<Rightarrow> f (Inr x) u | Err e \<Rightarrow> f (Inl e) u | Panic \<Rightarrow> (Panic, u))"
  by (simp add: bind_def attempt_def split: outcome.split)

lemma bind_read_run:
  "f (world s) = (a, w) \<Longrightarrow> bind (sdk_read f) g s =
     (case a of Inl e \<Rightarrow> (Err (ApiErr e), s\<lparr>world := w\<rparr>) | Inr x \<Rightarrow> g x (s\<lparr>world := w\<rparr>))"
  "f (world s) = (a, w) \<Longrightarrow> bind (attempt (sdk_read f)) h s =
     (case a of Inl e \<Rightarrow> h (Inl (ApiErr e)) (s\<lparr>world := w\<rparr>) | Inr x \<Rightarrow> h (Inr x) (s\<lparr>world := w\<rparr>))"
  by (simp_all add: bind_def attempt_def sdk_read_def api_result_def split: sum.split)

text \<open>
  Both controllers first look up the objects they need, which either ends the reconciliation with a
  result or gives what the session works on.
\<close>

definition then_session :: "('s, ctrl_Result + 'a) go \<Rightarrow> ('a \<Rightarrow> ('s, ctrl_Result) go) \<Rightarrow> ('s, ctrl_Result) go" where
  "then_session lookup session = bind lookup (\<lambda>x. case x of Inl res \<Rightarrow> ret res | Inr y \<Rightarrow> session y)"

lemma then_session_simps:
  "then_session (ret (Inl res)) session = ret res" "then_session (ret (Inr y)) session = session y"
  "then_session (throw e) session = throw e"
  "then_session (bind m f) session = bind m (\<lambda>x. then_session (f x) session)"
  "then_session (if b then lookup else lookup') session = (if b then then_session lookup session else then_session lookup' session)"
  "then_session (case p of None \<Rightarrow> lookup | Some z \<Rightarrow> f' z) session =
     (case p of None \<Rightarrow> then_session lookup session | Some z \<Rightarrow> then_session (f' z) session)"
  "then_session (case q of Inl a \<Rightarrow> g a | Inr b \<Rightarrow> h b) session =
     (case q of Inl a \<Rightarrow> then_session (g a) session | Inr b \<Rightarrow> then_session (h b) session)"
  by (simp_all add: then_session_def bind_assoc split: option.split sum.split)

lemma then_session_run:
  assumes "then_session lookup session s = (r, t)"
  obtains (Stopped) q where "lookup s = (q, t)" | (Session) y u where "lookup s = (Ok (Inr y), u)" "session y u = (r, t)"
  using assms unfolding then_session_def
proof (cases rule: bind_run)
  case (Ok x u)
  with that show thesis by (cases x) (auto simp: ret_def)
qed (use that in blast)+

section \<open>Phases\<close>

text \<open>
  \<open>in_phases Cs m\<close>: whatever the environment answers, the calls of \<open>m\<close> come in as many phases as
  \<open>Cs\<close> has elements, in that order, and a phase only makes calls of its set.
\<close>

definition in_phases :: "call set list \<Rightarrow> (('w, 'z) env_scheme, 'a) go \<Rightarrow> bool" where
  "in_phases Cs m \<longleftrightarrow> (\<forall>s. \<exists>ess. trace (snd (m s)) = trace s @ concat ess \<and> list_all2 (\<lambda>es C. set es \<subseteq> C) ess Cs)"

named_theorems phase_intros \<open>code that works in phases\<close>

lemma in_phasesD:
  "in_phases Cs m \<Longrightarrow> m s = (r, t) \<Longrightarrow> \<exists>ess. trace t = trace s @ concat ess \<and> list_all2 (\<lambda>es C. set es \<subseteq> C) ess Cs"
  by (auto simp: in_phases_def dest!: spec [of _ s])

lemma no_phase_calls: "\<exists>ess. concat ess = [] \<and> list_all2 (\<lambda>es C. set es \<subseteq> C) ess Cs"
  by (rule exI [where x = "map (\<lambda>_. []) Cs"]) (auto simp: list_all2_conv_all_nth)

lemma in_phases_emits: "emits trace C m \<Longrightarrow> in_phases [C] m"
  unfolding in_phases_def emits_def
proof
  fix s
  assume "\<forall>s. \<exists>es. trace (snd (m s)) = trace s @ es \<and> set es \<subseteq> C"
  then obtain es where "trace (snd (m s)) = trace s @ es" "set es \<subseteq> C" by blast
  then show "\<exists>ess. trace (snd (m s)) = trace s @ concat ess \<and> list_all2 (\<lambda>es C. set es \<subseteq> C) ess [C]"
    by (intro exI [where x = "[es]"]) simp
qed

lemma in_phases_quiet: "keeps trace m \<Longrightarrow> in_phases Cs m"
  unfolding in_phases_def keeps_def using no_phase_calls by (metis append_Nil2)

lemma in_phases_bind:
  assumes m: "in_phases Cs m" and f: "\<And>x. in_phases Ds (f x)"
  shows "in_phases (Cs @ Ds) (bind m f)"
  unfolding in_phases_def
proof
  fix s
  obtain q v where run: "bind m f s = (q, v)" by fastforce
  from run have "\<exists>ess. trace v = trace s @ concat ess \<and> list_all2 (\<lambda>es C. set es \<subseteq> C) ess (Cs @ Ds)"
  proof (cases rule: bind_run)
    case (Ok x u)
    obtain ess fss where "trace u = trace s @ concat ess" "list_all2 (\<lambda>es C. set es \<subseteq> C) ess Cs"
      "trace v = trace u @ concat fss" "list_all2 (\<lambda>es C. set es \<subseteq> C) fss Ds"
      using in_phasesD [OF m Ok(1)] in_phasesD [OF f Ok(2)] by blast
    then show ?thesis by (intro exI [where x = "ess @ fss"]) (simp add: list_all2_appendI)
  next
    case (Err e)
    obtain ess fss where "trace v = trace s @ concat ess" "list_all2 (\<lambda>es C. set es \<subseteq> C) ess Cs"
      "concat fss = []" "list_all2 (\<lambda>es C. set es \<subseteq> C) fss Ds"
      using in_phasesD [OF m Err(1)] no_phase_calls by blast
    then show ?thesis by (intro exI [where x = "ess @ fss"]) (simp add: list_all2_appendI)
  next
    case Panic
    obtain ess fss where "trace v = trace s @ concat ess" "list_all2 (\<lambda>es C. set es \<subseteq> C) ess Cs"
      "concat fss = []" "list_all2 (\<lambda>es C. set es \<subseteq> C) fss Ds"
      using in_phasesD [OF m Panic(1)] no_phase_calls by blast
    then show ?thesis by (intro exI [where x = "ess @ fss"]) (simp add: list_all2_appendI)
  qed
  with run show "\<exists>ess. trace (snd (bind m f s)) = trace s @ concat ess \<and> list_all2 (\<lambda>es C. set es \<subseteq> C) ess (Cs @ Ds)"
    by simp
qed

lemma in_phases_then [phase_intros]:
  "emits trace C m \<Longrightarrow> (\<And>x. in_phases Cs (f x)) \<Longrightarrow> in_phases (C # Cs) (bind m f)"
  using in_phases_bind [OF in_phases_emits] by fastforce

lemma in_phases_skip: "keeps trace m \<Longrightarrow> (\<And>x. in_phases Cs (f x)) \<Longrightarrow> in_phases Cs (bind m f)"
  using in_phases_bind [OF in_phases_quiet [where Cs = "[]"]] by fastforce

lemma in_phases_union: "in_phases Cs m \<Longrightarrow> emits trace (\<Union>(set Cs)) m"
  unfolding in_phases_def emits_def
proof
  fix s
  assume "\<forall>s. \<exists>ess. trace (snd (m s)) = trace s @ concat ess \<and> list_all2 (\<lambda>es C. set es \<subseteq> C) ess Cs"
  then obtain ess where ess: "trace (snd (m s)) = trace s @ concat ess" "list_all2 (\<lambda>es C. set es \<subseteq> C) ess Cs" by blast
  from ess(2) have "set (concat ess) \<subseteq> \<Union>(set Cs)"
    by (induction rule: list_all2_induct) auto
  with ess(1) show "\<exists>es. trace (snd (m s)) = trace s @ es \<and> set es \<subseteq> \<Union>(set Cs)" by blast
qed

lemma in_phases_three:
  "in_phases [A, B, C] m \<Longrightarrow> m s = (r, t) \<Longrightarrow>
   \<exists>as bs cs. trace t = trace s @ as @ bs @ cs \<and> set as \<subseteq> A \<and> set bs \<subseteq> B \<and> set cs \<subseteq> C"
  by (drule (1) in_phasesD) (simp add: list_all2_Cons2, elim exE conjE, simp, blast)

lemma in_phases_five:
  "in_phases [A, B, C, D, E] m \<Longrightarrow> m s = (r, t) \<Longrightarrow>
   \<exists>as bs cs ds es. trace t = trace s @ as @ bs @ cs @ ds @ es
     \<and> set as \<subseteq> A \<and> set bs \<subseteq> B \<and> set cs \<subseteq> C \<and> set ds \<subseteq> D \<and> set es \<subseteq> E"
  by (drule (1) in_phasesD) (simp add: list_all2_Cons2, elim exE conjE, simp, blast)

section \<open>Closing a scope\<close>

text \<open>
  What the controllers rely on when they defer the closing of a scope: it makes one call, which
  writes the object of the scope back, and changes nothing else.
\<close>

locale scope_closer =
  fixes close :: "(('w, 'z) env_scheme, unit) go"
    and written :: "('w, 'z) env_scheme \<Rightarrow> call"
  assumes close_made: "close s = (r, t) \<Longrightarrow> made s [written s] t"
    and close_no_panic: "no_panic close"
begin

lemma deferred_closes:
  assumes "deferred close m s = (r, u)"
  shows "\<exists>q t. m s = (q, t) \<and> made t [written t] u
    \<and> (case r of Ok x \<Rightarrow> q = Ok x | Err e \<Rightarrow> q = Err e \<or> (\<exists>x. q = Ok x) | Panic \<Rightarrow> q = Panic)"
proof -
  obtain q t p where run: "m s = (q, t)" "close t = (p, u)"
    "r = (case p of Ok _ \<Rightarrow> q | Err e \<Rightarrow> (case q of Ok _ \<Rightarrow> Err e | _ \<Rightarrow> q) | Panic \<Rightarrow> Panic)"
    using deferred_run [OF assms] by blast
  have "p \<noteq> Panic" using close_no_panic run(2) unfolding no_panic_def by (metis fst_conv)
  then have "case r of Ok x \<Rightarrow> q = Ok x | Err e \<Rightarrow> q = Err e \<or> (\<exists>x. q = Ok x) | Panic \<Rightarrow> q = Panic"
    using run(3) by (cases p; cases q) auto
  with run close_made show ?thesis by blast
qed

end

section \<open>Finalizers\<close>

text \<open>
  What controller-runtime documents of its finalizer functions: \<^verbatim>\<open>AddFinalizer\<close> adds the finalizer
  if it is not present and tells whether it did; \<^verbatim>\<open>RemoveFinalizer\<close> removes it if it is present.
\<close>

definition finalizer_contract :: "'w k8s_API \<Rightarrow> bool" where
  "finalizer_contract k \<longleftrightarrow> (\<forall>fs f.
     set (fst (k_AddFinalizer k fs f)) = insert f (set fs) \<and> snd (k_AddFinalizer k fs f) = (f \<notin> set fs)
     \<and> set (k_RemoveFinalizer k fs f) = set fs - {f})"

lemma finalizer_contract_down: "finalizer_contract (down_k8s :: 'w k8s_API)"
  by (auto simp: finalizer_contract_def down_k8s_def)

end
