(* ===== verification/Cluster_Controller.thy ===== *)
theory Cluster_Controller
  imports Controllers
begin

text \<open>
  The cluster controller (\<^verbatim>\<open>internal/controller/scalewaycluster_controller.go\<close>) and the life of
  the cluster scope (\<^verbatim>\<open>NewCluster\<close>, \<^verbatim>\<open>PatchObject\<close> and \<^verbatim>\<open>Close\<close> of \<^verbatim>\<open>internal/scope/cluster.go\<close>).
\<close>

section \<open>The cluster scope\<close>

text \<open>The scope's helper is the \<^verbatim>\<open>Patch\<close> method that \<^verbatim>\<open>patch.NewHelper\<close> gives for the object as it was read.\<close>

type_synonym 'w cluster_helper = "ScalewayCluster \<Rightarrow> ('w, unit) act"

definition NewCluster :: "'w k8s_API \<Rightarrow> ScalewayCluster \<Rightarrow> ('s, 'w cluster_helper) go" where
  "NewCluster k scalewayCluster =
     wrapping ''failed to init patch helper'' (lift_api (k_NewClusterHelper k scalewayCluster))"

definition cluster_PatchObject :: "'w cluster_helper \<Rightarrow> (('w, 'z) ClusterScope_scheme, unit) go" where
  "cluster_PatchObject helper =
     bind (gets scope_ScalewayCluster) (\<lambda>sc. sdk_call (CallPatchCluster sc) (helper sc))"

definition cluster_Close :: "'w cluster_helper \<Rightarrow> (('w, 'z) ClusterScope_scheme, unit) go" where
  "cluster_Close helper = cluster_PatchObject helper"

text \<open>Running code on a new cluster scope; what stays afterwards is the environment.\<close>

definition in_cluster_scope :: "ScalewayCluster \<Rightarrow> CapiCluster \<Rightarrow> ('w ClusterScope, 'a) go \<Rightarrow> ('w env, 'a) go" where
  "in_cluster_scope scalewayCluster cluster m = (\<lambda>e.
     case m \<lparr>world = world e, trace = trace e, scope_ScalewayCluster = scalewayCluster,
         scope_InfrastructureReady = cc_InfrastructureReady cluster\<rparr> of
       (r, s) \<Rightarrow> (r, \<lparr>world = world s, trace = trace s\<rparr>))"

section \<open>Reconciliation\<close>

definition SetFinalizers :: "string list \<Rightarrow> ScalewayCluster \<Rightarrow> ScalewayCluster" where
  "SetFinalizers fs sc = sc\<lparr>sc_Meta := (sc_Meta sc)\<lparr>meta_Finalizers := fs\<rparr>\<rparr>"

definition SetStatusFailureDomains :: "SDK \<Rightarrow> ScalewayCluster \<Rightarrow> ScalewayCluster" where
  "SetStatusFailureDomains sdk sc = sc\<lparr>sc_Status := (sc_Status sc)\<lparr>cst_FailureDomains := FailureDomains sdk sc\<rparr>\<rparr>"

definition SetReady :: "ScalewayCluster \<Rightarrow> ScalewayCluster" where
  "SetReady sc = sc\<lparr>sc_Status := (sc_Status sc)\<lparr>cst_Ready := True\<rparr>\<rparr>"

definition modify_cluster :: "(ScalewayCluster \<Rightarrow> ScalewayCluster) \<Rightarrow> (('w, 'z) ClusterScope_scheme, unit) go" where
  "modify_cluster f = modify (\<lambda>s. s\<lparr>scope_ScalewayCluster := f (scope_ScalewayCluster s)\<rparr>)"

text \<open>\<^verbatim>\<open>if controllerutil.AddFinalizer(...) { if err := clusterScope.PatchObject(ctx); ... }\<close>\<close>

definition addClusterFinalizer :: "'w k8s_API \<Rightarrow> 'w cluster_helper \<Rightarrow> (('w, 'z) ClusterScope_scheme, unit) go" where
  "addClusterFinalizer k helper =
     bind (gets scope_ScalewayCluster) (\<lambda>sc.
     case k_AddFinalizer k (meta_Finalizers (sc_Meta sc)) ClusterFinalizer of (finalizers, added) \<Rightarrow>
     bind (modify_cluster (SetFinalizers finalizers)) (\<lambda>_.
     if added then cluster_PatchObject helper else ret ()))"

definition cluster_reconcileNormal ::
  "'w k8s_API \<Rightarrow> 'w Client \<Rightarrow> SDK \<Rightarrow> 'w cluster_helper \<Rightarrow> (('w, 'z) ClusterScope_scheme, ctrl_Result) go" where
  "cluster_reconcileNormal k c sdk helper =
     bind (addClusterFinalizer k helper) (\<lambda>_.
     bind (modify_cluster (SetStatusFailureDomains sdk)) (\<lambda>_.
     bind (securitygroup_Reconcile c sdk) (\<lambda>_.
     bind (wrapping ''failed to reconcile vpc'' (vpc_Reconcile c)) (\<lambda>_.
     bind (wrapping ''failed to reconcile vpcgw'' (vpcgw_Reconcile c)) (\<lambda>_.
     bind (attempt (loadbalancer_Reconcile c sdk)) (\<lambda>r.
     case r of
       Inl err \<Rightarrow>
         if errors_Is err ErrLoadBalancerNotReady then ret requeue_soon
         else throw (Wrap ''failed to reconcile loadbalancer'' err)
     | Inr _ \<Rightarrow>
         bind (modify_cluster SetReady) (\<lambda>_.
         ret no_requeue)))))))"

definition cluster_reconcileDelete ::
  "'w k8s_API \<Rightarrow> 'w Client \<Rightarrow> SDK \<Rightarrow> (('w, 'z) ClusterScope_scheme, ctrl_Result) go" where
  "cluster_reconcileDelete k c sdk =
     bind (loadbalancer_Delete c) (\<lambda>_.
     bind (vpcgw_Delete c) (\<lambda>_.
     bind (attempt (vpc_Delete c)) (\<lambda>r.
     case r of
       Inl err \<Rightarrow> if errors_As_PreconditionFailed err then ret requeue_soon else throw err
     | Inr _ \<Rightarrow>
         bind (securitygroup_Delete c sdk) (\<lambda>_.
         bind (modify_cluster (\<lambda>sc. SetFinalizers (k_RemoveFinalizer k (meta_Finalizers (sc_Meta sc)) ClusterFinalizer) sc)) (\<lambda>_.
         ret no_requeue)))))"

text \<open>From the client of the cluster's credentials to the end of the reconciliation.\<close>

definition cluster_session ::
  "'w k8s_API \<Rightarrow> SDK \<Rightarrow> ScalewayCluster \<Rightarrow> CapiCluster \<Rightarrow> ('w env, ctrl_Result) go" where
  "cluster_session k sdk scalewayCluster cluster =
     bind (clientFromSecret k scalewayCluster) (\<lambda>client.
     bind (lift_outcome (NewClient client)) (\<lambda>c.
     bind (NewCluster k scalewayCluster) (\<lambda>helper.
     in_cluster_scope scalewayCluster cluster
       (deferred (cluster_Close helper)
         (if meta_DeletionTimestamp (sc_Meta scalewayCluster) then cluster_reconcileDelete k c sdk
          else cluster_reconcileNormal k c sdk helper)))))"

text \<open>
  \<open>unread\<close> is what a failed \<^verbatim>\<open>r.Get\<close> leaves in the object it was given: only a not-found error
  stops the reconciliation.
\<close>

definition cluster_Reconcile ::
  "'w k8s_API \<Rightarrow> SDK \<Rightarrow> ScalewayCluster \<Rightarrow> string \<Rightarrow> string \<Rightarrow> ('w env, ctrl_Result) go" where
  "cluster_Reconcile k sdk unread namespace name =
     bind (attempt (sdk_read (k_GetScalewayCluster k namespace name))) (\<lambda>r.
     if r = Inl (ApiErr ApiNotFound) then ret no_requeue
     else
       let scalewayCluster = (case r of Inl _ \<Rightarrow> unread | Inr sc \<Rightarrow> sc) in
       bind (wrapping ''failed to get owner cluster'' (sdk_read (k_GetOwnerCluster k (sc_Meta scalewayCluster)))) (\<lambda>owner.
       case owner of
         None \<Rightarrow> ret requeue_soon
       | Some cluster \<Rightarrow>
           if k_IsPausedCluster k cluster scalewayCluster then ret no_requeue
           else cluster_session k sdk scalewayCluster cluster))"

section \<open>Facts\<close>

interpretation cluster_closer: scope_closer "cluster_Close helper"
  "\<lambda>s. CallPatchCluster (scope_ScalewayCluster s)" for helper
proof
  show "made s [CallPatchCluster (scope_ScalewayCluster s)] t" if "cluster_Close helper s = (r, t)" for helper s r t
    using that unfolding cluster_Close_def cluster_PatchObject_def bind_gets_run by (rule made_call)
  show "no_panic (cluster_Close helper)" for helper
    unfolding cluster_Close_def cluster_PatchObject_def by (intro panic_intros)
qed

lemma cluster_setters [simp]:
  "sc_Spec (SetFinalizers fs sc) = sc_Spec sc" "sc_Status (SetFinalizers fs sc) = sc_Status sc"
  "sc_Meta (SetFinalizers fs sc) = (sc_Meta sc)\<lparr>meta_Finalizers := fs\<rparr>"
  "sc_Spec (SetStatusFailureDomains sdk sc) = sc_Spec sc" "sc_Meta (SetStatusFailureDomains sdk sc) = sc_Meta sc"
  "sc_Spec (SetReady sc) = sc_Spec sc" "sc_Meta (SetReady sc) = sc_Meta sc" "cst_Ready (sc_Status (SetReady sc))"
  by (simp_all add: SetFinalizers_def SetStatusFailureDomains_def SetReady_def)

lemma cluster_frame_FailureDomains [simp]: "cluster_frame (SetStatusFailureDomains sdk sc) = cluster_frame sc"
  by (simp add: cluster_frame_def) (simp add: SetStatusFailureDomains_def)

lemma modify_cluster_rules:
  "keeps trace (modify_cluster f)" "emits trace C (modify_cluster f)" "no_panic (modify_cluster f)"
  by (simp_all add: modify_cluster_def keeps_def emits_def no_panic_def modify_def)

lemma modify_cluster_run:
  "modify_cluster f s = (Ok (), s\<lparr>scope_ScalewayCluster := f (scope_ScalewayCluster s)\<rparr>)"
  by (simp add: modify_cluster_def modify_def)

lemma addClusterFinalizer_run:
  assumes "addClusterFinalizer k helper s = (r, t)"
    and add: "k_AddFinalizer k (meta_Finalizers (sc_Meta (scope_ScalewayCluster s))) ClusterFinalizer = (fs, added)"
  shows "scope_ScalewayCluster t = SetFinalizers fs (scope_ScalewayCluster s)
    \<and> trace t = trace s @ (if added then [CallPatchCluster (SetFinalizers fs (scope_ScalewayCluster s))] else [])
    \<and> r = (if added then api_result (fst (helper (SetFinalizers fs (scope_ScalewayCluster s)) (world s))) else Ok ())"
proof (cases added)
  case True
  let ?u = "s\<lparr>scope_ScalewayCluster := SetFinalizers fs (scope_ScalewayCluster s)\<rparr>"
  have close: "cluster_Close helper ?u = (r, t)"
    using assms True by (simp add: addClusterFinalizer_def bind_gets_run bind_Ok_run [OF modify_cluster_run] cluster_Close_def)
  then have "r = api_result (fst (helper (SetFinalizers fs (scope_ScalewayCluster s)) (world s)))"
    by (auto simp: cluster_Close_def cluster_PatchObject_def bind_gets_run sdk_call_def split: prod.splits)
  with cluster_closer.close_made [OF close] True show ?thesis
    by (auto dest: made_trace made_cluster)
next
  case False
  then show ?thesis
    using assms by (auto simp: addClusterFinalizer_def bind_gets_run bind_Ok_run [OF modify_cluster_run] ret_def)
qed

lemma addClusterFinalizer_emits: "emits trace (range CallPatchCluster) (addClusterFinalizer k helper)"
  unfolding emits_def
proof
  fix s :: "('a, 'b) ClusterScope_scheme"
  obtain r t where run: "addClusterFinalizer k helper s = (r, t)" by fastforce
  obtain fs added where "k_AddFinalizer k (meta_Finalizers (sc_Meta (scope_ScalewayCluster s))) ClusterFinalizer = (fs, added)"
    by fastforce
  with addClusterFinalizer_run [OF run] run
  show "\<exists>es. trace (snd (addClusterFinalizer k helper s)) = trace s @ es \<and> set es \<subseteq> range CallPatchCluster"
    by auto
qed

text \<open>The part of reconcileNormal between the finalizer and its result: the four services in order.\<close>

definition cluster_services :: "'w Client \<Rightarrow> SDK \<Rightarrow> (('w, 'z) ClusterScope_scheme, go_error + unit) go" where
  "cluster_services c sdk =
     bind (modify_cluster (SetStatusFailureDomains sdk)) (\<lambda>_.
     bind (securitygroup_Reconcile c sdk) (\<lambda>_.
     bind (wrapping ''failed to reconcile vpc'' (vpc_Reconcile c)) (\<lambda>_.
     bind (wrapping ''failed to reconcile vpcgw'' (vpcgw_Reconcile c)) (\<lambda>_.
     attempt (loadbalancer_Reconcile c sdk)))))"

definition conclude_cluster :: "go_error + unit \<Rightarrow> (('w, 'z) ClusterScope_scheme, ctrl_Result) go" where
  "conclude_cluster r = (case r of
       Inl err \<Rightarrow>
         if errors_Is err ErrLoadBalancerNotReady then ret requeue_soon
         else throw (Wrap ''failed to reconcile loadbalancer'' err)
     | Inr _ \<Rightarrow> bind (modify_cluster SetReady) (\<lambda>_. ret no_requeue))"

lemma reconcileNormal_split:
  "cluster_reconcileNormal k c sdk helper =
     bind (addClusterFinalizer k helper) (\<lambda>_. bind (cluster_services c sdk) conclude_cluster)"
  unfolding cluster_reconcileNormal_def cluster_services_def conclude_cluster_def bind_assoc ..

lemma cluster_services_phases:
  "in_phases [securitygroup_creates, vpc_creates, vpcgw_creates, loadbalancer_creates] (cluster_services c sdk)"
  unfolding cluster_services_def
  by (intro in_phases_skip phase_intros modify_cluster_rules in_phases_emits emit_intros
      securitygroup.reconcile_emits vpc.reconcile_emits vpcgw.reconcile_emits loadbalancer.reconcile_emits)

lemma cluster_services_frame: "keeps (\<lambda>s. cluster_frame (scope_ScalewayCluster s)) (cluster_services c sdk)"
  unfolding cluster_services_def
  by (intro keep_intros securitygroup.reconcile_frame vpc.reconcile_frame vpcgw.reconcile_frame
      loadbalancer.reconcile_frame) (simp add: keeps_def modify_cluster_run)

lemma conclude_cluster_run:
  assumes "conclude_cluster q s = (r, t)"
  shows "trace t = trace s \<and> r \<noteq> Panic \<and> (if r = Ok no_requeue
      then scope_ScalewayCluster t = SetReady (scope_ScalewayCluster s) \<and> q = Inr () else t = s)"
  using assms by (auto simp: conclude_cluster_def ret_def throw_def bind_Ok_run [OF modify_cluster_run] split: sum.splits if_splits)

lemma conclude_cluster_Ok: "conclude_cluster q s = (Ok res, t) \<Longrightarrow> res = no_requeue \<or> res = requeue_soon"
  by (cases q) (auto simp: conclude_cluster_def ok_iffs split: if_splits)

lemma concluded_phases:
  "in_phases [securitygroup_creates, vpc_creates, vpcgw_creates, loadbalancer_creates]
     (bind (cluster_services c sdk) conclude_cluster)"
proof -
  have "keeps trace (conclude_cluster q)" for q
    unfolding keeps_def by (metis conclude_cluster_run prod.collapse)
  then have "in_phases [] (conclude_cluster q)" for q by (rule in_phases_quiet)
  then show ?thesis using in_phases_bind [OF cluster_services_phases] by fastforce
qed

lemma concluded_frame:
  assumes "bind (cluster_services c sdk) conclude_cluster s = (r, t)"
  shows "cluster_frame (scope_ScalewayCluster t) = (if r = Ok no_requeue
    then cluster_frame (SetReady (scope_ScalewayCluster s)) else cluster_frame (scope_ScalewayCluster s))"
  using assms
proof (cases rule: bind_run)
  case (Ok q u)
  have "cluster_frame (scope_ScalewayCluster u) = cluster_frame (scope_ScalewayCluster s)"
    using keepsD [OF cluster_services_frame, of c sdk s] Ok(1) by simp
  moreover from this have "cluster_frame (SetReady (scope_ScalewayCluster u)) = cluster_frame (SetReady (scope_ScalewayCluster s))"
    by (simp add: cluster_frame_def)
  ultimately show ?thesis using conclude_cluster_run [OF Ok(2)] by (simp split: if_splits)
qed (use keepsD [OF cluster_services_frame, of c sdk s] in auto)

text \<open>The same for reconcileDelete.\<close>

definition cluster_removals :: "'w Client \<Rightarrow> (('w, 'z) ClusterScope_scheme, go_error + unit) go" where
  "cluster_removals c =
     bind (loadbalancer_Delete c) (\<lambda>_.
     bind (vpcgw_Delete c) (\<lambda>_.
     attempt (vpc_Delete c)))"

lemma reconcileDelete_split:
  "cluster_reconcileDelete k c sdk =
     bind (cluster_removals c) (\<lambda>r.
     case r of
       Inl err \<Rightarrow> if errors_As_PreconditionFailed err then ret requeue_soon else throw err
     | Inr _ \<Rightarrow>
         bind (securitygroup_Delete c sdk) (\<lambda>_.
         bind (modify_cluster (\<lambda>sc. SetFinalizers (k_RemoveFinalizer k (meta_Finalizers (sc_Meta sc)) ClusterFinalizer) sc)) (\<lambda>_.
         ret no_requeue)))"
  unfolding cluster_reconcileDelete_def cluster_removals_def bind_assoc ..

lemma cluster_removals_phases:
  "in_phases [loadbalancer_deletes, vpcgw_deletes, vpc_deletes] (cluster_removals c)"
  unfolding cluster_removals_def
  by (intro phase_intros in_phases_emits emit_intros vpc.delete_emits vpcgw.delete_emits loadbalancer.delete_emits)

lemma cluster_removals_cluster: "keeps scope_ScalewayCluster (cluster_removals c)"
  unfolding cluster_removals_def
  by (intro keep_intros vpc.delete_cluster vpcgw.delete_cluster loadbalancer.delete_cluster)

lemma cluster_removals_Inl:
  "cluster_removals c s = (Ok (Inl e), t) \<Longrightarrow> \<exists>u. vpc_Delete c u = (Err e, t)"
  by (auto simp: cluster_removals_def ok_iffs)

lemma no_panic_deletes:
  "no_panic (loadbalancer_Delete c)" "no_panic (vpc_Delete c)" "no_panic (securitygroup_Delete c sdk)"
  "no_panic (vpcgw_Delete c)"
proof -
  show "no_panic (loadbalancer_Delete c)"
    unfolding loadbalancer_Delete_def Let_def by (intro panic_intros)
  show "no_panic (vpc_Delete c)"
    unfolding vpc_Delete_def by (intro panic_intros)
  show "no_panic (securitygroup_Delete c sdk)"
    unfolding securitygroup_Delete_def by (rule no_panic_ensureSecurityGroups)
  show "no_panic (vpcgw_Delete c)"
    unfolding vpcgw_Delete_def vpcgw_deleteGateway_def vpcgw_releaseIP_def Let_def
    by (intro panic_intros no_panic_deref) (auto simp: HasPublicGateway_def split: option.splits)
qed

lemma no_panic_removals: "no_panic (cluster_removals c)"
  unfolding cluster_removals_def by (intro panic_intros no_panic_deletes)

lemma give_up_finalizer:
  assumes "bind (securitygroup_Delete c sdk) (\<lambda>_. bind (modify_cluster (\<lambda>sc. SetFinalizers
    (k_RemoveFinalizer k (meta_Finalizers (sc_Meta sc)) ClusterFinalizer) sc)) (\<lambda>_. ret no_requeue)) u = (r, t)"
  shows "\<exists>groups. trace t = trace u @ groups \<and> set groups \<subseteq> securitygroup_deletes \<and> r \<noteq> Panic
    \<and> (case r of Ok res \<Rightarrow> res = no_requeue | _ \<Rightarrow> True)
    \<and> scope_ScalewayCluster t = (if r = Ok no_requeue then SetFinalizers (k_RemoveFinalizer k
        (meta_Finalizers (sc_Meta (scope_ScalewayCluster u))) ClusterFinalizer) (scope_ScalewayCluster u)
        else scope_ScalewayCluster u)"
proof -
  obtain q v where run: "securitygroup_Delete c sdk u = (q, v)" by fastforce
  obtain groups where "trace v = trace u @ groups" "set groups \<subseteq> securitygroup_deletes"
    using emits_grows [OF securitygroup.delete_emits run] by blast
  moreover have "scope_ScalewayCluster v = scope_ScalewayCluster u"
    using keepsD [OF securitygroup.delete_cluster, of c sdk u] run by simp
  moreover have "q \<noteq> Panic" using no_panic_deletes(3) run unfolding no_panic_def by (metis fst_conv)
  ultimately show ?thesis
    using assms run by (cases q) (auto simp: bind_def [of "securitygroup_Delete c sdk"] bind_Ok_run [OF modify_cluster_run] ret_def)
qed

lemma spec_endpoint:
  "a\<lparr>spec_ControlPlaneEndpoint := e\<rparr> = b\<lparr>spec_ControlPlaneEndpoint := e\<rparr> \<Longrightarrow>
   \<exists>endpoint. a = b\<lparr>spec_ControlPlaneEndpoint := endpoint\<rparr>" for a b :: ScalewayClusterSpec
  by (rule exI [where x = "spec_ControlPlaneEndpoint a"]) (cases a; cases b; simp)

text \<open>Both, as the session around them sees them.\<close>

definition cluster_creates :: "call set" where
  "cluster_creates = range CallPatchCluster \<union> securitygroup_creates \<union> vpc_creates \<union> vpcgw_creates \<union> loadbalancer_creates"

definition cluster_deletes :: "call set" where
  "cluster_deletes = loadbalancer_deletes \<union> vpcgw_deletes \<union> vpc_deletes \<union> securitygroup_deletes"

lemma reconcileNormal_emits: "emits trace cluster_creates (cluster_reconcileNormal k c sdk helper)"
  unfolding reconcileNormal_split cluster_creates_def
  by (intro emit_intros emits_mono [OF addClusterFinalizer_emits] emits_mono [OF in_phases_union [OF concluded_phases]]) auto

lemma reconcileNormal_meta:
  assumes "cluster_reconcileNormal k c sdk helper s = (r, t)"
  shows "meta_Finalizers (sc_Meta (scope_ScalewayCluster t)) =
    fst (k_AddFinalizer k (meta_Finalizers (sc_Meta (scope_ScalewayCluster s))) ClusterFinalizer)"
proof -
  obtain fs added where add: "k_AddFinalizer k (meta_Finalizers (sc_Meta (scope_ScalewayCluster s))) ClusterFinalizer = (fs, added)"
    by fastforce
  from assms [unfolded reconcileNormal_split] show ?thesis
  proof (cases rule: bind_run)
    case (Ok x u)
    with addClusterFinalizer_run [OF Ok(1) add] concluded_frame [OF Ok(2)] add show ?thesis
      by (simp add: cluster_frame_def split: if_splits)
  qed (use addClusterFinalizer_run [OF _ add] add in auto)
qed

lemma reconcileDelete_emits: "emits trace cluster_deletes (cluster_reconcileDelete k c sdk)"
  unfolding reconcileDelete_split cluster_deletes_def
  by (intro emit_intros modify_cluster_rules emits_mono [OF in_phases_union [OF cluster_removals_phases]]
      emits_mono [OF securitygroup.delete_emits]) auto

lemma reconcileDelete_object:
  assumes "cluster_reconcileDelete k c sdk s = (r, t)"
  shows "scope_ScalewayCluster t = (if r = Ok no_requeue then SetFinalizers (k_RemoveFinalizer k
    (meta_Finalizers (sc_Meta (scope_ScalewayCluster s))) ClusterFinalizer) (scope_ScalewayCluster s)
    else scope_ScalewayCluster s)"
proof -
  have same: "scope_ScalewayCluster (snd (cluster_removals c s)) = scope_ScalewayCluster s"
    by (rule keepsD [OF cluster_removals_cluster])
  from assms [unfolded reconcileDelete_split] show ?thesis
  proof (cases rule: bind_run)
    case (Ok q u)
    show ?thesis
    proof (cases q)
      case (Inl e)
      with Ok same show ?thesis by (auto simp: ret_def throw_def split: if_splits)
    next
      case (Inr x)
      with Ok(2) have "bind (securitygroup_Delete c sdk) (\<lambda>_. bind (modify_cluster (\<lambda>sc. SetFinalizers
        (k_RemoveFinalizer k (meta_Finalizers (sc_Meta sc)) ClusterFinalizer) sc)) (\<lambda>_. ret no_requeue)) u = (r, t)" by simp
      from give_up_finalizer [OF this] Ok(1) same show ?thesis by auto
    qed
  qed (use same in simp_all)
qed

text \<open>The calls of reconcileDelete: those of \<open>cluster_removals\<close>, then those for the security groups.\<close>

lemma reconcileDelete_calls:
  assumes "cluster_reconcileDelete k c sdk s = (r, t)"
  shows "r \<noteq> Panic \<and> (\<exists>removals groups. trace t = trace s @ removals @ groups \<and> set groups \<subseteq> securitygroup_deletes
    \<and> (\<exists>q u. cluster_removals c s = (q, u) \<and> trace u = trace s @ removals)
    \<and> (case r of
         Ok res \<Rightarrow> res = no_requeue \<or> res = requeue_soon \<and> groups = []
           \<and> (\<exists>u e. vpc_Delete c u = (Err e, t) \<and> errors_As_PreconditionFailed e)
       | _ \<Rightarrow> True))"
proof -
  obtain q u removals where run: "cluster_removals c s = (q, u)" and calls: "trace u = trace s @ removals"
    using emits_grows [OF in_phases_union [OF cluster_removals_phases], of c s] by (metis prod.collapse)
  from assms [unfolded reconcileDelete_split] show ?thesis
  proof (cases rule: bind_run)
    case (Ok p v)
    show ?thesis
    proof (cases p)
      case (Inl e)
      with Ok(1) obtain x where "vpc_Delete c x = (Err e, v)" using cluster_removals_Inl by blast
      moreover from Inl Ok(2) have "t = v" "r = (if errors_As_PreconditionFailed e then Ok requeue_soon else Err e)"
        by (simp_all add: ret_def throw_def split: if_splits)
      ultimately show ?thesis using Ok(1) run calls by (intro conjI exI [where x = removals] exI [where x = "[]"]) auto
    next
      case (Inr x)
      with Ok(2) have "bind (securitygroup_Delete c sdk) (\<lambda>_. bind (modify_cluster (\<lambda>sc. SetFinalizers
        (k_RemoveFinalizer k (meta_Finalizers (sc_Meta sc)) ClusterFinalizer) sc)) (\<lambda>_. ret no_requeue)) v = (r, t)" by simp
      from give_up_finalizer [OF this] obtain groups where "trace t = trace v @ groups" "set groups \<subseteq> securitygroup_deletes"
        "r \<noteq> Panic" "case r of Ok res \<Rightarrow> res = no_requeue | _ \<Rightarrow> True" by blast
      with Ok(1) run calls show ?thesis
        by (intro conjI exI [where x = removals] exI [where x = groups]) (auto split: outcome.splits)
    qed
  next
    case (Err e)
    with run calls show ?thesis by (intro conjI exI [where x = removals] exI [where x = "[]"]) auto
  next
    case Panic
    then show ?thesis using no_panic_removals unfolding no_panic_def by (metis fst_conv)
  qed
qed

lemma cluster_scope_session:
  assumes "in_cluster_scope sc cluster (deferred (cluster_Close helper)
      (if meta_DeletionTimestamp (sc_Meta sc) then cluster_reconcileDelete k c sdk
       else cluster_reconcileNormal k c sdk helper)) s = (r, t)"
  shows "\<exists>work final. trace t = trace s @ work @ [CallPatchCluster final]
    \<and> (if meta_DeletionTimestamp (sc_Meta sc)
       then set work \<subseteq> cluster_deletes \<and>
         final \<in> {sc, SetFinalizers (k_RemoveFinalizer k (meta_Finalizers (sc_Meta sc)) ClusterFinalizer) sc}
       else set work \<subseteq> cluster_creates \<and>
         meta_Finalizers (sc_Meta final) = fst (k_AddFinalizer k (meta_Finalizers (sc_Meta sc)) ClusterFinalizer))"
proof -
  let ?s = "\<lparr>world = world s, trace = trace s, scope_ScalewayCluster = sc, scope_InfrastructureReady = cc_InfrastructureReady cluster\<rparr>"
  let ?m = "if meta_DeletionTimestamp (sc_Meta sc) then cluster_reconcileDelete k c sdk else cluster_reconcileNormal k c sdk helper"
  obtain u where "deferred (cluster_Close helper) ?m ?s = (r, u)" "trace t = trace u"
    using assms by (auto simp: in_cluster_scope_def split: prod.splits)
  then obtain q v where run: "?m ?s = (q, v)" and last: "trace t = trace v @ [CallPatchCluster (scope_ScalewayCluster v)]"
    using cluster_closer.deferred_closes by (fastforce dest: made_trace)
  show ?thesis
  proof (cases "meta_DeletionTimestamp (sc_Meta sc)")
    case True
    with run have del: "cluster_reconcileDelete k c sdk ?s = (q, v)" by simp
    obtain work where "trace v = trace s @ work" "set work \<subseteq> cluster_deletes"
      using emits_grows [OF reconcileDelete_emits del] by auto
    with reconcileDelete_object [OF del] last True show ?thesis
      by (intro exI [where x = work] exI [where x = "scope_ScalewayCluster v"]) simp
  next
    case False
    with run have normal: "cluster_reconcileNormal k c sdk helper ?s = (q, v)" by simp
    obtain work where "trace v = trace s @ work" "set work \<subseteq> cluster_creates"
      using emits_grows [OF reconcileNormal_emits normal] by auto
    with reconcileNormal_meta [OF normal] last False show ?thesis
      by (intro exI [where x = work] exI [where x = "scope_ScalewayCluster v"]) simp
  qed
qed

lemma cluster_session_calls:
  assumes "cluster_session k sdk sc cluster s = (r, t)"
  shows "\<exists>update. length update \<le> 1 \<and> set update \<subseteq> {CallUpdateSecret ns n |ns n. True} \<and>
    (trace t = trace s @ update \<or>
     (\<exists>work final. trace t = trace s @ update @ work @ [CallPatchCluster final]
      \<and> (if meta_DeletionTimestamp (sc_Meta sc)
         then set work \<subseteq> cluster_deletes \<and>
           final \<in> {sc, SetFinalizers (k_RemoveFinalizer k (meta_Finalizers (sc_Meta sc)) ClusterFinalizer) sc}
         else set work \<subseteq> cluster_creates \<and> meta_Finalizers (sc_Meta final) =
           fst (k_AddFinalizer k (meta_Finalizers (sc_Meta sc)) ClusterFinalizer))))"
proof -
  have quiet: "trace v = trace u" if "NewCluster k sc u = (q, v)" for q :: "'a cluster_helper outcome" and u v :: "'a env"
    using that reads_only_trace [of "NewCluster k sc" u q v] unfolding NewCluster_def by (simp add: read_intros)
  from assms [unfolded cluster_session_def] show ?thesis
  proof (cases rule: bind_run)
    case (Ok client u)
    obtain update where update: "trace u = trace s @ update" "length update \<le> 1"
      "set update \<subseteq> {CallUpdateSecret ns n |ns n. True}"
      using clientFromSecret_once [OF Ok(1)] by blast
    from Ok(2) show ?thesis
    proof (cases rule: bind_run)
      case (Ok c v)
      then have v: "v = u" by (simp add: pure_Ok)
      from Ok(2) show ?thesis
      proof (cases rule: bind_run)
        case (Ok helper x)
        then show ?thesis
          using cluster_scope_session [OF Ok(2)] quiet [OF Ok(1)] v update by fastforce
      qed (use update v quiet in auto)
    qed (use update in \<open>auto simp: lift_outcome_def\<close>)
  qed (use clientFromSecret_once in blast)+
qed

text \<open>What is looked up before a session starts.\<close>

definition cluster_lookup ::
  "'w k8s_API \<Rightarrow> ScalewayCluster \<Rightarrow> string \<Rightarrow> string \<Rightarrow> ('w env, ctrl_Result + ScalewayCluster \<times> CapiCluster) go" where
  "cluster_lookup k unread namespace name =
     bind (attempt (sdk_read (k_GetScalewayCluster k namespace name))) (\<lambda>r.
     if r = Inl (ApiErr ApiNotFound) then ret (Inl no_requeue)
     else
       let scalewayCluster = (case r of Inl _ \<Rightarrow> unread | Inr sc \<Rightarrow> sc) in
       bind (wrapping ''failed to get owner cluster'' (sdk_read (k_GetOwnerCluster k (sc_Meta scalewayCluster)))) (\<lambda>owner.
       case owner of
         None \<Rightarrow> ret (Inl requeue_soon)
       | Some cluster \<Rightarrow>
           if k_IsPausedCluster k cluster scalewayCluster then ret (Inl no_requeue)
           else ret (Inr (scalewayCluster, cluster))))"

lemma cluster_Reconcile_split:
  "cluster_Reconcile k sdk unread namespace name =
     then_session (cluster_lookup k unread namespace name) (\<lambda>(sc, cluster). cluster_session k sdk sc cluster)"
  unfolding cluster_Reconcile_def cluster_lookup_def Let_def then_session_simps prod.case ..

lemma reads_cluster_lookup: "reads_only (cluster_lookup k unread namespace name)"
  unfolding cluster_lookup_def Let_def by (intro read_intros)

lemma cluster_lookup_found:
  assumes "cluster_lookup k unread namespace name s = (Ok (Inr (sc, cluster)), u)"
  shows "\<exists>w. (case k_GetScalewayCluster k namespace name (world s) of (answer, v) \<Rightarrow>
      answer \<noteq> Inl ApiNotFound \<and> sc = (case answer of Inl _ \<Rightarrow> unread | Inr read \<Rightarrow> read)
      \<and> k_GetOwnerCluster k (sc_Meta sc) v = (Inr (Some cluster), w))
    \<and> \<not> k_IsPausedCluster k cluster sc \<and> u = s\<lparr>world := w\<rparr>"
proof (cases "k_GetScalewayCluster k namespace name (world s)")
  case (Pair answer v)
  then show ?thesis
    using assms by (cases answer) (auto simp: cluster_lookup_def bind_read_run Let_def ok_iffs split: if_splits option.splits)
qed

section \<open>Properties\<close>

text \<open>
  No resource without the finalizer. If the cluster does not carry the finalizer yet, the
  first call of reconcileNormal writes the object with the finalizer; only calls of the services
  follow, and none if that write fails. If it carries it already, only the services make calls.
  The object carries the finalizer at the end, however the reconciliation ends.
\<close>

theorem cluster_finalizer_first:
  assumes contract: "finalizer_contract k"
    and run: "cluster_reconcileNormal k c sdk helper s = (r, t)"
  shows "ClusterFinalizer \<in> set (meta_Finalizers (sc_Meta (scope_ScalewayCluster t)))
    \<and> (\<exists>es. set es \<subseteq> securitygroup_creates \<union> vpc_creates \<union> vpcgw_creates \<union> loadbalancer_creates
       \<and> (if ClusterFinalizer \<in> set (meta_Finalizers (sc_Meta (scope_ScalewayCluster s))) then trace t = trace s @ es
          else \<exists>sc. ClusterFinalizer \<in> set (meta_Finalizers (sc_Meta sc))
            \<and> trace t = trace s @ CallPatchCluster sc # es
            \<and> (case fst (helper sc (world s)) of Inl err \<Rightarrow> r = Err (ApiErr err) \<and> es = [] | Inr _ \<Rightarrow> True)))"
proof -
  let ?sc = "scope_ScalewayCluster s"
  obtain fs added where add: "k_AddFinalizer k (meta_Finalizers (sc_Meta ?sc)) ClusterFinalizer = (fs, added)"
    by fastforce
  have fs: "ClusterFinalizer \<in> set fs" "added = (ClusterFinalizer \<notin> set (meta_Finalizers (sc_Meta ?sc)))"
    using contract add unfolding finalizer_contract_def by (metis fst_conv insertI1, metis snd_conv)
  note a = addClusterFinalizer_run [OF _ add]
  show ?thesis
    using run unfolding reconcileNormal_split
  proof (cases rule: bind_run)
    case (Ok x u)
    have "sc_Meta (scope_ScalewayCluster t) = sc_Meta (scope_ScalewayCluster u)"
      using concluded_frame [OF Ok(2)] by (simp add: cluster_frame_def split: if_splits)
    moreover obtain es where "trace t = trace u @ es"
      "set es \<subseteq> securitygroup_creates \<union> vpc_creates \<union> vpcgw_creates \<union> loadbalancer_creates"
      using emits_grows [OF in_phases_union [OF concluded_phases] Ok(2)] by (auto simp: Un_assoc)
    ultimately show ?thesis
      using a [OF Ok(1)] fs by (auto intro!: exI [where x = es] split: sum.split)
  next
    case (Err e)
    show ?thesis
      using a [OF Err(1)] Err(2) fs by (auto intro!: exI [where x = "[]"] split: sum.split if_splits)
  next
    case Panic
    show ?thesis using a [OF Panic(1)] by (auto simp: api_result_def split: if_splits sum.splits)
  qed
qed

definition ex_normal :: "ctrl_Result outcome \<times> unit ClusterScope" where
  "ex_normal = cluster_reconcileNormal down_k8s down_client ex_sdk (\<lambda>_ w. (Inr (), w)) (ex_scope ex_cluster ())"

theorem cluster_finalizer_first_witness:
  "\<exists>sc es. trace (snd ex_normal) = CallPatchCluster sc # es \<and> ClusterFinalizer \<in> set (meta_Finalizers (sc_Meta sc))"
proof -
  have run: "cluster_reconcileNormal down_k8s down_client ex_sdk (\<lambda>_ w. (Inr (), w)) (ex_scope ex_cluster ()) = (fst ex_normal, snd ex_normal)"
    by (simp add: ex_normal_def)
  have "ClusterFinalizer \<notin> set (meta_Finalizers (sc_Meta (scope_ScalewayCluster (ex_scope ex_cluster ()))))" "trace (ex_scope ex_cluster ()) = []"
    by (simp_all add: ex_cloud)
  with cluster_finalizer_first [OF finalizer_contract_down run] show ?thesis by auto
qed



text \<open>
  C13: what a reconciliation of a cluster can do. Either it makes no call; or the object was read
  (or could not be read for another reason than that it is gone), it has an owner, and neither
  is paused. Then at most one call updates the secret of the credentials, and either nothing
  else happens or the last call writes the cluster object back, however the work in between
  ended. That work only deletes, and the object written back is as read or without the
  finalizer, if the object is being deleted; otherwise it carries the finalizers with the
  provider's added.
\<close>

theorem cluster_Reconcile_session:
  "case cluster_Reconcile k sdk unread namespace name s of (r, t) \<Rightarrow>
     trace t = trace s \<or>
     (\<exists>sc cluster w.
        (case k_GetScalewayCluster k namespace name (world s) of (answer, v) \<Rightarrow>
           answer \<noteq> Inl ApiNotFound \<and> sc = (case answer of Inl _ \<Rightarrow> unread | Inr read \<Rightarrow> read)
           \<and> k_GetOwnerCluster k (sc_Meta sc) v = (Inr (Some cluster), w))
        \<and> \<not> k_IsPausedCluster k cluster sc
        \<and> (\<exists>update. length update \<le> 1 \<and> set update \<subseteq> {CallUpdateSecret ns n |ns n. True} \<and>
             (trace t = trace s @ update \<or>
              (\<exists>work final. trace t = trace s @ update @ work @ [CallPatchCluster final]
               \<and> (if meta_DeletionTimestamp (sc_Meta sc)
                  then set work \<subseteq> cluster_deletes \<and>
                    final \<in> {sc, SetFinalizers (k_RemoveFinalizer k (meta_Finalizers (sc_Meta sc)) ClusterFinalizer) sc}
                  else set work \<subseteq> cluster_creates \<and> meta_Finalizers (sc_Meta final) =
                    fst (k_AddFinalizer k (meta_Finalizers (sc_Meta sc)) ClusterFinalizer))))))"
proof (cases "cluster_Reconcile k sdk unread namespace name s")
  case (Pair r t)
  from Pair [unfolded cluster_Reconcile_split] show ?thesis
  proof (cases rule: then_session_run)
    case (Stopped q)
    show ?thesis unfolding Pair prod.case by (rule disjI1 [OF reads_only_trace [OF reads_cluster_lookup Stopped]])
  next
    case (Session y u)
    obtain sc cluster where y: "y = (sc, cluster)" by fastforce
    obtain w where found: "case k_GetScalewayCluster k namespace name (world s) of (answer, v) \<Rightarrow>
        answer \<noteq> Inl ApiNotFound \<and> sc = (case answer of Inl _ \<Rightarrow> unread | Inr read \<Rightarrow> read)
        \<and> k_GetOwnerCluster k (sc_Meta sc) v = (Inr (Some cluster), w)"
      "\<not> k_IsPausedCluster k cluster sc" "u = s\<lparr>world := w\<rparr>"
      using cluster_lookup_found [OF Session(1) [unfolded y]] by (elim exE conjE) (rule that)
    moreover from Session(2) y have "cluster_session k sdk sc cluster u = (r, t)" by simp
    from cluster_session_calls [OF this] found(3) have "\<exists>update. length update \<le> 1 \<and> set update \<subseteq> {CallUpdateSecret ns n |ns n. True} \<and>
      (trace t = trace s @ update \<or>
       (\<exists>work final. trace t = trace s @ update @ work @ [CallPatchCluster final]
        \<and> (if meta_DeletionTimestamp (sc_Meta sc)
           then set work \<subseteq> cluster_deletes \<and>
             final \<in> {sc, SetFinalizers (k_RemoveFinalizer k (meta_Finalizers (sc_Meta sc)) ClusterFinalizer) sc}
           else set work \<subseteq> cluster_creates \<and> meta_Finalizers (sc_Meta final) =
             fst (k_AddFinalizer k (meta_Finalizers (sc_Meta sc)) ClusterFinalizer))))"
      by simp
    ultimately show ?thesis
      unfolding Pair prod.case by (intro disjI2 exI [where x = sc] exI [where x = cluster] exI [where x = w] conjI)
  qed
qed

section \<open>Panics\<close>

text \<open>
  The only pointer of the cluster object that the services follow without a check is the network
  section of the status.
\<close>

lemma vpcgw_getOrCreateIP_no_panic:
  assumes "publicGatewaySpec (scope_ScalewayCluster s) = Some spec"
  shows "no_panic_at (vpcgw_getOrCreateIP c zone (pgs_IP spec)) s"
proof (cases "pgs_IP spec")
  case None
  then show ?thesis
    unfolding vpcgw_getOrCreateIP_def lookupGatewayIP_def createGatewayIP_def
    by (simp, intro no_panic_atI panic_intros)
next
  case (Some ip)
  with assms show ?thesis
    unfolding vpcgw_getOrCreateIP_def
    by (simp, intro no_panic_at_gets no_panic_atI panic_intros no_panic_deref) simp
qed

lemma getOrCreateGateway_no_panic:
  assumes "publicGatewaySpec (scope_ScalewayCluster s) = Some spec"
  shows "no_panic_at (getOrCreateGateway c zone) s"
  unfolding getOrCreateGateway_def
proof (rule no_panic_at_getOrCreate)
  show "no_panic_at (lookupGateway c zone) s"
    unfolding lookupGateway_def by (intro no_panic_atI panic_intros)
  fix t
  assume "lookupGateway c zone s = (Ok None, t)"
  then have spec: "publicGatewaySpec (scope_ScalewayCluster t) = Some spec"
    using reads_only_cluster [OF gateway.lookup_reads] assms by metis
  show "no_panic_at (createGateway c zone) t"
    unfolding createGateway_def Let_def
    by (intro no_panic_at_gets no_panic_at_bind)
      (auto simp: spec pure_Ok intro: no_panic_atI panic_intros vpcgw_getOrCreateIP_no_panic)
qed

lemma vpcgw_Reconcile_no_panic:
  assumes "PrivateNetworkID (scope_ScalewayCluster s) \<noteq> Panic"
  shows "no_panic_at (vpcgw_Reconcile c) s"
proof (cases "HasPrivateNetwork (scope_ScalewayCluster s) \<and> HasPublicGateway (scope_ScalewayCluster s)")
  case True
  then obtain spec where spec: "publicGatewaySpec (scope_ScalewayCluster s) = Some spec"
    using HasPublicGateway_spec by blast
  have obtained: "no_panic_at (case pgs_ID spec of Some i \<Rightarrow> ret i
      | None \<Rightarrow> bind (getOrCreateGateway c zone) (\<lambda>gw. ret (gw_ID gw))) s" for zone
    by (auto split: option.split intro!: no_panic_at_bind getOrCreateGateway_no_panic [OF spec]
        intro: no_panic_atI panic_intros)
  have "no_panic (bind (lift_outcome (PrivateNetworkID (scope_ScalewayCluster s))) (\<lambda>pnID.
       bind (sdk_read (vpcgw_ListGatewayNetworks (cl_VPCGW c) zone gatewayID pnID)) (\<lambda>totalCount.
       if totalCount = 0 then
         sdk_call (CallCreateGatewayNetwork (gatewayNetworkRequest zone gatewayID pnID))
           (vpcgw_CreateGatewayNetwork (cl_VPCGW c) (gatewayNetworkRequest zone gatewayID pnID))
       else ret ())))" for zone gatewayID
    by (intro panic_intros no_panic_lift_outcome assms)
  then show ?thesis
    unfolding vpcgw_Reconcile_def Let_def
    by (intro no_panic_at_gets) (use True spec in \<open>simp, intro no_panic_at_bind [OF obtained] no_panic_atI\<close>)
next
  case False
  then have "vpcgw_Reconcile c s = (Ok (), s)"
    by (auto simp: vpcgw_Reconcile_def bind_gets_run ret_def)
  then show ?thesis by (simp add: no_panic_at_def)
qed

lemma no_panic_keep_named [panic_intros]:
  "(\<And>x. no_panic (delete x)) \<Longrightarrow> no_panic (keep_named wanted delete kept xs)"
  by (induction xs arbitrary: kept) (auto intro!: panic_intros)

lemma no_panic_lb_steps [panic_intros]:
  "no_panic (getOrCreateLB c zone)" "no_panic (ensurePrivateNetwork c l pn)" "no_panic (ensureBackend c l)"
  "no_panic (ensureFrontend c l b)" "no_panic (ensureACLs c sdk f pn)"
  unfolding getOrCreateLB_def lookupLB_def createLB_def findLBIPID_def ensurePrivateNetwork_def ensureBackend_def
    ensureFrontend_def ensureACLs_def ensureGatewayACL_def Let_def
  by (intro panic_intros lb_acl.keep_no_panic)+

lemma loadbalancer_Reconcile_no_panic:
  assumes "PrivateNetworkID (scope_ScalewayCluster s) \<noteq> Panic"
  shows "no_panic_at (loadbalancer_Reconcile c sdk) s"
  unfolding loadbalancer_Reconcile_def
  by (intro no_panic_at_gets no_panic_atI panic_intros no_panic_lift_outcome assms)

lemma no_panic_securitygroup: "no_panic (securitygroup_Reconcile c sdk)"
  unfolding securitygroup_Reconcile_def by (intro panic_intros no_panic_ensureSecurityGroups)

definition network_readable :: "ScalewayCluster \<Rightarrow> bool" where
  "network_readable sc \<longleftrightarrow> \<not> HasPrivateNetwork sc \<or> ShouldManagePrivateNetwork sc \<or> cst_Network (sc_Status sc) \<noteq> None"

lemma network_readable_setters [simp]:
  "network_readable (SetFinalizers fs sc) = network_readable sc"
  "network_readable (SetStatusFailureDomains sdk sc) = network_readable sc"
  by (simp_all add: network_readable_def HasPrivateNetwork_def ShouldManagePrivateNetwork_def privateNetworkSpec_def)
    (simp add: SetStatusFailureDomains_def)

lemma keeps_securitygroup: "keeps scope_ScalewayCluster (securitygroup_Reconcile c sdk)"
  unfolding securitygroup_Reconcile_def by (intro keep_intros keeps_ensureSecurityGroups)

lemma network_known_after_vpc:
  assumes "vpc_Reconcile c s = (Ok u, t)"
    and "network_readable (scope_ScalewayCluster s)"
  shows "PrivateNetworkID (scope_ScalewayCluster t) \<noteq> Panic"
proof (cases "ShouldManagePrivateNetwork (scope_ScalewayCluster s)")
  case True
  then obtain pn v where "getOrCreate (lookupPN c) (createPN c) s = (Ok pn, v)"
    "scope_ScalewayCluster t = SetStatusPrivateNetworkID (pn_ID pn) (scope_ScalewayCluster v)"
    using assms(1) by (auto simp: vpc_Reconcile_Ok)
  moreover from this have "scope_ScalewayCluster v = scope_ScalewayCluster s"
    using getOrCreatePN_run made_cluster by metis
  ultimately show ?thesis
    using PrivateNetworkID_SetStatus [OF ShouldManage_HasPrivateNetwork [OF True]] by simp
next
  case False
  with assms show ?thesis by (auto simp: vpc_Reconcile_Ok PrivateNetworkID_def network_readable_def split: option.splits)
qed

lemma cluster_services_no_panic:
  assumes "network_readable (scope_ScalewayCluster s)"
  shows "no_panic_at (cluster_services c sdk) s"
  unfolding cluster_services_def
proof (intro no_panic_at_bind no_panic_at_wrapping)
  show "no_panic_at (modify_cluster (SetStatusFailureDomains sdk)) s"
    by (rule no_panic_atI [OF modify_cluster_rules(3)])
  fix x t
  assume "modify_cluster (SetStatusFailureDomains sdk) s = (Ok x, t)"
  then have t: "scope_ScalewayCluster t = SetStatusFailureDomains sdk (scope_ScalewayCluster s)"
    by (auto simp: modify_cluster_run)
  show "no_panic_at (securitygroup_Reconcile c sdk) t" by (rule no_panic_atI [OF no_panic_securitygroup])
  fix y u
  assume "securitygroup_Reconcile c sdk t = (Ok y, u)"
  then have u: "network_readable (scope_ScalewayCluster u)"
    using keepsD [OF keeps_securitygroup, of c sdk t] t assms by simp
  show "no_panic_at (vpc_Reconcile c) u" by (rule vpc_Reconcile_no_panic)
  fix z v
  assume "wrapping ''failed to reconcile vpc'' (vpc_Reconcile c) u = (Ok z, v)"
  then have known: "PrivateNetworkID (scope_ScalewayCluster v) \<noteq> Panic"
    by (intro network_known_after_vpc [of c u z v]) (use u in \<open>simp_all add: wrapping_Ok\<close>)
  then show "no_panic_at (vpcgw_Reconcile c) v" by (rule vpcgw_Reconcile_no_panic)
  fix z' w
  assume "wrapping ''failed to reconcile vpcgw'' (vpcgw_Reconcile c) v = (Ok z', w)"
  then have "scope_ScalewayCluster w = scope_ScalewayCluster v"
    using keepsD [OF keeps_vpcgw_Reconcile, of c v] by (simp add: wrapping_Ok)
  with known have "no_panic_at (loadbalancer_Reconcile c sdk) w" by (simp add: loadbalancer_Reconcile_no_panic)
  then show "no_panic_at (attempt (loadbalancer_Reconcile c sdk)) w"
    by (auto simp: no_panic_at_def attempt_def split: prod.splits outcome.splits)
qed

lemma reconcileNormal_no_panic:
  assumes "network_readable (scope_ScalewayCluster s)"
  shows "fst (cluster_reconcileNormal k c sdk helper s) \<noteq> Panic"
proof -
  obtain fs added where add: "k_AddFinalizer k (meta_Finalizers (sc_Meta (scope_ScalewayCluster s))) ClusterFinalizer = (fs, added)"
    by fastforce
  note a = addClusterFinalizer_run [OF _ add, where helper = helper]
  have "no_panic_at (addClusterFinalizer k helper) s"
    using a by (cases "addClusterFinalizer k helper s") (auto simp: no_panic_at_def api_result_def split: sum.splits)
  moreover have "no_panic_at (bind (cluster_services c sdk) conclude_cluster) t"
    if "addClusterFinalizer k helper s = (Ok x, t)" for x t
  proof (rule no_panic_at_bind)
    show "no_panic_at (cluster_services c sdk) t"
      using a [OF that] assms by (intro cluster_services_no_panic) simp
    show "no_panic_at (conclude_cluster q) v" for q v
      using conclude_cluster_run [of q v] by (cases "conclude_cluster q v") (simp add: no_panic_at_def)
  qed
  ultimately show ?thesis
    unfolding reconcileNormal_split no_panic_at_def [symmetric] by (rule no_panic_at_bind)
qed

text \<open>
  C17: when reconciling a cluster cannot panic. If the cluster has no private network, or one
  that the provider manages, or its status already has a network section, then reconcileNormal
  does not panic, whatever the cloud and the API server answer: the private network is
  reconciled, and its ID recorded, before the gateway and the load balancer need it.
\<close>

theorem cluster_reconcileNormal_no_panic:
  assumes "network_readable (scope_ScalewayCluster s)"
  shows "fst (cluster_reconcileNormal k c sdk helper s) \<noteq> Panic"
  using assms by (rule reconcileNormal_no_panic)

theorem cluster_reconcileNormal_no_panic_witness:
  "fst (cluster_reconcileNormal down_k8s down_client ex_sdk (\<lambda>_ w. (Inr (), w)) (ex_scope ex_pn_cluster ())) \<noteq> Panic"
  by (rule cluster_reconcileNormal_no_panic) (simp add: network_readable_def ShouldManage_iff privateNetworkSpec_def ex_cloud)

end
