(* ===== verification/Machine_Controller.thy ===== *)
theory Machine_Controller
  imports Cluster_Controller
begin

text \<open>
  The machine controller (\<^verbatim>\<open>internal/controller/scalewaymachine_controller.go\<close>) and the life of
  the machine scope (\<^verbatim>\<open>NewMachine\<close>, \<^verbatim>\<open>PatchObject\<close> and \<^verbatim>\<open>Close\<close> of \<^verbatim>\<open>internal/scope/machine.go\<close>).
\<close>

section \<open>The machine scope\<close>

type_synonym 'w machine_helper = "ScalewayMachine \<Rightarrow> ('w, unit) act"

text \<open>\<^verbatim>\<open>NewMachine\<close> makes the cluster scope first and then replaces its patch helper.\<close>

definition NewMachine :: "'w k8s_API \<Rightarrow> ScalewayCluster \<Rightarrow> ScalewayMachine \<Rightarrow> ('s, 'w machine_helper) go" where
  "NewMachine k scalewayCluster scalewayMachine =
     bind (NewCluster k scalewayCluster) (\<lambda>_.
     wrapping ''failed to init patch helper'' (lift_api (k_NewMachineHelper k scalewayMachine)))"

definition machine_PatchObject :: "'w machine_helper \<Rightarrow> (('w, 'z) MachineScope_scheme, unit) go" where
  "machine_PatchObject helper =
     bind (gets scope_ScalewayMachine) (\<lambda>m. sdk_call (CallPatchMachine m) (helper m))"

definition machine_Close :: "'w machine_helper \<Rightarrow> (('w, 'z) MachineScope_scheme, unit) go" where
  "machine_Close helper = machine_PatchObject helper"

definition in_machine_scope ::
  "ScalewayCluster \<Rightarrow> CapiCluster \<Rightarrow> ScalewayMachine \<Rightarrow> CapiMachine \<Rightarrow> ('w MachineScope, 'a) go \<Rightarrow> ('w env, 'a) go" where
  "in_machine_scope scalewayCluster cluster scalewayMachine machine p = (\<lambda>e.
     case p \<lparr>world = world e, trace = trace e, scope_ScalewayCluster = scalewayCluster,
         scope_InfrastructureReady = cc_InfrastructureReady cluster, scope_ScalewayMachine = scalewayMachine,
         scope_Machine = machine\<rparr> of
       (r, s) \<Rightarrow> (r, \<lparr>world = world s, trace = trace s\<rparr>))"

section \<open>Reconciliation\<close>

definition SetMachineFinalizers :: "string list \<Rightarrow> ScalewayMachine \<Rightarrow> ScalewayMachine" where
  "SetMachineFinalizers fs m = m\<lparr>sm_Meta := (sm_Meta m)\<lparr>meta_Finalizers := fs\<rparr>\<rparr>"

definition SetMachineReady :: "ScalewayMachine \<Rightarrow> ScalewayMachine" where
  "SetMachineReady m = m\<lparr>sm_Status := (sm_Status m)\<lparr>mst_Ready := True\<rparr>\<rparr>"

definition modify_machine :: "(ScalewayMachine \<Rightarrow> ScalewayMachine) \<Rightarrow> (('w, 'z) MachineScope_scheme, unit) go" where
  "modify_machine f = modify (\<lambda>s. s\<lparr>scope_ScalewayMachine := f (scope_ScalewayMachine s)\<rparr>)"

definition addMachineFinalizer :: "'w k8s_API \<Rightarrow> 'w machine_helper \<Rightarrow> (('w, 'z) MachineScope_scheme, unit) go" where
  "addMachineFinalizer k helper =
     bind (gets scope_ScalewayMachine) (\<lambda>m.
     case k_AddFinalizer k (meta_Finalizers (sm_Meta m)) MachineFinalizer of (finalizers, added) \<Rightarrow>
     bind (modify_machine (SetMachineFinalizers finalizers)) (\<lambda>_.
     if added then machine_PatchObject helper else ret ()))"

definition machine_reconcileNormal ::
  "'w k8s_API \<Rightarrow> 'w Client \<Rightarrow> SDK \<Rightarrow> template_engine \<Rightarrow> 'w machine_helper \<Rightarrow> (('w, 'z) MachineScope_scheme, ctrl_Result) go" where
  "machine_reconcileNormal k c sdk engine helper =
     bind (addMachineFinalizer k helper) (\<lambda>_.
     bind (gets scope_InfrastructureReady) (\<lambda>ready.
     if \<not> ready then ret requeue_soon
     else
       bind (attempt (instance_Reconcile c sdk k engine)) (\<lambda>r.
       case r of
         Inl err \<Rightarrow>
           if errors_Is err ErrPrivateIPNotFound then ret requeue_soon
           else if errors_Is err ErrBootstrapDataNotReady then ret requeue_soon
           else throw err
       | Inr _ \<Rightarrow>
           bind (modify_machine SetMachineReady) (\<lambda>_.
           ret no_requeue))))"

definition machine_reconcileDelete ::
  "'w k8s_API \<Rightarrow> 'w Client \<Rightarrow> SDK \<Rightarrow> (('w, 'z) MachineScope_scheme, ctrl_Result) go" where
  "machine_reconcileDelete k c sdk =
     bind (instance_Delete c sdk) (\<lambda>_.
     bind (modify_machine (\<lambda>m. SetMachineFinalizers (k_RemoveFinalizer k (meta_Finalizers (sm_Meta m)) MachineFinalizer) m)) (\<lambda>_.
     ret no_requeue))"

definition machine_session ::
  "'w k8s_API \<Rightarrow> SDK \<Rightarrow> template_engine \<Rightarrow> ScalewayCluster \<Rightarrow> CapiCluster \<Rightarrow> ScalewayMachine \<Rightarrow> CapiMachine
     \<Rightarrow> ('w env, ctrl_Result) go" where
  "machine_session k sdk engine scalewayCluster cluster scalewayMachine machine =
     bind (clientFromSecret k scalewayCluster) (\<lambda>client.
     bind (lift_outcome (NewClient client)) (\<lambda>c.
     bind (NewMachine k scalewayCluster scalewayMachine) (\<lambda>helper.
     in_machine_scope scalewayCluster cluster scalewayMachine machine
       (deferred (machine_Close helper)
         (if meta_DeletionTimestamp (sm_Meta scalewayMachine) then machine_reconcileDelete k c sdk
          else machine_reconcileNormal k c sdk engine helper)))))"

text \<open>
  \<^verbatim>\<open>cluster.Spec.InfrastructureRef\<close> is a pointer that is followed without a check. An error of
  \<^verbatim>\<open>GetClusterFromMetadata\<close> ends the reconciliation without being reported.
\<close>

definition machine_Reconcile ::
  "'w k8s_API \<Rightarrow> SDK \<Rightarrow> template_engine \<Rightarrow> string \<Rightarrow> string \<Rightarrow> ('w env, ctrl_Result) go" where
  "machine_Reconcile k sdk engine namespace name =
     bind (attempt (sdk_read (k_GetScalewayMachine k namespace name))) (\<lambda>r.
     case r of
       Inl err \<Rightarrow> if err = ApiErr ApiNotFound then ret no_requeue else throw err
     | Inr scalewayMachine \<Rightarrow>
         bind (sdk_read (k_GetOwnerMachine k (sm_Meta scalewayMachine))) (\<lambda>owner.
         case owner of
           None \<Rightarrow> ret no_requeue
         | Some machine \<Rightarrow>
             bind (attempt (sdk_read (k_GetClusterFromMetadata k machine))) (\<lambda>found.
             case found of
               Inl _ \<Rightarrow> ret no_requeue
             | Inr cluster \<Rightarrow>
                 if k_IsPausedMachine k cluster scalewayMachine then ret no_requeue
                 else
                   bind (deref (cc_InfrastructureRef cluster)) (\<lambda>scalewayClusterName.
                   bind (sdk_read (k_GetScalewayCluster k (cc_Namespace cluster) scalewayClusterName)) (\<lambda>scalewayCluster.
                   machine_session k sdk engine scalewayCluster cluster scalewayMachine machine)))))"

section \<open>Facts\<close>

interpretation machine_closer: scope_closer "machine_Close helper"
  "\<lambda>s. CallPatchMachine (scope_ScalewayMachine s)" for helper
proof
  show "made s [CallPatchMachine (scope_ScalewayMachine s)] t" if "machine_Close helper s = (r, t)" for helper s r t
    using that unfolding machine_Close_def machine_PatchObject_def bind_gets_run by (rule made_call)
  show "no_panic (machine_Close helper)" for helper
    unfolding machine_Close_def machine_PatchObject_def by (intro panic_intros)
qed

lemma machine_setters [simp]:
  "sm_Spec (SetMachineFinalizers fs m) = sm_Spec m" "sm_Status (SetMachineFinalizers fs m) = sm_Status m"
  "sm_Meta (SetMachineFinalizers fs m) = (sm_Meta m)\<lparr>meta_Finalizers := fs\<rparr>"
  "sm_Spec (SetMachineReady m) = sm_Spec m" "sm_Meta (SetMachineReady m) = sm_Meta m" "mst_Ready (sm_Status (SetMachineReady m))"
  "sm_Meta (SetMachineResult p as m) = sm_Meta m" "mst_Ready (sm_Status (SetMachineResult p as m)) = mst_Ready (sm_Status m)"
  by (simp_all add: SetMachineFinalizers_def SetMachineReady_def SetMachineResult_def)

lemma modify_machine_run:
  "modify_machine f s = (Ok (), s\<lparr>scope_ScalewayMachine := f (scope_ScalewayMachine s)\<rparr>)"
  by (simp add: modify_machine_def modify_def)

lemma addMachineFinalizer_run:
  assumes "addMachineFinalizer k helper s = (r, t)"
    and add: "k_AddFinalizer k (meta_Finalizers (sm_Meta (scope_ScalewayMachine s))) MachineFinalizer = (fs, added)"
  shows "scope_ScalewayMachine t = SetMachineFinalizers fs (scope_ScalewayMachine s)
    \<and> scope_InfrastructureReady t = scope_InfrastructureReady s
    \<and> trace t = trace s @ (if added then [CallPatchMachine (SetMachineFinalizers fs (scope_ScalewayMachine s))] else [])
    \<and> r = (if added then api_result (fst (helper (SetMachineFinalizers fs (scope_ScalewayMachine s)) (world s))) else Ok ())"
proof (cases added)
  case True
  let ?u = "s\<lparr>scope_ScalewayMachine := SetMachineFinalizers fs (scope_ScalewayMachine s)\<rparr>"
  have close: "machine_Close helper ?u = (r, t)"
    using assms True by (simp add: addMachineFinalizer_def bind_gets_run bind_Ok_run [OF modify_machine_run] machine_Close_def)
  then have "r = api_result (fst (helper (SetMachineFinalizers fs (scope_ScalewayMachine s)) (world s)))"
    by (auto simp: machine_Close_def machine_PatchObject_def bind_gets_run sdk_call_def split: prod.splits)
  with machine_closer.close_made [OF close] True show ?thesis
    by (auto simp: made_def)
next
  case False
  then show ?thesis
    using assms by (auto simp: addMachineFinalizer_def bind_gets_run bind_Ok_run [OF modify_machine_run] ret_def)
qed

definition machine_creates :: "call set" where
  "machine_creates = prepare_calls \<union> {CallSetServerUserData z i key d |z i key d. True}
     \<union> {CallServerAction z i ServerActionPoweron |z i. True}"

definition machine_deletes :: "call set" where
  "machine_deletes = leave_calls \<union> {CallDeleteIP z i |z i. True} \<union> {CallDetachVolume z i |z i. True}
     \<union> {CallDeleteVolume z i |z i. True} \<union> {CallDeleteServer z i |z i. True}
     \<union> {CallServerAction z i ServerActionTerminate |z i. True}"

lemma instance_Delete_calls: "only_calls machine_deletes (instance_Delete c sdk)"
  unfolding instance_Delete_def destroyServer_def deleteFlexibleIP_def deleteBootVolume_def detachVolume_def
  by (intro call_intros only_calls_mono [OF leave_ACL] only_calls_mono [OF leave_backend]
      only_calls_reads [OF machine_server.lookup_reads]) (auto simp: machine_deletes_def)

lemma instance_Reconcile_state:
  assumes "instance_Reconcile c sdk k engine s = (r, t)"
  shows "\<exists>es. trace t = trace s @ es \<and> set es \<subseteq> machine_creates
    \<and> (if r = Ok () then \<exists>p as. scope_ScalewayMachine t = SetMachineResult p as (scope_ScalewayMachine s)
       else scope_ScalewayMachine t = scope_ScalewayMachine s)"
proof -
  let ?core = "bind (prepareMachine c sdk) (\<lambda>p. bind (ensureCloudInit c k engine (fst p) (snd p)) (\<lambda>_.
    bind (ensureServerStarted c (fst p)) (\<lambda>_. ret p)))"
  have core: "only_calls machine_creates ?core"
    unfolding ensureServerStarted_def
    by (intro call_intros only_calls_mono [OF prepareMachine_calls] only_calls_mono [OF ensureCloudInit_calls])
      (auto simp: machine_creates_def)
  have "bind ?core (\<lambda>p. modify (\<lambda>s. s\<lparr>scope_ScalewayMachine := SetMachineResult
       (ProviderID (scope_ScalewayCluster s) (scope_Machine s) (srv_ID (fst p)))
       (machineAddresses (snd p)) (scope_ScalewayMachine s)\<rparr>)) s = (r, t)"
    using assms by (simp add: instance_Reconcile_def Let_def bind_assoc)
  then show ?thesis
  proof (cases rule: bind_run)
    case (Ok p u)
    obtain es where "made s es u" "set es \<subseteq> machine_creates" using only_callsD [OF core Ok(1)] by blast
    with Ok(2) show ?thesis by (auto simp: modify_def made_def intro!: exI)
  next
    case (Err e)
    obtain es where "made s es t" "set es \<subseteq> machine_creates" using only_callsD [OF core Err(1)] by blast
    with Err(2) show ?thesis by (auto simp: made_def)
  next
    case Panic
    obtain es where "made s es t" "set es \<subseteq> machine_creates" using only_callsD [OF core Panic(1)] by blast
    with Panic(2) show ?thesis by (auto simp: made_def)
  qed
qed

text \<open>reconcileNormal after the finalizer.\<close>

definition machine_work ::
  "'w k8s_API \<Rightarrow> 'w Client \<Rightarrow> SDK \<Rightarrow> template_engine \<Rightarrow> (('w, 'z) MachineScope_scheme, ctrl_Result) go" where
  "machine_work k c sdk engine =
     bind (gets scope_InfrastructureReady) (\<lambda>ready.
     if \<not> ready then ret requeue_soon
     else
       bind (attempt (instance_Reconcile c sdk k engine)) (\<lambda>r.
       case r of
         Inl err \<Rightarrow>
           if errors_Is err ErrPrivateIPNotFound then ret requeue_soon
           else if errors_Is err ErrBootstrapDataNotReady then ret requeue_soon
           else throw err
       | Inr _ \<Rightarrow> bind (modify_machine SetMachineReady) (\<lambda>_. ret no_requeue)))"

lemma machine_normal_split:
  "machine_reconcileNormal k c sdk engine helper = bind (addMachineFinalizer k helper) (\<lambda>_. machine_work k c sdk engine)"
  unfolding machine_reconcileNormal_def machine_work_def ..

definition retry_error :: "go_error \<Rightarrow> bool" where
  "retry_error e \<longleftrightarrow> errors_unwrap_all e = ErrPrivateIPNotFound \<or> errors_unwrap_all e = ErrBootstrapDataNotReady"

lemma machine_work_run:
  assumes "machine_work k c sdk engine s = (r, t)"
  shows "if scope_InfrastructureReady s
    then \<exists>q u. instance_Reconcile c sdk k engine s = (q, u) \<and> trace t = trace u
      \<and> r = (case q of Ok _ \<Rightarrow> Ok no_requeue | Err e \<Rightarrow> if retry_error e then Ok requeue_soon else Err e | Panic \<Rightarrow> Panic)
      \<and> scope_ScalewayMachine t = (if q = Ok () then SetMachineReady (scope_ScalewayMachine u) else scope_ScalewayMachine u)
    else r = Ok requeue_soon \<and> t = s"
proof (cases "scope_InfrastructureReady s")
  case True
  obtain q u where run: "instance_Reconcile c sdk k engine s = (q, u)" by fastforce
  with True assms show ?thesis
    by (cases q) (auto simp: machine_work_def bind_gets_run bind_attempt_run [of "instance_Reconcile c sdk k engine", OF run] retry_error_def errors_Is_sentinel
        bind_Ok_run [OF modify_machine_run] ret_def throw_def split: if_splits)
next
  case False
  with assms show ?thesis by (simp add: machine_work_def bind_gets_run ret_def)
qed

lemma machine_work_effect:
  assumes "machine_work k c sdk engine s = (r, t)"
  shows "\<exists>es. trace t = trace s @ es \<and> set es \<subseteq> (if scope_InfrastructureReady s then machine_creates else {})
    \<and> (if r = Ok no_requeue then \<exists>p as. scope_ScalewayMachine t = SetMachineReady (SetMachineResult p as (scope_ScalewayMachine s))
       else scope_ScalewayMachine t = scope_ScalewayMachine s)"
proof (cases "scope_InfrastructureReady s")
  case True
  with machine_work_run [OF assms] obtain q u where run: "instance_Reconcile c sdk k engine s = (q, u)" and t: "trace t = trace u"
    "r = (case q of Ok _ \<Rightarrow> Ok no_requeue | Err e \<Rightarrow> if retry_error e then Ok requeue_soon else Err e | Panic \<Rightarrow> Panic)"
    "scope_ScalewayMachine t = (if q = Ok () then SetMachineReady (scope_ScalewayMachine u) else scope_ScalewayMachine u)"
    by auto
  obtain es where es: "trace u = trace s @ es" "set es \<subseteq> machine_creates"
    "if q = Ok () then \<exists>p as. scope_ScalewayMachine u = SetMachineResult p as (scope_ScalewayMachine s)
     else scope_ScalewayMachine u = scope_ScalewayMachine s"
    using instance_Reconcile_state [OF run] by blast
  have "r = Ok no_requeue \<longleftrightarrow> q = Ok ()" using t(2) by (cases q) simp_all
  with es(3) t(3) have "if r = Ok no_requeue then \<exists>p as. scope_ScalewayMachine t = SetMachineReady (SetMachineResult p as (scope_ScalewayMachine s))
     else scope_ScalewayMachine t = scope_ScalewayMachine s" by (simp split: if_splits) metis
  with es(1,2) t(1) True show ?thesis by auto
next
  case False
  with machine_work_run [OF assms] show ?thesis by simp
qed

text \<open>Deleting: what the instance service does when it succeeds.\<close>

lemma instance_Delete_Ok:
  assumes "instance_Delete c sdk s = (Ok (), t)"
  shows "(\<exists>u. lookupServer c s = (Ok None, u) \<and> trace t = trace s)
    \<or> (\<exists>server u lb. lookupServer c s = (Ok (Some server), u) \<and> set lb \<subseteq> leave_calls \<and> trace t = trace s @ lb @ destroy_plan server)"
proof -
  obtain found u where look: "lookupServer c s = (Ok found, u)"
    and rest: "(case found of None \<Rightarrow> ret () | Some server \<Rightarrow>
       bind (optional (ensureLoadBalancerACL c sdk None)) (\<lambda>_. bind (leaveLoadBalancer c server)
       (\<lambda>_. destroyServer c server))) u = (Ok (), t)"
    using assms unfolding instance_Delete_def bind_Ok by blast
  have read: "trace u = trace s" by (rule reads_only_trace [OF machine_server.lookup_reads look])
  show ?thesis
  proof (cases found)
    case None
    with look rest read show ?thesis by (simp add: pure_Ok)
  next
    case (Some server)
    with rest have "bind (optional (ensureLoadBalancerACL c sdk None)) (\<lambda>_. bind (leaveLoadBalancer c server)
       (\<lambda>_. destroyServer c server)) u = (Ok (), t)" by simp
    from leave_then_destroy [OF this] obtain lb where "made u (lb @ destroy_plan server) t" "set lb \<subseteq> leave_calls" by auto
    with look Some read show ?thesis by (auto dest!: made_trace)
  qed
qed

lemma machine_delete_run:
  assumes "machine_reconcileDelete k c sdk s = (r, t)"
  obtains q u where "instance_Delete c sdk s = (q, u)" "trace t = trace u" "(r = Ok no_requeue) = (q = Ok ())"
    "case r of Ok res \<Rightarrow> res = no_requeue | _ \<Rightarrow> True"
    "scope_ScalewayMachine t = (if r = Ok no_requeue then SetMachineFinalizers (k_RemoveFinalizer k
       (meta_Finalizers (sm_Meta (scope_ScalewayMachine s))) MachineFinalizer) (scope_ScalewayMachine s)
       else scope_ScalewayMachine s)"
proof -
  obtain q u where run: "instance_Delete c sdk s = (q, u)" by fastforce
  moreover have "scope_ScalewayMachine u = scope_ScalewayMachine s"
    using only_callsD [OF instance_Delete_calls run] made_machine by metis
  moreover note assms
  ultimately show thesis
    by (intro that [OF run]; cases q)
      (auto simp: machine_reconcileDelete_def bind_def [of "instance_Delete c sdk"] bind_Ok_run [OF modify_machine_run] ret_def)
qed

text \<open>The session around both.\<close>

lemma machine_normal_effect:
  assumes "machine_reconcileNormal k c sdk engine helper s = (r, t)"
  shows "(\<exists>es. trace t = trace s @ es \<and> set es \<subseteq> range CallPatchMachine \<union> (if scope_InfrastructureReady s then machine_creates else {}))
    \<and> meta_Finalizers (sm_Meta (scope_ScalewayMachine t)) =
      fst (k_AddFinalizer k (meta_Finalizers (sm_Meta (scope_ScalewayMachine s))) MachineFinalizer)"
proof -
  obtain fs added where add: "k_AddFinalizer k (meta_Finalizers (sm_Meta (scope_ScalewayMachine s))) MachineFinalizer = (fs, added)"
    by fastforce
  note a = addMachineFinalizer_run [OF _ add]
  from assms [unfolded machine_normal_split] show ?thesis
  proof (cases rule: bind_run)
    case (Ok x u)
    from a [OF Ok(1)] machine_work_effect [OF Ok(2)] add show ?thesis by (auto split: if_splits)
  qed (use a add in auto)
qed

lemma machine_scope_session:
  assumes "in_machine_scope sc cluster m machine (deferred (machine_Close helper)
      (if meta_DeletionTimestamp (sm_Meta m) then machine_reconcileDelete k c sdk
       else machine_reconcileNormal k c sdk engine helper)) s = (r, t)"
  shows "\<exists>work final. trace t = trace s @ work @ [CallPatchMachine final]
    \<and> (if meta_DeletionTimestamp (sm_Meta m)
       then set work \<subseteq> machine_deletes \<and>
         final \<in> {m, SetMachineFinalizers (k_RemoveFinalizer k (meta_Finalizers (sm_Meta m)) MachineFinalizer) m}
       else set work \<subseteq> range CallPatchMachine \<union> (if cc_InfrastructureReady cluster then machine_creates else {}) \<and>
         meta_Finalizers (sm_Meta final) = fst (k_AddFinalizer k (meta_Finalizers (sm_Meta m)) MachineFinalizer))"
proof -
  let ?s = "\<lparr>world = world s, trace = trace s, scope_ScalewayCluster = sc,
    scope_InfrastructureReady = cc_InfrastructureReady cluster, scope_ScalewayMachine = m, scope_Machine = machine\<rparr>"
  let ?p = "if meta_DeletionTimestamp (sm_Meta m) then machine_reconcileDelete k c sdk else machine_reconcileNormal k c sdk engine helper"
  obtain u where "deferred (machine_Close helper) ?p ?s = (r, u)" "trace t = trace u"
    using assms by (auto simp: in_machine_scope_def split: prod.splits)
  then obtain q v where run: "?p ?s = (q, v)" and last: "trace t = trace v @ [CallPatchMachine (scope_ScalewayMachine v)]"
    using machine_closer.deferred_closes by (fastforce dest: made_trace)
  show ?thesis
  proof (cases "meta_DeletionTimestamp (sm_Meta m)")
    case True
    with run have "machine_reconcileDelete k c sdk ?s = (q, v)" by simp
    then obtain q' x where del: "instance_Delete c sdk ?s = (q', x)" "trace v = trace x"
      "scope_ScalewayMachine v = (if q = Ok no_requeue then SetMachineFinalizers (k_RemoveFinalizer k
         (meta_Finalizers (sm_Meta m)) MachineFinalizer) m else m)"
      by (rule machine_delete_run) simp
    obtain work where "trace v = trace s @ work" "set work \<subseteq> machine_deletes"
      using only_callsD [OF instance_Delete_calls del(1)] del(2) by (auto dest!: made_trace)
    with del(3) last True show ?thesis
      by (intro exI [where x = work] exI [where x = "scope_ScalewayMachine v"]) simp
  next
    case False
    with run have normal: "machine_reconcileNormal k c sdk engine helper ?s = (q, v)" by simp
    obtain work where "trace v = trace s @ work"
      "set work \<subseteq> range CallPatchMachine \<union> (if cc_InfrastructureReady cluster then machine_creates else {})"
      using machine_normal_effect [OF normal] by auto
    with machine_normal_effect [OF normal] last False show ?thesis
      by (intro exI [where x = work] exI [where x = "scope_ScalewayMachine v"]) simp
  qed
qed

lemma machine_session_calls:
  assumes "machine_session k sdk engine sc cluster m machine s = (r, t)"
  shows "\<exists>update. length update \<le> 1 \<and> set update \<subseteq> {CallUpdateSecret ns n |ns n. True} \<and>
    (trace t = trace s @ update \<or>
     (\<exists>work final. trace t = trace s @ update @ work @ [CallPatchMachine final]
      \<and> (if meta_DeletionTimestamp (sm_Meta m)
         then set work \<subseteq> machine_deletes \<and>
           final \<in> {m, SetMachineFinalizers (k_RemoveFinalizer k (meta_Finalizers (sm_Meta m)) MachineFinalizer) m}
         else set work \<subseteq> range CallPatchMachine \<union> (if cc_InfrastructureReady cluster then machine_creates else {}) \<and>
           meta_Finalizers (sm_Meta final) = fst (k_AddFinalizer k (meta_Finalizers (sm_Meta m)) MachineFinalizer))))"
proof -
  have quiet: "trace v = trace u" if "NewMachine k sc m u = (q, v)" for q :: "'a machine_helper outcome" and u v :: "'a env"
    using that reads_only_trace [of "NewMachine k sc m" u q v] unfolding NewMachine_def NewCluster_def by (simp add: read_intros)
  from assms [unfolded machine_session_def] show ?thesis
  proof (cases rule: bind_run)
    case (Ok client u)
    obtain update where update: "trace u = trace s @ update" "length update \<le> 1"
      "set update \<subseteq> {CallUpdateSecret ns n |ns n. True}"
      using clientFromSecret_once [OF Ok(1)] by blast
    from Ok(2) show ?thesis
    proof (cases rule: bind_run)
      case (Ok c v)
      then have v: "v = u" by (simp add: pure_Ok)
      from Ok(2) show ?thesis
      proof (cases rule: bind_run)
        case (Ok helper x)
        then show ?thesis
          using machine_scope_session [OF Ok(2)] quiet [OF Ok(1)] v update by fastforce
      qed (use update v quiet in auto)
    qed (use update in \<open>auto simp: lift_outcome_def\<close>)
  qed (use clientFromSecret_once in blast)+
qed

text \<open>What has to hold before a machine is touched.\<close>

definition machine_gate ::
  "'w k8s_API \<Rightarrow> string \<Rightarrow> string \<Rightarrow> 'w \<Rightarrow> ScalewayMachine \<Rightarrow> CapiMachine \<Rightarrow> CapiCluster \<Rightarrow> ScalewayCluster \<Rightarrow> 'w \<Rightarrow> bool" where
  "machine_gate k namespace name w m machine cluster sc w' \<longleftrightarrow> (\<exists>w1 w2 w3 n.
     k_GetScalewayMachine k namespace name w = (Inr m, w1) \<and> k_GetOwnerMachine k (sm_Meta m) w1 = (Inr (Some machine), w2)
     \<and> k_GetClusterFromMetadata k machine w2 = (Inr cluster, w3) \<and> \<not> k_IsPausedMachine k cluster m
     \<and> cc_InfrastructureRef cluster = Some n \<and> k_GetScalewayCluster k (cc_Namespace cluster) n w3 = (Inr sc, w'))"

definition machine_lookup ::
  "'w k8s_API \<Rightarrow> string \<Rightarrow> string
     \<Rightarrow> ('w env, ctrl_Result + ScalewayMachine \<times> CapiMachine \<times> CapiCluster \<times> ScalewayCluster) go" where
  "machine_lookup k namespace name =
     bind (attempt (sdk_read (k_GetScalewayMachine k namespace name))) (\<lambda>r.
     case r of
       Inl err \<Rightarrow> if err = ApiErr ApiNotFound then ret (Inl no_requeue) else throw err
     | Inr scalewayMachine \<Rightarrow>
         bind (sdk_read (k_GetOwnerMachine k (sm_Meta scalewayMachine))) (\<lambda>owner.
         case owner of
           None \<Rightarrow> ret (Inl no_requeue)
         | Some machine \<Rightarrow>
             bind (attempt (sdk_read (k_GetClusterFromMetadata k machine))) (\<lambda>found.
             case found of
               Inl _ \<Rightarrow> ret (Inl no_requeue)
             | Inr cluster \<Rightarrow>
                 if k_IsPausedMachine k cluster scalewayMachine then ret (Inl no_requeue)
                 else
                   bind (deref (cc_InfrastructureRef cluster)) (\<lambda>scalewayClusterName.
                   bind (sdk_read (k_GetScalewayCluster k (cc_Namespace cluster) scalewayClusterName)) (\<lambda>scalewayCluster.
                   ret (Inr (scalewayMachine, machine, cluster, scalewayCluster)))))))"

lemma machine_Reconcile_split:
  "machine_Reconcile k sdk engine namespace name =
     then_session (machine_lookup k namespace name)
       (\<lambda>(m, machine, cluster, sc). machine_session k sdk engine sc cluster m machine)"
  unfolding machine_Reconcile_def machine_lookup_def then_session_simps prod.case ..

lemma reads_machine_lookup: "reads_only (machine_lookup k namespace name)"
  unfolding machine_lookup_def by (intro read_intros)

lemma machine_lookup_found:
  assumes "machine_lookup k namespace name s = (Ok (Inr (m, machine, cluster, sc)), u)"
  shows "\<exists>w. machine_gate k namespace name (world s) m machine cluster sc w \<and> u = s\<lparr>world := w\<rparr>"
proof (cases "k_GetScalewayMachine k namespace name (world s)")
  case (Pair a1 w1)
  obtain a2 w2 where 2: "k_GetOwnerMachine k (sm_Meta (projr a1)) w1 = (a2, w2)" by fastforce
  obtain a3 w3 where 3: "k_GetClusterFromMetadata k (the (projr a2)) w2 = (a3, w3)" by fastforce
  obtain a4 w4 where 4: "k_GetScalewayCluster k (cc_Namespace (projr a3)) (the (cc_InfrastructureRef (projr a3))) w3 = (a4, w4)"
    by fastforce
  from assms Pair 2 3 4 show ?thesis
    by (cases a1; cases a2; cases a3; cases a4; cases "cc_InfrastructureRef (projr a3)")
      (auto simp: machine_lookup_def machine_gate_def bind_read_run pure_Ok split: option.splits if_splits)
qed

section \<open>Properties\<close>

text \<open>
  No server without the finalizer. If the machine does not carry the finalizer yet, the
  first call of reconcileNormal writes the object with the finalizer; the calls for the instance
  follow, and none if that write fails. If it carries it already, only those are made. The object
  carries the finalizer at the end, however the reconciliation ends.
\<close>

theorem machine_finalizer_first:
  assumes contract: "finalizer_contract k"
    and run: "machine_reconcileNormal k c sdk engine helper s = (r, t)"
  shows "MachineFinalizer \<in> set (meta_Finalizers (sm_Meta (scope_ScalewayMachine t)))
    \<and> (\<exists>es. set es \<subseteq> machine_creates
       \<and> (if MachineFinalizer \<in> set (meta_Finalizers (sm_Meta (scope_ScalewayMachine s))) then trace t = trace s @ es
          else \<exists>m. MachineFinalizer \<in> set (meta_Finalizers (sm_Meta m))
            \<and> trace t = trace s @ CallPatchMachine m # es
            \<and> (case fst (helper m (world s)) of Inl err \<Rightarrow> r = Err (ApiErr err) \<and> es = [] | Inr _ \<Rightarrow> True)))"
proof -
  let ?m = "scope_ScalewayMachine s"
  obtain fs added where add: "k_AddFinalizer k (meta_Finalizers (sm_Meta ?m)) MachineFinalizer = (fs, added)"
    by fastforce
  have fs: "MachineFinalizer \<in> set fs" "added = (MachineFinalizer \<notin> set (meta_Finalizers (sm_Meta ?m)))"
    using contract add unfolding finalizer_contract_def by (metis fst_conv insertI1, metis snd_conv)
  note a = addMachineFinalizer_run [OF _ add]
  show ?thesis
    using run unfolding machine_normal_split
  proof (cases rule: bind_run)
    case (Ok x u)
    obtain es where es: "trace t = trace u @ es" "set es \<subseteq> machine_creates"
      and "if r = Ok no_requeue then \<exists>p as. scope_ScalewayMachine t = SetMachineReady (SetMachineResult p as (scope_ScalewayMachine u))
        else scope_ScalewayMachine t = scope_ScalewayMachine u"
      using machine_work_effect [OF Ok(2)] by (auto split: if_splits)
    then have "sm_Meta (scope_ScalewayMachine t) = sm_Meta (scope_ScalewayMachine u)" by (auto split: if_splits)
    with es show ?thesis
      using a [OF Ok(1)] fs by (auto intro!: exI [where x = es] split: sum.split)
  next
    case (Err e)
    show ?thesis
      using a [OF Err(1)] Err(2) fs by (auto intro!: exI [where x = "[]"] split: sum.split if_splits)
  next
    case Panic
    show ?thesis using a [OF Panic(1)] by (auto simp: api_result_def split: if_splits sum.splits)
  qed
qed

definition ex_machine_normal :: "ctrl_Result outcome \<times> unit MachineScope" where
  "ex_machine_normal = machine_reconcileNormal down_k8s down_client ex_sdk ex_engine (\<lambda>_ w. (Inr (), w)) (ex_machine_scope ex_machine ())"

theorem machine_finalizer_first_witness:
  "\<exists>m es. trace (snd ex_machine_normal) = CallPatchMachine m # es \<and> MachineFinalizer \<in> set (meta_Finalizers (sm_Meta m))"
proof -
  have run: "machine_reconcileNormal down_k8s down_client ex_sdk ex_engine (\<lambda>_ w. (Inr (), w)) (ex_machine_scope ex_machine ())
      = (fst ex_machine_normal, snd ex_machine_normal)"
    by (simp add: ex_machine_normal_def)
  have "MachineFinalizer \<notin> set (meta_Finalizers (sm_Meta (scope_ScalewayMachine (ex_machine_scope ex_machine ()))))"
    "trace (ex_machine_scope ex_machine ()) = []"
    by (simp_all add: ex_kubernetes)
  with machine_finalizer_first [OF finalizer_contract_down run] show ?thesis by auto
qed

text \<open>
  C18: what reconcileNormal of a machine concludes. After the finalizer is in place, nothing
  happens to the cloud until the infrastructure of the cluster is ready. Then the result is the
  one of the instance service: the machine becomes ready exactly if that succeeded; a private IP
  or bootstrap data that is not there yet (however wrapped) makes it try again after two seconds; every other error
  is returned as it is. A machine that is not ready afterwards is as it was but for the finalizers.
\<close>

theorem machine_reconcileNormal_spec:
  "case addMachineFinalizer k helper s of
     (Ok _, u) \<Rightarrow> (case machine_reconcileNormal k c sdk engine helper s of (r, t) \<Rightarrow>
       if \<not> scope_InfrastructureReady s then r = Ok requeue_soon \<and> t = u
       else (case fst (instance_Reconcile c sdk k engine u) of
           Ok _ \<Rightarrow> r = Ok no_requeue \<and> (\<exists>p as. scope_ScalewayMachine t = SetMachineReady (SetMachineResult p as (scope_ScalewayMachine u)))
         | Err e \<Rightarrow> scope_ScalewayMachine t = scope_ScalewayMachine u \<and>
             r = (if errors_unwrap_all e = ErrPrivateIPNotFound \<or> errors_unwrap_all e = ErrBootstrapDataNotReady
                  then Ok requeue_soon else Err e)
         | Panic \<Rightarrow> r = Panic \<and> scope_ScalewayMachine t = scope_ScalewayMachine u))
   | (Err e, u) \<Rightarrow> machine_reconcileNormal k c sdk engine helper s = (Err e, u)
   | (Panic, u) \<Rightarrow> False"
proof (cases "addMachineFinalizer k helper s")
  case (Pair q u)
  obtain fs added where add: "k_AddFinalizer k (meta_Finalizers (sm_Meta (scope_ScalewayMachine s))) MachineFinalizer = (fs, added)"
    by fastforce
  note a = addMachineFinalizer_run [OF Pair add]
  show ?thesis
  proof (cases q)
    case (Ok x)
    obtain r t where work: "machine_work k c sdk engine u = (r, t)" by fastforce
    with Pair Ok have run: "machine_reconcileNormal k c sdk engine helper s = (r, t)"
      by (simp add: machine_normal_split bind_def)
    obtain q' v where inst: "instance_Reconcile c sdk k engine u = (q', v)" by fastforce
    show ?thesis
      using machine_work_run [OF work] machine_work_effect [OF work] a inst unfolding Pair Ok run prod.case outcome.case
      by (cases q') (auto simp: retry_error_def split: if_splits)
  next
    case (Err e)
    with Pair show ?thesis by (simp add: machine_normal_split bind_def)
  next
    case Panic
    with a show ?thesis by (auto simp: api_result_def split: if_splits sum.splits)
  qed
qed

text \<open>
  C12: what reconcileDelete of a machine does. It only makes calls that take the instance apart;
  the finalizer is given up exactly if that succeeded, and otherwise the machine object is
  unchanged. If it is given up, there was no server of the machine's name, or the whole
  destruction plan of that server was carried out.
\<close>

theorem machine_reconcileDelete_spec:
  "case machine_reconcileDelete k c sdk s of (r, t) \<Rightarrow>
     let m = scope_ScalewayMachine s in
     \<exists>es. trace t = trace s @ es \<and> set es \<subseteq> machine_deletes
     \<and> scope_ScalewayMachine t = (if r = Ok no_requeue
         then SetMachineFinalizers (k_RemoveFinalizer k (meta_Finalizers (sm_Meta m)) MachineFinalizer) m else m)
     \<and> (case r of
          Ok res \<Rightarrow> res = no_requeue \<and>
            ((\<exists>u. lookupServer c s = (Ok None, u) \<and> es = [])
             \<or> (\<exists>server u lb. lookupServer c s = (Ok (Some server), u) \<and> set lb \<subseteq> leave_calls \<and> es = lb @ destroy_plan server))
        | _ \<Rightarrow> True)"
proof (cases "machine_reconcileDelete k c sdk s")
  case (Pair r t)
  then obtain q u where del: "instance_Delete c sdk s = (q, u)" "trace t = trace u" "(r = Ok no_requeue) = (q = Ok ())"
    "case r of Ok res \<Rightarrow> res = no_requeue | _ \<Rightarrow> True"
    "scope_ScalewayMachine t = (if r = Ok no_requeue then SetMachineFinalizers (k_RemoveFinalizer k
       (meta_Finalizers (sm_Meta (scope_ScalewayMachine s))) MachineFinalizer) (scope_ScalewayMachine s)
       else scope_ScalewayMachine s)"
    by (rule machine_delete_run)
  obtain es where es: "trace t = trace s @ es" "set es \<subseteq> machine_deletes"
    using only_callsD [OF instance_Delete_calls del(1)] del(2) by (auto dest!: made_trace)
  have "case r of
          Ok res \<Rightarrow> res = no_requeue \<and>
            ((\<exists>u. lookupServer c s = (Ok None, u) \<and> es = [])
             \<or> (\<exists>server u lb. lookupServer c s = (Ok (Some server), u) \<and> set lb \<subseteq> leave_calls \<and> es = lb @ destroy_plan server))
        | _ \<Rightarrow> True"
  proof (cases r)
    case (Ok res)
    with del(3,4) have "q = Ok ()" "res = no_requeue" by simp_all
    with instance_Delete_Ok [of c sdk s u] del(1,2) es(1) Ok show ?thesis by auto
  qed simp_all
  with es del(5) show ?thesis unfolding Pair Let_def prod.case by blast
qed

text \<open>
  C14: what a reconciliation of a machine can do. Either it makes no call; or the machine object,
  its owner, the cluster that owner belongs to and the cluster's infrastructure object were all
  read, and neither is paused. Then at most one call updates the secret of the credentials, and
  either nothing else happens or the last call writes the machine object back, however the work
  in between ended. That work only takes the instance apart if the object is being deleted, and
  the object written back is as read or without the finalizer; otherwise it works on the instance
  only if the infrastructure is ready, and the object carries the finalizers with the provider's added.
\<close>

theorem machine_Reconcile_session:
  "case machine_Reconcile k sdk engine namespace name s of (r, t) \<Rightarrow>
     trace t = trace s \<or>
     (\<exists>m machine cluster sc w. machine_gate k namespace name (world s) m machine cluster sc w
        \<and> (\<exists>update. length update \<le> 1 \<and> set update \<subseteq> {CallUpdateSecret ns n |ns n. True} \<and>
             (trace t = trace s @ update \<or>
              (\<exists>work final. trace t = trace s @ update @ work @ [CallPatchMachine final]
               \<and> (if meta_DeletionTimestamp (sm_Meta m)
                  then set work \<subseteq> machine_deletes \<and>
                    final \<in> {m, SetMachineFinalizers (k_RemoveFinalizer k (meta_Finalizers (sm_Meta m)) MachineFinalizer) m}
                  else set work \<subseteq> range CallPatchMachine \<union> (if cc_InfrastructureReady cluster then machine_creates else {})
                    \<and> meta_Finalizers (sm_Meta final) =
                      fst (k_AddFinalizer k (meta_Finalizers (sm_Meta m)) MachineFinalizer))))))"
proof (cases "machine_Reconcile k sdk engine namespace name s")
  case (Pair r t)
  from Pair [unfolded machine_Reconcile_split] show ?thesis
  proof (cases rule: then_session_run)
    case (Stopped q)
    show ?thesis unfolding Pair prod.case by (rule disjI1 [OF reads_only_trace [OF reads_machine_lookup Stopped]])
  next
    case (Session y u)
    obtain m machine cluster sc where y: "y = (m, machine, cluster, sc)" by (cases y) blast
    obtain w where gate: "machine_gate k namespace name (world s) m machine cluster sc w" and u: "u = s\<lparr>world := w\<rparr>"
      using machine_lookup_found [OF Session(1) [unfolded y]] by blast
    from Session(2) y have "machine_session k sdk engine sc cluster m machine u = (r, t)" by simp
    from machine_session_calls [OF this] gate u show ?thesis
      unfolding Pair prod.case
      by (intro disjI2 exI [where x = m] exI [where x = machine] exI [where x = cluster] exI [where x = sc] exI [where x = w]) simp
  qed
qed

end
