(* ===== verification/Stored_State.thy ===== *)
theory Stored_State
  imports Machine_Controller
begin

text \<open>
  What running code can do to the world. A relation \<open>R\<close> between worlds that is reflexive and
  transitive, and that the API functions of the environment stay within, contains every run of the
  services: \<open>steps R m\<close>. The rules \<open>store_intros\<close> show it, once for all relations, in the interface
  \<open>world_relation\<close>. It is used for two of them: that a part of the world is left as it was, like the
  finalizers, which the API server keeps (\<open>stores\<close>), and that a measure of the world does not grow
  (\<open>lowers\<close>).
\<close>

named_theorems store_intros \<open>code that stays within a relation between worlds\<close>

definition act_steps :: "('w \<Rightarrow> 'w \<Rightarrow> bool) \<Rightarrow> ('w, 'a) act \<Rightarrow> bool" where
  "act_steps R f \<longleftrightarrow> (\<forall>w. R w (snd (f w)))"

definition steps :: "('w \<Rightarrow> 'w \<Rightarrow> bool) \<Rightarrow> (('w, 'z) env_scheme, 'a) go \<Rightarrow> bool" where
  "steps R m \<longleftrightarrow> (\<forall>s. R (world s) (world (snd (m s))))"

lemma stepsD: "steps R m \<Longrightarrow> m s = (r, t) \<Longrightarrow> R (world s) (world t)"
  by (auto simp: steps_def dest!: spec [of _ s])

lemma act_stepsD: "act_steps R f \<Longrightarrow> f w = (r, v) \<Longrightarrow> R w v"
  by (auto simp: act_steps_def dest!: spec [of _ w])

section \<open>Rules\<close>

locale world_relation =
  fixes R :: "'w \<Rightarrow> 'w \<Rightarrow> bool"
  assumes refl: "R w w"
    and trans: "R u v \<Longrightarrow> R v w \<Longrightarrow> R u w"
begin

lemma steps_sdk_read [store_intros]: "act_steps R f \<Longrightarrow> steps R (sdk_read f)"
  by (auto simp: steps_def sdk_read_def split: prod.splits dest: act_stepsD)

lemma steps_sdk_call [store_intros]: "act_steps R f \<Longrightarrow> steps R (sdk_call ev f)"
  by (auto simp: steps_def sdk_call_def split: prod.splits dest: act_stepsD)

lemma steps_keeps: "keeps world m \<Longrightarrow> steps R m"
  by (simp add: steps_def keeps_def refl)

lemma steps_pure [store_intros]:
  "steps R (ret x)" "steps R (throw e)" "steps R panic" "steps R (gets f)" "steps R (deref p)"
  "steps R (lift_sum r)" "steps R (lift_outcome q)" "steps R (lift_api a)"
  by (intro steps_keeps keep_intros)+

lemma steps_bind [store_intros]:
  assumes m: "steps R m" and f: "\<And>x. steps R (f x)"
  shows "steps R (bind m f)"
  unfolding steps_def
proof
  fix s
  obtain r t where run: "bind m f s = (r, t)" by fastforce
  then have "R (world s) (world t)"
    by (cases rule: bind_run) (use stepsD [OF m] stepsD [OF f] trans in blast)+
  with run show "R (world s) (world (snd (bind m f s)))" by simp
qed

lemma steps_wrap [store_intros]:
  "steps R m \<Longrightarrow> steps R (attempt m)" "steps R m \<Longrightarrow> steps R (wrapping msg m)" "steps R m \<Longrightarrow> steps R (optional m)"
  by (simp_all add: steps_def snd_attempt snd_wrapping snd_optional)

lemma steps_if [store_intros]: "steps R m \<Longrightarrow> steps R n \<Longrightarrow> steps R (if b then m else n)"
  by simp

lemma steps_case_option [store_intros]:
  "steps R m \<Longrightarrow> (\<And>y. steps R (n y)) \<Longrightarrow> steps R (case x of None \<Rightarrow> m | Some y \<Rightarrow> n y)"
  by (cases x) simp_all

lemma steps_case_sum [store_intros]:
  "(\<And>y. steps R (m y)) \<Longrightarrow> (\<And>y. steps R (n y)) \<Longrightarrow> steps R (case x of Inl y \<Rightarrow> m y | Inr y \<Rightarrow> n y)"
  by (cases x) simp_all

lemma steps_for_each [store_intros]: "(\<And>x. steps R (f x)) \<Longrightarrow> steps R (for_each f xs)"
  by (induction xs) (auto intro: store_intros)

lemma steps_keep_named [store_intros]: "(\<And>x. steps R (delete x)) \<Longrightarrow> steps R (keep_named wanted delete kept xs)"
  by (induction xs arbitrary: kept) (auto intro: store_intros)

lemma steps_getOrCreate [store_intros]: "steps R lookup \<Longrightarrow> steps R create \<Longrightarrow> steps R (getOrCreate lookup create)"
  unfolding getOrCreate_def by (intro store_intros)

lemma steps_items [store_intros]: "steps R (first_match P xs)" "steps R (only_item xs)"
  by (auto simp: first_match_def only_item_def split: option.split list.split intro: store_intros)

lemma steps_with_scope [store_intros]: "(\<And>sc m cm. steps R (f sc m cm)) \<Longrightarrow> steps R (with_scope f)"
  by (simp add: steps_def with_scope_def)

lemma steps_modify [store_intros]: "(\<And>s. world (f s) = world s) \<Longrightarrow> steps R (modify f)"
  by (simp add: steps_def modify_def refl)

lemma steps_modify_cluster [store_intros]: "steps R (modify_cluster f)"
  unfolding modify_cluster_def by (intro store_intros) simp

lemma steps_modify_machine [store_intros]: "steps R (modify_machine f)"
  unfolding modify_machine_def by (intro store_intros) simp

end

section \<open>The cloud\<close>

definition instance_steps :: "('w \<Rightarrow> 'w \<Rightarrow> bool) \<Rightarrow> 'w instance_API \<Rightarrow> bool" where
  "instance_steps R i \<longleftrightarrow>
     (\<forall>z n. act_steps R (instance_ListServers i z n)) \<and> (\<forall>z ts. act_steps R (instance_ListIPs i z ts))
   \<and> (\<forall>z n. act_steps R (instance_ListPrivateNICs i z n)) \<and> (\<forall>zs n ts. act_steps R (instance_ListSecurityGroups i zs n ts))
   \<and> (\<forall>z n. act_steps R (instance_ListSecurityGroupRules i z n)) \<and> (\<forall>z n. act_steps R (instance_GetAllServerUserData i z n))
   \<and> (\<forall>z ts. act_steps R (instance_CreateIP i z ts)) \<and> (\<forall>r. act_steps R (instance_CreateServer i r))
   \<and> (\<forall>z n p. act_steps R (instance_CreatePrivateNIC i z n p)) \<and> (\<forall>z n k d. act_steps R (instance_SetServerUserData i z n k d))
   \<and> (\<forall>z n a. act_steps R (instance_ServerAction i z n a)) \<and> (\<forall>z n. act_steps R (instance_DeleteIP i z n))
   \<and> (\<forall>z n. act_steps R (instance_DetachVolume i z n)) \<and> (\<forall>z n. act_steps R (instance_DeleteVolume i z n))
   \<and> (\<forall>z n. act_steps R (instance_DeleteServer i z n)) \<and> (\<forall>r. act_steps R (instance_CreateSecurityGroup i r))
   \<and> (\<forall>r. act_steps R (instance_UpdateSecurityGroup i r)) \<and> (\<forall>z n. act_steps R (instance_DeleteSecurityGroup i z n))
   \<and> (\<forall>r. act_steps R (instance_SetSecurityGroupRules i r))"

definition lb_steps :: "('w \<Rightarrow> 'w \<Rightarrow> bool) \<Rightarrow> 'w lb_API \<Rightarrow> bool" where
  "lb_steps R l \<longleftrightarrow>
     (\<forall>z n. act_steps R (lb_ListLBs l z n)) \<and> (\<forall>z n o'. act_steps R (lb_ListBackends l z n o'))
   \<and> (\<forall>z n o'. act_steps R (lb_ListFrontends l z n o')) \<and> (\<forall>z n p. act_steps R (lb_ListIPs l z n p))
   \<and> (\<forall>z n p. act_steps R (lb_ListACLs l z n p)) \<and> (\<forall>z n. act_steps R (lb_ListLBPrivateNetworks l z n))
   \<and> (\<forall>z n t i. act_steps R (lb_CreateLB l z n t i)) \<and> (\<forall>z n p. act_steps R (lb_AttachPrivateNetwork l z n p))
   \<and> (\<forall>r. act_steps R (lb_CreateBackend l r)) \<and> (\<forall>z n. act_steps R (lb_DeleteBackend l z n))
   \<and> (\<forall>r. act_steps R (lb_CreateFrontend l r)) \<and> (\<forall>z n. act_steps R (lb_DeleteFrontend l z n))
   \<and> (\<forall>z n r. act_steps R (lb_CreateACL l z n r)) \<and> (\<forall>z n r. act_steps R (lb_UpdateACL l z n r))
   \<and> (\<forall>z n. act_steps R (lb_DeleteACL l z n)) \<and> (\<forall>z n b. act_steps R (lb_DeleteLB l z n b))
   \<and> (\<forall>z n ips. act_steps R (lb_AddBackendServers l z n ips)) \<and> (\<forall>z n ips. act_steps R (lb_RemoveBackendServers l z n ips))"

definition vpc_steps :: "('w \<Rightarrow> 'w \<Rightarrow> bool) \<Rightarrow> 'w vpc_API \<Rightarrow> bool" where
  "vpc_steps R v \<longleftrightarrow> (\<forall>r n p. act_steps R (vpc_ListPrivateNetworks v r n p))
   \<and> (\<forall>r n ns. act_steps R (vpc_CreatePrivateNetwork v r n ns)) \<and> (\<forall>r i. act_steps R (vpc_DeletePrivateNetwork v r i))"

definition vpcgw_steps :: "('w \<Rightarrow> 'w \<Rightarrow> bool) \<Rightarrow> 'w vpcgw_API \<Rightarrow> bool" where
  "vpcgw_steps R v \<longleftrightarrow> (\<forall>r. act_steps R (vpcgw_ListGateways v r)) \<and> (\<forall>z a ts p. act_steps R (vpcgw_ListIPs v z a ts p))
   \<and> (\<forall>z i p. act_steps R (vpcgw_ListGatewayNetworks v z i p)) \<and> (\<forall>z ts. act_steps R (vpcgw_CreateIP v z ts))
   \<and> (\<forall>z n i t. act_steps R (vpcgw_CreateGateway v z n i t)) \<and> (\<forall>r. act_steps R (vpcgw_CreateGatewayNetwork v r))
   \<and> (\<forall>z i. act_steps R (vpcgw_DeleteGateway v z i)) \<and> (\<forall>z i. act_steps R (vpcgw_DeleteIP v z i))"

text \<open>Every call to the cloud stays within \<open>R\<close>.\<close>

definition client_steps :: "('w \<Rightarrow> 'w \<Rightarrow> bool) \<Rightarrow> 'w Client \<Rightarrow> bool" where
  "client_steps R c \<longleftrightarrow> instance_steps R (cl_Instance c) \<and> lb_steps R (cl_LoadBalancer c) \<and> vpc_steps R (cl_VPC c)
   \<and> vpcgw_steps R (cl_VPCGW c) \<and> vpcgw_steps R (cl_PublicGateway c)
   \<and> (\<forall>t z l. act_steps R (marketplace_GetLocalImageByLabel (cl_Marketplace c) t z l))
   \<and> (\<forall>r p n b. act_steps R (ipam_ListIPs (cl_IPAM c) r p n b))"

lemma instance_acts:
  assumes "client_steps R c"
  shows "act_steps R (instance_ListServers (cl_Instance c) z n)" "act_steps R (instance_ListIPs (cl_Instance c) z ts)"
    "act_steps R (instance_ListPrivateNICs (cl_Instance c) z n)" "act_steps R (instance_ListSecurityGroups (cl_Instance c) zs o' ts)"
    "act_steps R (instance_ListSecurityGroupRules (cl_Instance c) z n)" "act_steps R (instance_GetAllServerUserData (cl_Instance c) z n)"
    "act_steps R (instance_CreateIP (cl_Instance c) z ts)" "act_steps R (instance_CreateServer (cl_Instance c) r)"
    "act_steps R (instance_CreatePrivateNIC (cl_Instance c) z n p)" "act_steps R (instance_SetServerUserData (cl_Instance c) z n k d)"
    "act_steps R (instance_ServerAction (cl_Instance c) z n a)" "act_steps R (instance_DeleteIP (cl_Instance c) z n)"
    "act_steps R (instance_DetachVolume (cl_Instance c) z n)" "act_steps R (instance_DeleteVolume (cl_Instance c) z n)"
    "act_steps R (instance_DeleteServer (cl_Instance c) z n)" "act_steps R (instance_CreateSecurityGroup (cl_Instance c) r')"
    "act_steps R (instance_UpdateSecurityGroup (cl_Instance c) r'')" "act_steps R (instance_DeleteSecurityGroup (cl_Instance c) z n)"
    "act_steps R (instance_SetSecurityGroupRules (cl_Instance c) rs)"
  using assms by (simp_all add: client_steps_def instance_steps_def)

lemma lb_acts:
  assumes "client_steps R c"
  shows "act_steps R (lb_ListLBs (cl_LoadBalancer c) z n)" "act_steps R (lb_ListBackends (cl_LoadBalancer c) z n o')"
    "act_steps R (lb_ListFrontends (cl_LoadBalancer c) z n o')" "act_steps R (lb_ListIPs (cl_LoadBalancer c) z n p)"
    "act_steps R (lb_ListACLs (cl_LoadBalancer c) z n p)" "act_steps R (lb_ListLBPrivateNetworks (cl_LoadBalancer c) z n)"
    "act_steps R (lb_CreateLB (cl_LoadBalancer c) z n p o')" "act_steps R (lb_AttachPrivateNetwork (cl_LoadBalancer c) z n p)"
    "act_steps R (lb_CreateBackend (cl_LoadBalancer c) r)" "act_steps R (lb_DeleteBackend (cl_LoadBalancer c) z n)"
    "act_steps R (lb_CreateFrontend (cl_LoadBalancer c) r')" "act_steps R (lb_DeleteFrontend (cl_LoadBalancer c) z n)"
    "act_steps R (lb_CreateACL (cl_LoadBalancer c) z n r'')" "act_steps R (lb_UpdateACL (cl_LoadBalancer c) z n r'')"
    "act_steps R (lb_DeleteACL (cl_LoadBalancer c) z n)" "act_steps R (lb_DeleteLB (cl_LoadBalancer c) z n b)"
    "act_steps R (lb_AddBackendServers (cl_LoadBalancer c) z n ips)" "act_steps R (lb_RemoveBackendServers (cl_LoadBalancer c) z n ips)"
  using assms by (simp_all add: client_steps_def lb_steps_def)

lemma network_acts:
  assumes "client_steps R c"
  shows "act_steps R (vpc_ListPrivateNetworks (cl_VPC c) r n p)" "act_steps R (vpc_CreatePrivateNetwork (cl_VPC c) r n ns)"
    "act_steps R (vpc_DeletePrivateNetwork (cl_VPC c) r n)" "act_steps R (vpcgw_ListGateways (cl_VPCGW c) q)"
    "act_steps R (vpcgw_ListGateways (cl_PublicGateway c) q)" "act_steps R (vpcgw_ListIPs (cl_VPCGW c) z a ts p)"
    "act_steps R (vpcgw_ListGatewayNetworks (cl_VPCGW c) z n p)" "act_steps R (vpcgw_CreateIP (cl_VPCGW c) z ts)"
    "act_steps R (vpcgw_CreateGateway (cl_VPCGW c) z n p t)" "act_steps R (vpcgw_CreateGatewayNetwork (cl_VPCGW c) q')"
    "act_steps R (vpcgw_DeleteGateway (cl_PublicGateway c) z n)" "act_steps R (vpcgw_DeleteIP (cl_PublicGateway c) z n)"
    "act_steps R (marketplace_GetLocalImageByLabel (cl_Marketplace c) t z n)" "act_steps R (ipam_ListIPs (cl_IPAM c) r p n b)"
  using assms by (simp_all add: client_steps_def vpc_steps_def vpcgw_steps_def)

lemmas client_acts = instance_acts lb_acts network_acts

section \<open>The services\<close>

context world_relation
begin

lemma steps_finders:
  assumes "client_steps R c"
  shows "steps R (FindInstanceByName c zone n)" "steps R (FindIPByTags c zone tags)" "steps R (FindPrivateNICByPNID c server n)"
    "steps R (FindSecurityGroupByName c zone n)" "steps R (FindIPv4ByInstancePrivateNICID c region n)"
    "steps R (FindLoadBalancerByName c zone n)" "steps R (FindLoadBalancerBackendByNames c zone n b)"
    "steps R (FindLoadBalancerFrontendByNames c zone n b)" "steps R (FindLoadBalancerIP c zone n)"
    "steps R (FindLoadBalancerACLByName c zone n b)" "steps R (FindPrivateNetworkByName c region n)"
    "steps R (FindGatewayByName c zone n)" "steps R (FindGatewayIP c zone n)" "steps R (FindGatewayIPByTags c zone tags)"
    "steps R (FindGatewaysByPrivateNetworkID c zones n)"
  unfolding FindInstanceByName_def FindIPByTags_def FindPrivateNICByPNID_def FindSecurityGroupByName_def
    FindIPv4ByInstancePrivateNICID_def FindLoadBalancerByName_def FindLoadBalancerBackendByNames_def
    FindLoadBalancerFrontendByNames_def FindLoadBalancerIP_def FindLoadBalancerACLByName_def FindPrivateNetworkByName_def
    FindGatewayByName_def FindGatewayIP_def FindGatewayIPByTags_def FindGatewaysByPrivateNetworkID_def
  by (intro store_intros client_acts assms)+

lemma steps_securitygroup:
  assumes "client_steps R c"
  shows "steps R (securitygroup_Reconcile c sdk)" "steps R (securitygroup_Delete c sdk)"
  unfolding securitygroup_Reconcile_def securitygroup_Delete_def ensureSecurityGroups_def ensureSG_def ensureRules_def
    deleteSG_def Let_def
  by (intro store_intros client_acts assms)+

lemma steps_vpc:
  assumes "client_steps R c"
  shows "steps R (vpc_Reconcile c)" "steps R (vpc_Delete c)"
  unfolding vpc_Reconcile_def vpc_Delete_def getOrCreatePN_def lookupPN_def createPN_def
  by (intro store_intros steps_finders client_acts assms, simp?)+

lemma steps_vpcgw:
  assumes "client_steps R c"
  shows "steps R (vpcgw_Reconcile c)" "steps R (vpcgw_Delete c)"
  unfolding vpcgw_Reconcile_def vpcgw_Delete_def getOrCreateGateway_def lookupGateway_def createGateway_def
    vpcgw_getOrCreateIP_def lookupGatewayIP_def createGatewayIP_def vpcgw_deleteGateway_def vpcgw_releaseIP_def Let_def
  by (intro store_intros steps_finders client_acts assms)+

lemma steps_ensureACLs:
  assumes "client_steps R c"
  shows "steps R (ensureACLs c sdk frontend pn)"
  unfolding ensureACLs_def ensureGatewayACL_def ensureACL_def Let_def
  by (intro store_intros steps_finders client_acts assms)+

lemma steps_loadbalancer:
  assumes "client_steps R c"
  shows "steps R (loadbalancer_Reconcile c sdk)" "steps R (loadbalancer_Delete c)"
  unfolding loadbalancer_Reconcile_def loadbalancer_Delete_def getOrCreateLB_def lookupLB_def createLB_def findLBIPID_def
    ensurePrivateNetwork_def ensureBackend_def ensureFrontend_def Let_def
  by (intro store_intros steps_finders steps_ensureACLs client_acts assms, simp?)+

lemma steps_prepareMachine:
  assumes "client_steps R c"
  shows "steps R (prepareMachine c sdk)"
  unfolding prepareMachine_def getOrCreateIP_def lookupIP_def createIP_def getOrCreateServer_def lookupServer_def createServer_def
    findImage_def findMachineSG_def getOrCreatePrivateNIC_def createPrivateNIC_def getMachineIPs_def findInternalIP_def
    ensureControlPlaneLoadBalancer_def ensureLoadBalancerACL_def ensureMachineACL_def Let_def
  by (intro store_intros steps_finders client_acts assms)

lemma steps_instance_Reconcile:
  assumes "client_steps R c" "\<And>ns n. act_steps R (k_GetSecret k ns n)"
  shows "steps R (instance_Reconcile c sdk k engine)"
  unfolding instance_Reconcile_def ensureCloudInit_def ensureServerStarted_def GetRawBootstrapData_def Let_def
  by (intro store_intros steps_prepareMachine client_acts assms) simp

lemma steps_instance_Delete:
  assumes "client_steps R c"
  shows "steps R (instance_Delete c sdk)"
  unfolding instance_Delete_def lookupServer_def leaveLoadBalancer_def getMachineIPs_def findInternalIP_def
    ensureControlPlaneLoadBalancer_def ensureLoadBalancerACL_def ensureMachineACL_def destroyServer_def deleteFlexibleIP_def
    deleteBootVolume_def detachVolume_def Let_def
  by (intro store_intros steps_finders client_acts assms)

end

section \<open>The two relations\<close>

text \<open>The part \<open>g\<close> of the world is the same; the measure \<open>p\<close> of the world has not grown.\<close>

definition same :: "('w \<Rightarrow> 'b) \<Rightarrow> 'w \<Rightarrow> 'w \<Rightarrow> bool" where
  "same g v w \<longleftrightarrow> g w = g v"

definition lowers :: "('w \<Rightarrow> nat) \<Rightarrow> 'w \<Rightarrow> 'w \<Rightarrow> bool" where
  "lowers p v w \<longleftrightarrow> p w \<le> p v"

interpretation kept: world_relation "same g" for g
  by unfold_locales (simp_all add: same_def)

interpretation lowered: world_relation "lowers p" for p
  by unfold_locales (simp_all add: lowers_def)

abbreviation act_keeps :: "('w \<Rightarrow> 'b) \<Rightarrow> ('w, 'a) act \<Rightarrow> bool" where
  "act_keeps g \<equiv> act_steps (same g)"

abbreviation stores :: "('w \<Rightarrow> 'b) \<Rightarrow> (('w, 'z) env_scheme, 'a) go \<Rightarrow> bool" where
  "stores g \<equiv> steps (same g)"

abbreviation client_keeps :: "('w \<Rightarrow> 'b) \<Rightarrow> 'w Client \<Rightarrow> bool" where
  "client_keeps g \<equiv> client_steps (same g)"

lemma act_keeps_iff: "act_keeps g f \<longleftrightarrow> (\<forall>w. g (snd (f w)) = g w)"
  by (simp add: act_steps_def same_def)

lemma act_keepsD: "act_keeps g f \<Longrightarrow> f w = (r, v) \<Longrightarrow> g v = g w"
  by (drule (1) act_stepsD) (simp add: same_def)

lemma storesD: "stores g m \<Longrightarrow> m s = (r, t) \<Longrightarrow> g (world t) = g (world s)"
  by (drule (1) stepsD) (simp add: same_def)

end
