(* ===== verification/Lifecycle.thy ===== *)
theory Lifecycle
  imports Stored_State
begin

text \<open>
  The life of an object under many reconciliations: the manager calls \<^verbatim>\<open>Reconcile\<close> again and
  again, and users and other controllers change the world in between. The promise of the
  finalizer is that the API server keeps the object as long as there may be resources in the
  cloud for it. The interface \<open>finalizer_protocol\<close> says what one reconciliation has to do for
  that; it is interpreted for both controllers.
\<close>

section \<open>Calls that allocate\<close>

fun allocates :: "call \<Rightarrow> bool" where
  "allocates (CallCreateIP z ts) = True"
| "allocates (CallCreateServer r) = True"
| "allocates (CallCreatePrivateNIC z i p) = True"
| "allocates (CallCreateSecurityGroup r) = True"
| "allocates (CallCreateLB z n t i) = True"
| "allocates (CallCreateBackend r) = True"
| "allocates (CallCreateFrontend r) = True"
| "allocates (CallCreateACL z i r) = True"
| "allocates (CallCreatePrivateNetwork r n s) = True"
| "allocates (CallCreateGatewayIP z ts) = True"
| "allocates (CallCreateGateway z n i t) = True"
| "allocates (CallCreateGatewayNetwork r) = True"
| "allocates _ = False"

definition idle :: "call list \<Rightarrow> bool" where
  "idle es \<longleftrightarrow> list_all (\<lambda>e. \<not> allocates e) es"

lemma idle_append [simp]: "idle (xs @ ys) \<longleftrightarrow> idle xs \<and> idle ys"
  by (simp add: idle_def)

lemma idle_simps [simp]: "idle []" "idle (e # es) \<longleftrightarrow> \<not> allocates e \<and> idle es"
  by (simp_all add: idle_def)

lemma idle_subset: "set es \<subseteq> C \<Longrightarrow> (\<And>e. e \<in> C \<Longrightarrow> \<not> allocates e) \<Longrightarrow> idle es"
  by (auto simp: idle_def list_all_iff)

lemma idle_calls:
  "set es \<subseteq> {CallUpdateSecret ns n |ns n. True} \<Longrightarrow> idle es"
  "set es \<subseteq> range CallPatchCluster \<Longrightarrow> idle es" "set es \<subseteq> range CallPatchMachine \<Longrightarrow> idle es"
  "set es \<subseteq> cluster_deletes \<Longrightarrow> idle es" "set es \<subseteq> machine_deletes \<Longrightarrow> idle es"
  by (erule idle_subset, auto simp: cluster_deletes_def loadbalancer_deletes_def vpcgw_deletes_def vpc_deletes_def
      securitygroup_deletes_def machine_deletes_def leave_calls_def)+

section \<open>The protocol\<close>

text \<open>
  One reconciliation that takes the trace from \<open>tr\<close> to \<open>tr'\<close>, and before and after which the
  finalizer is stored or not (\<open>g\<close>, \<open>g'\<close>): either it is stored afterwards; or it was not stored
  before and nothing was allocated; or the deletion was completed on the way, and nothing was
  allocated since.
\<close>

definition protocol :: "(call list \<Rightarrow> bool) \<Rightarrow> bool \<Rightarrow> bool \<Rightarrow> call list \<Rightarrow> call list \<Rightarrow> bool" where
  "protocol completed g g' tr tr' \<longleftrightarrow> (\<exists>new. tr' = tr @ new \<and>
     (g' \<or> \<not> g \<and> idle new \<or> (\<exists>pre post. new = pre @ post \<and> completed (tr @ pre) \<and> idle post)))"

text \<open>Nothing was allocated since the start or since a deletion was completed.\<close>

definition settled :: "(call list \<Rightarrow> bool) \<Rightarrow> call list \<Rightarrow> bool" where
  "settled completed tr \<longleftrightarrow> (\<exists>old new. tr = old @ new \<and> idle new \<and> (old = [] \<or> completed old))"

text \<open>
  Reachable states: at the start the provider has made no call; it reconciles; and others may do
  anything to the world except to remove the provider's finalizer.
\<close>

inductive lifecycle :: "('w env \<Rightarrow> 'w env \<Rightarrow> bool) \<Rightarrow> ('w \<Rightarrow> bool) \<Rightarrow> 'w env \<Rightarrow> bool"
  for step :: "'w env \<Rightarrow> 'w env \<Rightarrow> bool" and guarded :: "'w \<Rightarrow> bool" where
  start: "trace s = [] \<Longrightarrow> lifecycle step guarded s"
| reconcile: "lifecycle step guarded s \<Longrightarrow> step s t \<Longrightarrow> lifecycle step guarded t"
| others: "lifecycle step guarded s \<Longrightarrow> (guarded (world s) \<longrightarrow> guarded w) \<Longrightarrow> lifecycle step guarded (s\<lparr>world := w\<rparr>)"

lemma protocol_settled:
  assumes "protocol completed g g' tr tr'" and "g \<or> settled completed tr"
  shows "g' \<or> settled completed tr'"
proof (rule disjCI)
  assume "\<not> settled completed tr'"
  moreover obtain new where new: "tr' = tr @ new"
    "g' \<or> \<not> g \<and> idle new \<or> (\<exists>pre post. new = pre @ post \<and> completed (tr @ pre) \<and> idle post)"
    using assms(1) unfolding protocol_def by blast
  moreover have "settled completed tr'" if "\<not> g" "idle new"
  proof -
    obtain old mid where "tr = old @ mid" "idle mid" "old = [] \<or> completed old"
      using assms(2) \<open>\<not> g\<close> unfolding settled_def by blast
    with that new(1) show ?thesis unfolding settled_def by (intro exI [where x = old] exI [where x = "mid @ new"]) simp
  qed
  moreover have "settled completed tr'" if "new = pre @ post" "completed (tr @ pre)" "idle post" for pre post
    using that new(1) unfolding settled_def by (intro exI [where x = "tr @ pre"] exI [where x = post]) simp
  ultimately show g' by blast
qed

locale finalizer_protocol =
  fixes step :: "'w env \<Rightarrow> 'w env \<Rightarrow> bool"
    and guarded :: "'w \<Rightarrow> bool"
    and completed :: "call list \<Rightarrow> bool"
  assumes step_protocol: "step s t \<Longrightarrow> protocol completed (guarded (world s)) (guarded (world t)) (trace s) (trace t)"
begin

lemma unguarded_settled:
  "lifecycle step guarded s \<Longrightarrow> guarded (world s) \<or> settled completed (trace s)"
proof (induction rule: lifecycle.induct)
  case (start s)
  then show ?case by (auto simp: settled_def)
next
  case (reconcile s t)
  then show ?case using protocol_settled step_protocol by metis
qed auto

text \<open>While the finalizer is not stored, a run can only start to allocate by storing it.\<close>

lemma calls_only_grow: "step s t \<Longrightarrow> \<exists>new. trace t = trace s @ new"
  using step_protocol unfolding protocol_def by blast

end

section \<open>Sessions that follow the protocol\<close>

text \<open>
  What controller-runtime and cluster-api document of a patch helper: it sends the difference
  between the object as it was when the helper was made and the object it is given. If the
  finalizers differ they are replaced, otherwise they are left alone; a patch that fails may
  have changed them or not.
\<close>

definition patches :: "('w \<Rightarrow> string list) \<Rightarrow> string list \<Rightarrow> string list \<Rightarrow> ('w, unit) act \<Rightarrow> bool" where
  "patches stored before after f \<longleftrightarrow> (\<forall>w. case f w of (r, v) \<Rightarrow>
     stored v = (if after = before then stored w else after) \<or> (\<exists>e. r = Inl e) \<and> stored v = stored w)"

lemma patchesD:
  assumes "patches stored before after f" "f w = (r, v)"
  shows "stored v = stored w \<and> (r = Inr () \<longrightarrow> after = before) \<or> after \<noteq> before \<and> stored v = after"
  using assms(1) [unfolded patches_def, rule_format, of w] assms(2) by (auto split: if_splits)

lemma patch_run:
  assumes "patches stored before after f" "sdk_call ev f s = (r, t)"
  shows "trace t = trace s @ [ev]"
    "stored (world t) = stored (world s) \<and> (r = Ok () \<longrightarrow> after = before) \<or> after \<noteq> before \<and> stored (world t) = after"
proof -
  obtain q v where f: "f (world s) = (q, v)" by fastforce
  with assms(2) have t: "r = api_result q" "t = s\<lparr>world := v, trace := trace s @ [ev]\<rparr>" by (auto simp: sdk_call_def)
  then show "trace t = trace s @ [ev]" by simp
  have "r = Ok () \<Longrightarrow> q = Inr ()" using t(1) by (cases q) auto
  with patchesD [OF assms(1) f] t(2)
  show "stored (world t) = stored (world s) \<and> (r = Ok () \<longrightarrow> after = before) \<or> after \<noteq> before \<and> stored (world t) = after"
    by auto
qed

lemma protocol_quiet: "tr' = tr @ new \<Longrightarrow> idle new \<Longrightarrow> g' = g \<Longrightarrow> protocol completed g g' tr tr'"
  by (auto simp: protocol_def)

lemma protocol_after:
  assumes "protocol completed g g' (tr @ mid) tr'" "idle mid"
  shows "protocol completed g g' tr tr'"
proof -
  obtain new where new: "tr' = (tr @ mid) @ new"
    "g' \<or> \<not> g \<and> idle new \<or> (\<exists>pre post. new = pre @ post \<and> completed ((tr @ mid) @ pre) \<and> idle post)"
    using assms(1) unfolding protocol_def by blast
  then have "g' \<or> \<not> g \<and> idle (mid @ new) \<or> (\<exists>pre post. mid @ new = pre @ post \<and> completed (tr @ pre) \<and> idle post)"
    using assms(2) by (metis append_assoc idle_append)
  with new(1) show ?thesis unfolding protocol_def by (intro exI [where x = "mid @ new"]) simp
qed

text \<open>
  A session reads the finalizers \<open>before\<close>, works, and writes the object with the finalizers
  \<open>after\<close> back. \<open>closes\<close> is the last step.
\<close>

definition closes :: "('w \<Rightarrow> string list) \<Rightarrow> string list \<Rightarrow> string list \<Rightarrow> ('w, 'y) env_scheme \<Rightarrow> ('w, 'z) env_scheme \<Rightarrow> bool" where
  "closes stored before after v u \<longleftrightarrow> (\<exists>ev. \<not> allocates ev \<and> trace u = trace v @ [ev])
     \<and> (stored (world u) = stored (world v) \<or> after \<noteq> before \<and> stored (world u) = after)"

lemma protocol_deleting:
  assumes "trace v = trace s @ work" "idle work" "stored (world v) = stored (world s)"
    and "closes stored before after v u"
    and "completed (trace v) \<or> after = before"
  shows "protocol completed (f \<in> set (stored (world s))) (f \<in> set (stored (world u))) (trace s) (trace u)"
proof (cases "completed (trace v)")
  case True
  with assms(1,4) show ?thesis unfolding protocol_def closes_def by fastforce
next
  case False
  with assms(4,5) obtain ev where "\<not> allocates ev" "trace u = trace v @ [ev]" "stored (world u) = stored (world v)"
    unfolding closes_def by blast
  with assms(1-3) show ?thesis by (intro protocol_quiet [where new = "work @ [ev]"]) simp_all
qed

lemma protocol_creating:
  assumes "trace v = trace s @ work" "before = stored (world s)"
    and "closes stored before after v u" "f \<in> set after"
    and "f \<in> set (stored (world v)) \<or> f \<notin> set before \<and> idle work"
  shows "protocol completed (f \<in> set (stored (world s))) (f \<in> set (stored (world u))) (trace s) (trace u)"
proof (cases "f \<in> set (stored (world u))")
  case True
  with assms(1,3) show ?thesis unfolding protocol_def closes_def by fastforce
next
  case False
  with assms(3-5) obtain ev where "\<not> allocates ev" "trace u = trace v @ [ev]" "f \<notin> set before" "idle work"
    unfolding closes_def by metis
  with assms(1,2) show ?thesis unfolding protocol_def by (intro exI [where x = "work @ [ev]"]) simp
qed

section \<open>Clusters\<close>

text \<open>
  What the provider relies on for the object \<open>namespace/name\<close>, whose finalizers the API server
  has as \<open>stored\<close>: reading the object gives it as it is stored; its patch helper patches; the
  calls for other objects and those to the cloud leave its finalizers alone; and an object that
  could not be read has no owner.
\<close>

definition cloud_keeps :: "('w \<Rightarrow> 'b) \<Rightarrow> 'w k8s_API \<Rightarrow> bool" where
  "cloud_keeps stored k \<longleftrightarrow> (\<forall>opts client c. k_NewScwClient k opts = Inr client \<longrightarrow> NewClient client = Ok c \<longrightarrow> client_keeps stored c)
     \<and> (\<forall>ns n. act_keeps stored (k_GetSecret k ns n)) \<and> (\<forall>secret. act_keeps stored (k_UpdateSecret k secret))"

definition cluster_server :: "'w k8s_API \<Rightarrow> ScalewayCluster \<Rightarrow> string \<Rightarrow> string \<Rightarrow> ('w \<Rightarrow> string list) \<Rightarrow> bool" where
  "cluster_server k unread namespace name stored \<longleftrightarrow>
     act_keeps stored (k_GetScalewayCluster k namespace name)
   \<and> (\<forall>w sc v. k_GetScalewayCluster k namespace name w = (Inr sc, v) \<longrightarrow> meta_Finalizers (sc_Meta sc) = stored w
        \<and> meta_Name (sc_Meta sc) = name \<and> meta_Namespace (sc_Meta sc) = namespace)
   \<and> (\<forall>sc helper after. k_NewClusterHelper k sc = Inr helper \<longrightarrow> meta_Name (sc_Meta sc) = name \<longrightarrow>
        meta_Namespace (sc_Meta sc) = namespace \<longrightarrow>
        patches stored (meta_Finalizers (sc_Meta sc)) (meta_Finalizers (sc_Meta after)) (helper after))
   \<and> (\<forall>meta. act_keeps stored (k_GetOwnerCluster k meta))
   \<and> (\<forall>w. case fst (k_GetOwnerCluster k (sc_Meta unread) w) of Inr (Some _) \<Rightarrow> False | _ \<Rightarrow> True)
   \<and> cloud_keeps stored k \<and> finalizer_contract k"

lemma cloud_client: "cloud_keeps stored k \<Longrightarrow> k_NewScwClient k opts = Inr client \<Longrightarrow> NewClient client = Ok c \<Longrightarrow> client_keeps stored c"
  unfolding cloud_keeps_def by blast

lemma cluster_serverD:
  assumes "cluster_server k unread namespace name stored"
  shows "act_keeps stored (k_GetScalewayCluster k namespace name)" "act_keeps stored (k_GetOwnerCluster k meta)"
    "cloud_keeps stored k" "finalizer_contract k"
    "case fst (k_GetOwnerCluster k (sc_Meta unread) w) of Inr (Some _) \<Rightarrow> False | _ \<Rightarrow> True"
  using assms unfolding cluster_server_def by simp_all

lemma cluster_server_current:
  assumes "cluster_server k unread namespace name stored" "k_GetScalewayCluster k namespace name w = (Inr sc, v)"
  shows "meta_Finalizers (sc_Meta sc) = stored w \<and> meta_Name (sc_Meta sc) = name \<and> meta_Namespace (sc_Meta sc) = namespace"
  using assms(1) [unfolded cluster_server_def, THEN conjunct2, THEN conjunct1] assms(2) by blast

lemma cluster_server_patches:
  assumes "cluster_server k unread namespace name stored" "k_NewClusterHelper k sc = Inr helper"
    and "meta_Name (sc_Meta sc) = name" "meta_Namespace (sc_Meta sc) = namespace"
  shows "patches stored (meta_Finalizers (sc_Meta sc)) (meta_Finalizers (sc_Meta after)) (helper after)"
  using assms(1) [unfolded cluster_server_def, THEN conjunct2, THEN conjunct2, THEN conjunct1] assms(2-) by blast

lemma stores_clientFromSecret: "cloud_keeps g k \<Longrightarrow> stores g (clientFromSecret k sc)"
  unfolding clientFromSecret_def takeOwnership_def by (intro store_intros) (simp_all add: cloud_keeps_def)

lemma secret_update:
  assumes "cloud_keeps stored k" "clientFromSecret k sc s = (r, t)"
  shows "\<exists>update. idle update \<and> trace t = trace s @ update \<and> stored (world t) = stored (world s)"
  using clientFromSecret_once [OF assms(2)] storesD [OF stores_clientFromSecret [OF assms(1)] assms(2)]
  by (blast intro: idle_calls(1))

text \<open>A session either ends before the scope is made, or the work starts with what was read.\<close>

lemma session_opens:
  assumes cloud: "cloud_keeps stored k"
    and pure: "\<And>u q v. new u = (q, v) \<Longrightarrow> v = u"
    and run: "bind (clientFromSecret k sc) (\<lambda>client. bind (lift_outcome (NewClient client)) (\<lambda>c. bind new (body c))) s = (r, t)"
  obtains (Failed) update where "idle update" "trace t = trace s @ update" "stored (world t) = stored (world s)"
  | (Opened) update opts client c helper u where "k_NewScwClient k opts = Inr client" "NewClient client = Ok c"
      "new u = (Ok helper, u)" "body c helper u = (r, t)"
      "idle update" "trace u = trace s @ update" "stored (world u) = stored (world s)"
  using run
proof (cases rule: bind_run)
  case (Ok client u)
  then obtain opts where opts: "k_NewScwClient k opts = Inr client" by (auto simp: clientFromSecret_def ok_iffs)
  obtain update where update: "idle update" "trace u = trace s @ update" "stored (world u) = stored (world s)"
    using secret_update [OF cloud Ok(1)] by blast
  from Ok(2) show thesis
  proof (cases rule: bind_run)
    case (Ok c v)
    then have c: "NewClient client = Ok c" "v = u" by (simp_all add: pure_Ok)
    from Ok(2) show thesis
    proof (cases rule: bind_run)
      case (Ok helper x)
      with pure [OF Ok(1)] c update opts show thesis by (intro Opened [where u = u]) simp_all
    qed (use pure c update Failed in auto)
  qed (use update Failed in \<open>auto simp: lift_outcome_def\<close>)
qed (use secret_update [OF cloud] Failed in blast)+

lemma cluster_Close_closes:
  assumes "patches stored before (meta_Finalizers (sc_Meta (scope_ScalewayCluster v))) (helper (scope_ScalewayCluster v))"
    and "cluster_Close helper v = (r, u)"
  shows "closes stored before (meta_Finalizers (sc_Meta (scope_ScalewayCluster v))) v u"
  using patch_run [OF assms(1), of "CallPatchCluster (scope_ScalewayCluster v)" v r u] assms(2)
  by (auto simp: closes_def cluster_Close_def cluster_PatchObject_def bind_gets_run)

lemma stores_concluded:
  assumes "client_keeps g c"
  shows "stores g (bind (cluster_services c sdk) conclude_cluster)"
  unfolding cluster_services_def conclude_cluster_def
  by (intro store_intros kept.steps_securitygroup kept.steps_vpc kept.steps_vpcgw kept.steps_loadbalancer assms)

lemma stores_cluster_reconcileDelete:
  assumes "client_keeps g c"
  shows "stores g (cluster_reconcileDelete k c sdk)"
  unfolding cluster_reconcileDelete_def
  by (intro store_intros kept.steps_securitygroup kept.steps_vpc kept.steps_vpcgw kept.steps_loadbalancer assms)

lemma addClusterFinalizer_stored:
  assumes contract: "finalizer_contract k"
    and run: "addClusterFinalizer k helper s = (r, u)"
    and fins: "stored (world s) = meta_Finalizers (sc_Meta (scope_ScalewayCluster s))"
    and patch: "\<And>after. patches stored (stored (world s)) (meta_Finalizers (sc_Meta after)) (helper after)"
  shows "if r = Ok () then ClusterFinalizer \<in> set (stored (world u)) else ClusterFinalizer \<notin> set (stored (world s))"
proof -
  let ?sc = "scope_ScalewayCluster s"
  obtain fs added where add: "k_AddFinalizer k (stored (world s)) ClusterFinalizer = (fs, added)" by fastforce
  have fs: "ClusterFinalizer \<in> set fs" "added = (ClusterFinalizer \<notin> set (stored (world s)))"
    using contract add unfolding finalizer_contract_def by (metis fst_conv insertI1, metis snd_conv)
  show ?thesis
  proof (cases added)
    case True
    with run add fins have "sdk_call (CallPatchCluster (SetFinalizers fs ?sc)) (helper (SetFinalizers fs ?sc))
        (s\<lparr>scope_ScalewayCluster := SetFinalizers fs ?sc\<rparr>) = (r, u)"
      by (simp add: addClusterFinalizer_def bind_gets_run bind_Ok_run [OF modify_cluster_run] cluster_PatchObject_def)
    from patch_run(2) [OF patch this] True fs show ?thesis by auto
  next
    case False
    with run add fins fs show ?thesis
      by (auto simp: addClusterFinalizer_def bind_gets_run bind_Ok_run [OF modify_cluster_run] ret_def)
  qed
qed

lemma cluster_normal_guarded:
  assumes contract: "finalizer_contract k" and client: "client_keeps stored c"
    and run: "cluster_reconcileNormal k c sdk helper s = (r, t)"
    and fins: "stored (world s) = meta_Finalizers (sc_Meta (scope_ScalewayCluster s))"
    and patch: "\<And>after. patches stored (stored (world s)) (meta_Finalizers (sc_Meta after)) (helper after)"
  shows "\<exists>work. trace t = trace s @ work \<and>
    (ClusterFinalizer \<in> set (stored (world t)) \<or> ClusterFinalizer \<notin> set (stored (world s)) \<and> idle work)"
proof -
  have grows: "\<exists>work. trace t = trace s @ work" using emits_grows [OF reconcileNormal_emits run] by blast
  note a = addClusterFinalizer_stored [OF contract _ fins patch]
  have idle: "\<exists>work. trace u = trace s @ work \<and> idle work" if "addClusterFinalizer k helper s = (q, u)" for q u
    using emits_grows [OF addClusterFinalizer_emits that] by (auto intro: idle_calls)
  from run [unfolded reconcileNormal_split] show ?thesis
  proof (cases rule: bind_run)
    case (Ok x u)
    with a [OF Ok(1)] storesD [OF stores_concluded [OF client] Ok(2)] grows show ?thesis by simp
  next
    case (Err e)
    with a [OF Err(1)] idle [OF Err(1)] show ?thesis by auto
  next
    case Panic
    with a [OF Panic(1)] idle [OF Panic(1)] show ?thesis by auto
  qed
qed

text \<open>The trace \<open>tr\<close> ends with a run of reconcileDelete for the cluster that succeeded.\<close>

definition cluster_deleted :: "'w k8s_API \<Rightarrow> SDK \<Rightarrow> string \<Rightarrow> string \<Rightarrow> call list \<Rightarrow> bool" where
  "cluster_deleted k sdk namespace name tr \<longleftrightarrow> (\<exists>opts client c (u :: 'w ClusterScope) v.
     k_NewScwClient k opts = Inr client \<and> NewClient client = Ok c
   \<and> meta_Name (sc_Meta (scope_ScalewayCluster u)) = name \<and> meta_Namespace (sc_Meta (scope_ScalewayCluster u)) = namespace
   \<and> cluster_reconcileDelete k c sdk u = (Ok no_requeue, v) \<and> trace v = tr)"

lemma cluster_scope_protocol:
  assumes server: "cluster_server k unread namespace name stored"
    and client: "k_NewScwClient k opts = Inr client" "NewClient client = Ok c"
    and helper: "k_NewClusterHelper k sc = Inr helper"
    and read: "meta_Finalizers (sc_Meta sc) = stored (world s)" "meta_Name (sc_Meta sc) = name" "meta_Namespace (sc_Meta sc) = namespace"
    and run: "in_cluster_scope sc cluster (deferred (cluster_Close helper)
      (if meta_DeletionTimestamp (sc_Meta sc) then cluster_reconcileDelete k c sdk
       else cluster_reconcileNormal k c sdk helper)) s = (r, t)"
  shows "protocol (cluster_deleted k sdk namespace name) (ClusterFinalizer \<in> set (stored (world s)))
    (ClusterFinalizer \<in> set (stored (world t))) (trace s) (trace t)"
proof -
  let ?s = "\<lparr>world = world s, trace = trace s, scope_ScalewayCluster = sc, scope_InfrastructureReady = cc_InfrastructureReady cluster\<rparr>"
  let ?m = "if meta_DeletionTimestamp (sc_Meta sc) then cluster_reconcileDelete k c sdk else cluster_reconcileNormal k c sdk helper"
  have contract: "finalizer_contract k" and keeps: "client_keeps stored c"
    and patch: "\<And>after. patches stored (stored (world ?s)) (meta_Finalizers (sc_Meta after)) (helper after)"
    using cluster_serverD(3,4) [OF server] cloud_client client cluster_server_patches [OF server helper read(2,3)] read(1) by auto
  obtain q v p u where work: "?m ?s = (q, v)" and close: "cluster_Close helper v = (p, u)"
    and t: "world t = world u" "trace t = trace u"
    using run by (auto simp: in_cluster_scope_def dest!: deferred_run split: prod.splits)
  note closes = cluster_Close_closes [OF patch close]
  show ?thesis
  proof (cases "meta_DeletionTimestamp (sc_Meta sc)")
    case True
    with work have del: "cluster_reconcileDelete k c sdk ?s = (q, v)" by simp
    obtain calls where calls: "trace v = trace ?s @ calls" "idle calls"
      using emits_grows [OF reconcileDelete_emits del] idle_calls(4) by blast
    have "cluster_deleted k sdk namespace name (trace v) \<or> meta_Finalizers (sc_Meta (scope_ScalewayCluster v)) = stored (world ?s)"
    proof (cases "q = Ok no_requeue")
      case True
      with del client read(2,3) have "cluster_deleted k sdk namespace name (trace v)" unfolding cluster_deleted_def
        by (intro exI [where x = opts] exI [where x = client] exI [where x = c] exI [where x = ?s] exI [where x = v]) simp
      then show ?thesis ..
    next
      case False
      with reconcileDelete_object [OF del] read(1) show ?thesis by simp
    qed
    from protocol_deleting [where completed = "cluster_deleted k sdk namespace name" and f = ClusterFinalizer, OF calls storesD [OF stores_cluster_reconcileDelete [OF keeps] del] closes this] t
    show ?thesis by simp
  next
    case False
    with work have normal: "cluster_reconcileNormal k c sdk helper ?s = (q, v)" by simp
    have "ClusterFinalizer \<in> set (meta_Finalizers (sc_Meta (scope_ScalewayCluster v)))"
      using reconcileNormal_meta [OF normal] contract unfolding finalizer_contract_def by simp
    moreover obtain calls where "trace v = trace ?s @ calls"
      "ClusterFinalizer \<in> set (stored (world v)) \<or> ClusterFinalizer \<notin> set (stored (world ?s)) \<and> idle calls"
      using cluster_normal_guarded [OF contract keeps normal _ patch] read(1) by auto
    ultimately show ?thesis using protocol_creating [where completed = "cluster_deleted k sdk namespace name", OF _ refl closes] t by simp
  qed
qed

lemma stores_cluster_lookup:
  assumes "cluster_server k unread namespace name stored"
  shows "stores stored (cluster_lookup k unread namespace name)"
  unfolding cluster_lookup_def Let_def by (intro store_intros cluster_serverD [OF assms])

lemma cluster_lookup_current:
  assumes server: "cluster_server k unread namespace name stored"
    and run: "cluster_lookup k unread namespace name s = (Ok (Inr (sc, cluster)), u)"
  shows "meta_Finalizers (sc_Meta sc) = stored (world s) \<and> meta_Name (sc_Meta sc) = name \<and> meta_Namespace (sc_Meta sc) = namespace"
proof -
  obtain answer v where get: "k_GetScalewayCluster k namespace name (world s) = (answer, v)" by fastforce
  with cluster_lookup_found [OF run] obtain w where found: "sc = (case answer of Inl _ \<Rightarrow> unread | Inr read \<Rightarrow> read)"
    "k_GetOwnerCluster k (sc_Meta sc) v = (Inr (Some cluster), w)" by auto
  with cluster_serverD(5) [OF server, of v] have "answer = Inr sc" by (cases answer) auto
  with get have "k_GetScalewayCluster k namespace name (world s) = (Inr sc, v)" by simp
  then show ?thesis by (rule cluster_server_current [OF server])
qed

lemma NewCluster_run: "NewCluster k sc u = (q, v) \<Longrightarrow> v = u"
  by (auto simp: NewCluster_def lift_api_def wrapping_def ret_def throw_def split: sum.splits)

lemma cluster_Reconcile_protocol:
  assumes server: "cluster_server k unread namespace name stored"
    and run: "cluster_Reconcile k sdk unread namespace name s = (r, t)"
  shows "protocol (cluster_deleted k sdk namespace name) (ClusterFinalizer \<in> set (stored (world s)))
    (ClusterFinalizer \<in> set (stored (world t))) (trace s) (trace t)"
  using run [unfolded cluster_Reconcile_split]
proof (cases rule: then_session_run)
  case (Stopped q)
  with reads_only_trace [OF reads_cluster_lookup Stopped] storesD [OF stores_cluster_lookup [OF server] Stopped]
  show ?thesis by (intro protocol_quiet [where new = "[]"]) simp_all
next
  case (Session y x)
  obtain sc cluster where y: "y = (sc, cluster)" by fastforce
  have x: "trace x = trace s" "stored (world x) = stored (world s)"
    using reads_only_trace [OF reads_cluster_lookup Session(1)] storesD [OF stores_cluster_lookup [OF server] Session(1)] by simp_all
  have session: "cluster_session k sdk sc cluster x = (r, t)" using Session(2) y by simp
  show ?thesis
  proof (rule session_opens [OF cluster_serverD(3) [OF server] NewCluster_run session [unfolded cluster_session_def]])
    fix update
    assume "idle update" "trace t = trace x @ update" "stored (world t) = stored (world x)"
    with x show ?thesis by (intro protocol_quiet [where new = update]) simp_all
  next
    fix update opts client c helper u
    assume opened: "k_NewScwClient k opts = Inr client" "NewClient client = Ok c" "NewCluster k sc u = (Ok helper, u)"
      "idle update" "trace u = trace x @ update" "stored (world u) = stored (world x)"
      and run: "in_cluster_scope sc cluster (deferred (cluster_Close helper) (if meta_DeletionTimestamp (sc_Meta sc)
        then cluster_reconcileDelete k c sdk else cluster_reconcileNormal k c sdk helper)) u = (r, t)"
    from opened(3) have helper: "k_NewClusterHelper k sc = Inr helper" by (auto simp: NewCluster_def ok_iffs)
    have "protocol (cluster_deleted k sdk namespace name) (ClusterFinalizer \<in> set (stored (world u)))
        (ClusterFinalizer \<in> set (stored (world t))) (trace u) (trace t)"
      using cluster_lookup_current [OF server Session(1) [unfolded y]] opened x
      by (intro cluster_scope_protocol [OF server opened(1,2) helper _ _ _ run]) simp_all
    with opened x show ?thesis using protocol_after [of _ _ _ "trace s" update "trace t"] by simp
  qed
qed

interpretation cluster_life: finalizer_protocol
  "\<lambda>s t. cluster_server k unread namespace name stored \<and> t = snd (cluster_Reconcile k sdk unread namespace name s)"
  "\<lambda>w. ClusterFinalizer \<in> set (stored w)" "cluster_deleted k sdk namespace name" for k sdk unread namespace name stored
  by unfold_locales (metis cluster_Reconcile_protocol prod.collapse)


section \<open>Machines\<close>

text \<open>The same for a machine. The cluster it belongs to is another object.\<close>

definition machine_server :: "'w k8s_API \<Rightarrow> string \<Rightarrow> string \<Rightarrow> ('w \<Rightarrow> string list) \<Rightarrow> bool" where
  "machine_server k namespace name stored \<longleftrightarrow>
     act_keeps stored (k_GetScalewayMachine k namespace name)
   \<and> (\<forall>w m v. k_GetScalewayMachine k namespace name w = (Inr m, v) \<longrightarrow> meta_Finalizers (sm_Meta m) = stored w
        \<and> meta_Name (sm_Meta m) = name \<and> meta_Namespace (sm_Meta m) = namespace)
   \<and> (\<forall>m helper after. k_NewMachineHelper k m = Inr helper \<longrightarrow> meta_Name (sm_Meta m) = name \<longrightarrow>
        meta_Namespace (sm_Meta m) = namespace \<longrightarrow>
        patches stored (meta_Finalizers (sm_Meta m)) (meta_Finalizers (sm_Meta after)) (helper after))
   \<and> (\<forall>meta. act_keeps stored (k_GetOwnerMachine k meta)) \<and> (\<forall>machine. act_keeps stored (k_GetClusterFromMetadata k machine))
   \<and> (\<forall>ns n. act_keeps stored (k_GetScalewayCluster k ns n))
   \<and> cloud_keeps stored k \<and> finalizer_contract k"

lemma machine_serverD:
  assumes "machine_server k namespace name stored"
  shows "act_keeps stored (k_GetScalewayMachine k namespace name)" "act_keeps stored (k_GetOwnerMachine k meta)"
    "act_keeps stored (k_GetClusterFromMetadata k machine)" "act_keeps stored (k_GetScalewayCluster k ns n)"
    "cloud_keeps stored k" "finalizer_contract k"
  using assms unfolding machine_server_def by simp_all

lemma machine_server_current:
  assumes "machine_server k namespace name stored" "k_GetScalewayMachine k namespace name w = (Inr m, v)"
  shows "meta_Finalizers (sm_Meta m) = stored w \<and> meta_Name (sm_Meta m) = name \<and> meta_Namespace (sm_Meta m) = namespace"
  using assms(1) [unfolded machine_server_def, THEN conjunct2, THEN conjunct1] assms(2) by blast

lemma machine_server_patches:
  assumes "machine_server k namespace name stored" "k_NewMachineHelper k m = Inr helper"
    and "meta_Name (sm_Meta m) = name" "meta_Namespace (sm_Meta m) = namespace"
  shows "patches stored (meta_Finalizers (sm_Meta m)) (meta_Finalizers (sm_Meta after)) (helper after)"
  using assms(1) [unfolded machine_server_def, THEN conjunct2, THEN conjunct2, THEN conjunct1] assms(2-) by blast

lemma machine_Close_closes:
  assumes "patches stored before (meta_Finalizers (sm_Meta (scope_ScalewayMachine v))) (helper (scope_ScalewayMachine v))"
    and "machine_Close helper v = (r, u)"
  shows "closes stored before (meta_Finalizers (sm_Meta (scope_ScalewayMachine v))) v u"
  using patch_run [OF assms(1), of "CallPatchMachine (scope_ScalewayMachine v)" v r u] assms(2)
  by (auto simp: closes_def machine_Close_def machine_PatchObject_def bind_gets_run)

lemma stores_machine_work:
  assumes "client_keeps g c" "cloud_keeps g k"
  shows "stores g (machine_work k c sdk engine)"
  unfolding machine_work_def
  by (intro store_intros kept.steps_instance_Reconcile assms(1)) (use assms(2) in \<open>simp add: cloud_keeps_def\<close>)

lemma stores_machine_reconcileDelete: "client_keeps g c \<Longrightarrow> stores g (machine_reconcileDelete k c sdk)"
  unfolding machine_reconcileDelete_def by (intro store_intros kept.steps_instance_Delete)

lemma addMachineFinalizer_stored:
  assumes contract: "finalizer_contract k"
    and run: "addMachineFinalizer k helper s = (r, u)"
    and fins: "stored (world s) = meta_Finalizers (sm_Meta (scope_ScalewayMachine s))"
    and patch: "\<And>after. patches stored (stored (world s)) (meta_Finalizers (sm_Meta after)) (helper after)"
  shows "if r = Ok () then MachineFinalizer \<in> set (stored (world u)) else MachineFinalizer \<notin> set (stored (world s))"
proof -
  let ?m = "scope_ScalewayMachine s"
  obtain fs added where add: "k_AddFinalizer k (stored (world s)) MachineFinalizer = (fs, added)" by fastforce
  have fs: "MachineFinalizer \<in> set fs" "added = (MachineFinalizer \<notin> set (stored (world s)))"
    using contract add unfolding finalizer_contract_def by (metis fst_conv insertI1, metis snd_conv)
  show ?thesis
  proof (cases added)
    case True
    with run add fins have "sdk_call (CallPatchMachine (SetMachineFinalizers fs ?m)) (helper (SetMachineFinalizers fs ?m))
        (s\<lparr>scope_ScalewayMachine := SetMachineFinalizers fs ?m\<rparr>) = (r, u)"
      by (simp add: addMachineFinalizer_def bind_gets_run bind_Ok_run [OF modify_machine_run] machine_PatchObject_def)
    from patch_run(2) [OF patch this] True fs show ?thesis by auto
  next
    case False
    with run add fins fs show ?thesis
      by (auto simp: addMachineFinalizer_def bind_gets_run bind_Ok_run [OF modify_machine_run] ret_def)
  qed
qed

lemma machine_normal_guarded:
  assumes contract: "finalizer_contract k" and keeps: "client_keeps stored c" "cloud_keeps stored k"
    and run: "machine_reconcileNormal k c sdk engine helper s = (r, t)"
    and fins: "stored (world s) = meta_Finalizers (sm_Meta (scope_ScalewayMachine s))"
    and patch: "\<And>after. patches stored (stored (world s)) (meta_Finalizers (sm_Meta after)) (helper after)"
  shows "\<exists>work. trace t = trace s @ work \<and>
    (MachineFinalizer \<in> set (stored (world t)) \<or> MachineFinalizer \<notin> set (stored (world s)) \<and> idle work)"
proof -
  obtain fs added where add: "k_AddFinalizer k (meta_Finalizers (sm_Meta (scope_ScalewayMachine s))) MachineFinalizer = (fs, added)"
    by fastforce
  have grows: "\<exists>work. trace t = trace s @ work" using machine_normal_effect [OF run] by blast
  note a = addMachineFinalizer_stored [OF contract _ fins patch]
  have idle: "\<exists>work. trace u = trace s @ work \<and> idle work" if "addMachineFinalizer k helper s = (q, u)" for q u
    using addMachineFinalizer_run [OF that add] by auto
  from run [unfolded machine_normal_split] show ?thesis
  proof (cases rule: bind_run)
    case (Ok x u)
    with a [OF Ok(1)] storesD [OF stores_machine_work [OF keeps] Ok(2)] grows show ?thesis by simp
  next
    case (Err e)
    with a [OF Err(1)] idle [OF Err(1)] show ?thesis by auto
  next
    case Panic
    with a [OF Panic(1)] idle [OF Panic(1)] show ?thesis by auto
  qed
qed

text \<open>The trace \<open>tr\<close> ends with a run of reconcileDelete for the machine that succeeded.\<close>

definition machine_deleted :: "'w k8s_API \<Rightarrow> SDK \<Rightarrow> string \<Rightarrow> string \<Rightarrow> call list \<Rightarrow> bool" where
  "machine_deleted k sdk namespace name tr \<longleftrightarrow> (\<exists>opts client c (u :: 'w MachineScope) v.
     k_NewScwClient k opts = Inr client \<and> NewClient client = Ok c
   \<and> meta_Name (sm_Meta (scope_ScalewayMachine u)) = name \<and> meta_Namespace (sm_Meta (scope_ScalewayMachine u)) = namespace
   \<and> machine_reconcileDelete k c sdk u = (Ok no_requeue, v) \<and> trace v = tr)"

lemma machine_delete_calls:
  assumes "machine_reconcileDelete k c sdk s = (r, t)"
  shows "\<exists>calls. trace t = trace s @ calls \<and> idle calls"
  using assms
proof (rule machine_delete_run)
  fix q u
  assume "instance_Delete c sdk s = (q, u)" "trace t = trace u"
  with only_callsD [OF instance_Delete_calls this(1)] show ?thesis using idle_calls(5) made_trace by metis
qed

lemma machine_delete_object:
  assumes "machine_reconcileDelete k c sdk s = (r, t)" "r \<noteq> Ok no_requeue"
  shows "scope_ScalewayMachine t = scope_ScalewayMachine s"
  using assms(1) by (rule machine_delete_run) (simp add: assms(2))

lemma machine_scope_protocol:
  assumes server: "machine_server k namespace name stored"
    and client: "k_NewScwClient k opts = Inr client" "NewClient client = Ok c"
    and helper: "k_NewMachineHelper k m = Inr helper"
    and read: "meta_Finalizers (sm_Meta m) = stored (world s)" "meta_Name (sm_Meta m) = name" "meta_Namespace (sm_Meta m) = namespace"
    and run: "in_machine_scope sc cluster m machine (deferred (machine_Close helper)
      (if meta_DeletionTimestamp (sm_Meta m) then machine_reconcileDelete k c sdk
       else machine_reconcileNormal k c sdk engine helper)) s = (r, t)"
  shows "protocol (machine_deleted k sdk namespace name) (MachineFinalizer \<in> set (stored (world s)))
    (MachineFinalizer \<in> set (stored (world t))) (trace s) (trace t)"
proof -
  let ?s = "\<lparr>world = world s, trace = trace s, scope_ScalewayCluster = sc,
    scope_InfrastructureReady = cc_InfrastructureReady cluster, scope_ScalewayMachine = m, scope_Machine = machine\<rparr>"
  let ?p = "if meta_DeletionTimestamp (sm_Meta m) then machine_reconcileDelete k c sdk else machine_reconcileNormal k c sdk engine helper"
  have contract: "finalizer_contract k" and keeps: "client_keeps stored c" "cloud_keeps stored k"
    and patch: "\<And>after. patches stored (stored (world ?s)) (meta_Finalizers (sm_Meta after)) (helper after)"
    using machine_serverD(5,6) [OF server] cloud_client client machine_server_patches [OF server helper read(2,3)] read(1) by auto
  obtain q v p u where work: "?p ?s = (q, v)" and close: "machine_Close helper v = (p, u)"
    and t: "world t = world u" "trace t = trace u"
    using run by (auto simp: in_machine_scope_def dest!: deferred_run split: prod.splits)
  note closes = machine_Close_closes [OF patch close]
  show ?thesis
  proof (cases "meta_DeletionTimestamp (sm_Meta m)")
    case True
    with work have del: "machine_reconcileDelete k c sdk ?s = (q, v)" by simp
    obtain calls where calls: "trace v = trace ?s @ calls" "idle calls" using machine_delete_calls [OF del] by blast
    have "machine_deleted k sdk namespace name (trace v) \<or> meta_Finalizers (sm_Meta (scope_ScalewayMachine v)) = stored (world ?s)"
    proof (cases "q = Ok no_requeue")
      case True
      with del client read(2,3) have "machine_deleted k sdk namespace name (trace v)" unfolding machine_deleted_def
        by (intro exI [where x = opts] exI [where x = client] exI [where x = c] exI [where x = ?s] exI [where x = v]) simp
      then show ?thesis ..
    next
      case False
      with machine_delete_object [OF del] read(1) show ?thesis by simp
    qed
    from protocol_deleting [where completed = "machine_deleted k sdk namespace name" and f = MachineFinalizer,
        OF calls storesD [OF stores_machine_reconcileDelete [OF keeps(1)] del] closes this] t
    show ?thesis by simp
  next
    case False
    with work have normal: "machine_reconcileNormal k c sdk engine helper ?s = (q, v)" by simp
    have "MachineFinalizer \<in> set (meta_Finalizers (sm_Meta (scope_ScalewayMachine v)))"
      using machine_normal_effect [OF normal] contract unfolding finalizer_contract_def by simp
    moreover obtain calls where "trace v = trace ?s @ calls"
      "MachineFinalizer \<in> set (stored (world v)) \<or> MachineFinalizer \<notin> set (stored (world ?s)) \<and> idle calls"
      using machine_normal_guarded [OF contract keeps normal _ patch] read(1) by auto
    ultimately show ?thesis
      using protocol_creating [where completed = "machine_deleted k sdk namespace name", OF _ refl closes] t by simp
  qed
qed

lemma stores_machine_lookup:
  assumes "machine_server k namespace name stored"
  shows "stores stored (machine_lookup k namespace name)"
  unfolding machine_lookup_def by (intro store_intros machine_serverD [OF assms])

lemma machine_lookup_current:
  assumes "machine_server k namespace name stored"
    and "machine_lookup k namespace name s = (Ok (Inr (m, machine, cluster, sc)), u)"
  shows "meta_Finalizers (sm_Meta m) = stored (world s) \<and> meta_Name (sm_Meta m) = name \<and> meta_Namespace (sm_Meta m) = namespace"
  using machine_lookup_found [OF assms(2)] machine_server_current [OF assms(1)] unfolding machine_gate_def by blast

lemma NewMachine_run: "NewMachine k sc m u = (q, v) \<Longrightarrow> v = u"
  by (auto simp: NewMachine_def bind_def lift_api_def wrapping_def ret_def throw_def dest!: NewCluster_run
      split: sum.splits prod.splits outcome.splits)

lemma machine_Reconcile_protocol:
  assumes server: "machine_server k namespace name stored"
    and run: "machine_Reconcile k sdk engine namespace name s = (r, t)"
  shows "protocol (machine_deleted k sdk namespace name) (MachineFinalizer \<in> set (stored (world s)))
    (MachineFinalizer \<in> set (stored (world t))) (trace s) (trace t)"
  using run [unfolded machine_Reconcile_split]
proof (cases rule: then_session_run)
  case (Stopped q)
  with reads_only_trace [OF reads_machine_lookup Stopped] storesD [OF stores_machine_lookup [OF server] Stopped]
  show ?thesis by (intro protocol_quiet [where new = "[]"]) simp_all
next
  case (Session y x)
  obtain m machine cluster sc where y: "y = (m, machine, cluster, sc)" by (cases y) blast
  have x: "trace x = trace s" "stored (world x) = stored (world s)"
    using reads_only_trace [OF reads_machine_lookup Session(1)] storesD [OF stores_machine_lookup [OF server] Session(1)] by simp_all
  have session: "machine_session k sdk engine sc cluster m machine x = (r, t)" using Session(2) y by simp
  show ?thesis
  proof (rule session_opens [OF machine_serverD(5) [OF server] NewMachine_run session [unfolded machine_session_def]])
    fix update
    assume "idle update" "trace t = trace x @ update" "stored (world t) = stored (world x)"
    with x show ?thesis by (intro protocol_quiet [where new = update]) simp_all
  next
    fix update opts client c helper u
    assume opened: "k_NewScwClient k opts = Inr client" "NewClient client = Ok c" "NewMachine k sc m u = (Ok helper, u)"
      "idle update" "trace u = trace x @ update" "stored (world u) = stored (world x)"
      and run: "in_machine_scope sc cluster m machine (deferred (machine_Close helper) (if meta_DeletionTimestamp (sm_Meta m)
        then machine_reconcileDelete k c sdk else machine_reconcileNormal k c sdk engine helper)) u = (r, t)"
    from opened(3) have helper: "k_NewMachineHelper k m = Inr helper" by (auto simp: NewMachine_def NewCluster_def ok_iffs)
    have "protocol (machine_deleted k sdk namespace name) (MachineFinalizer \<in> set (stored (world u)))
        (MachineFinalizer \<in> set (stored (world t))) (trace u) (trace t)"
      using machine_lookup_current [OF server Session(1) [unfolded y]] opened x
      by (intro machine_scope_protocol [OF server opened(1,2) helper _ _ _ run]) simp_all
    with opened x show ?thesis using protocol_after [of _ _ _ "trace s" update "trace t"] by simp
  qed
qed

interpretation machine_life: finalizer_protocol
  "\<lambda>s t. machine_server k namespace name stored \<and> t = snd (machine_Reconcile k sdk engine namespace name s)"
  "\<lambda>w. MachineFinalizer \<in> set (stored w)" "machine_deleted k sdk namespace name" for k sdk engine namespace name stored
  by unfold_locales (metis machine_Reconcile_protocol prod.collapse)

end
