(* ===== verification/Example_Server.thy ===== *)
theory Example_Server
  imports Lifecycle
begin

text \<open>
  An API server at which the theorems about the life of an object are applied: its world is the
  list of the finalizers of the one object it serves, and its patch helpers write them. No
  definition of the model uses it.
\<close>

definition patch_finalizers :: "string list \<Rightarrow> string list \<Rightarrow> (string list, unit) act" where
  "patch_finalizers before after = (\<lambda>w. (Inr (), if after = before then w else after))"

definition down_scw :: "'w scw_Client" where
  "down_scw = \<lparr>sw_DefaultProjectID = Some ''project'', sw_lb = down_lb, sw_instance = down_instance,
     sw_marketplace = \<lparr>marketplace_GetLocalImageByLabel = (\<lambda>_ _ _. down)\<rparr>, sw_vpc = down_vpc, sw_vpcgw = down_vpcgw,
     sw_ipam = \<lparr>ipam_ListIPs = (\<lambda>_ _ _ _. down)\<rparr>\<rparr>"

definition ex_secret :: "string \<Rightarrow> string \<Rightarrow> Secret" where
  "ex_secret ns n = \<lparr>sec_Name = n, sec_Namespace = ns, sec_OwnerUIDs = [''uid''], sec_Data = []\<rparr>"

definition ex_capi_cluster :: CapiCluster where
  "ex_capi_cluster = \<lparr>cc_Namespace = ''default'', cc_InfrastructureRef = Some ''c'', cc_InfrastructureReady = True\<rparr>"

definition ex_unread :: ScalewayCluster where
  "ex_unread = ex_cluster\<lparr>sc_Meta := ex_meta []\<rparr>"

definition ex_server_k8s :: "string list k8s_API" where
  "ex_server_k8s = down_k8s\<lparr>
     k_GetScalewayCluster := (\<lambda>ns n w. (Inr (ex_cluster\<lparr>sc_Meta := (ex_meta n)\<lparr>meta_Namespace := ns, meta_Finalizers := w\<rparr>\<rparr>), w)),
     k_GetScalewayMachine := (\<lambda>ns n w. (Inr (ex_machine\<lparr>sm_Meta := (ex_meta n)\<lparr>meta_Namespace := ns, meta_Finalizers := w\<rparr>\<rparr>), w)),
     k_GetSecret := (\<lambda>ns n w. (Inr (ex_secret ns n), w)),
     k_GetOwnerCluster := (\<lambda>meta w. (Inr (if meta_Name meta = [] then None else Some ex_capi_cluster), w)),
     k_GetOwnerMachine := (\<lambda>meta w. (Inr (Some ex_capi_machine), w)),
     k_GetClusterFromMetadata := (\<lambda>machine w. (Inr ex_capi_cluster, w)),
     k_NewClusterHelper := (\<lambda>sc. Inr (\<lambda>after. patch_finalizers (meta_Finalizers (sc_Meta sc)) (meta_Finalizers (sc_Meta after)))),
     k_NewMachineHelper := (\<lambda>m. Inr (\<lambda>after. patch_finalizers (meta_Finalizers (sm_Meta m)) (meta_Finalizers (sm_Meta after)))),
     k_NewScwClient := (\<lambda>_. Inr down_scw)\<rparr>"

lemma act_keeps_down [simp]: "act_keeps g down"
  by (simp add: act_keeps_iff down_def)

lemma act_keeps_pair [simp]: "act_keeps g (\<lambda>w. (r w, w))"
  by (simp add: act_keeps_iff)

lemma patches_finalizers: "patches id before after (patch_finalizers before after)"
  by (simp add: patches_def patch_finalizers_def)

lemma down_client_keeps: "client_keeps g down_client"
  by (simp add: client_steps_def instance_steps_def lb_steps_def vpc_steps_def vpcgw_steps_def down_client_def
      down_instance_def down_lb_def down_vpc_def down_vpcgw_def)

lemma NewClient_down: "NewClient down_scw = Ok down_client"
  by (simp add: NewClient_def down_scw_def down_client_def)

lemma ex_server_cloud: "cloud_keeps id ex_server_k8s"
  by (auto simp: cloud_keeps_def ex_server_k8s_def NewClient_down down_client_keeps down_k8s_def)

lemma ex_server_contract: "finalizer_contract ex_server_k8s"
  by (auto simp: finalizer_contract_def ex_server_k8s_def down_k8s_def)

lemma ex_cluster_server: "cluster_server ex_server_k8s ex_unread ''default'' ''c'' id"
  unfolding cluster_server_def using ex_server_cloud ex_server_contract
  by (auto simp: ex_server_k8s_def ex_unread_def ex_cluster_def ex_meta_def patches_finalizers)

lemma ex_machine_server: "machine_server ex_server_k8s ''default'' ''m'' id"
  unfolding machine_server_def using ex_server_cloud ex_server_contract
  by (auto simp: ex_server_k8s_def ex_machine_def ex_meta_def patches_finalizers)

end
