(* ===== verification/Machine_Webhook.thy ===== *)
theory Machine_Webhook
  imports Cluster_Webhook
begin

text \<open>
  The validating webhook of ScalewayMachine (\<^verbatim>\<open>api/v1beta1/scalewaymachine_webhook.go\<close>)
  and what it guarantees over any sequence of admitted updates.
\<close>

section \<open>The webhook\<close>

definition Machine_validate :: "ScalewayMachine \<Rightarrow> admission" where
  "Machine_validate r =
     (let allErrs = (case ms_RootVolumeSize (sm_Spec r) of
            None \<Rightarrow> []
          | Some n \<Rightarrow> if sint n < 5
              then [FieldInvalid [Child ''spec'', Child ''rootVolumeSize''] ''must be at least 5 GB'']
              else []) in
      if allErrs = [] then Admitted else Rejected ''ScalewayMachine'' allErrs)"

definition Machine_immutability_errors :: "ScalewayMachineSpec \<Rightarrow> ScalewayMachineSpec \<Rightarrow> field_error list" where
  "Machine_immutability_errors r old =
     immutable_err [''spec'', ''providerID'']
       (ms_ProviderID old \<noteq> None \<and> ms_ProviderID r \<noteq> ms_ProviderID old)
   @ immutable_err [''spec'', ''image''] (ms_Image r \<noteq> ms_Image old)
   @ immutable_err [''spec'', ''type''] (ms_Type r \<noteq> ms_Type old)
   @ immutable_err [''spec'', ''rootVolumeSize''] (ms_RootVolumeSize old \<noteq> ms_RootVolumeSize r)
   @ immutable_err [''spec'', ''rootVolumeType''] (ms_RootVolumeType old \<noteq> ms_RootVolumeType r)
   @ immutable_err [''spec'', ''publicIP'']
       (ms_PublicIP old \<noteq> None \<and> ms_PublicIP old \<noteq> ms_PublicIP r)
   @ (if ms_PublicIP old = None \<and> ms_PublicIP r = Some True
      then [FieldInvalid [Child ''spec'', Child ''publicIP''] ''field can only be set to false''] else [])
   @ immutable_err [''spec'', ''securityGroupName''] (ms_SecurityGroupName old \<noteq> ms_SecurityGroupName r)"

text \<open>The error of a refused change carries the kind \<^verbatim>\<open>ScalewayCluster\<close>, as in the code.\<close>

definition Machine_enforceImmutability :: "ScalewayMachine \<Rightarrow> ScalewayMachine \<Rightarrow> admission" where
  "Machine_enforceImmutability r old =
     (let allErrs = Machine_immutability_errors (sm_Spec r) (sm_Spec old) in
      if allErrs = [] then Admitted else Rejected ''ScalewayCluster'' allErrs)"

definition Machine_ValidateCreate :: "ScalewayMachine \<Rightarrow> admission" where
  "Machine_ValidateCreate r = Machine_validate r"

definition Machine_ValidateUpdate :: "ScalewayMachine \<Rightarrow> ScalewayMachine \<Rightarrow> admission" where
  "Machine_ValidateUpdate r old = (case Machine_enforceImmutability r old of
     Rejected k errs \<Rightarrow> Rejected k errs
   | Admitted \<Rightarrow> Machine_validate r)"

definition Machine_ValidateDelete :: "ScalewayMachine \<Rightarrow> admission" where
  "Machine_ValidateDelete r = Admitted"

section \<open>Admitted updates\<close>

definition root_volume_ok :: "ScalewayMachine \<Rightarrow> bool" where
  "root_volume_ok m = (case ms_RootVolumeSize (sm_Spec m) of None \<Rightarrow> True | Some n \<Rightarrow> 5 \<le> sint n)"

lemma Machine_validate_Admitted: "Machine_validate r = Admitted \<longleftrightarrow> root_volume_ok r"
  by (auto simp: Machine_validate_def root_volume_ok_def Let_def split: option.splits)

definition fixed_machine_fields :: "ScalewayMachine \<Rightarrow> string \<times> string \<times> 64 word option
    \<times> string option \<times> string option \<times> bool" where
  "fixed_machine_fields m = (let s = sm_Spec m in
     (ms_Image s, ms_Type s, ms_RootVolumeSize s, ms_RootVolumeType s, ms_SecurityGroupName s,
      ms_PublicIP s = Some True))"

lemma Machine_ValidateUpdate_Admitted:
  "Machine_ValidateUpdate r old = Admitted \<longleftrightarrow>
     fixed_machine_fields r = fixed_machine_fields old
   \<and> (ms_ProviderID (sm_Spec old) \<noteq> None \<longrightarrow> ms_ProviderID (sm_Spec r) = ms_ProviderID (sm_Spec old))
   \<and> (ms_PublicIP (sm_Spec old) \<noteq> None \<longrightarrow> ms_PublicIP (sm_Spec r) = ms_PublicIP (sm_Spec old))
   \<and> root_volume_ok r"
  by (auto simp: Machine_ValidateUpdate_def Machine_enforceImmutability_def Let_def
      Machine_immutability_errors_def immutable_err_def fixed_machine_fields_def
      Machine_validate_Admitted)

inductive machine_updates :: "ScalewayMachine \<Rightarrow> ScalewayMachine \<Rightarrow> bool" where
  none: "machine_updates m m"
| update: "machine_updates m old \<Longrightarrow> Machine_ValidateUpdate r old = Admitted \<Longrightarrow> machine_updates m r"

lemma machine_updates_keep:
  "machine_updates m r \<Longrightarrow>
     fixed_machine_fields r = fixed_machine_fields m
   \<and> (ms_ProviderID (sm_Spec m) \<noteq> None \<longrightarrow> ms_ProviderID (sm_Spec r) = ms_ProviderID (sm_Spec m))
   \<and> (root_volume_ok m \<longrightarrow> root_volume_ok r)"
  by (induction rule: machine_updates.induct) (auto simp: Machine_ValidateUpdate_Admitted)

section \<open>Properties\<close>

text \<open>
  C33: over any sequence of admitted updates of a machine that was admitted at creation, the
  image, the type, the root volume, the security group and whether a public IP is wanted
  never change, a provider ID that was set stays, and the root volume has at least 5 GB.
\<close>

theorem machine_life_immutable:
  assumes "Machine_ValidateCreate m = Admitted" and "machine_updates m old" and "machine_updates old r"
  shows "fixed_machine_fields r = fixed_machine_fields m \<and> root_volume_ok r
    \<and> (\<forall>p. ms_ProviderID (sm_Spec old) = Some p \<longrightarrow> ms_ProviderID (sm_Spec r) = Some p)"
  using machine_updates_keep [OF assms(2)] machine_updates_keep [OF assms(3)] assms(1)
  by (simp add: Machine_ValidateCreate_def Machine_validate_Admitted)

abbreviation ex_machine_with_id :: ScalewayMachine where
  "ex_machine_with_id \<equiv> ex_machine\<lparr>sm_Spec := ex_machine_spec\<lparr>ms_ProviderID := Some ''id''\<rparr>\<rparr>"

abbreviation ex_machine_later :: ScalewayMachine where
  "ex_machine_later \<equiv> ex_machine\<lparr>sm_Spec :=
     ex_machine_spec\<lparr>ms_ProviderID := Some ''id'', ms_PublicIP := Some False\<rparr>\<rparr>"

theorem machine_life_immutable_witness:
  "fixed_machine_fields ex_machine_later = fixed_machine_fields ex_machine
   \<and> ms_ProviderID (sm_Spec ex_machine_later) = Some ''id''"
proof -
  have create: "Machine_ValidateCreate ex_machine = Admitted"
    by (simp add: Machine_ValidateCreate_def Machine_validate_Admitted root_volume_ok_def ex_objects)
  have first: "machine_updates ex_machine ex_machine_with_id"
    by (rule machine_updates.update [OF machine_updates.none])
      (simp add: Machine_ValidateUpdate_Admitted fixed_machine_fields_def root_volume_ok_def ex_objects)
  have second: "machine_updates ex_machine_with_id ex_machine_later"
    by (rule machine_updates.update [OF machine_updates.none])
      (simp add: Machine_ValidateUpdate_Admitted fixed_machine_fields_def root_volume_ok_def ex_objects)
  show ?thesis
    using machine_life_immutable [OF create first second] by simp
qed

end
