(* ===== verification/Admission.thy ===== *)
theory Admission
  imports Example_Server Machine_Webhook
begin

text \<open>
  The controllers and the webhooks together. A controller writes the object it reconciles back
  through the API server, which asks the webhook of the same program; what a controller writes
  should not be refused. For clusters it never is; for machines exactly a new provider ID is.
\<close>

section \<open>What the cluster controller writes\<close>

definition same_intent :: "ScalewayCluster \<Rightarrow> ScalewayCluster \<Rightarrow> bool" where
  "same_intent sc sc' \<longleftrightarrow> (\<exists>endpoint. sc_Spec sc' = (sc_Spec sc)\<lparr>spec_ControlPlaneEndpoint := endpoint\<rparr>)"

definition cluster_writes :: "ScalewayCluster \<Rightarrow> call set" where
  "cluster_writes sc = {ev. \<forall>sc'. ev = CallPatchCluster sc' \<longrightarrow> same_intent sc sc'}"

lemma same_intent_frame: "cluster_frame sc' = cluster_frame sc \<Longrightarrow> same_intent sc sc'"
  by (auto simp: same_intent_def cluster_frame_def intro: spec_endpoint)

lemma same_intent_spec: "sc_Spec sc' = sc_Spec sc \<Longrightarrow> same_intent sc sc'"
  unfolding same_intent_def by (rule exI [where x = "spec_ControlPlaneEndpoint (sc_Spec sc)"]) simp

lemma same_intent_trans: "same_intent a b \<Longrightarrow> same_intent b c \<Longrightarrow> same_intent a c"
  by (auto simp: same_intent_def)

lemma same_intent_sym: "same_intent a b \<Longrightarrow> same_intent b a"
  unfolding same_intent_def by (elim exE) (rule exI [where x = "spec_ControlPlaneEndpoint (sc_Spec a)"], simp)

lemma cloud_calls_no_write:
  "securitygroup_creates \<union> vpc_creates \<union> vpcgw_creates \<union> loadbalancer_creates \<subseteq> cluster_writes sc"
  "cluster_deletes \<subseteq> cluster_writes sc"
  by (auto simp: cluster_writes_def cluster_deletes_def securitygroup_creates_def vpc_creates_def vpcgw_creates_def
      loadbalancer_creates_def securitygroup_deletes_def vpc_deletes_def vpcgw_deletes_def loadbalancer_deletes_def)

lemma reconcileNormal_writes:
  assumes "cluster_reconcileNormal k c sdk helper s = (r, t)"
  shows "\<exists>es. trace t = trace s @ es \<and> set es \<subseteq> cluster_writes (scope_ScalewayCluster s)
    \<and> same_intent (scope_ScalewayCluster s) (scope_ScalewayCluster t)"
proof -
  obtain fs added where add: "k_AddFinalizer k (meta_Finalizers (sc_Meta (scope_ScalewayCluster s))) ClusterFinalizer = (fs, added)"
    by fastforce
  have first: "\<exists>es. trace u = trace s @ es \<and> set es \<subseteq> cluster_writes (scope_ScalewayCluster s)
      \<and> scope_ScalewayCluster u = SetFinalizers fs (scope_ScalewayCluster s)"
    if "addClusterFinalizer k helper s = (q, u)" for q u
    using addClusterFinalizer_run [OF that add] by (auto simp: cluster_writes_def same_intent_spec)
  from assms [unfolded reconcileNormal_split] show ?thesis
  proof (cases rule: bind_run)
    case (Ok x u)
    obtain es where es: "trace u = trace s @ es" "set es \<subseteq> cluster_writes (scope_ScalewayCluster s)"
      "scope_ScalewayCluster u = SetFinalizers fs (scope_ScalewayCluster s)"
      using first [OF Ok(1)] by blast
    obtain fs' where "trace t = trace u @ fs'" "set fs' \<subseteq> cluster_writes (scope_ScalewayCluster s)"
      using emits_grows [OF in_phases_union [OF concluded_phases] Ok(2)] cloud_calls_no_write(1) by (fastforce simp: Un_assoc)
    moreover have "sc_Spec (scope_ScalewayCluster u) = sc_Spec (scope_ScalewayCluster s)"
      by (simp add: es(3))
    moreover have "same_intent (scope_ScalewayCluster u) (scope_ScalewayCluster t)"
      using concluded_frame [OF Ok(2)]
      by (auto simp: same_intent_def cluster_frame_def intro: spec_endpoint split: if_splits)
    ultimately show ?thesis
      using es same_intent_trans [OF same_intent_spec [of "scope_ScalewayCluster u" "scope_ScalewayCluster s"]]
      by (intro exI [where x = "es @ fs'"]) auto
  qed (use first in \<open>fastforce intro: same_intent_spec\<close>)+
qed

lemma reconcileDelete_writes:
  assumes "cluster_reconcileDelete k c sdk s = (r, t)"
  shows "\<exists>es. trace t = trace s @ es \<and> set es \<subseteq> cluster_writes (scope_ScalewayCluster s)
    \<and> same_intent (scope_ScalewayCluster s) (scope_ScalewayCluster t)"
  using emits_grows [OF reconcileDelete_emits assms] cloud_calls_no_write(2) reconcileDelete_object [OF assms]
  by (fastforce intro: same_intent_spec)

lemma cluster_scope_writes:
  assumes "in_cluster_scope sc cluster (deferred (cluster_Close helper) (if meta_DeletionTimestamp (sc_Meta sc)
      then cluster_reconcileDelete k c sdk else cluster_reconcileNormal k c sdk helper)) s = (r, t)"
  shows "\<exists>es. trace t = trace s @ es \<and> set es \<subseteq> cluster_writes sc"
proof -
  let ?s = "\<lparr>world = world s, trace = trace s, scope_ScalewayCluster = sc, scope_InfrastructureReady = cc_InfrastructureReady cluster\<rparr>"
  let ?m = "if meta_DeletionTimestamp (sc_Meta sc) then cluster_reconcileDelete k c sdk else cluster_reconcileNormal k c sdk helper"
  obtain u where "deferred (cluster_Close helper) ?m ?s = (r, u)" "trace t = trace u"
    using assms by (auto simp: in_cluster_scope_def split: prod.splits)
  then obtain q v where run: "?m ?s = (q, v)" and last: "trace t = trace v @ [CallPatchCluster (scope_ScalewayCluster v)]"
    using cluster_closer.deferred_closes by (fastforce dest: made_trace)
  then obtain es where "trace v = trace s @ es" "set es \<subseteq> cluster_writes sc" "same_intent sc (scope_ScalewayCluster v)"
    using reconcileDelete_writes [of k c sdk ?s] reconcileNormal_writes [of k c sdk helper ?s] by (fastforce split: if_splits)
  with last show ?thesis by (auto simp: cluster_writes_def)
qed

lemma cluster_session_writes:
  assumes "cluster_session k sdk sc cluster s = (r, t)"
  shows "\<exists>es. trace t = trace s @ es \<and> set es \<subseteq> cluster_writes sc"
proof -
  have secret: "\<exists>es. trace u = trace s @ es \<and> set es \<subseteq> cluster_writes sc" if "clientFromSecret k sc s = (q, u)" for q u
    using clientFromSecret_once [OF that] by (fastforce simp: cluster_writes_def)
  have quiet: "trace v = trace u" if "NewCluster k sc u = (q, v)" for q :: "'a cluster_helper outcome" and u v :: "'a env"
    using that reads_only_trace [of "NewCluster k sc" u q v] unfolding NewCluster_def by (simp add: read_intros)
  from assms [unfolded cluster_session_def] show ?thesis
  proof (cases rule: bind_run)
    case (Ok client u)
    note secret = secret [OF Ok(1)]
    from Ok(2) show ?thesis
    proof (cases rule: bind_run)
      case (Ok c v)
      then have v: "v = u" by (simp add: pure_Ok)
      from Ok(2) show ?thesis
      proof (cases rule: bind_run)
        case (Ok helper x)
        then show ?thesis using cluster_scope_writes [OF Ok(2)] quiet [OF Ok(1)] v secret by fastforce
      qed (use v quiet secret in auto)
    qed (use secret in \<open>auto simp: lift_outcome_def\<close>)
  qed (use secret in blast)+
qed

text \<open>
  C15: the controller never writes a cluster that its own webhook refuses. If the object that was
  read is one that the webhook admits, then every object that the reconciliation writes back, the
  first with the finalizer and the last one however the work ended, is admitted, as an update
  of the object that was read and of every other one that was written.
\<close>

theorem cluster_writes_admitted:
  assumes "ValidateCreate sdk sc = Ok Admitted" and "k_GetScalewayCluster k namespace name (world s) = (Inr sc, w)"
    and "cluster_Reconcile k sdk unread namespace name s = (r, t)" and "trace t = trace s @ es"
    and "CallPatchCluster new \<in> set es" and "old = sc \<or> CallPatchCluster old \<in> set es"
  shows "ValidateUpdate sdk new old = Ok Admitted"
proof -
  have "\<exists>es. trace t = trace s @ es \<and> set es \<subseteq> cluster_writes sc"
    using assms(3) [unfolded cluster_Reconcile_split]
  proof (cases rule: then_session_run)
    case (Stopped q)
    with reads_only_trace [OF reads_cluster_lookup Stopped] show ?thesis by simp
  next
    case (Session y u)
    obtain sc' cluster where y: "y = (sc', cluster)" by fastforce
    with cluster_lookup_found [OF Session(1) [unfolded y]] assms(2) have "sc' = sc" "trace u = trace s" by auto
    with Session(2) y show ?thesis using cluster_session_writes [of k sdk sc cluster u r t] by simp
  qed
  then have writes: "set es \<subseteq> cluster_writes sc" using assms(4) by auto
  have intents: "same_intent sc new" "same_intent sc old"
    using writes assms(5,6) same_intent_spec by (auto simp: cluster_writes_def)
  then have "immutable_view new = immutable_view old" "valid_cluster sdk new = valid_cluster sdk sc"
    by (auto simp: same_intent_def immutable_view_def network_of_def loadBalancer_of_def valid_cluster_def)
  with assms(1) show ?thesis by (simp add: ValidateUpdate_Admitted ValidateCreate_def validate_Admitted)
qed

abbreviation ex_read_cluster :: ScalewayCluster where
  "ex_read_cluster \<equiv> ex_cluster\<lparr>sc_Meta := (ex_meta ''c'')\<lparr>meta_Namespace := ''default'', meta_Finalizers := []\<rparr>\<rparr>"

abbreviation ex_read_machine :: ScalewayMachine where
  "ex_read_machine \<equiv> ex_machine\<lparr>sm_Meta := (ex_meta ''m'')\<lparr>meta_Namespace := ''default'', meta_Finalizers := []\<rparr>\<rparr>"

lemma ex_server_answers:
  "k_GetScalewayCluster ex_server_k8s ns n w = (Inr (ex_cluster\<lparr>sc_Meta := (ex_meta n)\<lparr>meta_Namespace := ns, meta_Finalizers := w\<rparr>\<rparr>), w)"
  "k_GetScalewayMachine ex_server_k8s ns n w = (Inr (ex_machine\<lparr>sm_Meta := (ex_meta n)\<lparr>meta_Namespace := ns, meta_Finalizers := w\<rparr>\<rparr>), w)"
  "k_GetSecret ex_server_k8s ns n w = (Inr (ex_secret ns n), w)"
  "k_GetOwnerCluster ex_server_k8s meta w = (Inr (if meta_Name meta = [] then None else Some ex_capi_cluster), w)"
  "k_GetOwnerMachine ex_server_k8s meta w = (Inr (Some ex_capi_machine), w)"
  "k_GetClusterFromMetadata ex_server_k8s machine w = (Inr ex_capi_cluster, w)"
  "k_IsControlledBy ex_server_k8s sec sc" "\<not> k_IsPausedCluster ex_server_k8s cl sc" "\<not> k_IsPausedMachine ex_server_k8s cl m"
  "k_NewScwClient ex_server_k8s opts = Inr down_scw"
  "k_NewClusterHelper ex_server_k8s sc = Inr (\<lambda>after. patch_finalizers (meta_Finalizers (sc_Meta sc)) (meta_Finalizers (sc_Meta after)))"
  "k_NewMachineHelper ex_server_k8s m = Inr (\<lambda>after. patch_finalizers (meta_Finalizers (sm_Meta m)) (meta_Finalizers (sm_Meta after)))"
  by (simp_all add: ex_server_k8s_def down_k8s_def)

lemmas ex_session_run = clientFromSecret_def takeOwnership_def lift_api_def NewCluster_def NewMachine_def run_defs NewClient_down ex_server_answers

lemma ex_cluster_session:
  "\<exists>work final. trace (snd (cluster_Reconcile ex_server_k8s ex_sdk ex_unread ''default'' ''c'' \<lparr>world = [], trace = []\<rparr>))
     = work @ [CallPatchCluster final]"
proof -
  let ?helper = "\<lambda>after. patch_finalizers [] (meta_Finalizers (sc_Meta after))"
  have "cluster_Reconcile ex_server_k8s ex_sdk ex_unread ''default'' ''c'' \<lparr>world = [], trace = []\<rparr>
    = in_cluster_scope ex_read_cluster ex_capi_cluster (deferred (cluster_Close ?helper)
        (if meta_DeletionTimestamp (sc_Meta ex_read_cluster) then cluster_reconcileDelete ex_server_k8s down_client ex_sdk
         else cluster_reconcileNormal ex_server_k8s down_client ex_sdk ?helper)) \<lparr>world = [], trace = []\<rparr>"
    by (simp add: cluster_Reconcile_def cluster_session_def ex_session_run) (simp add: ex_meta_def)
  with cluster_scope_session [of ex_read_cluster ex_capi_cluster ?helper ex_server_k8s down_client ex_sdk] show ?thesis
    by (metis append_Nil env.select_convs(2) prod.collapse)
qed

theorem cluster_writes_admitted_witness:
  "\<exists>new. CallPatchCluster new \<in> set (trace (snd (cluster_Reconcile ex_server_k8s ex_sdk ex_unread ''default'' ''c'' \<lparr>world = [], trace = []\<rparr>)))
     \<and> ValidateUpdate ex_sdk new ex_read_cluster = Ok Admitted"
proof -
  let ?s = "\<lparr>world = [], trace = []\<rparr> :: string list env"
  let ?run = "cluster_Reconcile ex_server_k8s ex_sdk ex_unread ''default'' ''c'' ?s"
  obtain work new where "trace (snd ?run) = work @ [CallPatchCluster new]" using ex_cluster_session by blast
  then have new: "CallPatchCluster new \<in> set (trace (snd ?run))" by simp
  have "ValidateCreate ex_sdk ex_read_cluster = Ok Admitted"
    using ex_cluster_valid by (simp add: ValidateCreate_def validate_Admitted valid_cluster_def)
  from cluster_writes_admitted [OF this _ prod.collapse [symmetric, of ?run], of _ "trace (snd ?run)" new] new
  show ?thesis by (auto simp: ex_server_answers)
qed

section \<open>What the machine controller writes\<close>

definition same_machine :: "ScalewayMachine \<Rightarrow> ScalewayMachine \<Rightarrow> bool" where
  "same_machine m m' \<longleftrightarrow> (\<exists>p. sm_Spec m' = (sm_Spec m)\<lparr>ms_ProviderID := p\<rparr>)"

definition machine_writes :: "ScalewayMachine \<Rightarrow> call set" where
  "machine_writes m = {ev. \<forall>m'. ev = CallPatchMachine m' \<longrightarrow> same_machine m m'}"

lemma same_machine_spec: "sm_Spec m' = sm_Spec m \<Longrightarrow> same_machine m m'"
  unfolding same_machine_def by (rule exI [where x = "ms_ProviderID (sm_Spec m)"]) simp

lemma machine_calls_no_write: "machine_creates \<subseteq> machine_writes m" "machine_deletes \<subseteq> machine_writes m"
  by (auto simp: machine_writes_def machine_creates_def machine_deletes_def prepare_calls_def leave_calls_def)

lemma machine_normal_writes:
  assumes "machine_reconcileNormal k c sdk engine helper s = (r, t)"
  shows "\<exists>es. trace t = trace s @ es \<and> set es \<subseteq> machine_writes (scope_ScalewayMachine s)
    \<and> same_machine (scope_ScalewayMachine s) (scope_ScalewayMachine t)"
proof -
  obtain fs added where add: "k_AddFinalizer k (meta_Finalizers (sm_Meta (scope_ScalewayMachine s))) MachineFinalizer = (fs, added)"
    by fastforce
  have first: "\<exists>es. trace u = trace s @ es \<and> set es \<subseteq> machine_writes (scope_ScalewayMachine s)
      \<and> scope_ScalewayMachine u = SetMachineFinalizers fs (scope_ScalewayMachine s)"
    if "addMachineFinalizer k helper s = (q, u)" for q u
    using addMachineFinalizer_run [OF that add] by (auto simp: machine_writes_def same_machine_spec)
  from assms [unfolded machine_normal_split] show ?thesis
  proof (cases rule: bind_run)
    case (Ok x u)
    obtain es where es: "trace u = trace s @ es" "set es \<subseteq> machine_writes (scope_ScalewayMachine s)"
      "scope_ScalewayMachine u = SetMachineFinalizers fs (scope_ScalewayMachine s)"
      using first [OF Ok(1)] by blast
    obtain fs' where "trace t = trace u @ fs'" "set fs' \<subseteq> machine_creates"
      and obj: "if r = Ok no_requeue then \<exists>p as. scope_ScalewayMachine t = SetMachineReady (SetMachineResult p as (scope_ScalewayMachine u))
       else scope_ScalewayMachine t = scope_ScalewayMachine u"
      using machine_work_effect [OF Ok(2)] by (fastforce split: if_splits)
    moreover have "same_machine (scope_ScalewayMachine s) (scope_ScalewayMachine t)"
      using obj by (auto simp: es(3) SetMachineResult_def same_machine_def intro: same_machine_spec [unfolded same_machine_def] split: if_splits)
    ultimately show ?thesis
      using es machine_calls_no_write(1) by (intro exI [where x = "es @ fs'"]) auto
  qed (use first in \<open>fastforce intro: same_machine_spec\<close>)+
qed

lemma machine_delete_writes:
  assumes "machine_reconcileDelete k c sdk s = (r, t)"
  shows "\<exists>es. trace t = trace s @ es \<and> set es \<subseteq> machine_writes (scope_ScalewayMachine s)
    \<and> same_machine (scope_ScalewayMachine s) (scope_ScalewayMachine t)"
  using assms
proof (rule machine_delete_run)
  fix q u
  assume del: "instance_Delete c sdk s = (q, u)" "trace t = trace u"
    and obj: "scope_ScalewayMachine t = (if r = Ok no_requeue then SetMachineFinalizers (k_RemoveFinalizer k
       (meta_Finalizers (sm_Meta (scope_ScalewayMachine s))) MachineFinalizer) (scope_ScalewayMachine s) else scope_ScalewayMachine s)"
  obtain es where "trace u = trace s @ es" "set es \<subseteq> machine_deletes"
    using only_callsD [OF instance_Delete_calls del(1)] by (auto dest!: made_trace)
  with del(2) obj machine_calls_no_write(2) show ?thesis by (auto intro: same_machine_spec)
qed

lemma machine_scope_writes:
  assumes "in_machine_scope sc cluster m machine (deferred (machine_Close helper) (if meta_DeletionTimestamp (sm_Meta m)
      then machine_reconcileDelete k c sdk else machine_reconcileNormal k c sdk engine helper)) s = (r, t)"
  shows "\<exists>es. trace t = trace s @ es \<and> set es \<subseteq> machine_writes m"
proof -
  let ?s = "\<lparr>world = world s, trace = trace s, scope_ScalewayCluster = sc,
    scope_InfrastructureReady = cc_InfrastructureReady cluster, scope_ScalewayMachine = m, scope_Machine = machine\<rparr>"
  let ?p = "if meta_DeletionTimestamp (sm_Meta m) then machine_reconcileDelete k c sdk else machine_reconcileNormal k c sdk engine helper"
  obtain u where "deferred (machine_Close helper) ?p ?s = (r, u)" "trace t = trace u"
    using assms by (auto simp: in_machine_scope_def split: prod.splits)
  then obtain q v where run: "?p ?s = (q, v)" and last: "trace t = trace v @ [CallPatchMachine (scope_ScalewayMachine v)]"
    using machine_closer.deferred_closes by (fastforce dest: made_trace)
  then obtain es where "trace v = trace s @ es" "set es \<subseteq> machine_writes m" "same_machine m (scope_ScalewayMachine v)"
    using machine_delete_writes [of k c sdk ?s] machine_normal_writes [of k c sdk engine helper ?s] by (fastforce split: if_splits)
  with last show ?thesis by (auto simp: machine_writes_def)
qed

lemma machine_session_writes:
  assumes "machine_session k sdk engine sc cluster m machine s = (r, t)"
  shows "\<exists>es. trace t = trace s @ es \<and> set es \<subseteq> machine_writes m"
proof -
  have secret: "\<exists>es. trace u = trace s @ es \<and> set es \<subseteq> machine_writes m" if "clientFromSecret k sc s = (q, u)" for q u
    using clientFromSecret_once [OF that] by (fastforce simp: machine_writes_def)
  have quiet: "trace v = trace u" if "NewMachine k sc m u = (q, v)" for q :: "'a machine_helper outcome" and u v :: "'a env"
    using that reads_only_trace [of "NewMachine k sc m" u q v] unfolding NewMachine_def NewCluster_def by (simp add: read_intros)
  from assms [unfolded machine_session_def] show ?thesis
  proof (cases rule: bind_run)
    case (Ok client u)
    note secret = secret [OF Ok(1)]
    from Ok(2) show ?thesis
    proof (cases rule: bind_run)
      case (Ok c v)
      then have v: "v = u" by (simp add: pure_Ok)
      from Ok(2) show ?thesis
      proof (cases rule: bind_run)
        case (Ok helper x)
        then show ?thesis using machine_scope_writes [OF Ok(2)] quiet [OF Ok(1)] v secret by fastforce
      qed (use v quiet secret in auto)
    qed (use secret in \<open>auto simp: lift_outcome_def\<close>)
  qed (use secret in blast)+
qed

text \<open>
  C16: what the webhook says to what the machine controller writes. If the machine that was read is
  one that the webhook admits, then every object that the reconciliation writes back is admitted as
  an update of the object that was read and of every other one that was written, with one
  exception: if the machine already had a provider ID and its server is another one now, so that
  the provider ID changed, the write is refused with exactly that error.
\<close>

theorem machine_writes_admitted:
  assumes "Machine_ValidateCreate m = Admitted" and "k_GetScalewayMachine k namespace name (world s) = (Inr m, w)"
    and "machine_Reconcile k sdk engine namespace name s = (r, t)" and "trace t = trace s @ es"
    and "CallPatchMachine new \<in> set es" and "old = m \<or> CallPatchMachine old \<in> set es"
  shows "Machine_ValidateUpdate new old =
    (if ms_ProviderID (sm_Spec old) = None \<or> ms_ProviderID (sm_Spec new) = ms_ProviderID (sm_Spec old) then Admitted
     else Rejected ''ScalewayCluster'' [FieldInvalid [Child ''spec'', Child ''providerID''] ''field is immutable''])"
proof -
  have "\<exists>es. trace t = trace s @ es \<and> set es \<subseteq> machine_writes m"
    using assms(3) [unfolded machine_Reconcile_split]
  proof (cases rule: then_session_run)
    case (Stopped q)
    with reads_only_trace [OF reads_machine_lookup Stopped] show ?thesis by simp
  next
    case (Session y u)
    obtain m' machine cluster sc where y: "y = (m', machine, cluster, sc)" by (cases y) blast
    with machine_lookup_found [OF Session(1) [unfolded y]] assms(2) have "m' = m" "trace u = trace s"
      by (auto simp: machine_gate_def)
    with Session(2) y show ?thesis using machine_session_writes [of k sdk engine sc cluster m machine u r t] by simp
  qed
  then have writes: "set es \<subseteq> machine_writes m" using assms(4) by auto
  have "same_machine m new" "same_machine m old"
    using writes assms(5,6) same_machine_spec by (auto simp: machine_writes_def)
  then obtain p q where spec: "sm_Spec new = (sm_Spec m)\<lparr>ms_ProviderID := p\<rparr>" "sm_Spec old = (sm_Spec m)\<lparr>ms_ProviderID := q\<rparr>"
    by (auto simp: same_machine_def)
  have "Machine_validate new = Admitted"
    using assms(1) spec(1) by (simp add: Machine_ValidateCreate_def Machine_validate_def Let_def)
  then show ?thesis
    by (auto simp: Machine_ValidateUpdate_def Machine_enforceImmutability_def Machine_immutability_errors_def immutable_err_def spec Let_def)
qed

lemma ex_machine_session:
  "\<exists>work final. trace (snd (machine_Reconcile ex_server_k8s ex_sdk (\<lambda>b. Inr (\<lambda>v. Inr b)) ''default'' ''m'' \<lparr>world = [], trace = []\<rparr>))
     = work @ [CallPatchMachine final]"
proof -
  let ?helper = "\<lambda>after. patch_finalizers [] (meta_Finalizers (sm_Meta after))"
  let ?sc = "ex_cluster\<lparr>sc_Meta := (ex_meta ''c'')\<lparr>meta_Namespace := ''default'', meta_Finalizers := []\<rparr>\<rparr>"
  have "machine_Reconcile ex_server_k8s ex_sdk (\<lambda>b. Inr (\<lambda>v. Inr b)) ''default'' ''m'' \<lparr>world = [], trace = []\<rparr>
    = in_machine_scope ?sc ex_capi_cluster ex_read_machine ex_capi_machine (deferred (machine_Close ?helper)
        (if meta_DeletionTimestamp (sm_Meta ex_read_machine) then machine_reconcileDelete ex_server_k8s down_client ex_sdk
         else machine_reconcileNormal ex_server_k8s down_client ex_sdk (\<lambda>b. Inr (\<lambda>v. Inr b)) ?helper)) \<lparr>world = [], trace = []\<rparr>"
    by (simp add: machine_Reconcile_def machine_session_def ex_session_run ex_capi_cluster_def)
  with machine_scope_session [of ?sc ex_capi_cluster ex_read_machine ex_capi_machine ?helper ex_server_k8s down_client ex_sdk] show ?thesis
    by (metis append_Nil env.select_convs(2) prod.collapse)
qed

theorem machine_writes_admitted_witness:
  "\<exists>new. CallPatchMachine new \<in> set (trace (snd (machine_Reconcile ex_server_k8s ex_sdk (\<lambda>b. Inr (\<lambda>v. Inr b)) ''default'' ''m'' \<lparr>world = [], trace = []\<rparr>)))
     \<and> Machine_ValidateUpdate new ex_read_machine = Admitted"
proof -
  let ?s = "\<lparr>world = [], trace = []\<rparr> :: string list env"
  let ?run = "machine_Reconcile ex_server_k8s ex_sdk (\<lambda>b. Inr (\<lambda>v. Inr b)) ''default'' ''m'' ?s"
  obtain work new where "trace (snd ?run) = work @ [CallPatchMachine new]" using ex_machine_session by blast
  then have new: "CallPatchMachine new \<in> set (trace (snd ?run))" by simp
  have "Machine_ValidateCreate ex_read_machine = Admitted"
    by (simp add: Machine_ValidateCreate_def Machine_validate_Admitted root_volume_ok_def ex_objects)
  from machine_writes_admitted [OF this _ prod.collapse [symmetric, of ?run], of _ "trace (snd ?run)" new ex_read_machine] new
  have "Machine_ValidateUpdate new ex_read_machine = Admitted" by (simp add: ex_server_answers ex_objects)
  with new show ?thesis by blast
qed

end
