(* ===== verification/Retrying.thy ===== *)
theory Retrying
  imports Lifecycle
begin

text \<open>
  Reconciliation is retried: after an error, and after a result that asks for it, the manager runs
  the handler again. Whether this ends depends on the environment. The hypothesis used here is
  that it refuses only finitely often: there is a measure of the world that no call raises, and that
  every call lowers which fails or does not give what the code needs (\<open>relents\<close>). Then code
  that is \<open>surely\<close> successful when nothing is refused comes to its end, and the measure bounds the
  number of runs.
\<close>

section \<open>Running a handler until it is done\<close>

text \<open>
  The number of runs and the last state. A panic ends the program; a handler that is never done
  gives \<open>None\<close>.
\<close>

partial_function (option) again_until :: "('s, ctrl_Result) go \<Rightarrow> 's \<Rightarrow> (nat \<times> 's) option" where
  "again_until handler s = (case handler s of (r, t) \<Rightarrow>
     if r = Ok no_requeue then Some (1, t)
     else if r = Panic then None
     else Option.bind (again_until handler t) (\<lambda>(n, u). Some (Suc n, u)))"

locale retried =
  fixes handler :: "('s, ctrl_Result) go"
    and good :: "'s \<Rightarrow> bool"
    and left :: "'s \<Rightarrow> nat"
  assumes advance: "good s \<Longrightarrow> handler s = (r, t) \<Longrightarrow> r \<noteq> Ok no_requeue \<Longrightarrow> r \<noteq> Panic \<and> good t \<and> left t < left s"
begin

lemma done_eventually:
  assumes "good s"
  shows "\<exists>n t u. again_until handler s = Some (n, t) \<and> n \<le> Suc (left s) \<and> good u \<and> handler u = (Ok no_requeue, t)"
  using assms
proof (induction "left s" arbitrary: s rule: less_induct)
  case less
  obtain r t where run: "handler s = (r, t)" by fastforce
  show ?case
  proof (cases "r = Ok no_requeue")
    case True
    with run less.prems show ?thesis by (intro exI [where x = 1]) (auto simp: again_until.simps [of _ s])
  next
    case False
    note next_run = advance [OF less.prems run False]
    then obtain n v u where "again_until handler t = Some (n, v)" "n \<le> Suc (left t)" "good u" "handler u = (Ok no_requeue, v)"
      using less.hyps [of t] by blast
    with run False next_run show ?thesis
      by (intro exI [where x = "Suc n"]) (auto simp: again_until.simps [of _ s])
  qed
qed

end

section \<open>Calls that are refused only finitely often\<close>

definition relents :: "('w \<Rightarrow> nat) \<Rightarrow> ('a \<Rightarrow> bool) \<Rightarrow> ('w, 'a) act \<Rightarrow> bool" where
  "relents p ok f \<longleftrightarrow> (\<forall>w r v. f w = (r, v) \<longrightarrow> p v \<le> p w \<and> (p v = p w \<longrightarrow> (\<exists>x. r = Inr x \<and> ok x)))"

lemma relents_act: "relents p ok f \<Longrightarrow> act_steps (lowers p) f"
  by (auto simp: relents_def act_steps_def lowers_def) (metis prod.collapse)

lemma relentsD:
  assumes "relents p ok f" "f w = (r, v)"
  shows "p v < p w \<or> p v = p w \<and> (\<exists>x. r = Inr x \<and> ok x)"
  using assms unfolding relents_def by (metis le_neq_implies_less)

text \<open>
  \<open>surely p g a P m\<close>: if the part \<open>g\<close> of the state is \<open>a\<close>, then running \<open>m\<close> either lowers the measure \<open>p\<close>
  or returns a value; \<open>P\<close> then holds of it and of the part \<open>g\<close> of the new state.
\<close>

definition surely :: "('w \<Rightarrow> nat) \<Rightarrow> (('w, 'z) env_scheme \<Rightarrow> 'b) \<Rightarrow> 'b \<Rightarrow> ('a \<Rightarrow> 'b \<Rightarrow> bool)
    \<Rightarrow> (('w, 'z) env_scheme, 'a) go \<Rightarrow> bool" where
  "surely p g a P m \<longleftrightarrow> steps (lowers p) m
     \<and> (\<forall>s r t. g s = a \<longrightarrow> m s = (r, t) \<longrightarrow> p (world t) = p (world s) \<longrightarrow> (\<exists>x. r = Ok x \<and> P x (g t)))"

named_theorems sure_intros \<open>code that succeeds unless it is refused something\<close>

lemma surely_steps: "surely p g a P m \<Longrightarrow> steps (lowers p) m"
  by (simp add: surely_def)

lemma surelyD:
  assumes "surely p g a P m" "g s = a" "m s = (r, t)"
  shows "p (world t) < p (world s) \<or> (\<exists>x. r = Ok x \<and> P x (g t) \<and> p (world t) = p (world s))"
proof -
  have "p (world t) \<le> p (world s)" using stepsD [OF surely_steps [OF assms(1)] assms(3)] by (simp add: lowers_def)
  then show ?thesis using assms by (cases "p (world t) = p (world s)") (auto simp: surely_def)
qed

lemma surely_mono: "surely p g a P m \<Longrightarrow> (\<And>x b. P x b \<Longrightarrow> Q x b) \<Longrightarrow> surely p g a Q m"
  unfolding surely_def by blast

lemma surely_keeps:
  assumes "surely p g a P m" "keeps (\<lambda>s. h (g s)) m"
  shows "surely p g a (\<lambda>x b. P x b \<and> h b = h a) m"
  using assms keepsD [OF assms(2)] unfolding surely_def by (metis snd_conv)

lemma surely_ret: "P x a \<Longrightarrow> surely p g a P (ret x)"
  by (auto simp: surely_def ret_def intro!: lowered.steps_pure [unfolded ret_def])

lemma surely_pure:
  "(\<exists>x. r = Inr x \<and> P x a) \<Longrightarrow> surely p g a P (lift_sum r)"
  "(\<exists>x. q = Ok x \<and> P x a) \<Longrightarrow> surely p g a P (lift_outcome q)"
  "(\<exists>x. d = Some x \<and> P x a) \<Longrightarrow> surely p g a P (deref d)"
  by (auto simp: surely_def lift_outcome_def ret_def intro: lowered.steps_pure [unfolded lift_outcome_def] lowered.steps_pure [unfolded ret_def])

lemma surely_read:
  assumes "relents p ok f" "\<And>s w. g (s\<lparr>world := w\<rparr>) = g s" "\<And>x. ok x \<Longrightarrow> P x a"
  shows "surely p g a P (sdk_read f)"
  unfolding surely_def
proof (intro conjI allI impI lowered.steps_sdk_read relents_act [OF assms(1)])
  fix s r t
  assume "g s = a" "sdk_read f s = (r, t)" "p (world t) = p (world s)"
  moreover from this obtain q w where "f (world s) = (q, w)" "r = api_result q" "t = s\<lparr>world := w\<rparr>"
    by (auto simp: sdk_read_def split: prod.splits)
  ultimately show "\<exists>x. r = Ok x \<and> P x (g t)" using assms by (fastforce simp: relents_def)
qed

lemma surely_call:
  assumes "relents p ok f" "\<And>s w t. g (s\<lparr>world := w, trace := t\<rparr>) = g s" "\<And>x. ok x \<Longrightarrow> P x a"
  shows "surely p g a P (sdk_call ev f)"
  unfolding surely_def
proof (intro conjI allI impI lowered.steps_sdk_call relents_act [OF assms(1)])
  fix s r t
  assume "g s = a" "sdk_call ev f s = (r, t)" "p (world t) = p (world s)"
  moreover from this obtain q w where "f (world s) = (q, w)" "r = api_result q" "t = s\<lparr>world := w, trace := trace s @ [ev]\<rparr>"
    by (auto simp: sdk_call_def split: prod.splits)
  ultimately show "\<exists>x. r = Ok x \<and> P x (g t)" using assms by (fastforce simp: relents_def)
qed

lemma surely_bind:
  assumes m: "surely p g a Q m" and low: "\<And>x. steps (lowers p) (f x)" and f: "\<And>x b. Q x b \<Longrightarrow> surely p g b P (f x)"
  shows "surely p g a P (bind m f)"
  unfolding surely_def
proof (intro conjI allI impI lowered.steps_bind low surely_steps [OF m])
  fix s r t
  assume start: "g s = a" and run: "bind m f s = (r, t)" and kept: "p (world t) = p (world s)"
  obtain q u where u: "m s = (q, u)" by fastforce
  have "p (world u) \<le> p (world s)" using stepsD [OF surely_steps [OF m] u] by (simp add: lowers_def)
  moreover have "p (world t) \<le> p (world u)"
    using run u stepsD [OF low, of _ u] by (cases q) (auto simp: bind_def lowers_def)
  ultimately have same: "p (world u) = p (world s)" "p (world t) = p (world u)" using kept by simp_all
  then obtain x where x: "q = Ok x" "Q x (g u)" using surelyD [OF m start u] by auto
  with run u have "f x u = (r, t)" by (simp add: bind_def)
  from surelyD [OF f [OF x(2)] refl this] same show "\<exists>x. r = Ok x \<and> P x (g t)" by auto
qed

text \<open>Most code leaves the part \<open>g\<close> alone.\<close>

definition unchanged :: "'b \<Rightarrow> ('a \<Rightarrow> bool) \<Rightarrow> 'a \<Rightarrow> 'b \<Rightarrow> bool" where
  "unchanged a ok x b \<longleftrightarrow> ok x \<and> b = a"

abbreviation anything :: "'a \<Rightarrow> bool" where
  "anything \<equiv> \<lambda>_. True"

lemma surely_any: "surely p g a (unchanged a ok) m \<Longrightarrow> surely p g a (unchanged a anything) m"
  by (erule surely_mono) (simp add: unchanged_def)

lemma surely_then:
  "surely p g a (unchanged a ok) m \<Longrightarrow> (\<And>x. steps (lowers p) (f x)) \<Longrightarrow> (\<And>x. ok x \<Longrightarrow> surely p g a P (f x)) \<Longrightarrow>
   surely p g a P (bind m f)"
  by (erule surely_bind) (auto simp: unchanged_def)

lemma surely_seq [sure_intros]:
  "surely p g a (unchanged a anything) m \<Longrightarrow> (\<And>x. surely p g a P (f x)) \<Longrightarrow> surely p g a P (bind m f)"
  by (erule surely_then) (auto intro: surely_steps)

lemma surely_wrapping [sure_intros]: "surely p g a P m \<Longrightarrow> surely p g a P (wrapping msg m)"
  by (auto simp: surely_def wrapping_def intro!: lowered.steps_wrap [unfolded wrapping_def] split: prod.splits outcome.splits)

lemma surely_attempt: "surely p g a P m \<Longrightarrow> surely p g a (\<lambda>r b. \<exists>x. r = Inr x \<and> P x b) (attempt m)"
  by (auto simp: surely_def attempt_def intro!: lowered.steps_wrap [unfolded attempt_def] split: prod.splits outcome.splits)

lemma surely_branches [sure_intros]:
  "(b \<Longrightarrow> surely p g a P m) \<Longrightarrow> (\<not> b \<Longrightarrow> surely p g a P n) \<Longrightarrow> surely p g a P (if b then m else n)"
  "(o' = None \<Longrightarrow> surely p g a P m) \<Longrightarrow> (\<And>y. o' = Some y \<Longrightarrow> surely p g a P (k y)) \<Longrightarrow>
     surely p g a P (case o' of None \<Rightarrow> m | Some y \<Rightarrow> k y)"
  by (simp_all split: option.split)

lemma surely_for_each [sure_intros]:
  "(\<And>x. x \<in> set xs \<Longrightarrow> surely p g a (unchanged a anything) (f x)) \<Longrightarrow> surely p g a (unchanged a anything) (for_each f xs)"
  by (induction xs) (auto simp: unchanged_def intro!: surely_ret surely_seq)

lemma surely_keep_named [sure_intros]:
  "(\<And>x. surely p g a (unchanged a anything) (delete x)) \<Longrightarrow>
   surely p g a (unchanged a anything) (keep_named wanted delete kept xs)"
  by (induction xs arbitrary: kept) (auto simp: unchanged_def intro!: surely_ret surely_seq)

text \<open>Finding an item in a list, and finding or creating one.\<close>

lemma surely_optional:
  assumes "surely p g a (unchanged a ok) items" "\<And>x. steps (lowers p) (pick x)"
    and "\<And>xs s. ok xs \<Longrightarrow> \<exists>r. optional (pick xs) s = (Ok r, s) \<and> found r"
  shows "surely p g a (unchanged a found) (optional (bind items pick))"
  unfolding surely_def
proof (intro conjI allI impI lowered.steps_wrap lowered.steps_bind surely_steps [OF assms(1)] assms(2))
  fix s r t
  assume start: "g s = a" and run: "optional (bind items pick) s = (r, t)" and kept: "p (world t) = p (world s)"
  obtain q u where u: "items s = (q, u)" by fastforce
  have "p (world u) \<le> p (world s)" using stepsD [OF surely_steps [OF assms(1)] u] by (simp add: lowers_def)
  moreover have "snd (bind items pick s) = t" using run snd_optional [of "bind items pick" s] by simp
  with u have "p (world t) \<le> p (world u)"
    using assms(2) [unfolded steps_def lowers_def] by (cases q) (auto simp: bind_def)
  ultimately have "p (world u) = p (world s)" using kept by simp
  then obtain xs where xs: "q = Ok xs" "ok xs" "g u = a" using surelyD [OF assms(1) start u] by (auto simp: unchanged_def)
  with u have "optional (bind items pick) s = optional (pick xs) u" by (simp add: optional_def attempt_def bind_def)
  with run assms(3) [OF xs(2), of u] xs(3) show "\<exists>x. r = Ok x \<and> unchanged a found x (g t)" by (auto simp: unchanged_def)
qed

lemma surely_find:
  "surely p g a (unchanged a ok) items \<Longrightarrow>
   surely p g a (unchanged a (\<lambda>r. \<exists>xs. ok xs \<and> r = find wanted xs)) (optional (bind items (first_match wanted)))"
  by (erule surely_optional, rule lowered.steps_items)
    (auto simp: first_match_def optional_def attempt_def bind_def ret_def throw_def split: option.split)

lemma surely_find_tagged:
  "surely p g a (unchanged a (\<lambda>xs. length xs \<le> 1)) items \<Longrightarrow>
   surely p g a (unchanged a anything) (optional (bind items only_item))"
  by (erule surely_optional, rule lowered.steps_items)
    (auto simp: only_item_def optional_def attempt_def bind_def ret_def throw_def split: list.split)

lemma surely_find_there:
  "surely p g a (unchanged a (\<lambda>xs. \<exists>x \<in> set xs. wanted x)) items \<Longrightarrow>
   surely p g a (unchanged a wanted) (bind items (first_match wanted))"
  by (erule surely_then, intro lowered.steps_items)
    (auto simp: first_match_def unchanged_def find_eq_None intro!: surely_ret lowered.steps_items split: option.split dest: find_SomeD)

lemma surely_getOrCreate:
  assumes "surely p g a (unchanged a (\<lambda>r. \<forall>x. r = Some x \<longrightarrow> ok x)) lookup" "surely p g a (unchanged a ok) create"
  shows "surely p g a (unchanged a ok) (getOrCreate lookup create)"
  unfolding getOrCreate_def
  by (rule surely_then [OF assms(1)])
    (auto simp: unchanged_def intro!: surely_ret assms(2) lowered.steps_case_option lowered.steps_pure surely_steps [OF assms(2)] split: option.split)

lemma surely_optional_there: "surely p g a P m \<Longrightarrow> surely p g a (\<lambda>r b. \<exists>x. r = Some x \<and> P x b) (optional m)"
  unfolding optional_def
  by (erule surely_bind [OF surely_attempt]) (auto intro!: store_intros surely_ret)

section \<open>Sessions\<close>

text \<open>What follows the work: the object is written back, and an error of that is an error of the run.\<close>

lemma deferred_outcome:
  fixes p :: "'w \<Rightarrow> nat"
  assumes work: "m s = (q, v)" "q \<noteq> Panic" "q = Ok no_requeue \<and> p (world v) = b \<or> p (world v) < b"
    and close: "close v = (api_result a, u)" "p (world u) < p (world v) \<or> p (world u) = p (world v) \<and> a = Inr ()"
    and run: "deferred close m s = (r, t)"
  shows "t = u \<and> r \<noteq> Panic \<and> (if r = Ok no_requeue then q = Ok no_requeue \<and> a = Inr () else p (world t) < b)"
proof -
  have "t = u" and r: "r = (case a of Inr _ \<Rightarrow> q | Inl e \<Rightarrow> (case q of Ok _ \<Rightarrow> Err (ApiErr e) | _ \<Rightarrow> q))"
    using run work(1) close(1) by (auto simp: deferred_def api_result_def split: sum.splits)
  with work(2,3) close(2) show ?thesis by (cases a) (auto split: outcome.splits)
qed

text \<open>
  What precedes it: the secret gives a client of the cloud, and \<open>ok\<close> says what that has to grant. \<open>object\<close>
  is the object of the session as it is stored, which none of it writes.
\<close>

definition grants_client :: "('w \<Rightarrow> nat) \<Rightarrow> ('w \<Rightarrow> 'b) \<Rightarrow> ('w Client \<Rightarrow> bool) \<Rightarrow> 'w k8s_API \<Rightarrow> bool" where
  "grants_client p object ok k \<longleftrightarrow> cloud_keeps object k
   \<and> (\<forall>ns n. relents p anything (k_GetSecret k ns n)) \<and> (\<forall>secret. relents p anything (k_UpdateSecret k secret))
   \<and> (\<forall>x secret. \<exists>owned. k_SetOwnerReference k x secret = Inr owned)
   \<and> (\<forall>opts. \<exists>client. k_NewScwClient k opts = Inr client)
   \<and> (\<forall>opts client. k_NewScwClient k opts = Inr client \<longrightarrow> (\<exists>c. NewClient client = Ok c \<and> ok c))"

lemma sure_clientFromSecret:
  assumes "grants_client p object ok k"
  shows "surely p (\<lambda>_. ()) () (\<lambda>_ _. True) (clientFromSecret k x)"
proof -
  have grants: "relents p anything (k_GetSecret k ns n)" "relents p anything (k_UpdateSecret k owned)" for ns n owned
    using assms by (simp_all add: grants_client_def)
  have secret: "surely p (\<lambda>_. ()) () (unchanged () anything) (sdk_read (k_GetSecret k ns n))"
    "surely p (\<lambda>_. ()) () (unchanged () anything) (sdk_call ev (k_UpdateSecret k owned))" for ns n ev owned
    by (rule surely_read [OF grants(1)] surely_call [OF grants(2)]; simp add: unchanged_def)+
  have pure: "surely p (\<lambda>_. ()) () P (lift_api a)" if "\<exists>y. a = Inr y \<and> P y ()" for a :: "api_error + 'y" and P
    using that by (auto simp: lift_api_def intro: surely_ret)
  have "surely p (\<lambda>_. ()) () (unchanged () anything) (takeOwnership k x secret)" for secret
    unfolding takeOwnership_def
    by (intro sure_intros secret surely_ret pure) (use assms in \<open>auto simp: grants_client_def unchanged_def\<close>)
  then show ?thesis
    unfolding clientFromSecret_def by (intro surely_seq secret pure) (use assms in \<open>auto simp: grants_client_def\<close>)
qed

lemma granted_session:
  assumes grants: "grants_client p object ok k" and new: "\<And>u. new u = (Ok helper, u)"
    and run: "bind (clientFromSecret k x) (\<lambda>client. bind (lift_outcome (NewClient client)) (\<lambda>c. bind new (body c))) s = (r, t)"
  obtains (Refused) e where "r = Err e" "object (world t) = object (world s)" "p (world t) < p (world s)"
  | (Opened) c u where "ok c" "client_keeps object c" "object (world u) = object (world s)" "p (world u) \<le> p (world s)"
      "body c helper u = (r, t)"
proof -
  have cloud: "cloud_keeps object k" using grants by (simp add: grants_client_def)
  obtain q u where secret: "clientFromSecret k x s = (q, u)" by fastforce
  have keep: "object (world u) = object (world s)" using storesD [OF stores_clientFromSecret [OF cloud] secret] .
  note sure = surelyD [OF sure_clientFromSecret [OF grants] refl secret]
  from run show thesis
  proof (cases rule: bind_run)
    case (Ok client v)
    then obtain opts where opts: "k_NewScwClient k opts = Inr client" by (auto simp: clientFromSecret_def ok_iffs)
    then obtain c where c: "NewClient client = Ok c" "ok c" using grants unfolding grants_client_def by metis
    have v: "v = u" "p (world u) \<le> p (world s)" using Ok(1) secret sure by auto
    have "body c helper u = (r, t)" using Ok(2) v(1) c(1) new by (simp add: lift_outcome_def bind_def)
    with Opened c(2) cloud_client [OF cloud opts c(1)] keep v(2) show thesis .
  next
    case (Err e)
    with secret sure keep Refused show thesis by auto
  next
    case Panic
    with no_panic_clientFromSecret [of k x] show thesis by (metis fst_conv no_panic_def)
  qed
qed

end
