(* ===== verification/Machine_Retrying.thy ===== *)
theory Machine_Retrying
  imports Retrying
begin

text \<open>
  Reconciling a machine succeeds, and so does deleting it, unless the cloud or the API server
  refuses something: the instance service and the machine controller by the rules of \<open>surely\<close>.
\<close>

section \<open>What the cloud has to grant\<close>

text \<open>The load balancer of the cluster with its backend and its frontend is there, and takes changes of servers and ACLs.\<close>

definition grants_membership :: "('w \<Rightarrow> nat) \<Rightarrow> 'w lb_API \<Rightarrow> bool" where
  "grants_membership p l \<longleftrightarrow>
     (\<forall>z n. relents p (\<lambda>ls. \<exists>x \<in> set ls. lb_Name x = n) (lb_ListLBs l z n))
   \<and> (\<forall>z i n. relents p (\<lambda>bs. \<exists>x \<in> set bs. be_Name x = n) (lb_ListBackends l z i (Some n)))
   \<and> (\<forall>z i n. relents p (\<lambda>fs. \<exists>x \<in> set fs. fe_Name x = n) (lb_ListFrontends l z i (Some n)))
   \<and> (\<forall>z i ips. relents p anything (lb_AddBackendServers l z i ips)) \<and> (\<forall>z i ips. relents p anything (lb_RemoveBackendServers l z i ips))
   \<and> (\<forall>z i n. relents p anything (lb_ListACLs l z i n)) \<and> (\<forall>z i r. relents p anything (lb_CreateACL l z i r))
   \<and> (\<forall>z i r. relents p anything (lb_UpdateACL l z i r)) \<and> (\<forall>z i. relents p anything (lb_DeleteACL l z i))"

text \<open>
  \<open>net\<close> is the private network of the cluster, if it has one: then a server has an address there, and
  otherwise it needs a public one. \<open>grouped\<close>: the machine names a security group, which then has to exist.
\<close>

definition in_network :: "string option \<Rightarrow> ScalewayCluster \<Rightarrow> bool" where
  "in_network net sc \<longleftrightarrow> (case net of None \<Rightarrow> \<not> HasPrivateNetwork sc | Some i \<Rightarrow> PrivateNetworkID sc = Ok i)"

definition addressed :: "string option \<Rightarrow> Server \<Rightarrow> bool" where
  "addressed net server \<longleftrightarrow> net \<noteq> None \<or> srv_PublicIP server \<noteq> None"

definition grants_instance :: "('w \<Rightarrow> nat) \<Rightarrow> string option \<Rightarrow> bool \<Rightarrow> 'w instance_API \<Rightarrow> bool" where
  "grants_instance p net grouped i \<longleftrightarrow>
     (\<forall>z ts. relents p (\<lambda>ips. length ips \<le> 1) (instance_ListIPs i z ts)) \<and> (\<forall>z ts. relents p anything (instance_CreateIP i z ts))
   \<and> (\<forall>z n. relents p (\<lambda>xs. \<forall>x. find (\<lambda>y. srv_Name y = n) xs = Some x \<longrightarrow> addressed net x) (instance_ListServers i z n))
   \<and> (\<forall>r. relents p (addressed net) (instance_CreateServer i r))
   \<and> (grouped \<longrightarrow> (\<forall>z n. relents p (\<lambda>gs. \<exists>x \<in> set gs. isg_Name x = n) (instance_ListSecurityGroups i [z] (Some n) [])))
   \<and> (\<forall>z n. relents p anything (instance_ListPrivateNICs i z n)) \<and> (\<forall>z n pn. relents p anything (instance_CreatePrivateNIC i z n pn))
   \<and> (\<forall>z n. relents p anything (instance_GetAllServerUserData i z n)) \<and> (\<forall>z n key d. relents p anything (instance_SetServerUserData i z n key d))
   \<and> (\<forall>z n a. relents p anything (instance_ServerAction i z n a))"

definition grants_machine :: "('w \<Rightarrow> nat) \<Rightarrow> string option \<Rightarrow> bool \<Rightarrow> 'w Client \<Rightarrow> bool" where
  "grants_machine p net grouped c \<longleftrightarrow> client_steps (lowers p) c \<and> grants_membership p (cl_LoadBalancer c)
   \<and> grants_instance p net grouped (cl_Instance c)
   \<and> (\<forall>t z l. relents p anything (marketplace_GetLocalImageByLabel (cl_Marketplace c) t z l))
   \<and> (\<forall>r q n b. relents p (\<lambda>ips. ips \<noteq> []) (ipam_ListIPs (cl_IPAM c) r q n b))"

text \<open>For the deletion: the private NIC of a server is there, which a control plane machine needs.\<close>

definition grants_teardown :: "('w \<Rightarrow> nat) \<Rightarrow> string option \<Rightarrow> 'w Client \<Rightarrow> bool" where
  "grants_teardown p net c \<longleftrightarrow> client_steps (lowers p) c \<and> grants_membership p (cl_LoadBalancer c)
   \<and> (\<forall>z n. relents p anything (instance_ListServers (cl_Instance c) z n))
   \<and> (\<forall>z n i. net = Some i \<longrightarrow> relents p (\<lambda>ns. \<exists>x \<in> set ns. pnic_PrivateNetworkID x = i) (instance_ListPrivateNICs (cl_Instance c) z n))
   \<and> (\<forall>r q n b. relents p (\<lambda>ips. ips \<noteq> []) (ipam_ListIPs (cl_IPAM c) r q n b))
   \<and> (\<forall>z n. relents p anything (instance_DeleteIP (cl_Instance c) z n)) \<and> (\<forall>z n. relents p anything (instance_DetachVolume (cl_Instance c) z n))
   \<and> (\<forall>z n. relents p anything (instance_DeleteVolume (cl_Instance c) z n)) \<and> (\<forall>z n. relents p anything (instance_DeleteServer (cl_Instance c) z n))
   \<and> (\<forall>z n a. relents p anything (instance_ServerAction (cl_Instance c) z n a))"

lemma granted_membership:
  assumes "grants_membership p l"
  shows "relents p (\<lambda>ls. \<exists>x \<in> set ls. lb_Name x = n) (lb_ListLBs l z n)"
    "relents p (\<lambda>bs. \<exists>x \<in> set bs. be_Name x = n) (lb_ListBackends l z i (Some n))"
    "relents p (\<lambda>fs. \<exists>x \<in> set fs. fe_Name x = n) (lb_ListFrontends l z i (Some n))"
    "relents p anything (lb_AddBackendServers l z i ips)" "relents p anything (lb_RemoveBackendServers l z i ips)"
    "relents p anything (lb_ListACLs l z i n)" "relents p anything (lb_CreateACL l z i r)"
    "relents p anything (lb_UpdateACL l z i r)" "relents p anything (lb_DeleteACL l z i)"
  using assms by (simp_all add: grants_membership_def)

lemma granted_instance:
  assumes "grants_instance p net grouped i"
  shows "relents p (\<lambda>ips. length ips \<le> 1) (instance_ListIPs i z ts)" "relents p anything (instance_CreateIP i z ts)"
    "relents p (\<lambda>xs. \<forall>x. find (\<lambda>y. srv_Name y = n) xs = Some x \<longrightarrow> addressed net x) (instance_ListServers i z n)"
    "relents p (addressed net) (instance_CreateServer i r)"
    "grouped \<Longrightarrow> relents p (\<lambda>gs. \<exists>x \<in> set gs. isg_Name x = n) (instance_ListSecurityGroups i [z] (Some n) [])"
    "relents p anything (instance_ListPrivateNICs i z n)" "relents p anything (instance_CreatePrivateNIC i z n pn)"
    "relents p anything (instance_GetAllServerUserData i z n)" "relents p anything (instance_SetServerUserData i z n key d)"
    "relents p anything (instance_ServerAction i z n a)"
  using assms by (simp_all add: grants_instance_def)

section \<open>In the scope of a machine\<close>

definition machine_parts :: "('w, 'z) MachineScope_scheme \<Rightarrow> ScalewayCluster \<times> ScalewayMachine \<times> CapiMachine" where
  "machine_parts s = (scope_ScalewayCluster s, scope_ScalewayMachine s, scope_Machine s)"

lemma machine_parts_world [simp]: "machine_parts (s\<lparr>world := w\<rparr>) = machine_parts s" "machine_parts (s\<lparr>world := w, trace := tr\<rparr>) = machine_parts s"
  by (simp_all add: machine_parts_def)

lemma msure_sdk:
  "relents p ok f \<Longrightarrow> surely p machine_parts a (unchanged a ok) (sdk_read f)"
  "relents p ok f \<Longrightarrow> surely p machine_parts a (unchanged a ok) (sdk_call ev f)"
  by (erule surely_read surely_call; simp add: unchanged_def)+

lemma msure_ret: "surely p machine_parts a (unchanged a anything) (ret x)"
  by (rule surely_ret) (simp add: unchanged_def)

lemma msure_scope:
  "surely p machine_parts (sc, m, cm) P (f sc m cm) \<Longrightarrow> steps (lowers p) (with_scope f) \<Longrightarrow> surely p machine_parts (sc, m, cm) P (with_scope f)"
  by (auto simp: surely_def with_scope_def machine_parts_def)

lemma msure_gets:
  "surely p machine_parts (sc, m, cm) P (f m) \<Longrightarrow> steps (lowers p) (bind (gets scope_ScalewayMachine) f) \<Longrightarrow>
   surely p machine_parts (sc, m, cm) P (bind (gets scope_ScalewayMachine) f)"
  by (auto simp: surely_def bind_gets_run machine_parts_def)

text \<open>None of it raises the measure, as the services as a whole do not.\<close>

lemma lowers_machine:
  assumes "client_steps (lowers p) c"
  shows "steps (lowers p) (lookupIP c)" "steps (lowers p) (createIP c)" "steps (lowers p) (getOrCreateIP c)"
    "steps (lowers p) (findImage c sdk)" "steps (lowers p) (findMachineSG c)"
    "steps (lowers p) (lookupServer c)" "steps (lowers p) (createServer c sdk ip)" "steps (lowers p) (getOrCreateServer c sdk ip)"
    "steps (lowers p) (createPrivateNIC c server pn)" "steps (lowers p) (getOrCreatePrivateNIC c server)"
    "steps (lowers p) (findInternalIP c nic)" "steps (lowers p) (getMachineIPs c server nic)"
    "steps (lowers p) (ensureControlPlaneLoadBalancer c ips del)" "steps (lowers p) (ensureLoadBalancerACL c sdk ip')"
    "steps (lowers p) (leaveLoadBalancer c server)" "steps (lowers p) (destroyServer c server)"
  unfolding lookupIP_def createIP_def getOrCreateIP_def findImage_def findMachineSG_def lookupServer_def createServer_def
    getOrCreateServer_def createPrivateNIC_def getOrCreatePrivateNIC_def findInternalIP_def getMachineIPs_def
    ensureControlPlaneLoadBalancer_def ensureLoadBalancerACL_def ensureMachineACL_def leaveLoadBalancer_def destroyServer_def
    deleteFlexibleIP_def deleteBootVolume_def detachVolume_def Let_def
  by (intro store_intros lowered.steps_finders client_acts assms)+

section \<open>The load balancer\<close>

lemma msure_find_LB:
  "grants_membership p (cl_LoadBalancer c) \<Longrightarrow> surely p machine_parts a (unchanged a anything) (FindLoadBalancerByName c z n)"
  unfolding FindLoadBalancerByName_def
  by (rule surely_any, rule surely_find_there, rule msure_sdk, rule granted_membership)

lemma msure_membership:
  assumes lb: "grants_membership p (cl_LoadBalancer c)"
  shows "surely p machine_parts a (unchanged a anything) (FindLoadBalancerFrontendByNames c z n f)"
    "surely p machine_parts a (unchanged a anything) (FindLoadBalancerBackendByNames c z n f)"
    "surely p machine_parts a (unchanged a anything) (optional (FindLoadBalancerACLByName c z n f))"
  unfolding FindLoadBalancerFrontendByNames_def FindLoadBalancerBackendByNames_def FindLoadBalancerACLByName_def
    apply (rule surely_seq [OF msure_find_LB [OF lb]], rule surely_any, rule surely_find_there, rule msure_sdk, rule granted_membership [OF lb])+
  apply (rule surely_any, rule surely_find, rule surely_wrapping, rule msure_sdk, rule granted_membership [OF lb])
  done

lemma msure_ensureLoadBalancerACL:
  assumes lb: "grants_membership p (cl_LoadBalancer c)" and low: "client_steps (lowers p) c"
  shows "surely p machine_parts (sc, m, cm) (unchanged (sc, m, cm) anything) (ensureLoadBalancerACL c sdk ip)"
  using lowers_machine(14) [OF low, of sdk ip] unfolding ensureLoadBalancerACL_def
  by (rule msure_scope [rotated])
    (unfold ensureMachineACL_def, intro sure_intros msure_membership [OF lb] msure_ret msure_sdk granted_membership [OF lb])

lemma msure_ensureControlPlaneLoadBalancer:
  assumes lb: "grants_membership p (cl_LoadBalancer c)" and low: "client_steps (lowers p) c" and ip: "\<exists>i. NodeIP ips = Ok i"
  shows "surely p machine_parts (sc, m, cm) (unchanged (sc, m, cm) anything) (ensureControlPlaneLoadBalancer c ips del)"
  using lowers_machine(13) [OF low, of ips del] unfolding ensureControlPlaneLoadBalancer_def
  by (rule msure_scope [rotated])
    (intro sure_intros msure_membership [OF lb] msure_ret msure_sdk granted_membership [OF lb] surely_pure, use ip in \<open>auto simp: unchanged_def\<close>)

section \<open>Addresses\<close>

lemma NodeIP_known: "mi_Internal ips \<noteq> None \<or> mi_External ips \<noteq> None \<Longrightarrow> \<exists>i. NodeIP ips = Ok i"
  by (auto simp: NodeIP_def split: option.split)

lemma msure_findInternalIP:
  assumes "\<And>r q n b. relents p (\<lambda>ips. ips \<noteq> []) (ipam_ListIPs (cl_IPAM c) r q n b)" and low: "client_steps (lowers p) c"
  shows "surely p machine_parts (sc, m, cm) (unchanged (sc, m, cm) (\<lambda>i. (i = None) = (nic = None))) (findInternalIP c nic)"
proof (cases nic)
  case None
  then show ?thesis by (simp add: findInternalIP_def unchanged_def surely_ret)
next
  case (Some n)
  let ?a = "(sc, m, cm)"
  have "surely p machine_parts ?a (unchanged ?a (\<lambda>xs. \<exists>x \<in> set xs. True)) (sdk_read (ipam_ListIPs (cl_IPAM c) r q i b))" for r q i b
    by (rule surely_mono [OF msure_sdk(1) [OF assms(1)]]) (auto simp: unchanged_def neq_Nil_conv)
  then have "surely p machine_parts ?a (unchanged ?a anything) (FindIPv4ByInstancePrivateNICID c r i)" for r i
    unfolding FindIPv4ByInstancePrivateNICID_def by (rule surely_find_there)
  note sure = surely_attempt [OF this]
  have "steps (lowers p) (findInternalIP c nic)" by (rule lowers_machine(11) [OF low])
  then show ?thesis
    unfolding findInternalIP_def Some option.case
    by (rule msure_scope [rotated])
      (rule surely_bind [OF sure], auto intro!: store_intros surely_ret simp: unchanged_def)
qed

lemma msure_getMachineIPs:
  assumes "\<And>r q n b. relents p (\<lambda>ips. ips \<noteq> []) (ipam_ListIPs (cl_IPAM c) r q n b)" and low: "client_steps (lowers p) c"
    and some: "nic \<noteq> None \<or> srv_PublicIP server \<noteq> None"
  shows "surely p machine_parts (sc, m, cm) (unchanged (sc, m, cm) (\<lambda>ips. \<exists>i. NodeIP ips = Ok i)) (getMachineIPs c server nic)"
  unfolding getMachineIPs_def Let_def
  by (rule surely_then [OF msure_findInternalIP [OF assms(1) low]])
    (use some in \<open>auto intro!: store_intros surely_ret NodeIP_known simp: unchanged_def\<close>)

section \<open>Reconciling\<close>

text \<open>What the machine has to say: a root volume type that exists. \<open>grouped\<close>, if it names a security group.\<close>

definition startable :: "bool \<Rightarrow> ScalewayMachine \<Rightarrow> bool" where
  "startable grouped m \<longleftrightarrow> (\<exists>t. ScalewayRootVolumeType (sm_Spec m) = Inr t) \<and> (ms_SecurityGroupName (sm_Spec m) \<noteq> None \<longrightarrow> grouped)"

lemma granted_machine:
  assumes "grants_machine p net grouped c"
  shows "client_steps (lowers p) c" "grants_membership p (cl_LoadBalancer c)" "grants_instance p net grouped (cl_Instance c)"
    "relents p anything (marketplace_GetLocalImageByLabel (cl_Marketplace c) t z l)" "relents p (\<lambda>ips. ips \<noteq> []) (ipam_ListIPs (cl_IPAM c) r q n b)"
  using assms by (simp_all add: grants_machine_def)

lemma msure_getOrCreateIP:
  assumes "grants_machine p net grouped c"
  shows "surely p machine_parts (sc, m, cm) (unchanged (sc, m, cm) anything) (getOrCreateIP c)"
proof -
  note low = granted_machine(1) [OF assms] and i = granted_instance [OF granted_machine(3) [OF assms]]
  have lookup: "surely p machine_parts (sc, m, cm) (unchanged (sc, m, cm) (\<lambda>r. \<forall>x. r = Some x \<longrightarrow> True)) (lookupIP c)"
    using lowers_machine(1) [OF low] unfolding lookupIP_def FindIPByTags_def
    by (rule msure_scope [rotated]) (simp, intro surely_find_tagged surely_wrapping msure_sdk i)
  have create: "surely p machine_parts (sc, m, cm) (unchanged (sc, m, cm) anything) (createIP c)"
    using lowers_machine(2) [OF low] unfolding createIP_def by (rule msure_scope [rotated]) (intro surely_wrapping msure_sdk i)
  show ?thesis
    using lowers_machine(3) [OF low] unfolding getOrCreateIP_def
    by (rule msure_scope [rotated]) (intro sure_intros surely_getOrCreate [OF lookup create] msure_ret)
qed

lemma msure_createServer:
  assumes "grants_machine p net grouped c" and m: "startable grouped m"
  shows "surely p machine_parts (sc, m, cm) (unchanged (sc, m, cm) (addressed net)) (createServer c sdk ip)"
proof -
  let ?a = "(sc, m, cm)"
  note low = granted_machine(1) [OF assms(1)] and i = granted_instance [OF granted_machine(3) [OF assms(1)]]
  have image: "surely p machine_parts ?a (unchanged ?a anything) (findImage c sdk)"
    using lowers_machine(4) [OF low, of sdk] unfolding findImage_def Let_def
    by (rule msure_scope [rotated]) (intro sure_intros msure_sdk msure_ret granted_machine(4) [OF assms(1)])
  have group: "surely p machine_parts ?a (unchanged ?a anything) (FindSecurityGroupByName c z n)" if grouped for z n
    unfolding FindSecurityGroupByName_def by (rule surely_any, rule surely_find_there, rule msure_sdk, rule i(5) [OF that])
  have groups: "surely p machine_parts ?a (unchanged ?a anything) (findMachineSG c)"
    using lowers_machine(5) [OF low] unfolding findMachineSG_def
    by (rule msure_scope [rotated]) (intro sure_intros group msure_ret, use m in \<open>simp add: startable_def\<close>)
  have type: "surely p machine_parts ?a (unchanged ?a anything) (lift_sum (ScalewayRootVolumeType (sm_Spec m)))"
    using m by (intro surely_pure) (auto simp: startable_def unchanged_def)
  show ?thesis
    using lowers_machine(7) [OF low, of sdk ip] unfolding createServer_def Let_def
    by (rule msure_scope [rotated]) (intro surely_seq [OF image] surely_seq [OF groups] surely_seq [OF type] surely_wrapping msure_sdk i)
qed

lemma msure_getOrCreateServer:
  assumes "grants_machine p net grouped c" "startable grouped m"
  shows "surely p machine_parts (sc, m, cm) (unchanged (sc, m, cm) (addressed net)) (getOrCreateServer c sdk ip)"
proof -
  let ?a = "(sc, m, cm)"
  note low = granted_machine(1) [OF assms(1)] and i = granted_instance [OF granted_machine(3) [OF assms(1)]]
  have "surely p machine_parts ?a (unchanged ?a (\<lambda>r. \<forall>x. r = Some x \<longrightarrow> addressed net x)) (lookupServer c)"
    using lowers_machine(6) [OF low] unfolding lookupServer_def FindInstanceByName_def
    by (rule msure_scope [rotated]) (rule surely_mono [OF surely_find [OF surely_wrapping [OF msure_sdk(1) [OF i(3)]]]], auto simp: unchanged_def)
  from surely_getOrCreate [OF this msure_createServer [OF assms]] show ?thesis by (simp add: getOrCreateServer_def)
qed

lemma msure_getOrCreatePrivateNIC:
  assumes "grants_machine p net grouped c" and sc: "in_network net sc"
  shows "surely p machine_parts (sc, m, cm) (unchanged (sc, m, cm) (\<lambda>nic. (nic = None) = (net = None))) (getOrCreatePrivateNIC c server)"
proof -
  let ?a = "(sc, m, cm)"
  note low = granted_machine(1) [OF assms(1)] and i = granted_instance [OF granted_machine(3) [OF assms(1)]]
  have "surely p machine_parts ?a (unchanged ?a anything) (optional (FindPrivateNICByPNID c server n))" for n
    unfolding FindPrivateNICByPNID_def by (rule surely_any, rule surely_find, rule msure_sdk, rule i)
  then have lookup: "surely p machine_parts ?a (unchanged ?a (\<lambda>r. \<forall>x. r = Some x \<longrightarrow> True)) (optional (FindPrivateNICByPNID c server n))" for n by simp
  have create: "surely p machine_parts ?a (unchanged ?a anything) (createPrivateNIC c server n)" for n
    using lowers_machine(9) [OF low, of server n] unfolding createPrivateNIC_def
    by (rule msure_scope [rotated]) (intro surely_wrapping msure_sdk i)
  have id: "surely p machine_parts ?a (unchanged ?a (\<lambda>_. net \<noteq> None)) (lift_outcome (PrivateNetworkID sc))" if "HasPrivateNetwork sc"
    using sc that by (intro surely_pure) (auto simp: in_network_def unchanged_def split: option.splits)
  have none: "net = None" if "\<not> HasPrivateNetwork sc"
    using sc that by (auto simp: in_network_def PrivateNetworkID_def split: option.splits)
  show ?thesis
    using lowers_machine(10) [OF low, of server] unfolding getOrCreatePrivateNIC_def
  proof (rule msure_scope [rotated])
    show "surely p machine_parts ?a (unchanged ?a (\<lambda>nic. (nic = None) = (net = None))) (if \<not> HasPrivateNetwork sc then ret None
      else bind (lift_outcome (PrivateNetworkID sc)) (\<lambda>pnID. bind (getOrCreate (optional (FindPrivateNICByPNID c server pnID))
        (createPrivateNIC c server pnID)) (\<lambda>pnic. ret (Some pnic))))"
      by (intro surely_branches surely_then [OF id] surely_seq [OF surely_getOrCreate [OF lookup create]] surely_ret)
        (use none in \<open>auto simp: unchanged_def intro!: store_intros lowered.steps_finders [OF low] lowers_machine [OF low]\<close>)
  qed
qed

lemma msure_prepareMachine:
  assumes "grants_machine p net grouped c" "startable grouped m" "in_network net sc"
  shows "surely p machine_parts (sc, m, cm) (unchanged (sc, m, cm) (\<lambda>r. \<exists>i. NodeIP (snd r) = Ok i)) (prepareMachine c sdk)"
proof -
  let ?a = "(sc, m, cm)"
  note low = granted_machine(1) [OF assms(1)] and lb = granted_machine(2) [OF assms(1)]
  note lows = lowers_machine [OF low]
  have addresses: "surely p machine_parts ?a (unchanged ?a (\<lambda>ips. \<exists>i. NodeIP ips = Ok i)) (getMachineIPs c server nic)"
    if "addressed net server" "(nic = None) = (net = None)" for server nic
    using that by (intro msure_getMachineIPs [OF granted_machine(5) [OF assms(1)] low]) (auto simp: addressed_def)
  have member: "surely p machine_parts ?a (unchanged ?a (\<lambda>r. \<exists>i. NodeIP (snd r) = Ok i)) (bind (ensureControlPlaneLoadBalancer c ips False) (\<lambda>_.
      bind (ensureLoadBalancerACL c sdk (mi_External ips)) (\<lambda>_. ret (server, ips))))" if "\<exists>i. NodeIP ips = Ok i" for ips server
    using that by (intro surely_seq [OF msure_ensureControlPlaneLoadBalancer [OF lb low]] surely_seq [OF msure_ensureLoadBalancerACL [OF lb low]] surely_ret)
      (auto simp: unchanged_def)
  show ?thesis
    unfolding prepareMachine_def
    by (rule surely_seq [OF msure_getOrCreateIP [OF assms(1)]], rule surely_then [OF msure_getOrCreateServer [OF assms(1,2)]], (intro store_intros lows)[1],
        rule surely_then [OF msure_getOrCreatePrivateNIC [OF assms(1,3)]], (intro store_intros lows)[1],
        rule surely_then [OF addresses], assumption, assumption, (intro store_intros lows)[1], rule member)
qed

text \<open>The bootstrap data is in a secret, and the template engine renders it.\<close>

definition renders :: "template_engine \<Rightarrow> string \<Rightarrow> bool" where
  "renders engine raw \<longleftrightarrow> (\<forall>bv. \<exists>out. patchBootstrapData engine raw bv = Inr out)"

definition has_bootstrap :: "string \<times> string \<Rightarrow> CapiMachine \<Rightarrow> bool" where
  "has_bootstrap secret cm \<longleftrightarrow> cm_Namespace cm = fst secret \<and> cm_DataSecretName cm = Some (snd secret)"

definition grants_bootstrap :: "('w \<Rightarrow> nat) \<Rightarrow> template_engine \<Rightarrow> string \<times> string \<Rightarrow> 'w k8s_API \<Rightarrow> bool" where
  "grants_bootstrap p engine secret k \<longleftrightarrow> (\<forall>ns n. act_steps (lowers p) (k_GetSecret k ns n))
   \<and> relents p (\<lambda>sec. \<exists>raw. map_of (sec_Data sec) ''value'' = Some raw \<and> renders engine raw) (k_GetSecret k (fst secret) (snd secret))"

lemma msure_GetRawBootstrapData:
  assumes "grants_bootstrap p engine secret k" "has_bootstrap secret cm"
  shows "surely p machine_parts (sc, m, cm) (unchanged (sc, m, cm) (renders engine)) (GetRawBootstrapData k)"
proof -
  let ?a = "(sc, m, cm)"
  have low: "act_steps (lowers p) (k_GetSecret k ns n)" for ns n using assms(1) by (simp add: grants_bootstrap_def)
  have "surely p machine_parts ?a (unchanged ?a (\<lambda>sec. \<exists>raw. map_of (sec_Data sec) ''value'' = Some raw \<and> renders engine raw))
      (sdk_read (k_GetSecret k (fst secret) (snd secret)))"
    using assms(1) by (intro msure_sdk) (simp add: grants_bootstrap_def)
  then have "surely p machine_parts ?a (unchanged ?a (renders engine)) (bind (sdk_read (k_GetSecret k (fst secret) (snd secret))) (\<lambda>sec.
      case map_of (sec_Data sec) ''value'' of None \<Rightarrow> throw (ErrNew ''error retrieving bootstrap data: secret value key is missing'') | Some value \<Rightarrow> ret value))"
    by (rule surely_then) (auto intro!: store_intros surely_ret simp: unchanged_def)
  moreover have "steps (lowers p) (GetRawBootstrapData k)" unfolding GetRawBootstrapData_def by (intro store_intros low)
  ultimately show ?thesis
    using assms(2) by (auto simp: surely_def GetRawBootstrapData_def bind_gets_run machine_parts_def has_bootstrap_def)
qed

lemma lowers_boot:
  assumes "client_steps (lowers p) c" "\<And>ns n. act_steps (lowers p) (k_GetSecret k ns n)"
  shows "steps (lowers p) (ensureCloudInit c k engine server ips)" "steps (lowers p) (ensureServerStarted c server)"
  unfolding ensureCloudInit_def ensureServerStarted_def GetRawBootstrapData_def by (intro store_intros client_acts assms)+

lemma msure_ensureCloudInit:
  assumes "grants_machine p net grouped c" and boot: "grants_bootstrap p engine secret k" "has_bootstrap secret cm" and ip: "\<exists>i. NodeIP ips = Ok i"
  shows "surely p machine_parts (sc, m, cm) (unchanged (sc, m, cm) anything) (ensureCloudInit c k engine server ips)"
proof -
  let ?a = "(sc, m, cm)"
  note low = granted_machine(1) [OF assms(1)] and i = granted_instance [OF granted_machine(3) [OF assms(1)]]
  have node: "surely p machine_parts ?a (unchanged ?a anything) (lift_outcome (NodeIP ips))"
    using ip by (intro surely_pure) (auto simp: unchanged_def)
  have raw: "steps (lowers p) (GetRawBootstrapData k)" by (rule surely_steps [OF msure_GetRawBootstrapData [OF boot]])
  let ?set = "\<lambda>raw nodeIP. with_scope (\<lambda>sc m cm. bind (lift_sum (patchBootstrapData engine raw
      \<lparr>bv_NodeIP = nodeIP, bv_ProviderID = ProviderID sc cm (srv_ID server)\<rparr>)) (\<lambda>bootstrap.
      sdk_call (CallSetServerUserData (srv_Zone server) (srv_ID server) ''cloud-init'' bootstrap)
        (instance_SetServerUserData (cl_Instance c) (srv_Zone server) (srv_ID server) ''cloud-init'' bootstrap)))"
  have lowset: "steps (lowers p) (?set raw nodeIP)" for raw nodeIP by (intro store_intros client_acts low)
  have render: "surely p machine_parts ?a (unchanged ?a anything) (lift_sum (patchBootstrapData engine raw bv))" if "renders engine raw" for raw bv
    using that by (intro surely_pure) (simp add: renders_def unchanged_def)
  have "surely p machine_parts ?a (unchanged ?a anything) (?set raw nodeIP)" if "renders engine raw" for raw nodeIP
    using lowset [of raw nodeIP] by (rule msure_scope [rotated]) (intro surely_seq [OF render [OF that]] msure_sdk i)
  then have data: "surely p machine_parts ?a (unchanged ?a anything) (bind (GetRawBootstrapData k) (\<lambda>raw. bind (lift_outcome (NodeIP ips)) (?set raw)))"
    by (intro surely_then [OF msure_GetRawBootstrapData [OF boot]] store_intros lowset surely_seq [OF node])
  show ?thesis
    unfolding ensureCloudInit_def by (intro sure_intros msure_ret msure_sdk i data)
qed

lemma msure_instance_Reconcile:
  assumes "grants_machine p net grouped c" "startable grouped m" "in_network net sc"
    and boot: "grants_bootstrap p engine secret k" "has_bootstrap secret cm"
  shows "surely p machine_parts (sc, m, cm) (\<lambda>_ _. True) (instance_Reconcile c sdk k engine)"
proof -
  let ?a = "(sc, m, cm)"
  note low = granted_machine(1) [OF assms(1)] and i = granted_instance [OF granted_machine(3) [OF assms(1)]]
  have secret: "act_steps (lowers p) (k_GetSecret k ns n)" for ns n using boot(1) by (simp add: grants_bootstrap_def)
  have start: "surely p machine_parts ?a (unchanged ?a anything) (ensureServerStarted c server)" for server
    unfolding ensureServerStarted_def by (intro sure_intros msure_ret msure_sdk i)
  have last: "surely p machine_parts ?a (\<lambda>_ _. True) (modify (\<lambda>s. s\<lparr>scope_ScalewayMachine := f s\<rparr>))" for f
    by (auto simp: surely_def modify_def intro!: lowered.steps_modify [unfolded modify_def])
  show ?thesis
    unfolding instance_Reconcile_def Let_def
    by (rule surely_then [OF msure_prepareMachine [OF assms(1-3)]], (intro store_intros lowers_boot [OF low secret]; simp)[1])
      (intro surely_seq [OF msure_ensureCloudInit [OF assms(1) boot]] surely_seq [OF start] last)
qed

lemma msure_modify_machine: "P () (sc, f m, cm) \<Longrightarrow> surely p machine_parts (sc, m, cm) P (modify_machine f)"
  by (auto simp: surely_def modify_machine_run machine_parts_def intro: lowered.steps_modify_machine)

lemma lowers_PatchObject: "(\<And>after. relents p anything (helper after)) \<Longrightarrow> steps (lowers p) (machine_PatchObject helper)"
  unfolding machine_PatchObject_def by (intro store_intros relents_act)

lemma lowers_addMachineFinalizer:
  "(\<And>after. relents p anything (helper after)) \<Longrightarrow> steps (lowers p) (addMachineFinalizer k helper)"
  unfolding addMachineFinalizer_def by (intro store_intros) (auto intro!: store_intros lowers_PatchObject split: prod.split)

lemma msure_addMachineFinalizer:
  assumes helper: "\<And>after. relents p anything (helper after)"
  shows "surely p machine_parts (sc, m, cm) (\<lambda>_ b. \<exists>fs. b = (sc, SetMachineFinalizers fs m, cm)) (addMachineFinalizer k helper)"
proof -
  obtain fs added where add: "k_AddFinalizer k (meta_Finalizers (sm_Meta m)) MachineFinalizer = (fs, added)" by fastforce
  have patch: "surely p machine_parts (sc, m', cm) (unchanged (sc, m', cm) anything) (machine_PatchObject helper)" for m'
    using lowers_PatchObject [OF helper] unfolding machine_PatchObject_def by (intro msure_gets msure_sdk helper)
  have "surely p machine_parts (sc, m, cm) (\<lambda>_ b. \<exists>fs. b = (sc, SetMachineFinalizers fs m, cm))
      (bind (modify_machine (SetMachineFinalizers fs)) (\<lambda>_. if added then machine_PatchObject helper else ret ()))"
    by (rule surely_bind [where Q = "\<lambda>_ b. b = (sc, SetMachineFinalizers fs m, cm)"])
      (auto intro!: msure_modify_machine surely_ret lowered.steps_pure lowers_PatchObject [OF helper] surely_mono [OF patch] simp: unchanged_def)
  with lowers_addMachineFinalizer [OF helper, of k] show ?thesis
    unfolding addMachineFinalizer_def by (intro msure_gets) (simp_all add: add)
qed

text \<open>The result of the controller, if the infrastructure of the cluster is ready.\<close>

lemma msure_machine_work:
  fixes s :: "('w, 'z) MachineScope_scheme"
  assumes "surely p machine_parts a (\<lambda>_ _. True) (instance_Reconcile c sdk k engine :: (('w, 'z) MachineScope_scheme, unit) go)"
    and run: "machine_work k c sdk engine s = (r, t)" and start: "machine_parts s = a" "scope_InfrastructureReady s"
  shows "r = Ok no_requeue \<and> p (world t) = p (world s) \<or> p (world t) < p (world s)"
proof -
  obtain q u where inst: "instance_Reconcile c sdk k engine s = (q, u)" by fastforce
  have t: "world t = world u" "r = (case q of Ok _ \<Rightarrow> Ok no_requeue | Err e \<Rightarrow> if retry_error e then Ok requeue_soon else Err e | Panic \<Rightarrow> Panic)"
    using run inst start(2) by (cases q; auto simp: machine_work_def bind_gets_run bind_attempt_run [of "instance_Reconcile c sdk k engine", OF inst]
        retry_error_def errors_Is_sentinel bind_Ok_run [OF modify_machine_run] ret_def throw_def split: if_splits)+
  with surelyD [OF assms(1) start(1) inst] show ?thesis by auto
qed

section \<open>Deleting\<close>

lemma granted_teardown:
  assumes "grants_teardown p net c"
  shows "client_steps (lowers p) c" "grants_membership p (cl_LoadBalancer c)" "relents p anything (instance_ListServers (cl_Instance c) z n)"
    "net = Some j \<Longrightarrow> relents p (\<lambda>ns. \<exists>x \<in> set ns. pnic_PrivateNetworkID x = j) (instance_ListPrivateNICs (cl_Instance c) z n)"
    "relents p (\<lambda>ips. ips \<noteq> []) (ipam_ListIPs (cl_IPAM c) r q n b)"
    "relents p anything (instance_DeleteIP (cl_Instance c) z n)" "relents p anything (instance_DetachVolume (cl_Instance c) z n)"
    "relents p anything (instance_DeleteVolume (cl_Instance c) z n)" "relents p anything (instance_DeleteServer (cl_Instance c) z n)"
    "relents p anything (instance_ServerAction (cl_Instance c) z n a)"
  using assms by (simp_all add: grants_teardown_def)

lemma msure_destroyServer:
  assumes "grants_teardown p net c"
  shows "surely p machine_parts a (unchanged a anything) (destroyServer c server)"
  unfolding destroyServer_def deleteFlexibleIP_def deleteBootVolume_def detachVolume_def
  by (intro sure_intros msure_ret msure_sdk granted_teardown [OF assms])

lemma getMachineIPs_none:
  "srv_PublicIP server = None \<Longrightarrow> attempt (getMachineIPs c server None) = ret (Inl ErrMachineHasNoIP)"
  by (rule ext) (simp add: getMachineIPs_def findInternalIP_def attempt_def bind_def ret_def throw_def)

lemma msure_leaveLoadBalancer:
  assumes "grants_teardown p net c" and sc: "in_network net sc"
  shows "surely p machine_parts (sc, m, cm) (unchanged (sc, m, cm) anything) (leaveLoadBalancer c server)"
proof -
  let ?a = "(sc, m, cm)"
  note low = granted_teardown(1) [OF assms(1)] and lb = granted_teardown(2) [OF assms(1)]
  have nic: "surely p machine_parts ?a (unchanged ?a anything) (FindPrivateNICByPNID c server i)" if "PrivateNetworkID sc = Ok i" "HasPrivateNetwork sc" for i
    unfolding FindPrivateNICByPNID_def
    by (rule surely_any, rule surely_find_there, rule msure_sdk, rule granted_teardown [OF assms(1)])
      (use sc that in \<open>auto simp: in_network_def split: option.splits\<close>)
  have id: "surely p machine_parts ?a (unchanged ?a (\<lambda>i. PrivateNetworkID sc = Ok i)) (lift_outcome (PrivateNetworkID sc))" if "HasPrivateNetwork sc"
    using sc that by (intro surely_pure) (auto simp: in_network_def unchanged_def split: option.splits)
  have nics: "surely p machine_parts ?a (unchanged ?a anything) (if HasPrivateNetwork sc then
      bind (lift_outcome (PrivateNetworkID sc)) (\<lambda>pnID.
      bind (wrapping msg (FindPrivateNICByPNID c server pnID)) (\<lambda>p. ret (Some p))) else ret None)" for msg
    by (intro surely_branches surely_then [OF id] surely_seq [OF surely_wrapping [OF nic]] msure_ret store_intros lowered.steps_finders low)
  have ips: "surely p machine_parts ?a (unchanged ?a (\<lambda>r. r = Inl ErrMachineHasNoIP \<or> (\<exists>x i. r = Inr x \<and> NodeIP x = Ok i))) (attempt (getMachineIPs c server n))" for n
  proof (cases "n \<noteq> None \<or> srv_PublicIP server \<noteq> None")
    case True
    show ?thesis
      by (rule surely_mono [OF surely_attempt [OF msure_getMachineIPs [OF granted_teardown(5) [OF assms(1)] low True]]]) (auto simp: unchanged_def)
  next
    case False
    then show ?thesis by (simp add: getMachineIPs_none unchanged_def surely_ret)
  qed
  have leave: "surely p machine_parts ?a (unchanged ?a anything) (bind (optional (ensureControlPlaneLoadBalancer c ips True)) (\<lambda>_. ret ()))"
    if "\<exists>i. NodeIP ips = Ok i" for ips
    by (rule surely_bind [OF surely_optional_there [OF msure_ensureControlPlaneLoadBalancer [OF lb low that]]])
      (auto simp: unchanged_def intro!: store_intros surely_ret)
  show ?thesis
    using lowers_machine(15) [OF low, of server] unfolding leaveLoadBalancer_def
    by (rule msure_scope [rotated])
      (rule surely_branches, rule msure_ret, rule surely_seq [OF nics], rule surely_then [OF ips],
        (intro store_intros lowers_machine low)[1], auto simp: errors_Is_sentinel intro!: leave msure_ret)
qed

lemma msure_machine_reconcileDelete:
  assumes "grants_teardown p net c" and sc: "in_network net sc"
  shows "surely p machine_parts (sc, m, cm) (\<lambda>res _. res = no_requeue) (machine_reconcileDelete k c sdk)"
proof -
  let ?a = "(sc, m, cm)"
  note low = granted_teardown(1) [OF assms(1)] and lb = granted_teardown(2) [OF assms(1)]
  have lookup: "surely p machine_parts ?a (unchanged ?a anything) (lookupServer c)"
    using lowers_machine(6) [OF low] unfolding lookupServer_def FindInstanceByName_def
    by (rule msure_scope [rotated]) (rule surely_any, rule surely_find, rule surely_wrapping, rule msure_sdk, rule granted_teardown [OF assms(1)])
  have acl: "surely p machine_parts ?a (unchanged ?a anything) (optional (ensureLoadBalancerACL c sdk None))"
    by (rule surely_mono [OF surely_optional_there [OF msure_ensureLoadBalancerACL [OF lb low]]]) (auto simp: unchanged_def)
  have inst: "surely p machine_parts ?a (unchanged ?a anything) (instance_Delete c sdk)"
    unfolding instance_Delete_def
    by (intro sure_intros lookup acl msure_leaveLoadBalancer [OF assms] msure_destroyServer [OF assms(1)] msure_ret)
  show ?thesis
    unfolding machine_reconcileDelete_def
    by (rule surely_seq [OF inst], rule surely_bind [where Q = "\<lambda>_ _. True"]) (auto intro: msure_modify_machine surely_ret lowered.steps_pure)
qed

section \<open>No panics\<close>

text \<open>\<open>safely a Q m\<close>: in the scope \<open>a\<close>, the code \<open>m\<close> does not panic, leaves the scope alone, and returns what \<open>Q\<close> says.\<close>

definition safely :: "ScalewayCluster \<times> ScalewayMachine \<times> CapiMachine \<Rightarrow> ('a \<Rightarrow> bool) \<Rightarrow> (('w, 'z) MachineScope_scheme, 'a) go \<Rightarrow> bool" where
  "safely a Q m \<longleftrightarrow> (\<forall>s r t. machine_parts s = a \<longrightarrow> m s = (r, t) \<longrightarrow> r \<noteq> Panic \<and> (\<forall>x. r = Ok x \<longrightarrow> Q x \<and> machine_parts t = a))"

lemma safelyD: "safely a Q m \<Longrightarrow> machine_parts s = a \<Longrightarrow> m s = (r, t) \<Longrightarrow> r \<noteq> Panic \<and> (\<forall>x. r = Ok x \<longrightarrow> Q x \<and> machine_parts t = a)"
  unfolding safely_def by blast

lemma safely_calls:
  assumes "no_panic m" "only_calls C m" "\<And>s x t. m s = (Ok x, t) \<Longrightarrow> Q x"
  shows "safely a Q m"
  unfolding safely_def
proof (intro allI impI)
  fix s r t
  assume run: "machine_parts s = a" "m s = (r, t)"
  obtain es where "made s es t" using only_callsD [OF assms(2) run(2)] by blast
  with run(1) have "machine_parts t = a" by (simp add: machine_parts_def made_cluster made_machine)
  moreover have "r \<noteq> Panic" using assms(1) run(2) unfolding no_panic_def by (metis fst_conv)
  ultimately show "r \<noteq> Panic \<and> (\<forall>x. r = Ok x \<longrightarrow> Q x \<and> machine_parts t = a)" using assms(3) run(2) by blast
qed

lemma safely_bind:
  assumes m: "safely a Q m" and f: "\<And>x. Q x \<Longrightarrow> safely a P (f x)"
  shows "safely a P (bind m f)"
  unfolding safely_def
proof (intro allI impI)
  fix s r t
  assume start: "machine_parts s = a" and run: "bind m f s = (r, t)"
  from run show "r \<noteq> Panic \<and> (\<forall>x. r = Ok x \<longrightarrow> P x \<and> machine_parts t = a)"
  proof (cases rule: bind_run)
    case (Ok x u)
    with safelyD [OF m start Ok(1)] have "Q x" "machine_parts u = a" by auto
    from safelyD [OF f [OF this(1)] this(2) Ok(2)] show ?thesis .
  qed (use safelyD [OF m start] in auto)
qed

lemma safely_scope:
  assumes "safely (sc, m, cm) P (f sc m cm)"
  shows "safely (sc, m, cm) P (with_scope f)"
  unfolding safely_def
proof (intro allI impI)
  fix s r t
  assume start: "machine_parts s = (sc, m, cm)" and "with_scope f s = (r, t)"
  then have "f sc m cm s = (r, t)" by (simp add: with_scope_run machine_parts_def)
  from safelyD [OF assms start this] show "r \<noteq> Panic \<and> (\<forall>x. r = Ok x \<longrightarrow> P x \<and> machine_parts t = (sc, m, cm))" .
qed

lemma safely_pure: "P x \<Longrightarrow> safely a P (ret x)" "r \<noteq> Panic \<Longrightarrow> safely a (\<lambda>x. r = Ok x) (lift_outcome r)"
  by (auto simp: safely_def ret_def lift_outcome_def)

lemma safely_branches:
  "(b \<Longrightarrow> safely a P m) \<Longrightarrow> (\<not> b \<Longrightarrow> safely a P n) \<Longrightarrow> safely a P (if b then m else n)"
  "(o' = None \<Longrightarrow> safely a P m) \<Longrightarrow> (\<And>y. o' = Some y \<Longrightarrow> safely a P (f y)) \<Longrightarrow> safely a P (case o' of None \<Rightarrow> m | Some y \<Rightarrow> f y)"
  by (simp_all split: option.split)

lemma safely_ends: "safely a Q m \<Longrightarrow> machine_parts s = a \<Longrightarrow> fst (m s) \<noteq> Panic"
  by (cases "m s") (simp add: safely_def)

lemma no_panic_addressed:
  assumes "\<exists>i. NodeIP ips = Ok i"
  shows "no_panic (ensureControlPlaneLoadBalancer c ips del)" "no_panic (ensureCloudInit c k engine server ips)"
  unfolding ensureControlPlaneLoadBalancer_def ensureCloudInit_def GetRawBootstrapData_def
  by (intro panic_intros no_panic_lift_outcome; use assms in auto)+

lemma no_panic_case_sum [panic_intros]:
  "(\<And>y. no_panic (m y)) \<Longrightarrow> (\<And>y. no_panic (n y)) \<Longrightarrow> no_panic (case x of Inl y \<Rightarrow> m y | Inr y \<Rightarrow> n y)"
  by (cases x) simp_all

lemma no_panic_machine [panic_intros]:
  "no_panic (getOrCreateIP c)" "no_panic (getOrCreateServer c sdk ip)" "no_panic (getMachineIPs c server nic)"
  "no_panic (ensureLoadBalancerACL c sdk ip')" "no_panic (ensureServerStarted c server)" "no_panic (destroyServer c server)" "no_panic (lookupServer c)"
  unfolding getOrCreateIP_def lookupIP_def createIP_def getOrCreateServer_def lookupServer_def createServer_def findImage_def findMachineSG_def
    getMachineIPs_def findInternalIP_def ensureLoadBalancerACL_def ensureMachineACL_def ensureServerStarted_def
    destroyServer_def deleteFlexibleIP_def deleteBootVolume_def detachVolume_def Let_def
  by (intro panic_intros)+

lemma safely_getMachineIPs: "safely a (\<lambda>ips. \<exists>i. NodeIP ips = Ok i) (getMachineIPs c server nic)"
  by (rule safely_calls [OF no_panic_machine(3) only_calls_reads [OF reads_getMachineIPs]]) (auto dest: getMachineIPs_Ok)

lemma safely_any: "no_panic m \<Longrightarrow> only_calls UNIV m \<Longrightarrow> safely a anything m"
  by (rule safely_calls) simp_all

lemma makes_calls:
  "only_calls UNIV (getOrCreateIP c)" "only_calls UNIV (getOrCreateServer c sdk ip)" "only_calls UNIV (ensureControlPlaneLoadBalancer c ips del)"
  "only_calls UNIV (ensureLoadBalancerACL c sdk ip')" "only_calls UNIV (ensureCloudInit c k engine server ips)"
  "only_calls UNIV (ensureServerStarted c server)" "only_calls UNIV (destroyServer c server)"
  "only_calls UNIV (lookupServer c)" "only_calls UNIV (getMachineIPs c server nic)"
  unfolding getOrCreateIP_def lookupIP_def createIP_def getOrCreateServer_def lookupServer_def createServer_def findImage_def findMachineSG_def
    ensureControlPlaneLoadBalancer_def ensureLoadBalancerACL_def ensureMachineACL_def ensureCloudInit_def GetRawBootstrapData_def
    ensureServerStarted_def destroyServer_def deleteFlexibleIP_def deleteBootVolume_def detachVolume_def Let_def
  by (intro call_intros only_calls_reads [OF reads_getMachineIPs]; simp)+

lemma safely_getOrCreatePrivateNIC:
  assumes "PrivateNetworkID sc \<noteq> Panic"
  shows "safely (sc, m, cm) anything (getOrCreatePrivateNIC c server)"
  unfolding getOrCreatePrivateNIC_def createPrivateNIC_def
  by (intro safely_scope safely_any panic_intros no_panic_lift_outcome assms call_intros; simp)

lemma safely_prepareMachine:
  assumes "PrivateNetworkID sc \<noteq> Panic"
  shows "safely (sc, m, cm) (\<lambda>r. \<exists>i. NodeIP (snd r) = Ok i) (prepareMachine c sdk)"
  unfolding prepareMachine_def
  by (intro safely_bind [OF safely_any [OF no_panic_machine(1) makes_calls(1)]] safely_bind [OF safely_any [OF no_panic_machine(2) makes_calls(2)]]
      safely_bind [OF safely_getOrCreatePrivateNIC [OF assms]] safely_bind [OF safely_getMachineIPs]
      safely_bind [OF safely_any [OF no_panic_addressed(1) makes_calls(3)]] safely_bind [OF safely_any [OF no_panic_machine(4) makes_calls(4)]] safely_pure) simp_all

lemma instance_Reconcile_safe:
  fixes s :: "('w, 'z) MachineScope_scheme"
  assumes "PrivateNetworkID (scope_ScalewayCluster s) \<noteq> Panic"
  shows "fst (instance_Reconcile c sdk k engine s) \<noteq> Panic"
proof -
  define prep :: "(('w, 'z) MachineScope_scheme, Server \<times> machineIPs) go" where
    "prep = bind (prepareMachine c sdk) (\<lambda>r. bind (ensureCloudInit c k engine (fst r) (snd r)) (\<lambda>_. bind (ensureServerStarted c (fst r)) (\<lambda>_. ret r)))"
  have "safely (machine_parts s) anything prep"
    unfolding machine_parts_def prep_def
    by (intro safely_bind [OF safely_prepareMachine [OF assms]] safely_bind [OF safely_any [OF no_panic_addressed(2) makes_calls(5)]]
        safely_bind [OF safely_any [OF no_panic_machine(5) makes_calls(6)]] safely_pure) simp_all
  from safely_ends [OF this refl] have "fst (prep s) \<noteq> Panic" .
  moreover have "instance_Reconcile c sdk k engine = bind prep (\<lambda>r. modify (\<lambda>s. s\<lparr>scope_ScalewayMachine := SetMachineResult
      (ProviderID (scope_ScalewayCluster s) (scope_Machine s) (srv_ID (fst r))) (machineAddresses (snd r)) (scope_ScalewayMachine s)\<rparr>))"
    by (simp add: instance_Reconcile_def Let_def bind_assoc prep_def)
  ultimately show ?thesis by (cases "prep s") (auto simp: bind_def modify_def split: outcome.splits)
qed

lemma safely_leaveLoadBalancer:
  assumes "PrivateNetworkID sc \<noteq> Panic"
  shows "safely (sc, m, cm) anything (leaveLoadBalancer c server)"
proof -
  let ?a = "(sc, m, cm)"
  have nic: "safely ?a anything (if HasPrivateNetwork sc then bind (lift_outcome (PrivateNetworkID sc)) (\<lambda>pnID.
      bind (wrapping msg (FindPrivateNICByPNID c server pnID)) (\<lambda>p. ret (Some p))) else ret None)" for msg
    by (intro safely_any panic_intros no_panic_lift_outcome assms call_intros; simp)
  have ips: "safely ?a (\<lambda>r. \<forall>x. r = Inr x \<longrightarrow> (\<exists>i. NodeIP x = Ok i)) (attempt (getMachineIPs c server n))" for n
    by (rule safely_calls [where C = UNIV]) (auto intro!: panic_intros call_intros makes_calls simp: attempt_Ok dest: getMachineIPs_Ok)
  have rest: "safely ?a anything (case r of Inl e \<Rightarrow> if errors_Is e ErrMachineHasNoIP then ret () else throw (Wrap msg e)
      | Inr ips \<Rightarrow> bind (optional (ensureControlPlaneLoadBalancer c ips True)) (\<lambda>_. ret ()))"
    if "\<forall>x. r = Inr x \<longrightarrow> (\<exists>i. NodeIP x = Ok i)" for r msg
    using that by (cases r) (auto intro!: safely_any panic_intros call_intros makes_calls no_panic_addressed)
  show ?thesis
    unfolding leaveLoadBalancer_def
    by (intro safely_scope safely_branches safely_pure safely_bind [OF nic] safely_bind [OF ips] rest) simp_all
qed

lemma instance_Delete_safe:
  assumes "PrivateNetworkID (scope_ScalewayCluster s) \<noteq> Panic"
  shows "fst (instance_Delete c sdk s) \<noteq> Panic"
proof (rule safely_ends [OF _ refl])
  have acl: "safely a anything (optional (ensureLoadBalancerACL c sdk None))" for a by (intro safely_any panic_intros call_intros makes_calls)
  show "safely (machine_parts s) anything (instance_Delete c sdk)"
    unfolding instance_Delete_def machine_parts_def
    by (intro safely_bind [OF safely_any [OF no_panic_machine(7) makes_calls(8)]] safely_branches safely_pure safely_bind [OF acl]
        safely_bind [OF safely_leaveLoadBalancer [OF assms]] safely_any [OF no_panic_machine(6) makes_calls(7)]) simp_all
qed

end
