(* ===== verification/Cluster_Removal.thy ===== *)
theory Cluster_Removal
  imports Cluster_Controller
begin

text \<open>
  What is left in the cloud after a cluster was deleted. The resources of a cluster are those
  that the API lists under its name or its tags; a deletion that succeeded leaves none of them,
  and a deletion that finds none succeeds.
\<close>

section \<open>What the API lists\<close>

record inventory =
  inv_lbs :: "zone \<Rightarrow> string \<Rightarrow> api_error + LB list"
  inv_gateways :: "ListGatewaysRequest \<Rightarrow> api_error + Gateway list"
  inv_ips :: "zone \<Rightarrow> bool option \<Rightarrow> string list \<Rightarrow> string \<Rightarrow> api_error + GatewayIP list"
  inv_networks :: "region \<Rightarrow> string \<Rightarrow> string \<Rightarrow> api_error + PrivateNetwork list"
  inv_groups :: "zone list \<Rightarrow> string option \<Rightarrow> string list \<Rightarrow> api_error + InstanceSecurityGroup list"

definition inventory_of :: "'w Client \<Rightarrow> 'w \<Rightarrow> inventory" where
  "inventory_of c w = \<lparr>inv_lbs = (\<lambda>z n. fst (lb_ListLBs (cl_LoadBalancer c) z n w)),
     inv_gateways = (\<lambda>q. fst (vpcgw_ListGateways (cl_VPCGW c) q w)),
     inv_ips = (\<lambda>z a ts p. fst (vpcgw_ListIPs (cl_VPCGW c) z a ts p w)),
     inv_networks = (\<lambda>r n p. fst (vpc_ListPrivateNetworks (cl_VPC c) r n p w)),
     inv_groups = (\<lambda>zs n ts. fst (instance_ListSecurityGroups (cl_Instance c) zs n ts w))\<rparr>"

text \<open>A list without the items of some IDs.\<close>

definition without :: "('a \<Rightarrow> string) \<Rightarrow> string set \<Rightarrow> api_error + 'a list \<Rightarrow> api_error + 'a list" where
  "without ID I r = (case r of Inl e \<Rightarrow> Inl e | Inr xs \<Rightarrow> Inr (filter (\<lambda>x. ID x \<notin> I) xs))"

lemma without_simps [simp]: "without ID {} r = r" "without ID A (without ID B r) = without ID (A \<union> B) r"
  by (auto simp: without_def intro: filter_cong split: sum.split)

text \<open>
  What is relied on: a list is only read, and deleting a resource, when it succeeds, takes the
  resource out of the lists and changes no other list.
\<close>

definition lists_only :: "'w Client \<Rightarrow> bool" where
  "lists_only c \<longleftrightarrow> (\<forall>w. (\<forall>z n. snd (lb_ListLBs (cl_LoadBalancer c) z n w) = w)
   \<and> (\<forall>q. snd (vpcgw_ListGateways (cl_VPCGW c) q w) = w) \<and> (\<forall>z a ts p. snd (vpcgw_ListIPs (cl_VPCGW c) z a ts p w) = w)
   \<and> (\<forall>r n p. snd (vpc_ListPrivateNetworks (cl_VPC c) r n p w) = w)
   \<and> (\<forall>zs n ts. snd (instance_ListSecurityGroups (cl_Instance c) zs n ts w) = w))"

definition deletes_take_out :: "'w Client \<Rightarrow> bool" where
  "deletes_take_out c \<longleftrightarrow> (\<forall>w v i.
     (\<forall>z b. lb_DeleteLB (cl_LoadBalancer c) z i b w = (Inr (), v) \<longrightarrow>
        inventory_of c v = (inventory_of c w)\<lparr>inv_lbs := \<lambda>z n. without lb_ID {i} (inv_lbs (inventory_of c w) z n)\<rparr>)
   \<and> (\<forall>z. vpcgw_DeleteGateway (cl_PublicGateway c) z i w = (Inr (), v) \<longrightarrow>
        inventory_of c v = (inventory_of c w)\<lparr>inv_gateways := \<lambda>q. without gw_ID {i} (inv_gateways (inventory_of c w) q)\<rparr>)
   \<and> (\<forall>z. vpcgw_DeleteIP (cl_PublicGateway c) z i w = (Inr (), v) \<longrightarrow>
        inventory_of c v = (inventory_of c w)\<lparr>inv_ips := \<lambda>z a ts p. without gip_ID {i} (inv_ips (inventory_of c w) z a ts p)\<rparr>)
   \<and> (\<forall>r. vpc_DeletePrivateNetwork (cl_VPC c) r i w = (Inr (), v) \<longrightarrow>
        inventory_of c v = (inventory_of c w)\<lparr>inv_networks := \<lambda>r n p. without pn_ID {i} (inv_networks (inventory_of c w) r n p)\<rparr>)
   \<and> (\<forall>z. instance_DeleteSecurityGroup (cl_Instance c) z i w = (Inr (), v) \<longrightarrow>
        inventory_of c v = (inventory_of c w)\<lparr>inv_groups := \<lambda>zs n ts. without isg_ID {i} (inv_groups (inventory_of c w) zs n ts)\<rparr>))"

section \<open>What belongs to a cluster\<close>

definition none_named :: "('a \<Rightarrow> string) \<Rightarrow> string \<Rightarrow> api_error + 'a list \<Rightarrow> bool" where
  "none_named nm n r \<longleftrightarrow> (\<exists>xs. r = Inr xs \<and> (\<forall>x \<in> set xs. nm x \<noteq> n))"

definition one_named :: "('a \<Rightarrow> string) \<Rightarrow> ('a \<Rightarrow> string) \<Rightarrow> string \<Rightarrow> api_error + 'a list \<Rightarrow> bool" where
  "one_named ID nm n r \<longleftrightarrow> (case r of Inl _ \<Rightarrow> True
     | Inr xs \<Rightarrow> \<forall>x \<in> set xs. \<forall>y \<in> set xs. nm x = n \<longrightarrow> nm y = n \<longrightarrow> ID x = ID y)"

definition gateway_query :: "'w Client \<Rightarrow> ScalewayCluster \<Rightarrow> ListGatewaysRequest" where
  "gateway_query c sc = \<lparr>lg_Zones = [PublicGatewayZone sc], lg_Name = Some (Name sc),
     lg_ProjectID = Some (cl_ProjectID c), lg_PrivateNetworkID = None\<rparr>"

definition releases_ip :: "ScalewayCluster \<Rightarrow> bool" where
  "releases_ip sc \<longleftrightarrow> manages_gateway sc \<and> Option.bind (publicGatewaySpec sc) pgs_IP = None"

text \<open>Nothing of the cluster is listed.\<close>

definition nothing_left :: "'w Client \<Rightarrow> SDK \<Rightarrow> ScalewayCluster \<Rightarrow> inventory \<Rightarrow> bool" where
  "nothing_left c sdk sc items \<longleftrightarrow> none_named lb_Name (Name sc) (inv_lbs items (LoadBalancerZone sc) (Name sc))
   \<and> (manages_gateway sc \<longrightarrow> none_named gw_Name (Name sc) (inv_gateways items (gateway_query c sc)))
   \<and> (releases_ip sc \<longrightarrow> inv_ips items (PublicGatewayZone sc) None (Tags sc) (cl_ProjectID c) = Inr [])
   \<and> (ShouldManagePrivateNetwork sc \<longrightarrow> none_named pn_Name (Name sc) (inv_networks items (Region sc) (Name sc) (cl_ProjectID c)))
   \<and> inv_groups items (Zones sdk sc (instance_Zones (cl_Instance c))) None (Tags sc) = Inr []"

text \<open>The load balancer, the gateway and the network are the only ones of their name.\<close>

definition names_unique :: "'w Client \<Rightarrow> ScalewayCluster \<Rightarrow> inventory \<Rightarrow> bool" where
  "names_unique c sc items \<longleftrightarrow> one_named lb_ID lb_Name (Name sc) (inv_lbs items (LoadBalancerZone sc) (Name sc))
   \<and> one_named gw_ID gw_Name (Name sc) (inv_gateways items (gateway_query c sc))
   \<and> one_named pn_ID pn_Name (Name sc) (inv_networks items (Region sc) (Name sc) (cl_ProjectID c))"

section \<open>The four deletions\<close>

lemma without_named:
  assumes "one_named ID nm n r" "r = Inr xs" "find (\<lambda>x. nm x = n) xs = Some x"
  shows "none_named nm n (without ID {ID x} r)"
  using assms by (auto simp: one_named_def none_named_def without_def dest!: find_SomeD)

lemma none_named_find: "find (\<lambda>x. nm x = n) xs = None \<Longrightarrow> none_named nm n (Inr xs)"
  by (auto simp: none_named_def find_eq_None)

lemma inventory_simps:
  "inv_lbs (inventory_of c w) z n = fst (lb_ListLBs (cl_LoadBalancer c) z n w)"
  "inv_gateways (inventory_of c w) q = fst (vpcgw_ListGateways (cl_VPCGW c) q w)"
  "inv_ips (inventory_of c w) z a ts p = fst (vpcgw_ListIPs (cl_VPCGW c) z a ts p w)"
  "inv_networks (inventory_of c w) r n p = fst (vpc_ListPrivateNetworks (cl_VPC c) r n p w)"
  "inv_groups (inventory_of c w) zs o' ts = fst (instance_ListSecurityGroups (cl_Instance c) zs o' ts w)"
  by (simp_all add: inventory_of_def)

lemma list_run:
  assumes "lists_only c"
  shows "lb_ListLBs (cl_LoadBalancer c) z n w = (inv_lbs (inventory_of c w) z n, w)"
    "vpcgw_ListGateways (cl_VPCGW c) q w = (inv_gateways (inventory_of c w) q, w)"
    "vpcgw_ListIPs (cl_VPCGW c) z a ts p w = (inv_ips (inventory_of c w) z a ts p, w)"
    "vpc_ListPrivateNetworks (cl_VPC c) r n p w = (inv_networks (inventory_of c w) r n p, w)"
    "instance_ListSecurityGroups (cl_Instance c) zs o' ts w = (inv_groups (inventory_of c w) zs o' ts, w)"
  using assms by (simp_all add: lists_only_def prod_eq_iff inventory_simps)

text \<open>Finding a resource gives the first of its name in the list, and changes nothing.\<close>

lemma found_in_list:
  assumes "lists_only c"
  shows "optional (FindLoadBalancerByName c z n) s = (Ok lb, t) \<Longrightarrow>
      t = s \<and> (\<exists>xs. inv_lbs (inventory_of c (world s)) z n = Inr xs \<and> lb = find (\<lambda>l. lb_Name l = n) xs)"
    and "optional (FindGatewayByName c z n) s = (Ok gw, t) \<Longrightarrow> t = s \<and> (\<exists>xs. inv_gateways (inventory_of c (world s))
      \<lparr>lg_Zones = [z], lg_Name = Some n, lg_ProjectID = Some (cl_ProjectID c), lg_PrivateNetworkID = None\<rparr> = Inr xs
      \<and> gw = find (\<lambda>g. gw_Name g = n) xs)"
    and "optional (FindPrivateNetworkByName c r n) s = (Ok pn, t) \<Longrightarrow>
      t = s \<and> (\<exists>xs. inv_networks (inventory_of c (world s)) r n (cl_ProjectID c) = Inr xs \<and> pn = find (\<lambda>p. pn_Name p = n) xs)"
  unfolding lb_by_name.optional_find gateway_by_name.optional_find pn_by_name.optional_find
  by (auto simp: ok_iffs list_run [OF assms])

lemma found_by_tags:
  assumes "lists_only c" "optional (FindGatewayIPByTags c z ts) s = (Ok ip, t)"
  shows "t = s \<and> inv_ips (inventory_of c (world s)) z None ts (cl_ProjectID c) = Inr (case ip of None \<Rightarrow> [] | Some i \<Rightarrow> [i])"
  using assms(2) unfolding FindGatewayIPByTags_def
  by (auto simp: optional_Ok bind_def wrapping_def sdk_read_def list_run [OF assms(1)] only_item_def ret_def throw_def api_result_def
      split: option.splits sum.splits list.splits)

text \<open>What one deletion does to the lists.\<close>

lemma taken_out:
  assumes "deletes_take_out c"
  shows "lb_DeleteLB (cl_LoadBalancer c) z i b w = (Inr (), v) \<Longrightarrow>
      inventory_of c v = (inventory_of c w)\<lparr>inv_lbs := \<lambda>z n. without lb_ID {i} (inv_lbs (inventory_of c w) z n)\<rparr>"
    and "vpcgw_DeleteGateway (cl_PublicGateway c) z i w = (Inr (), v) \<Longrightarrow>
      inventory_of c v = (inventory_of c w)\<lparr>inv_gateways := \<lambda>q. without gw_ID {i} (inv_gateways (inventory_of c w) q)\<rparr>"
    and "vpcgw_DeleteIP (cl_PublicGateway c) z i w = (Inr (), v) \<Longrightarrow>
      inventory_of c v = (inventory_of c w)\<lparr>inv_ips := \<lambda>z a ts p. without gip_ID {i} (inv_ips (inventory_of c w) z a ts p)\<rparr>"
    and "vpc_DeletePrivateNetwork (cl_VPC c) r i w = (Inr (), v) \<Longrightarrow>
      inventory_of c v = (inventory_of c w)\<lparr>inv_networks := \<lambda>r n p. without pn_ID {i} (inv_networks (inventory_of c w) r n p)\<rparr>"
    and "instance_DeleteSecurityGroup (cl_Instance c) z i w = (Inr (), v) \<Longrightarrow>
      inventory_of c v = (inventory_of c w)\<lparr>inv_groups := \<lambda>zs n ts. without isg_ID {i} (inv_groups (inventory_of c w) zs n ts)\<rparr>"
  using assms unfolding deletes_take_out_def by blast+

lemma loadbalancer_gone:
  assumes cloud: "lists_only c" "deletes_take_out c"
    and run: "loadbalancer_Delete c s = (Ok (), t)" and sc: "sc = scope_ScalewayCluster s"
    and unique: "one_named lb_ID lb_Name (Name sc) (inv_lbs (inventory_of c (world s)) (LoadBalancerZone sc) (Name sc))"
  shows "none_named lb_Name (Name sc) (inv_lbs (inventory_of c (world t)) (LoadBalancerZone sc) (Name sc))
    \<and> (\<exists>f. inventory_of c (world t) = (inventory_of c (world s))\<lparr>inv_lbs := f\<rparr>)"
proof -
  obtain found u where find: "optional (FindLoadBalancerByName c (LoadBalancerZone sc) (Name sc)) s = (Ok found, u)"
    and rest: "case found of None \<Rightarrow> t = u | Some l \<Rightarrow> sdk_call (CallDeleteLB (lb_Zone l) (lb_ID l) (loadBalancerIP sc = None))
        (lb_DeleteLB (cl_LoadBalancer c) (lb_Zone l) (lb_ID l) (loadBalancerIP sc = None)) u = (Ok (), t)"
    using run unfolding loadbalancer_Delete_def bind_gets_run bind_Ok Let_def sc
    by (fastforce simp: pure_Ok wrapping_Ok split: option.splits)
  obtain xs where u: "u = s" and xs: "inv_lbs (inventory_of c (world s)) (LoadBalancerZone sc) (Name sc) = Inr xs"
    "found = find (\<lambda>l. lb_Name l = Name sc) xs"
    using found_in_list(1) [OF cloud(1) find] by blast
  show ?thesis
  proof (cases found)
    case None
    with rest u xs show ?thesis by (auto intro: none_named_find exI [where x = "inv_lbs (inventory_of c (world s))"])
  next
    case (Some l)
    with rest u obtain v where "lb_DeleteLB (cl_LoadBalancer c) (lb_Zone l) (lb_ID l) (loadBalancerIP sc = None) (world s) = (Inr (), v)"
      "world t = v" by (auto simp: sdk_call_Ok)
    with taken_out(1) [OF cloud(2)] have inventory: "inventory_of c (world t) = (inventory_of c (world s))\<lparr>inv_lbs := \<lambda>z n.
        without lb_ID {lb_ID l} (inv_lbs (inventory_of c (world s)) z n)\<rparr>" by blast
    with without_named [OF unique xs(1), of l] xs(2) Some show ?thesis by (intro conjI exI, simp) (rule inventory)
  qed
qed

lemma gateway_gone:
  assumes cloud: "lists_only c" "deletes_take_out c"
    and find: "optional (FindGatewayByName c (PublicGatewayZone sc) (Name sc)) s = (Ok found, u)"
    and rest: "(case found of None \<Rightarrow> ret () | Some g \<Rightarrow> vpcgw_deleteGateway c (PublicGatewayZone sc) g) u = (Ok (), t)"
    and unique: "one_named gw_ID gw_Name (Name sc) (inv_gateways (inventory_of c (world s)) (gateway_query c sc))"
  shows "none_named gw_Name (Name sc) (inv_gateways (inventory_of c (world t)) (gateway_query c sc))
    \<and> (\<exists>f. inventory_of c (world t) = (inventory_of c (world s))\<lparr>inv_gateways := f\<rparr>)"
proof -
  obtain xs where u: "u = s" and xs: "inv_gateways (inventory_of c (world s)) (gateway_query c sc) = Inr xs"
    "found = find (\<lambda>g. gw_Name g = Name sc) xs"
    using found_in_list(2) [OF cloud(1) find] unfolding gateway_query_def by blast
  show ?thesis
  proof (cases found)
    case None
    with rest u xs show ?thesis
      by (auto simp: pure_Ok intro: none_named_find exI [where x = "inv_gateways (inventory_of c (world s))"])
  next
    case (Some g)
    with rest u obtain v where "vpcgw_DeleteGateway (cl_PublicGateway c) (PublicGatewayZone sc) (gw_ID g) (world s) = (Inr (), v)"
      "world t = v" by (auto simp: vpcgw_deleteGateway_def wrapping_Ok sdk_call_Ok)
    with taken_out(2) [OF cloud(2)] have inventory: "inventory_of c (world t) = (inventory_of c (world s))\<lparr>inv_gateways := \<lambda>q.
        without gw_ID {gw_ID g} (inv_gateways (inventory_of c (world s)) q)\<rparr>" by blast
    with without_named [OF unique xs(1), of g] xs(2) Some show ?thesis by (intro conjI exI, simp) (rule inventory)
  qed
qed

lemma gateway_ip_gone:
  assumes cloud: "lists_only c" "deletes_take_out c" and run: "vpcgw_releaseIP c zone tags s = (Ok (), t)"
  shows "inv_ips (inventory_of c (world t)) zone None tags (cl_ProjectID c) = Inr []
    \<and> (\<exists>f. inventory_of c (world t) = (inventory_of c (world s))\<lparr>inv_ips := f\<rparr>)"
proof -
  obtain ip u where find: "optional (FindGatewayIPByTags c zone tags) s = (Ok ip, u)"
    and rest: "case ip of None \<Rightarrow> t = u | Some i \<Rightarrow> sdk_call (CallDeleteGatewayIP zone (gip_ID i))
        (vpcgw_DeleteIP (cl_PublicGateway c) zone (gip_ID i)) u = (Ok (), t)"
    using run unfolding vpcgw_releaseIP_def bind_Ok wrapping_Ok
    by (fastforce simp: pure_Ok wrapping_Ok split: option.splits)
  have u: "u = s" and ips: "inv_ips (inventory_of c (world s)) zone None tags (cl_ProjectID c) = Inr (case ip of None \<Rightarrow> [] | Some i \<Rightarrow> [i])"
    using found_by_tags [OF cloud(1) find] by simp_all
  show ?thesis
  proof (cases ip)
    case None
    with rest u ips show ?thesis by (auto intro: exI [where x = "inv_ips (inventory_of c (world s))"])
  next
    case (Some i)
    with rest u obtain v where "vpcgw_DeleteIP (cl_PublicGateway c) zone (gip_ID i) (world s) = (Inr (), v)" "world t = v"
      by (auto simp: sdk_call_Ok)
    with taken_out(3) [OF cloud(2)] have inventory: "inventory_of c (world t) = (inventory_of c (world s))\<lparr>inv_ips := \<lambda>z a ts p.
        without gip_ID {gip_ID i} (inv_ips (inventory_of c (world s)) z a ts p)\<rparr>" by blast
    with ips Some show ?thesis by (intro conjI exI, simp add: without_def) (rule inventory)
  qed
qed

lemma vpcgw_gone:
  assumes cloud: "lists_only c" "deletes_take_out c"
    and run: "vpcgw_Delete c s = (Ok (), t)" and sc: "sc = scope_ScalewayCluster s"
    and unique: "one_named gw_ID gw_Name (Name sc) (inv_gateways (inventory_of c (world s)) (gateway_query c sc))"
  shows "(manages_gateway sc \<longrightarrow> none_named gw_Name (Name sc) (inv_gateways (inventory_of c (world t)) (gateway_query c sc)))
    \<and> (releases_ip sc \<longrightarrow> inv_ips (inventory_of c (world t)) (PublicGatewayZone sc) None (Tags sc) (cl_ProjectID c) = Inr [])
    \<and> (\<exists>f g. inventory_of c (world t) = (inventory_of c (world s))\<lparr>inv_gateways := f, inv_ips := g\<rparr>)"
proof (cases "manages_gateway sc")
  case False
  then have "vpcgw_Delete c s = (Ok (), s)"
    using HasPublicGateway_spec [of "scope_ScalewayCluster s"] unfolding sc
    by (auto simp: vpcgw_Delete_def manages_gateway_def bind_def gets_def ret_def)
  with run False show ?thesis
    by (auto simp: releases_ip_def intro!: exI [where x = "inv_gateways (inventory_of c (world s))"]
        exI [where x = "inv_ips (inventory_of c (world s))"])
next
  case True
  then obtain spec where spec: "publicGatewaySpec sc = Some spec" "pgs_ID spec = None"
    using HasPublicGateway_spec unfolding manages_gateway_def by fastforce
  obtain found u v where find: "optional (FindGatewayByName c (PublicGatewayZone sc) (Name sc)) s = (Ok found, u)"
    and gw: "(case found of None \<Rightarrow> ret () | Some g \<Rightarrow> vpcgw_deleteGateway c (PublicGatewayZone sc) g) u = (Ok (), v)"
    and ip: "(if pgs_IP spec = None then vpcgw_releaseIP c (PublicGatewayZone sc) (Tags sc) else ret ()) v = (Ok (), t)"
    using run True spec unfolding vpcgw_Delete_def bind_gets_run manages_gateway_def sc
    by (auto simp: bind_Ok wrapping_Ok Let_def)
  obtain f where none: "none_named gw_Name (Name sc) (inv_gateways (inventory_of c (world v)) (gateway_query c sc))"
    and v: "inventory_of c (world v) = (inventory_of c (world s))\<lparr>inv_gateways := f\<rparr>"
    using gateway_gone [OF cloud find gw unique] by blast
  show ?thesis
  proof (cases "pgs_IP spec")
    case None
    with ip have "vpcgw_releaseIP c (PublicGatewayZone sc) (Tags sc) v = (Ok (), t)" by simp
    from gateway_ip_gone [OF cloud this] obtain g where
      ips: "inv_ips (inventory_of c (world t)) (PublicGatewayZone sc) None (Tags sc) (cl_ProjectID c) = Inr []"
      and t: "inventory_of c (world t) = (inventory_of c (world v))\<lparr>inv_ips := g\<rparr>" by blast
    from none t have "none_named gw_Name (Name sc) (inv_gateways (inventory_of c (world t)) (gateway_query c sc))" by simp
    with ips t v show ?thesis by auto
  next
    case (Some i)
    with ip none v spec show ?thesis
      by (auto simp: pure_Ok releases_ip_def intro!: exI [where x = f] exI [where x = "inv_ips (inventory_of c (world s))"])
  qed
qed

lemma network_gone:
  assumes cloud: "lists_only c" "deletes_take_out c"
    and run: "vpc_Delete c s = (Ok (), t)" and sc: "sc = scope_ScalewayCluster s"
    and unique: "one_named pn_ID pn_Name (Name sc) (inv_networks (inventory_of c (world s)) (Region sc) (Name sc) (cl_ProjectID c))"
  shows "(ShouldManagePrivateNetwork sc \<longrightarrow> none_named pn_Name (Name sc) (inv_networks (inventory_of c (world t)) (Region sc) (Name sc) (cl_ProjectID c)))
    \<and> (\<exists>f. inventory_of c (world t) = (inventory_of c (world s))\<lparr>inv_networks := f\<rparr>)"
proof (cases "ShouldManagePrivateNetwork sc")
  case False
  with run have "t = s" unfolding sc by (simp add: vpc_Delete_def bind_gets_run ret_def)
  with False show ?thesis by (auto intro: exI [where x = "inv_networks (inventory_of c (world s))"])
next
  case True
  obtain found u where find: "optional (FindPrivateNetworkByName c (Region sc) (Name sc)) s = (Ok found, u)"
    and rest: "case found of None \<Rightarrow> t = u | Some pn \<Rightarrow> sdk_call (CallDeletePrivateNetwork (Region sc) (pn_ID pn))
        (vpc_DeletePrivateNetwork (cl_VPC c) (Region sc) (pn_ID pn)) u = (Ok (), t)"
    using run True unfolding vpc_Delete_def bind_gets_run sc by (simp add: bind_Ok) (fastforce simp: pure_Ok split: option.splits)
  obtain xs where u: "u = s" and xs: "inv_networks (inventory_of c (world s)) (Region sc) (Name sc) (cl_ProjectID c) = Inr xs"
    "found = find (\<lambda>p. pn_Name p = Name sc) xs"
    using found_in_list(3) [OF cloud(1) find] by blast
  show ?thesis
  proof (cases found)
    case None
    with rest u xs show ?thesis by (auto intro: none_named_find exI [where x = "inv_networks (inventory_of c (world s))"])
  next
    case (Some pn)
    with rest u obtain v where "vpc_DeletePrivateNetwork (cl_VPC c) (Region sc) (pn_ID pn) (world s) = (Inr (), v)" "world t = v"
      by (auto simp: sdk_call_Ok)
    with taken_out(4) [OF cloud(2)] have inventory: "inventory_of c (world t) = (inventory_of c (world s))\<lparr>inv_networks := \<lambda>r n p.
        without pn_ID {pn_ID pn} (inv_networks (inventory_of c (world s)) r n p)\<rparr>" by blast
    with without_named [OF unique xs(1), of pn] xs(2) Some show ?thesis by (intro conjI exI, simp) (rule inventory)
  qed
qed

text \<open>Deleting the security groups: the listed ones go one after the other.\<close>

lemma groups_deleted:
  assumes "deletes_take_out c" "for_each (deleteSG c) es s = (Ok (), t)"
  shows "inventory_of c (world t) = (inventory_of c (world s))\<lparr>inv_groups := \<lambda>zs n ts.
    without isg_ID (isg_ID ` set es) (inv_groups (inventory_of c (world s)) zs n ts)\<rparr>"
  using assms(2)
proof (induction es arbitrary: s)
  case Nil
  then show ?case by (simp add: pure_Ok)
next
  case (Cons e es)
  then obtain u where e: "deleteSG c e s = (Ok (), u)" and es: "for_each (deleteSG c) es u = (Ok (), t)" by (auto simp: bind_Ok)
  from e obtain v where "instance_DeleteSecurityGroup (cl_Instance c) (isg_Zone e) (isg_ID e) (world s) = (Inr (), v)" "world u = v"
    by (auto simp: deleteSG_def wrapping_Ok sdk_call_Ok)
  with taken_out(5) [OF assms(1)] have u: "inventory_of c (world u) = (inventory_of c (world s))\<lparr>inv_groups := \<lambda>zs n ts.
      without isg_ID {isg_ID e} (inv_groups (inventory_of c (world s)) zs n ts)\<rparr>" by blast
  with Cons.IH [OF es] u show ?case by simp
qed

lemma groups_gone:
  assumes cloud: "lists_only c" "deletes_take_out c"
    and run: "securitygroup_Delete c sdk s = (Ok (), t)" and sc: "sc = scope_ScalewayCluster s"
  shows "inv_groups (inventory_of c (world t)) (Zones sdk sc (instance_Zones (cl_Instance c))) None (Tags sc) = Inr []
    \<and> (\<exists>f. inventory_of c (world t) = (inventory_of c (world s))\<lparr>inv_groups := f\<rparr>)"
proof -
  let ?zones = "Zones sdk sc (instance_Zones (cl_Instance c))"
  obtain es where es: "inv_groups (inventory_of c (world s)) ?zones None (Tags sc) = Inr es" and "for_each (deleteSG c) es s = (Ok (), t)"
    using run unfolding securitygroup_Delete_def ensureSecurityGroups_def bind_gets_run Let_def sc
    by (auto simp: ok_iffs list_run [OF cloud(1)] wantedSG_def)
  from groups_deleted [OF cloud(2) this(2)] es show ?thesis by (auto simp: without_def)
qed

section \<open>Properties\<close>

lemma reconcileDelete_Ok:
  assumes "cluster_reconcileDelete k c sdk s = (Ok no_requeue, t)"
  obtains u1 u2 u3 u4 where "loadbalancer_Delete c s = (Ok (), u1)" "vpcgw_Delete c u1 = (Ok (), u2)" "vpc_Delete c u2 = (Ok (), u3)"
    "securitygroup_Delete c sdk u3 = (Ok (), u4)" "world t = world u4"
    "scope_ScalewayCluster u1 = scope_ScalewayCluster s" "scope_ScalewayCluster u2 = scope_ScalewayCluster s"
    "scope_ScalewayCluster u3 = scope_ScalewayCluster s"
proof -
  obtain q u3 where removals: "cluster_removals c s = (Ok q, u3)"
    and rest: "(case q of Inl err \<Rightarrow> if errors_As_PreconditionFailed err then ret requeue_soon else throw err
       | Inr _ \<Rightarrow> bind (securitygroup_Delete c sdk) (\<lambda>_. bind (modify_cluster (\<lambda>sc. SetFinalizers
           (k_RemoveFinalizer k (meta_Finalizers (sc_Meta sc)) ClusterFinalizer) sc)) (\<lambda>_. ret no_requeue))) u3 = (Ok no_requeue, t)"
    using assms unfolding reconcileDelete_split bind_Ok by blast
  from rest have q: "q = Inr ()" by (cases q) (auto simp: pure_Ok split: if_splits)
  obtain u1 u2 where runs: "loadbalancer_Delete c s = (Ok (), u1)" "vpcgw_Delete c u1 = (Ok (), u2)" "vpc_Delete c u2 = (Ok (), u3)"
    using removals q unfolding cluster_removals_def by (auto simp: bind_Ok attempt_Ok)
  obtain u4 where "securitygroup_Delete c sdk u3 = (Ok (), u4)" "world t = world u4"
    using rest q by (auto simp: bind_Ok modify_cluster_run pure_Ok)
  then show thesis
    using runs keepsD [OF loadbalancer.delete_cluster, of c s] keepsD [OF vpcgw.delete_cluster, of c u1] keepsD [OF vpc.delete_cluster, of c u2]
    by (intro that [of u1 u2 u3 u4]) simp_all
qed

text \<open>
  C8: a deletion that succeeded is complete. If the lists of the cloud are only read, a
  successful deletion takes the resource out of them, and the load balancer, the gateway and the
  network are the only ones of the cluster's name, then after a run of reconcileDelete that gives
  the finalizer up nothing of the cluster is listed any more: no load balancer, no managed gateway,
  no IP that was created for it, no managed network, no security group.
\<close>

theorem cluster_delete_complete:
  assumes "lists_only c" "deletes_take_out c" and sc: "sc = scope_ScalewayCluster s"
    and unique: "names_unique c sc (inventory_of c (world s))"
    and run: "cluster_reconcileDelete k c sdk s = (Ok no_requeue, t)"
  shows "nothing_left c sdk sc (inventory_of c (world t))"
  using run
proof (rule reconcileDelete_Ok)
  fix u1 u2 u3 u4
  assume runs: "loadbalancer_Delete c s = (Ok (), u1)" "vpcgw_Delete c u1 = (Ok (), u2)" "vpc_Delete c u2 = (Ok (), u3)"
    "securitygroup_Delete c sdk u3 = (Ok (), u4)" and t: "world t = world u4"
    and same: "scope_ScalewayCluster u1 = scope_ScalewayCluster s" "scope_ScalewayCluster u2 = scope_ScalewayCluster s"
      "scope_ScalewayCluster u3 = scope_ScalewayCluster s"
  note lb = loadbalancer_gone [OF assms(1,2) runs(1) sc]
  note gw = vpcgw_gone [OF assms(1,2) runs(2), of sc]
  note pn = network_gone [OF assms(1,2) runs(3), of sc]
  note sg = groups_gone [OF assms(1,2) runs(4), of sc]
  show ?thesis
    using lb gw pn sg unique sc same t unfolding nothing_left_def names_unique_def by auto
qed

lemma nothing_to_find:
  assumes "lists_only c"
  shows "none_named lb_Name n (inv_lbs (inventory_of c (world s)) z n) \<Longrightarrow> optional (FindLoadBalancerByName c z n) s = (Ok None, s)"
    and "none_named gw_Name n (inv_gateways (inventory_of c (world s)) \<lparr>lg_Zones = [z], lg_Name = Some n,
      lg_ProjectID = Some (cl_ProjectID c), lg_PrivateNetworkID = None\<rparr>) \<Longrightarrow> optional (FindGatewayByName c z n) s = (Ok None, s)"
    and "none_named pn_Name n (inv_networks (inventory_of c (world s)) r n (cl_ProjectID c)) \<Longrightarrow>
      optional (FindPrivateNetworkByName c r n) s = (Ok None, s)"
    and "inv_ips (inventory_of c (world s)) z None ts (cl_ProjectID c) = Inr [] \<Longrightarrow> optional (FindGatewayIPByTags c z ts) s = (Ok None, s)"
  unfolding lb_by_name.optional_find gateway_by_name.optional_find pn_by_name.optional_find
  by (auto simp: none_named_def ok_iffs list_run [OF assms] FindGatewayIPByTags_def optional_Ok bind_def wrapping_def sdk_read_def
      only_item_def throw_def find_eq_None [symmetric])

lemma removals_find_nothing:
  assumes lists: "lists_only c" and left: "nothing_left c sdk (scope_ScalewayCluster s) (inventory_of c (world s))"
  shows "loadbalancer_Delete c s = (Ok (), s)" "vpcgw_Delete c s = (Ok (), s)" "vpc_Delete c s = (Ok (), s)"
    "securitygroup_Delete c sdk s = (Ok (), s)"
proof -
  let ?sc = "scope_ScalewayCluster s"
  note none = nothing_to_find [OF lists, where s = s]
  note left = left [unfolded nothing_left_def gateway_query_def]
  show "loadbalancer_Delete c s = (Ok (), s)"
    using none(1) left by (simp add: loadbalancer_Delete_def gets_def bind_def ret_def)
  show "vpc_Delete c s = (Ok (), s)"
    using none(3) left by (simp add: vpc_Delete_def gets_def bind_def ret_def)
  show "securitygroup_Delete c sdk s = (Ok (), s)"
    using left by (simp add: securitygroup_Delete_def ensureSecurityGroups_def gets_def bind_def wrapping_def sdk_read_def
        list_run [OF lists] ret_def Let_def)
  show "vpcgw_Delete c s = (Ok (), s)"
  proof (cases "manages_gateway ?sc")
    case True
    then obtain spec where spec: "publicGatewaySpec ?sc = Some spec" "pgs_ID spec = None"
      using HasPublicGateway_spec unfolding manages_gateway_def by fastforce
    have "vpcgw_releaseIP c (PublicGatewayZone ?sc) (Tags ?sc) s = (Ok (), s)" if "pgs_IP spec = None"
      using none(4) left True spec that by (simp add: vpcgw_releaseIP_def releases_ip_def bind_def wrapping_def ret_def)
    with True none(2) left spec show ?thesis
      by (simp add: vpcgw_Delete_def manages_gateway_def gets_def bind_def wrapping_def ret_def Let_def)
  next
    case False
    then show ?thesis
      using HasPublicGateway_spec [of ?sc] by (auto simp: vpcgw_Delete_def manages_gateway_def bind_def gets_def ret_def)
  qed
qed

text \<open>
  A deletion comes to its end. Once nothing of the cluster is listed, reconcileDelete
  succeeds, asks the cloud for nothing, and gives the finalizer up.
\<close>

theorem cluster_delete_finishes:
  assumes "lists_only c" "nothing_left c sdk (scope_ScalewayCluster s) (inventory_of c (world s))"
  shows "cluster_reconcileDelete k c sdk s = (Ok no_requeue, s\<lparr>scope_ScalewayCluster :=
    SetFinalizers (k_RemoveFinalizer k (meta_Finalizers (sc_Meta (scope_ScalewayCluster s))) ClusterFinalizer) (scope_ScalewayCluster s)\<rparr>)"
  using removals_find_nothing [OF assms]
  by (simp add: cluster_reconcileDelete_def bind_Ok_run attempt_def modify_cluster_run ret_def)

text \<open>A cloud that keeps load balancers and has nothing else.\<close>

definition ex_lb_cloud :: "LB list Client" where
  "ex_lb_cloud = down_client\<lparr>
     cl_LoadBalancer := down_lb\<lparr>lb_ListLBs := (\<lambda>z n w. (Inr (filter (\<lambda>l. lb_Name l = n) w), w)),
       lb_DeleteLB := (\<lambda>z i b w. (Inr (), filter (\<lambda>l. lb_ID l \<noteq> i) w))\<rparr>,
     cl_Instance := down_instance\<lparr>instance_ListSecurityGroups := (\<lambda>zs n ts w. (Inr [], w))\<rparr>,
     cl_VPC := down_vpc\<lparr>vpc_ListPrivateNetworks := (\<lambda>r n p w. (Inr [], w))\<rparr>,
     cl_VPCGW := down_vpcgw\<lparr>vpcgw_ListGateways := (\<lambda>q w. (Inr [], w)), vpcgw_ListIPs := (\<lambda>z a ts p w. (Inr [], w))\<rparr>\<rparr>"

lemma ex_lb_cloud_laws: "lists_only ex_lb_cloud" "deletes_take_out ex_lb_cloud"
  by (auto simp: lists_only_def deletes_take_out_def ex_lb_cloud_def down_client_def down_instance_def down_vpc_def down_vpcgw_def
      down_def inventory_of_def without_def filter_filter fun_eq_iff intro: filter_cong)

definition ex_lb :: LB where
  "ex_lb = \<lparr>lb_ID = ''lb-1'', lb_Name = ''caps-c'', lb_Zone = ''fr-par-1'', lb_Status = LBStatusReady, lb_IP = []\<rparr>"

theorem cluster_delete_finishes_witness:
  "fst (cluster_reconcileDelete down_k8s ex_lb_cloud ex_sdk (ex_scope ex_pn_cluster [])) = Ok no_requeue"
  by (subst cluster_delete_finishes [OF ex_lb_cloud_laws(1)])
    (simp_all add: nothing_left_def none_named_def inventory_of_def ex_lb_cloud_def down_client_def ex_scope_def)

theorem cluster_delete_complete_witness:
  "nothing_left ex_lb_cloud ex_sdk ex_pn_cluster (inventory_of ex_lb_cloud
     (world (snd (cluster_reconcileDelete down_k8s ex_lb_cloud ex_sdk (ex_scope ex_pn_cluster [ex_lb])))))"
proof -
  obtain t where run: "cluster_reconcileDelete down_k8s ex_lb_cloud ex_sdk (ex_scope ex_pn_cluster [ex_lb]) = (Ok no_requeue, t)"
    by (simp add: cluster_reconcileDelete_def loadbalancer_Delete_def vpcgw_Delete_def vpc_Delete_def securitygroup_Delete_def
        ensureSecurityGroups_def modify_cluster_def ex_lb_cloud_def ex_lb_def run_defs ex_cloud down_k8s_def)
  have "nothing_left ex_lb_cloud ex_sdk ex_pn_cluster (inventory_of ex_lb_cloud (world t))"
    by (rule cluster_delete_complete [OF ex_lb_cloud_laws _ _ run])
      (simp_all add: ex_scope_def names_unique_def one_named_def inventory_of_def ex_lb_cloud_def down_client_def ex_lb_def)
  with run show ?thesis by simp
qed

end
