(* ===== verification/Cluster_Retrying.thy ===== *)
theory Cluster_Retrying
  imports Retrying Cluster_Removal
begin

text \<open>
  A cluster becomes ready, and its deletion comes to an end, if the cloud refuses only finitely
  often what reconciling it asks for.
\<close>

section \<open>What the cloud has to grant\<close>

text \<open>A load balancer that can serve: it is ready, and one of its addresses is IPv4.\<close>

definition serves :: "LB \<Rightarrow> bool" where
  "serves l \<longleftrightarrow> lb_Status l = LBStatusReady \<and> (\<exists>host. endpoint_ip (lb_IP l) = Inr host)"

definition grants_groups :: "('w \<Rightarrow> nat) \<Rightarrow> 'w instance_API \<Rightarrow> bool" where
  "grants_groups p i \<longleftrightarrow>
     (\<forall>zs n ts. relents p anything (instance_ListSecurityGroups i zs n ts)) \<and> (\<forall>z g. relents p anything (instance_ListSecurityGroupRules i z g))
   \<and> (\<forall>r. relents p anything (instance_CreateSecurityGroup i r)) \<and> (\<forall>r. relents p anything (instance_UpdateSecurityGroup i r))
   \<and> (\<forall>z g. relents p anything (instance_DeleteSecurityGroup i z g)) \<and> (\<forall>r. relents p anything (instance_SetSecurityGroupRules i r))"

definition grants_networks :: "('w \<Rightarrow> nat) \<Rightarrow> 'w vpc_API \<Rightarrow> bool" where
  "grants_networks p v \<longleftrightarrow>
     (\<forall>r n q. relents p (\<lambda>pns. \<forall>pn. find (\<lambda>x. pn_Name x = n) pns = Some pn \<longrightarrow> pn_DHCPEnabled pn) (vpc_ListPrivateNetworks v r n q))
   \<and> (\<forall>r n ns. relents p pn_DHCPEnabled (vpc_CreatePrivateNetwork v r n ns))"

text \<open>An IP of the spec exists, and no two IPs carry the tags of the cluster.\<close>

definition grants_gateways :: "('w \<Rightarrow> nat) \<Rightarrow> string option \<Rightarrow> 'w vpcgw_API \<Rightarrow> bool" where
  "grants_gateways p ip v \<longleftrightarrow>
     (\<forall>q. relents p anything (vpcgw_ListGateways v q)) \<and> (\<forall>z ts q. relents p (\<lambda>ips. length ips \<le> 1) (vpcgw_ListIPs v z None ts q))
   \<and> (\<forall>z ts q i. ip = Some i \<longrightarrow> relents p (\<lambda>ips. \<exists>x \<in> set ips. IP_String (gip_Address x) = i) (vpcgw_ListIPs v z (Some True) ts q))
   \<and> (\<forall>z ts. relents p anything (vpcgw_CreateIP v z ts)) \<and> (\<forall>z n i t. relents p anything (vpcgw_CreateGateway v z n i t))
   \<and> (\<forall>z g n. relents p anything (vpcgw_ListGatewayNetworks v z g n)) \<and> (\<forall>r. relents p anything (vpcgw_CreateGatewayNetwork v r))"

definition grants_balancers :: "('w \<Rightarrow> nat) \<Rightarrow> string option \<Rightarrow> 'w lb_API \<Rightarrow> bool" where
  "grants_balancers p ip l \<longleftrightarrow>
     (\<forall>z n. relents p (\<lambda>ls. \<forall>x. find (\<lambda>l. lb_Name l = n) ls = Some x \<longrightarrow> serves x) (lb_ListLBs l z n))
   \<and> (\<forall>z n t i. relents p serves (lb_CreateLB l z n t i))
   \<and> (\<forall>z q i. ip = Some i \<longrightarrow> relents p (\<lambda>ips. \<exists>x \<in> set ips. lbip_IPAddress x = i) (lb_ListIPs l z i q))
   \<and> (\<forall>z i. relents p anything (lb_ListLBPrivateNetworks l z i)) \<and> (\<forall>z i n. relents p anything (lb_AttachPrivateNetwork l z i n))
   \<and> (\<forall>z i n. relents p anything (lb_ListBackends l z i n)) \<and> (\<forall>z i. relents p anything (lb_DeleteBackend l z i))
   \<and> (\<forall>r. relents p anything (lb_CreateBackend l r)) \<and> (\<forall>z i n. relents p anything (lb_ListFrontends l z i n))
   \<and> (\<forall>z i. relents p anything (lb_DeleteFrontend l z i)) \<and> (\<forall>r. relents p anything (lb_CreateFrontend l r))
   \<and> (\<forall>z i n. relents p anything (lb_ListACLs l z i n)) \<and> (\<forall>z i r. relents p anything (lb_CreateACL l z i r))
   \<and> (\<forall>z i r. relents p anything (lb_UpdateACL l z i r)) \<and> (\<forall>z i. relents p anything (lb_DeleteACL l z i))"

definition grants_cluster :: "('w \<Rightarrow> nat) \<Rightarrow> string option \<Rightarrow> string option \<Rightarrow> 'w Client \<Rightarrow> bool" where
  "grants_cluster p lbIP gwIP c \<longleftrightarrow> client_steps (lowers p) c \<and> grants_groups p (cl_Instance c) \<and> grants_networks p (cl_VPC c)
   \<and> grants_gateways p gwIP (cl_VPCGW c) \<and> grants_balancers p lbIP (cl_LoadBalancer c)
   \<and> (\<forall>q. relents p anything (vpcgw_ListGateways (cl_PublicGateway c) q))"

text \<open>For the deletion: what is asked for is listed and deleted, and no two IPs carry the tags of the cluster.\<close>

definition grants_removal :: "('w \<Rightarrow> nat) \<Rightarrow> 'w Client \<Rightarrow> bool" where
  "grants_removal p c \<longleftrightarrow> client_steps (lowers p) c
   \<and> (\<forall>z n. relents p anything (lb_ListLBs (cl_LoadBalancer c) z n)) \<and> (\<forall>z i b. relents p anything (lb_DeleteLB (cl_LoadBalancer c) z i b))
   \<and> (\<forall>q. relents p anything (vpcgw_ListGateways (cl_VPCGW c) q)) \<and> (\<forall>z i. relents p anything (vpcgw_DeleteGateway (cl_PublicGateway c) z i))
   \<and> (\<forall>z ts q. relents p (\<lambda>ips. length ips \<le> 1) (vpcgw_ListIPs (cl_VPCGW c) z None ts q))
   \<and> (\<forall>z i. relents p anything (vpcgw_DeleteIP (cl_PublicGateway c) z i))
   \<and> (\<forall>r n q. relents p anything (vpc_ListPrivateNetworks (cl_VPC c) r n q)) \<and> (\<forall>r i. relents p anything (vpc_DeletePrivateNetwork (cl_VPC c) r i))
   \<and> (\<forall>zs n ts. relents p anything (instance_ListSecurityGroups (cl_Instance c) zs n ts))
   \<and> (\<forall>z i. relents p anything (instance_DeleteSecurityGroup (cl_Instance c) z i))"

lemma granted_removal:
  assumes "grants_removal p c"
  shows "client_steps (lowers p) c" "relents p anything (lb_ListLBs (cl_LoadBalancer c) z n)" "relents p anything (lb_DeleteLB (cl_LoadBalancer c) z i b)"
    "relents p anything (vpcgw_ListGateways (cl_VPCGW c) q)" "relents p anything (vpcgw_DeleteGateway (cl_PublicGateway c) z i)"
    "relents p (\<lambda>ips. length ips \<le> 1) (vpcgw_ListIPs (cl_VPCGW c) z None ts j)" "relents p anything (vpcgw_DeleteIP (cl_PublicGateway c) z i)"
    "relents p anything (vpc_ListPrivateNetworks (cl_VPC c) r n j)" "relents p anything (vpc_DeletePrivateNetwork (cl_VPC c) r i)"
    "relents p anything (instance_ListSecurityGroups (cl_Instance c) zs o' ts)"
    "relents p anything (instance_DeleteSecurityGroup (cl_Instance c) z i)"
  using assms by (simp_all add: grants_removal_def)

lemma granted_groups:
  assumes "grants_groups p i"
  shows "relents p anything (instance_ListSecurityGroups i zs n ts)" "relents p anything (instance_ListSecurityGroupRules i z g)"
    "relents p anything (instance_CreateSecurityGroup i r)" "relents p anything (instance_UpdateSecurityGroup i r')"
    "relents p anything (instance_DeleteSecurityGroup i z g)" "relents p anything (instance_SetSecurityGroupRules i r'')"
  using assms by (simp_all add: grants_groups_def)

lemma granted_balancers:
  assumes "grants_balancers p ip l"
  shows "relents p anything (lb_ListLBPrivateNetworks l z i)" "relents p anything (lb_AttachPrivateNetwork l z i n)"
    "relents p anything (lb_ListBackends l z i b)" "relents p anything (lb_DeleteBackend l z i)" "relents p anything (lb_CreateBackend l r)"
    "relents p anything (lb_ListFrontends l z i b)" "relents p anything (lb_DeleteFrontend l z i)" "relents p anything (lb_CreateFrontend l r')"
    "relents p anything (lb_ListACLs l z i n)" "relents p anything (lb_CreateACL l z i a)" "relents p anything (lb_UpdateACL l z i a)"
    "relents p anything (lb_DeleteACL l z i)"
  using assms by (simp_all add: grants_balancers_def)

text \<open>A call that is granted whatever its answer, in a cluster scope.\<close>

lemma sure_sdk:
  "relents p anything f \<Longrightarrow> surely p scope_ScalewayCluster sc (unchanged sc anything) (sdk_read f)"
  "relents p anything f \<Longrightarrow> surely p scope_ScalewayCluster sc (unchanged sc anything) (sdk_call ev f)"
  by (erule surely_read surely_call; simp add: unchanged_def)+

lemma sure_scope: "surely p scope_ScalewayCluster sc P (f sc) \<Longrightarrow> steps (lowers p) (bind (gets scope_ScalewayCluster) f) \<Longrightarrow>
    surely p scope_ScalewayCluster sc P (bind (gets scope_ScalewayCluster) f)"
  by (auto simp: surely_def bind_gets_run)

lemma sure_ret: "surely p scope_ScalewayCluster sc (unchanged sc anything) (ret x)"
  by (rule surely_ret) (simp add: unchanged_def)

section \<open>The services\<close>

lemma sure_find_acl:
  "grants_balancers p ip (cl_LoadBalancer c) \<Longrightarrow>
   surely p scope_ScalewayCluster sc (unchanged sc anything) (optional (FindLoadBalancerACLByName c z f n))"
  unfolding FindLoadBalancerACLByName_def
  by (rule surely_any, rule surely_find, rule surely_wrapping, rule sure_sdk) (rule granted_balancers)

lemma sure_ensureACL:
  assumes "grants_balancers p ip (cl_LoadBalancer c)"
  shows "surely p scope_ScalewayCluster sc (unchanged sc anything) (ensureACL c sdk zone f name ips deny index)"
  unfolding ensureACL_def
  by (intro sure_intros sure_find_acl [OF assms] sure_sdk sure_ret granted_balancers [OF assms])

lemma sure_ensures:
  assumes "grants_balancers p ip (cl_LoadBalancer c)"
  shows "surely p scope_ScalewayCluster sc (unchanged sc anything) (ensurePrivateNetwork c l pn)"
    "surely p scope_ScalewayCluster sc (unchanged sc anything) (ensureBackend c l)"
    "surely p scope_ScalewayCluster sc (unchanged sc anything) (ensureFrontend c l b)"
  unfolding ensurePrivateNetwork_def ensureBackend_def ensureFrontend_def
  by (intro sure_intros sure_sdk sure_ret granted_balancers [OF assms])+

lemma sure_ensureACLs:
  assumes "grants_cluster p lbIP gwIP c"
  shows "surely p scope_ScalewayCluster sc (unchanged sc anything) (ensureACLs c sdk f pnID)"
proof -
  have lb: "grants_balancers p lbIP (cl_LoadBalancer c)" and gw: "relents p anything (vpcgw_ListGateways (cl_PublicGateway c) q)"
    and low: "client_steps (lowers p) c" for q
    using assms by (simp_all add: grants_cluster_def)
  have gws: "surely p scope_ScalewayCluster sc (unchanged sc anything) (FindGatewaysByPrivateNetworkID c zs n)" for zs n
    unfolding FindGatewaysByPrivateNetworkID_def by (intro surely_wrapping sure_sdk gw)
  show ?thesis
    using lowered.steps_ensureACLs [OF low, of sdk f pnID] unfolding ensureACLs_def
    by (rule sure_scope [rotated]) (unfold Let_def ensureGatewayACL_def, intro sure_intros sure_ensureACL [OF lb] gws sure_ret)
qed

lemma lowers_LB:
  assumes "client_steps (lowers p) c"
  shows "steps (lowers p) (lookupLB c zone)" "steps (lowers p) (createLB c zone)"
  unfolding lookupLB_def createLB_def findLBIPID_def
  by (intro store_intros lowered.steps_finders client_acts assms)+

lemma sure_getOrCreateLB:
  assumes "grants_cluster p (loadBalancerIP sc) gwIP c"
  shows "surely p scope_ScalewayCluster sc (unchanged sc serves) (getOrCreateLB c zone)"
proof -
  let ?g = "scope_ScalewayCluster :: ('a, 'b) ClusterScope_scheme \<Rightarrow> ScalewayCluster"
  have lb: "grants_balancers p (loadBalancerIP sc) (cl_LoadBalancer c)" and low: "client_steps (lowers p) c"
    using assms by (simp_all add: grants_cluster_def)
  have "surely p ?g sc (unchanged sc (\<lambda>ls. \<forall>x. find (\<lambda>l. lb_Name l = n) ls = Some x \<longrightarrow> serves x))
      (sdk_read (lb_ListLBs (cl_LoadBalancer c) zone n))" for n
    using lb by (intro surely_read) (auto simp: grants_balancers_def unchanged_def)
  then have lookup: "surely p ?g sc (unchanged sc (\<lambda>r. \<forall>x. r = Some x \<longrightarrow> serves x)) (lookupLB c zone)"
    using lowers_LB(1) [OF low] unfolding lookupLB_def FindLoadBalancerByName_def
    by (intro sure_scope) (rule surely_mono [OF surely_find], auto simp: unchanged_def)
  have ips: "surely p ?g sc (unchanged sc anything) (FindLoadBalancerIP c zone i)" if "loadBalancerIP sc = Some i" for i
    unfolding FindLoadBalancerIP_def
    by (rule surely_any, rule surely_find_there, intro surely_wrapping surely_read)
      (use lb that in \<open>auto simp: grants_balancers_def unchanged_def\<close>)
  have "surely p ?g sc (unchanged sc serves) (sdk_call ev (lb_CreateLB (cl_LoadBalancer c) zone n t i))" for ev n t i
    using lb by (intro surely_call) (auto simp: grants_balancers_def unchanged_def)
  then have "surely p ?g sc (unchanged sc serves) (createLB c zone)"
    using lowers_LB(2) [OF low] unfolding createLB_def
    by (intro sure_scope, unfold findLBIPID_def) (intro sure_intros ips sure_ret)
  with lookup show ?thesis unfolding getOrCreateLB_def by (rule surely_getOrCreate)
qed

lemma lowers_lb_steps:
  assumes "client_steps (lowers p) c"
  shows "steps (lowers p) (ensurePrivateNetwork c l pn)" "steps (lowers p) (ensureBackend c l)" "steps (lowers p) (ensureFrontend c l b)"
  unfolding ensurePrivateNetwork_def ensureBackend_def ensureFrontend_def
  by (intro store_intros lowered.steps_finders client_acts assms)+

lemma sure_loadbalancer_Reconcile:
  assumes "grants_cluster p (loadBalancerIP sc) gwIP c" and net: "HasPrivateNetwork sc \<Longrightarrow> \<exists>i. PrivateNetworkID sc = Ok i"
  shows "surely p scope_ScalewayCluster sc (\<lambda>_ sc'. \<exists>h q. sc' = SetControlPlaneEndpoint h q sc) (loadbalancer_Reconcile c sdk)"
proof -
  have lb: "grants_balancers p (loadBalancerIP sc) (cl_LoadBalancer c)" and low: "client_steps (lowers p) c"
    using assms(1) by (simp_all add: grants_cluster_def)
  note ensures = sure_ensures [OF lb] sure_ensureACLs [OF assms(1)]
  note lows = lowered.steps_ensureACLs [OF low] lowers_lb_steps [OF low]
  have last: "surely p scope_ScalewayCluster sc (\<lambda>_ sc'. \<exists>h q. sc' = SetControlPlaneEndpoint h q sc)
      (modify (\<lambda>s. s\<lparr>scope_ScalewayCluster := SetControlPlaneEndpoint host port (scope_ScalewayCluster s)\<rparr>))" for host port
    by (auto simp: surely_def modify_def intro!: lowered.steps_modify [unfolded modify_def])
  have pn: "surely p scope_ScalewayCluster sc (unchanged sc anything) (if HasPrivateNetwork sc then
      bind (lift_outcome (PrivateNetworkID sc)) (\<lambda>pn. ret (Some pn)) else ret None)"
    using net by (intro sure_intros sure_ret surely_pure) (auto simp: unchanged_def)
  show ?thesis
    unfolding loadbalancer_Reconcile_def
    by (rule sure_scope [OF _ lowered.steps_loadbalancer(1) [OF low, of sdk, unfolded loadbalancer_Reconcile_def]],
        rule surely_then [OF sure_getOrCreateLB [OF assms(1)]], (intro store_intros lows, simp)[1])
      (clarsimp simp: serves_def split del: if_split, intro surely_seq [OF pn] sure_intros ensures last)
qed

text \<open>
  What the cluster has to say: security groups that convert, a subnet that parses if there is one,
  and a private network, if any, that is managed or whose ID was recorded.
\<close>

definition buildable :: "ScalewayCluster \<Rightarrow> bool" where
  "buildable sc \<longleftrightarrow> valid_security_groups (case spec_Network (sc_Spec sc) of None \<Rightarrow> [] | Some n \<Rightarrow> ns_SecurityGroups n)
   \<and> (\<forall>spec. privateNetworkSpec sc = Some spec \<longrightarrow> (\<exists>ns. pn_subnets spec = Inr ns))
   \<and> (HasPrivateNetwork sc \<longrightarrow> ShouldManagePrivateNetwork sc \<or> (\<exists>i. PrivateNetworkID sc = Ok i))"

definition gatewayIP :: "ScalewayCluster \<Rightarrow> string option" where
  "gatewayIP sc = Option.bind (publicGatewaySpec sc) pgs_IP"

lemma lowers_PN:
  assumes "client_steps (lowers p) c"
  shows "steps (lowers p) (lookupPN c)" "steps (lowers p) (createPN c)" "steps (lowers p) (getOrCreatePN c)"
  unfolding getOrCreatePN_def lookupPN_def createPN_def
  by (intro store_intros lowered.steps_finders client_acts assms)+

lemma sure_getOrCreatePN:
  assumes low: "client_steps (lowers p) c" and pn: "grants_networks p (cl_VPC c)"
    and managed: "\<exists>spec ns. privateNetworkSpec sc = Some spec \<and> pn_subnets spec = Inr ns"
  shows "surely p scope_ScalewayCluster sc (unchanged sc anything) (getOrCreatePN c)"
proof -
  let ?g = "scope_ScalewayCluster :: ('a, 'b) ClusterScope_scheme \<Rightarrow> ScalewayCluster"
  have "surely p ?g sc (unchanged sc (\<lambda>pns. \<forall>pn. find (\<lambda>x. pn_Name x = n) pns = Some pn \<longrightarrow> pn_DHCPEnabled pn))
      (sdk_read (vpc_ListPrivateNetworks (cl_VPC c) r n q))" for r n q
    using pn by (intro surely_read) (auto simp: grants_networks_def unchanged_def)
  then have lookup: "surely p ?g sc (unchanged sc (\<lambda>r. \<forall>x. r = Some x \<longrightarrow> pn_DHCPEnabled x)) (lookupPN c)"
    using lowers_PN(1) [OF low] unfolding lookupPN_def FindPrivateNetworkByName_def
    by (intro sure_scope) (rule surely_mono [OF surely_find], auto simp: unchanged_def)
  obtain spec ns where spec: "privateNetworkSpec sc = Some spec" "pn_subnets spec = Inr ns" using managed by blast
  have "surely p ?g sc (unchanged sc pn_DHCPEnabled) (sdk_call ev (vpc_CreatePrivateNetwork (cl_VPC c) r n ns))" for ev r n
    using pn by (intro surely_call) (auto simp: grants_networks_def unchanged_def)
  then have "surely p ?g sc (unchanged sc pn_DHCPEnabled) (createPN c)"
    using lowers_PN(2) [OF low] unfolding createPN_def by (intro sure_scope) (simp_all add: spec)
  from surely_getOrCreate [OF lookup this] show ?thesis
    unfolding getOrCreatePN_def by (rule surely_then) (auto intro!: sure_ret store_intros)
qed

lemma sure_vpc_Reconcile:
  assumes "grants_cluster p lbIP gwIP c" "buildable sc"
  shows "surely p scope_ScalewayCluster sc (\<lambda>_ sc'. sc_Spec sc' = sc_Spec sc \<and> sc_Meta sc' = sc_Meta sc
    \<and> (HasPrivateNetwork sc \<longrightarrow> (\<exists>i. PrivateNetworkID sc' = Ok i))) (vpc_Reconcile c)"
proof -
  let ?P = "\<lambda>(_ :: unit) sc'. sc_Spec sc' = sc_Spec sc \<and> sc_Meta sc' = sc_Meta sc \<and> (HasPrivateNetwork sc \<longrightarrow> (\<exists>i. PrivateNetworkID sc' = Ok i))"
  have low: "client_steps (lowers p) c" and pn: "grants_networks p (cl_VPC c)" using assms(1) by (simp_all add: grants_cluster_def)
  have recorded: "surely p scope_ScalewayCluster sc ?P (modify (\<lambda>s. s\<lparr>scope_ScalewayCluster :=
      SetStatusPrivateNetworkID i (scope_ScalewayCluster s)\<rparr>))" for i
    using PrivateNetworkID_SetStatus [of sc i]
    by (auto simp: surely_def modify_def SetStatusPrivateNetworkID_def intro!: lowered.steps_modify [unfolded modify_def])
  have managed: "\<exists>spec ns. privateNetworkSpec sc = Some spec \<and> pn_subnets spec = Inr ns" if "ShouldManagePrivateNetwork sc"
    using assms(2) that by (auto simp: buildable_def ShouldManage_iff)
  have none: "?P x sc" if "\<not> ShouldManagePrivateNetwork sc" for x using assms(2) that by (simp add: buildable_def)
  show ?thesis
    unfolding vpc_Reconcile_def
    by (rule sure_scope [OF _ lowered.steps_vpc(1) [OF low, unfolded vpc_Reconcile_def]])
      (use managed none in \<open>auto intro!: surely_branches surely_ret surely_seq recorded surely_wrapping sure_getOrCreatePN [OF low pn]\<close>)
qed

lemma lowers_gateway:
  assumes "client_steps (lowers p) c"
  shows "steps (lowers p) (lookupGatewayIP c zone)" "steps (lowers p) (createGatewayIP c zone)"
    "steps (lowers p) (lookupGateway c zone)" "steps (lowers p) (createGateway c zone)" "steps (lowers p) (vpcgw_getOrCreateIP c zone ip)"
  unfolding lookupGateway_def createGateway_def vpcgw_getOrCreateIP_def lookupGatewayIP_def createGatewayIP_def Let_def
  by (intro store_intros lowered.steps_finders client_acts assms)+

lemma granted_gateways:
  assumes "grants_gateways p ip v"
  shows "relents p anything (vpcgw_ListGateways v q)" "relents p anything (vpcgw_CreateIP v z ts)"
    "relents p anything (vpcgw_CreateGateway v z n i t)" "relents p anything (vpcgw_ListGatewayNetworks v z g n)"
    "relents p anything (vpcgw_CreateGatewayNetwork v r)"
  using assms by (simp_all add: grants_gateways_def)

lemma sure_gateway_IP:
  assumes low: "client_steps (lowers p) c" and gw: "grants_gateways p (gatewayIP sc) (cl_VPCGW c)" and spec: "publicGatewaySpec sc = Some spec"
  shows "surely p scope_ScalewayCluster sc (unchanged sc anything) (vpcgw_getOrCreateIP c zone (pgs_IP spec))"
proof (cases "pgs_IP spec")
  let ?g = "scope_ScalewayCluster :: ('a, 'b) ClusterScope_scheme \<Rightarrow> ScalewayCluster"
  case None
  have "surely p ?g sc (unchanged sc (\<lambda>ips. length ips \<le> 1)) (sdk_read (vpcgw_ListIPs (cl_VPCGW c) zone None ts q))" for ts q
    using gw by (intro surely_read) (auto simp: grants_gateways_def unchanged_def)
  then have "surely p ?g sc (unchanged sc anything) (lookupGatewayIP c zone)"
    using lowers_gateway(1) [OF low] unfolding lookupGatewayIP_def FindGatewayIPByTags_def
    by (intro sure_scope surely_find_tagged surely_wrapping)
  then have lookup: "surely p ?g sc (unchanged sc (\<lambda>r. \<forall>x. r = Some x \<longrightarrow> True)) (lookupGatewayIP c zone)" by simp
  have "surely p ?g sc (unchanged sc anything) (createGatewayIP c zone)"
    using lowers_gateway(2) [OF low] unfolding createGatewayIP_def by (intro sure_scope sure_sdk granted_gateways [OF gw])
  from surely_getOrCreate [OF lookup this] None show ?thesis by (simp add: vpcgw_getOrCreateIP_def)
next
  case (Some i)
  then have ip: "gatewayIP sc = Some i" by (simp add: gatewayIP_def spec)
  have there: "surely p scope_ScalewayCluster sc (unchanged sc anything) (FindGatewayIP c zone i)"
    unfolding FindGatewayIP_def
    by (rule surely_any, rule surely_find_there, intro surely_wrapping surely_read)
      (use gw ip in \<open>auto simp: grants_gateways_def unchanged_def\<close>)
  show ?thesis
    using lowers_gateway(5) [OF low, of zone "Some i"] there ip unfolding vpcgw_getOrCreateIP_def Some option.case
    by (intro sure_scope) (simp_all add: gatewayIP_def surely_wrapping [OF there])
qed

lemma sure_vpcgw_Reconcile:
  assumes "grants_cluster p lbIP (gatewayIP sc) c" and net: "HasPrivateNetwork sc \<Longrightarrow> \<exists>i. PrivateNetworkID sc = Ok i"
  shows "surely p scope_ScalewayCluster sc (unchanged sc anything) (vpcgw_Reconcile c)"
proof -
  let ?g = "scope_ScalewayCluster :: ('a, 'b) ClusterScope_scheme \<Rightarrow> ScalewayCluster"
  have low: "client_steps (lowers p) c" and gw: "grants_gateways p (gatewayIP sc) (cl_VPCGW c)"
    using assms(1) by (simp_all add: grants_cluster_def)
  have "surely p ?g sc (unchanged sc anything) (lookupGateway c zone)" for zone
    unfolding lookupGateway_def FindGatewayByName_def
    by (rule sure_scope [OF _ lowers_gateway(3) [OF low, of zone, unfolded lookupGateway_def FindGatewayByName_def]],
        rule surely_wrapping, rule surely_any, rule surely_find, rule surely_wrapping, rule sure_sdk, rule granted_gateways [OF gw])
  then have lookup: "surely p ?g sc (unchanged sc (\<lambda>r. \<forall>x. r = Some x \<longrightarrow> True)) (lookupGateway c zone)" for zone by simp
  have create: "surely p ?g sc (unchanged sc anything) (createGateway c zone)" if "publicGatewaySpec sc = Some spec" for zone spec
    unfolding createGateway_def
    by (rule sure_scope [OF _ lowers_gateway(4) [OF low, of zone, unfolded createGateway_def]])
      (simp add: that Let_def, intro sure_intros sure_gateway_IP [OF low gw that] sure_sdk granted_gateways [OF gw])
  have get: "surely p ?g sc (unchanged sc anything) (getOrCreateGateway c zone)" if "publicGatewaySpec sc = Some spec" for zone spec
    unfolding getOrCreateGateway_def by (rule surely_getOrCreate [OF lookup create [OF that]])
  have id: "surely p ?g sc (unchanged sc anything) (lift_outcome (PrivateNetworkID sc))" if "HasPrivateNetwork sc"
    using net [OF that] by (intro surely_pure) (auto simp: unchanged_def)
  show ?thesis
    unfolding vpcgw_Reconcile_def
    by (rule sure_scope [OF _ lowered.steps_vpcgw(1) [OF low, unfolded vpcgw_Reconcile_def]])
      (auto simp: Let_def dest!: HasPublicGateway_spec intro!: sure_intros sure_ret sure_sdk get id granted_gateways [OF gw])
qed

lemma sure_groups:
  assumes "grants_groups p (cl_Instance c)" "valid_policy (sg_Inbound sg)" "valid_policy (sg_Outbound sg)"
  shows "surely p scope_ScalewayCluster sc (unchanged sc anything) (ensureSG c sc' es sg zone)"
    and "surely p scope_ScalewayCluster sc (unchanged sc anything) (ensureRules c sg zone e)"
proof -
  have sum: "surely p scope_ScalewayCluster sc (unchanged sc anything) (lift_sum r)" if "\<exists>x. r = Inr x" for r :: "go_error + 'x"
    using that by (intro surely_pure) (auto simp: unchanged_def)
  show "surely p scope_ScalewayCluster sc (unchanged sc anything) (ensureSG c sc' es sg zone)"
    unfolding ensureSG_def by (intro sure_intros sum valid_policy_default assms sure_sdk granted_groups [OF assms(1)] sure_ret)
  show "surely p scope_ScalewayCluster sc (unchanged sc anything) (ensureRules c sg zone e)"
    unfolding ensureRules_def Let_def
    by (intro sure_intros sum valid_rules_compare valid_rules_request sure_sdk granted_groups [OF assms(1)] sure_ret)
      (auto dest: valid_policy_rules [OF assms(2)] valid_policy_rules [OF assms(3)])
qed

lemma sure_ensureSecurityGroups:
  assumes low: "client_steps (lowers p) c" and groups: "grants_groups p (cl_Instance c)" and sgs: "valid_security_groups sgs"
  shows "surely p scope_ScalewayCluster sc (unchanged sc anything) (ensureSecurityGroups c sdk sgs)"
proof -
  have "steps (lowers p) (ensureSecurityGroups c sdk sgs)"
    unfolding ensureSecurityGroups_def ensureSG_def ensureRules_def deleteSG_def Let_def by (intro store_intros client_acts low)
  with sgs show ?thesis
    unfolding ensureSecurityGroups_def deleteSG_def Let_def valid_security_groups_def
    by (intro sure_scope) (auto intro!: sure_intros sure_sdk granted_groups [OF groups] sure_groups [OF groups] sure_ret)
qed

lemma sure_securitygroup_Reconcile:
  assumes "grants_cluster p lbIP gwIP c" "buildable sc"
  shows "surely p scope_ScalewayCluster sc (unchanged sc anything) (securitygroup_Reconcile c sdk)"
proof -
  have low: "client_steps (lowers p) c" and groups: "grants_groups p (cl_Instance c)" using assms(1) by (simp_all add: grants_cluster_def)
  show ?thesis
    using lowered.steps_securitygroup(1) [OF low, of sdk] assms(2) unfolding securitygroup_Reconcile_def buildable_def
    by (intro sure_scope sure_ensureSecurityGroups [OF low groups]) simp_all
qed

section \<open>What reconciling leaves of the object\<close>

text \<open>
  Reconciling a cluster writes its finalizers, its endpoint and its status. What decides how it
  goes on stays: the rest of the object and, if the network is not managed, its recorded ID.
\<close>

definition intent :: "ScalewayCluster \<Rightarrow> ObjectMeta \<times> ScalewayClusterSpec \<times> NetworkStatus option" where
  "intent sc = ((sc_Meta sc)\<lparr>meta_Finalizers := []\<rparr>, (sc_Spec sc)\<lparr>spec_ControlPlaneEndpoint := \<lparr>ep_Host = [], ep_Port = 0\<rparr>\<rparr>,
     if ShouldManagePrivateNetwork sc then None else cst_Network (sc_Status sc))"

lemma spec_parts:
  fixes a b :: ScalewayClusterSpec
  assumes "a\<lparr>spec_ControlPlaneEndpoint := e\<rparr> = b\<lparr>spec_ControlPlaneEndpoint := e\<rparr>"
  shows "spec_Network a = spec_Network b" "spec_ControlPlaneLoadBalancer a = spec_ControlPlaneLoadBalancer b"
  using spec_endpoint [OF assms] by auto

lemma intent_managed:
  assumes "intent x = intent y"
  shows "spec_Network (sc_Spec x) = spec_Network (sc_Spec y)"
    "HasPrivateNetwork x = HasPrivateNetwork y" "ShouldManagePrivateNetwork x = ShouldManagePrivateNetwork y"
  using assms spec_parts(1) [where a = "sc_Spec x" and b = "sc_Spec y"]
  by (auto simp: intent_def HasPrivateNetwork_def ShouldManagePrivateNetwork_def privateNetworkSpec_def)

lemma intent_decides:
  assumes "intent x = intent y"
  shows "buildable x = buildable y" "loadBalancerIP x = loadBalancerIP y" "gatewayIP x = gatewayIP y"
    "network_readable x = network_readable y" "meta_DeletionTimestamp (sc_Meta x) = meta_DeletionTimestamp (sc_Meta y)"
    "meta_Name (sc_Meta x) = meta_Name (sc_Meta y)" "meta_Namespace (sc_Meta x) = meta_Namespace (sc_Meta y)"
proof -
  note net = intent_managed [OF assms]
  have status: "cst_Network (sc_Status x) = cst_Network (sc_Status y)" if "\<not> ShouldManagePrivateNetwork y"
    using assms that net by (simp add: intent_def)
  show "buildable x = buildable y"
    using net status by (auto simp: buildable_def privateNetworkSpec_def PrivateNetworkID_def)
  show "network_readable x = network_readable y" using net status by (auto simp: network_readable_def)
  show "loadBalancerIP x = loadBalancerIP y"
    using assms spec_parts(2) [where a = "sc_Spec x" and b = "sc_Spec y"] by (auto simp: intent_def loadBalancerIP_def)
  show "gatewayIP x = gatewayIP y" using net by (simp add: gatewayIP_def publicGatewaySpec_def)
  have meta: "(sc_Meta x)\<lparr>meta_Finalizers := []\<rparr> = (sc_Meta y)\<lparr>meta_Finalizers := []\<rparr>" using assms by (simp add: intent_def)
  show "meta_DeletionTimestamp (sc_Meta x) = meta_DeletionTimestamp (sc_Meta y)"
    "meta_Name (sc_Meta x) = meta_Name (sc_Meta y)" "meta_Namespace (sc_Meta x) = meta_Namespace (sc_Meta y)"
    using arg_cong [OF meta, of meta_DeletionTimestamp] arg_cong [OF meta, of meta_Name] arg_cong [OF meta, of meta_Namespace] by simp_all
qed

lemma intent_frame:
  "cluster_frame x = cluster_frame y \<Longrightarrow> ShouldManagePrivateNetwork y \<or> cst_Network (sc_Status x) = cst_Network (sc_Status y) \<Longrightarrow>
   intent x = intent y"
  using spec_parts(1) [where a = "sc_Spec x" and b = "sc_Spec y"]
  by (auto simp: intent_def cluster_frame_def HasPrivateNetwork_def ShouldManagePrivateNetwork_def privateNetworkSpec_def)

lemma intent_setters [simp]:
  "intent (SetFinalizers fs sc) = intent sc" "intent (SetStatusFailureDomains sdk sc) = intent sc" "intent (SetReady sc) = intent sc"
  "intent (SetControlPlaneEndpoint h q sc) = intent sc"
  by (simp_all add: intent_def ShouldManagePrivateNetwork_def HasPrivateNetwork_def privateNetworkSpec_def)
    (auto simp: SetFinalizers_def SetStatusFailureDomains_def SetReady_def SetControlPlaneEndpoint_def)

lemma vpc_intent: "keeps (\<lambda>s. intent (scope_ScalewayCluster s)) (vpc_Reconcile c)"
  unfolding keeps_def
proof
  fix s :: "('a, 'b) ClusterScope_scheme"
  show "intent (scope_ScalewayCluster (snd (vpc_Reconcile c s))) = intent (scope_ScalewayCluster s)"
  proof (cases "ShouldManagePrivateNetwork (scope_ScalewayCluster s)")
    case True
    with keepsD [OF vpc.reconcile_frame, of c s] show ?thesis by (intro intent_frame) simp_all
  next
    case False
    then show ?thesis by (simp add: vpc_Reconcile_def bind_gets_run ret_def)
  qed
qed

lemma reconcileNormal_intent: "keeps (\<lambda>s. intent (scope_ScalewayCluster s)) (cluster_reconcileNormal k c sdk helper)"
proof -
  have lb: "keeps (\<lambda>s. intent (scope_ScalewayCluster s)) (loadbalancer_Reconcile c sdk)"
    unfolding loadbalancer_Reconcile_def Let_def
    by (intro keep_intros keeps_lb_steps [THEN keeps_comp [where g = intent]]) simp_all
  have set: "keeps (\<lambda>s. intent (scope_ScalewayCluster s)) (modify_cluster f)" if "\<And>sc. intent (f sc) = intent sc" for f
    using that by (simp add: keeps_def modify_cluster_run)
  have fin: "keeps (\<lambda>s. intent (scope_ScalewayCluster s)) (addClusterFinalizer k helper)"
    by (simp add: keeps_def addClusterFinalizer_run [OF prod.collapse [symmetric] prod.collapse [symmetric], THEN conjunct1])
  show ?thesis
    unfolding cluster_reconcileNormal_def
    by (intro keep_intros fin set lb vpc_intent keeps_comp [OF keeps_securitygroup] keeps_comp [OF keeps_vpcgw_Reconcile]) simp_all
qed

section \<open>Reconciling succeeds unless something is refused\<close>

lemma sure_modify:
  "P () (f sc) \<Longrightarrow> surely p scope_ScalewayCluster sc P (modify_cluster f)"
  by (auto simp: surely_def modify_cluster_run intro: lowered.steps_modify_cluster)

lemma sure_addClusterFinalizer:
  assumes "\<And>after. relents p anything (helper after)"
  shows "surely p scope_ScalewayCluster sc (\<lambda>_ sc'. intent sc' = intent sc) (addClusterFinalizer k helper)"
proof -
  have low: "steps (lowers p) (cluster_PatchObject helper)"
    unfolding cluster_PatchObject_def by (intro store_intros relents_act [OF assms])
  have patch: "surely p scope_ScalewayCluster x (unchanged x anything) (cluster_PatchObject helper)" for x
    using low unfolding cluster_PatchObject_def by (intro sure_scope sure_sdk assms)
  obtain fs added where add: "k_AddFinalizer k (meta_Finalizers (sc_Meta sc)) ClusterFinalizer = (fs, added)" by fastforce
  have "surely p scope_ScalewayCluster sc (\<lambda>_ sc'. intent sc' = intent sc)
      (bind (modify_cluster (SetFinalizers fs)) (\<lambda>_. if added then cluster_PatchObject helper else ret ()))"
    by (rule surely_bind [where Q = "\<lambda>_ x. x = SetFinalizers fs sc"])
      (auto intro!: sure_modify surely_ret lowered.steps_pure low surely_mono [OF patch] simp: unchanged_def)
  moreover have "steps (lowers p) (addClusterFinalizer k helper)"
    unfolding addClusterFinalizer_def by (intro store_intros low) (auto intro!: store_intros low split: prod.split)
  ultimately show ?thesis unfolding addClusterFinalizer_def by (intro sure_scope) (simp add: add)
qed

lemma sure_reconcileNormal:
  assumes grants: "grants_cluster p (loadBalancerIP sc) (gatewayIP sc) c" and sc: "buildable sc"
    and helper: "\<And>after. relents p anything (helper after)"
  shows "surely p scope_ScalewayCluster sc (\<lambda>res _. res = no_requeue) (cluster_reconcileNormal k c sdk helper)"
proof -
  have low: "client_steps (lowers p) c" using grants by (simp add: grants_cluster_def)
  note lows = lowered.steps_securitygroup [OF low] lowered.steps_vpc [OF low] lowered.steps_vpcgw [OF low] lowered.steps_loadbalancer [OF low]
  have grant: "grants_cluster p (loadBalancerIP x) (gatewayIP x) c" "buildable x" if "intent x = intent sc" for x
    using grants sc intent_decides [OF that] by simp_all
  have vpc: "surely p scope_ScalewayCluster x (\<lambda>_ y. intent y = intent sc \<and> (HasPrivateNetwork y \<longrightarrow> (\<exists>i. PrivateNetworkID y = Ok i)))
      (wrapping msg (vpc_Reconcile c))" if "intent x = intent sc" for x msg
    by (intro surely_wrapping, rule surely_mono [OF surely_keeps [OF sure_vpc_Reconcile [OF grant [OF that]] vpc_intent]])
      (use that in \<open>auto dest: intent_managed(2)\<close>)
  have last: "surely p scope_ScalewayCluster x (\<lambda>res _. res = no_requeue) (bind (modify_cluster SetReady) (\<lambda>_. ret no_requeue))" for x
    by (rule surely_bind [where Q = "\<lambda>_ _. True"]) (auto intro: sure_modify surely_ret lowered.steps_pure)
  show ?thesis
    unfolding cluster_reconcileNormal_def
    apply (rule surely_bind [OF sure_addClusterFinalizer [OF helper]])
    subgoal by (intro store_intros lows)
    apply (rule surely_bind [where Q = "\<lambda>_ y. intent y = intent sc"])
    subgoal by (rule sure_modify) simp
    subgoal by (intro store_intros lows)
    apply (rule surely_then [OF sure_securitygroup_Reconcile [OF grant]], assumption, assumption)
    subgoal by (intro store_intros lows)
    apply (rule surely_bind [OF vpc], assumption)
    subgoal by (intro store_intros lows)
    apply (rule surely_then [OF surely_wrapping [OF sure_vpcgw_Reconcile [OF grant(1)]]], simp, simp)
    subgoal by (intro store_intros lows)
    apply (rule surely_bind [OF surely_attempt [OF sure_loadbalancer_Reconcile [OF grant(1)]]], simp, simp)
    subgoal by (intro store_intros lows)
    by (auto intro: last)
qed

section \<open>So does deleting\<close>

lemma sure_removal_finds:
  assumes "grants_removal p c"
  shows "surely p scope_ScalewayCluster sc (unchanged sc anything) (optional (FindLoadBalancerByName c z n))"
    "surely p scope_ScalewayCluster sc (unchanged sc anything) (optional (FindGatewayByName c z n))"
    "surely p scope_ScalewayCluster sc (unchanged sc anything) (optional (FindPrivateNetworkByName c r n))"
  unfolding FindLoadBalancerByName_def FindGatewayByName_def FindPrivateNetworkByName_def
  by (rule surely_any, rule surely_find, (rule surely_wrapping)?, rule sure_sdk, rule granted_removal [OF assms])+

lemma sure_removal_ip:
  assumes "grants_removal p c"
  shows "surely p scope_ScalewayCluster sc (unchanged sc anything) (optional (FindGatewayIPByTags c z ts))"
  unfolding FindGatewayIPByTags_def
  by (intro surely_find_tagged surely_wrapping surely_read [OF granted_removal(6) [OF assms]]) (simp_all add: unchanged_def)

lemma sure_deletes:
  assumes "grants_removal p c"
  shows "surely p scope_ScalewayCluster sc (unchanged sc anything) (loadbalancer_Delete c)"
    "surely p scope_ScalewayCluster sc (unchanged sc anything) (vpcgw_Delete c)"
    "surely p scope_ScalewayCluster sc (unchanged sc anything) (vpc_Delete c)"
    "surely p scope_ScalewayCluster sc (unchanged sc anything) (securitygroup_Delete c sdk)"
proof -
  note granted = granted_removal [OF assms]
  note calls = sure_removal_finds [OF assms] sure_removal_ip [OF assms] sure_ret sure_sdk granted
  show "surely p scope_ScalewayCluster sc (unchanged sc anything) (loadbalancer_Delete c)"
    using lowered.steps_loadbalancer(2) [OF granted(1)] unfolding loadbalancer_Delete_def Let_def
    by (rule sure_scope [rotated]) (intro sure_intros calls)
  show "surely p scope_ScalewayCluster sc (unchanged sc anything) (vpc_Delete c)"
    using lowered.steps_vpc(2) [OF granted(1)] unfolding vpc_Delete_def by (rule sure_scope [rotated]) (intro sure_intros calls)
  show "surely p scope_ScalewayCluster sc (unchanged sc anything) (securitygroup_Delete c sdk)"
    using lowered.steps_securitygroup(2) [OF granted(1)] unfolding securitygroup_Delete_def ensureSecurityGroups_def deleteSG_def Let_def for_each.simps
    by (rule sure_scope [rotated]) (intro sure_intros calls)
  show "surely p scope_ScalewayCluster sc (unchanged sc anything) (vpcgw_Delete c)"
    using lowered.steps_vpcgw(2) [OF granted(1)] unfolding vpcgw_Delete_def vpcgw_deleteGateway_def vpcgw_releaseIP_def
    by (rule sure_scope [rotated]) (auto simp: Let_def dest!: HasPublicGateway_spec intro!: sure_intros calls)
qed

lemma sure_reconcileDelete:
  assumes "grants_removal p c"
  shows "surely p scope_ScalewayCluster sc (\<lambda>res _. res = no_requeue) (cluster_reconcileDelete k c sdk)"
proof -
  note deletes = sure_deletes [OF assms]
  note lows = deletes [THEN surely_steps]
  have last: "surely p scope_ScalewayCluster sc (\<lambda>res _. res = no_requeue) (bind (modify_cluster f) (\<lambda>_. ret no_requeue))" for f
    by (rule surely_bind [where Q = "\<lambda>_ _. True"]) (auto intro: sure_modify surely_ret lowered.steps_pure)
  show ?thesis
    unfolding cluster_reconcileDelete_def
    by (rule surely_seq [OF deletes(1)], rule surely_seq [OF deletes(2)], rule surely_bind [OF surely_attempt [OF deletes(3)]])
      (auto intro!: store_intros lows simp: unchanged_def intro: surely_seq [OF deletes(4)] last)
qed

end
