(* ===== verification/Cluster_Convergence.thy ===== *)
theory Cluster_Convergence
  imports Cluster_Retrying Example_Server
begin

text \<open>
  The whole reconciler of the cluster controller, run again as long as it fails or asks for it: if
  the API server and the cloud refuse only finitely often, a cluster becomes ready, and a cluster
  that is being deleted loses its finalizer. Each run reads the object from the API server anew;
  all that one run leaves to the next is what was patched.
\<close>

section \<open>The API server\<close>

text \<open>
  \<open>z\<close> is \<open>x\<close> with some of the parts of \<open>y\<close> that a patch writes: spec, status and finalizers are
  sent in more than one request, and any of them may fail.
\<close>

definition partly :: "ScalewayCluster \<Rightarrow> ScalewayCluster \<Rightarrow> ScalewayCluster \<Rightarrow> bool" where
  "partly x y z \<longleftrightarrow> sc_Spec z \<in> {sc_Spec x, sc_Spec y} \<and> sc_Status z \<in> {sc_Status x, sc_Status y}
     \<and> sc_Meta z \<in> {sc_Meta x, (sc_Meta x)\<lparr>meta_Finalizers := meta_Finalizers (sc_Meta y)\<rparr>}"

text \<open>
  The helper made for the object \<open>before\<close> sends the difference to \<open>after\<close>. If only the finalizers were
  changed in the metadata, and the object is stored as the helper knows it, but perhaps for the
  finalizers, which an earlier patch may have sent, then the object is \<open>after\<close> when the helper succeeds.
\<close>

definition writes :: "('w \<Rightarrow> ScalewayCluster) \<Rightarrow> ScalewayCluster \<Rightarrow> ScalewayCluster \<Rightarrow> ('w, unit) act \<Rightarrow> bool" where
  "writes object before after f \<longleftrightarrow> (\<forall>w r v. f w = (r, v) \<longrightarrow>
     sc_Meta after = (sc_Meta before)\<lparr>meta_Finalizers := meta_Finalizers (sc_Meta after)\<rparr> \<longrightarrow>
     object w \<in> {before, SetFinalizers (meta_Finalizers (sc_Meta after)) before} \<longrightarrow>
     partly (object w) after (object v) \<and> (r = Inr () \<longrightarrow> object v = after))"

text \<open>What the cloud has to grant depends on whether the cluster is being deleted.\<close>

definition served :: "('w \<Rightarrow> nat) \<Rightarrow> ScalewayCluster \<Rightarrow> 'w Client \<Rightarrow> bool" where
  "served p sc c \<longleftrightarrow> (if meta_DeletionTimestamp (sc_Meta sc) then grants_removal p c
     else grants_cluster p (loadBalancerIP sc) (gatewayIP sc) c \<and> buildable sc)"

text \<open>
  The API server stores the object, which nothing but its patch helper writes; the object exists,
  has an owner and is not paused; its credentials give a client of the cloud.
\<close>

definition grants_objects :: "('w \<Rightarrow> nat) \<Rightarrow> ('w \<Rightarrow> ScalewayCluster) \<Rightarrow> 'w k8s_API \<Rightarrow> string \<Rightarrow> string \<Rightarrow> bool" where
  "grants_objects p object k namespace name \<longleftrightarrow>
     (\<forall>w r v. k_GetScalewayCluster k namespace name w = (r, v) \<longrightarrow> p v \<le> p w \<and> object v = object w \<and> r \<noteq> Inl ApiNotFound
        \<and> (p v = p w \<longrightarrow> (\<exists>sc. r = Inr sc)) \<and> (\<forall>sc. r = Inr sc \<longrightarrow> sc = object w))
   \<and> (\<forall>meta. act_keeps object (k_GetOwnerCluster k meta) \<and> act_steps (lowers p) (k_GetOwnerCluster k meta))
   \<and> (\<forall>meta. meta_Name meta = name \<longrightarrow> meta_Namespace meta = namespace \<longrightarrow> relents p (\<lambda>owner. owner \<noteq> None) (k_GetOwnerCluster k meta))
   \<and> (\<forall>sc. meta_Name (sc_Meta sc) = name \<longrightarrow> meta_Namespace (sc_Meta sc) = namespace \<longrightarrow>
        (\<forall>cluster. \<not> k_IsPausedCluster k cluster sc)
        \<and> (\<exists>helper. k_NewClusterHelper k sc = Inr helper \<and> (\<forall>after. relents p anything (helper after) \<and> writes object sc after (helper after))))"

definition grants_server :: "('w \<Rightarrow> nat) \<Rightarrow> ('w \<Rightarrow> ScalewayCluster) \<Rightarrow> 'w k8s_API \<Rightarrow> ScalewayCluster \<Rightarrow> ScalewayCluster \<Rightarrow> bool" where
  "grants_server p object k unread sc \<longleftrightarrow>
     grants_objects p object k (meta_Namespace (sc_Meta sc)) (meta_Name (sc_Meta sc)) \<and> grants_client p object (served p sc) k
   \<and> (\<forall>w. case fst (k_GetOwnerCluster k (sc_Meta unread) w) of Inr (Some _) \<Rightarrow> False | _ \<Rightarrow> True)
   \<and> finalizer_contract k"

lemma grants_serverD:
  assumes "grants_server p object k unread sc"
  shows "grants_objects p object k (meta_Namespace (sc_Meta sc)) (meta_Name (sc_Meta sc))" "grants_client p object (served p sc) k"
    "case fst (k_GetOwnerCluster k (sc_Meta unread) w) of Inr (Some _) \<Rightarrow> False | _ \<Rightarrow> True" "finalizer_contract k"
  using assms by (simp_all add: grants_server_def)

lemma grants_objects_get:
  assumes "grants_objects p object k namespace name" "k_GetScalewayCluster k namespace name w = (r, v)"
  shows "p v \<le> p w" "object v = object w" "r \<noteq> Inl ApiNotFound" "r = Inr (object w) \<or> (\<exists>e. r = Inl e) \<and> p v < p w"
proof -
  have *: "p v \<le> p w \<and> object v = object w \<and> r \<noteq> Inl ApiNotFound \<and> (p v = p w \<longrightarrow> (\<exists>sc. r = Inr sc)) \<and> (\<forall>sc. r = Inr sc \<longrightarrow> sc = object w)"
    using assms unfolding grants_objects_def by blast
  then show "p v \<le> p w" "object v = object w" "r \<noteq> Inl ApiNotFound" by simp_all
  from * show "r = Inr (object w) \<or> (\<exists>e. r = Inl e) \<and> p v < p w" by (cases r) auto
qed

lemma grants_objects_owner:
  assumes "grants_objects p object k namespace name" "k_GetOwnerCluster k meta w = (r, v)"
  shows "p v \<le> p w" "object v = object w"
    "meta_Name meta = name \<Longrightarrow> meta_Namespace meta = namespace \<Longrightarrow> (\<exists>cluster. r = Inr (Some cluster)) \<or> p v < p w"
proof -
  have "act_keeps object (k_GetOwnerCluster k meta)" "act_steps (lowers p) (k_GetOwnerCluster k meta)"
    using assms(1) unfolding grants_objects_def by simp_all
  with assms(2) show le: "p v \<le> p w" and "object v = object w" by (auto simp: lowers_def same_def dest: act_stepsD)
  assume "meta_Name meta = name" "meta_Namespace meta = namespace"
  with assms have "p v = p w \<Longrightarrow> \<exists>cluster. r = Inr (Some cluster)" unfolding grants_objects_def relents_def by blast
  with le show "(\<exists>cluster. r = Inr (Some cluster)) \<or> p v < p w" by (metis le_neq_implies_less)
qed

section \<open>Looking the object up\<close>

lemma lookup_progress:
  assumes server: "grants_server p object k unread sc" and named: "intent (object (world s)) = intent sc"
    and run: "cluster_lookup k unread (meta_Namespace (sc_Meta sc)) (meta_Name (sc_Meta sc)) s = (r, u)"
  shows "object (world u) = object (world s) \<and> p (world u) \<le> p (world s)
    \<and> ((\<exists>cluster. r = Ok (Inr (object (world s), cluster))) \<or> r \<noteq> Panic \<and> r \<noteq> Ok (Inl no_requeue) \<and> (\<forall>y. r \<noteq> Ok (Inr y)) \<and> p (world u) < p (world s))"
proof -
  note objects = grants_serverD(1) [OF server]
  obtain answer v where get: "k_GetScalewayCluster k (meta_Namespace (sc_Meta sc)) (meta_Name (sc_Meta sc)) (world s) = (answer, v)" by fastforce
  note g = grants_objects_get [OF objects get]
  define found where "found = (case answer of Inl _ \<Rightarrow> unread | Inr x \<Rightarrow> x)"
  obtain owner w where own: "k_GetOwnerCluster k (sc_Meta found) v = (owner, w)" by fastforce
  note o = grants_objects_owner [OF objects own]
  have u: "u = s\<lparr>world := w\<rparr>" and r: "r = (case owner of Inl e \<Rightarrow> Err (Wrap ''failed to get owner cluster'' (ApiErr e))
      | Inr None \<Rightarrow> Ok (Inl requeue_soon)
      | Inr (Some cluster) \<Rightarrow> if k_IsPausedCluster k cluster found then Ok (Inl no_requeue) else Ok (Inr (found, cluster)))"
    using run get own g(3) unfolding found_def
    by (cases answer; cases owner; auto simp: cluster_lookup_def bind_read_run Let_def wrapping_def sdk_read_def bind_def ret_def throw_def attempt_def split: option.splits if_splits)+
  show ?thesis
  proof (cases answer)
    case (Inl e)
    then have "found = unread" "p v < p (world s)" using g(4) by (auto simp: found_def)
    moreover have "\<forall>cluster. owner \<noteq> Inr (Some cluster)"
      using grants_serverD(3) [OF server, of v] own \<open>found = unread\<close> by auto
    ultimately show ?thesis using u r o(1,2) g(2) by (auto split: sum.splits option.splits)
  next
    case (Inr x)
    then have found: "found = object (world s)" using g(4) by (simp add: found_def)
    note names = intent_decides(6,7) [OF named]
    then have "\<not> k_IsPausedCluster k cluster found" for cluster
      using objects found unfolding grants_objects_def by metis
    then show ?thesis using u r o g(1,2) found names by (cases owner) (auto split: option.splits)
  qed
qed

section \<open>The work in the scope\<close>

definition finished :: "ScalewayCluster \<Rightarrow> bool" where
  "finished sc \<longleftrightarrow> (if meta_DeletionTimestamp (sc_Meta sc) then ClusterFinalizer \<notin> set (meta_Finalizers (sc_Meta sc))
     else cst_Ready (sc_Status sc) \<and> ClusterFinalizer \<in> set (meta_Finalizers (sc_Meta sc)))"

lemma partly_intent:
  assumes "partly x y z" "intent y = intent x"
  shows "intent z = intent x"
proof -
  have spec: "(sc_Spec z)\<lparr>spec_ControlPlaneEndpoint := e\<rparr> = (sc_Spec x)\<lparr>spec_ControlPlaneEndpoint := e\<rparr>" if "e = \<lparr>ep_Host = [], ep_Port = 0\<rparr>" for e
    using assms that by (auto simp: partly_def intent_def)
  have "ShouldManagePrivateNetwork z = ShouldManagePrivateNetwork x"
    using spec_parts(1) [OF spec [OF refl]] by (simp add: HasPrivateNetwork_def ShouldManagePrivateNetwork_def privateNetworkSpec_def)
  then show ?thesis
    using assms spec [OF refl] intent_managed(3) [OF assms(2)] by (auto simp: partly_def intent_def)
qed

lemma intent_meta:
  assumes "intent y = intent x"
  shows "sc_Meta y = (sc_Meta x)\<lparr>meta_Finalizers := meta_Finalizers (sc_Meta y)\<rparr>"
  using assms by (cases "sc_Meta x"; cases "sc_Meta y") (simp add: intent_def)

lemma partly_finalizers: "partly x (SetFinalizers fs x) z \<Longrightarrow> z = x \<or> z = SetFinalizers fs x"
  by (cases z; cases x) (auto simp: partly_def SetFinalizers_def)

text \<open>Being deleted: the object stays as it is stored, and loses the finalizer in the scope.\<close>

lemma delete_progress:
  assumes "grants_removal p c" "client_keeps object c" "finalizer_contract k"
    and run: "cluster_reconcileDelete k c sdk s = (q, v)" and start: "object (world s) = scope_ScalewayCluster s"
  shows "q \<noteq> Panic \<and> (q = Ok no_requeue \<and> p (world v) = p (world s) \<or> p (world v) < p (world s))
    \<and> intent (scope_ScalewayCluster v) = intent (scope_ScalewayCluster s) \<and> object (world v) = scope_ScalewayCluster s
    \<and> (q = Ok no_requeue \<longrightarrow> ClusterFinalizer \<notin> set (meta_Finalizers (sc_Meta (scope_ScalewayCluster v))))"
  using surelyD [OF sure_reconcileDelete [OF assms(1)] refl run] reconcileDelete_calls [OF run] reconcileDelete_object [OF run]
    storesD [OF stores_cluster_reconcileDelete [OF assms(2)] run] start assms(3)
  by (auto simp: finalizer_contract_def)

lemma normal_stored:
  assumes client: "client_keeps object c" and start: "object (world s) = scope_ScalewayCluster s"
    and helper: "\<And>after. writes object (scope_ScalewayCluster s) after (helper after)"
    and run: "cluster_reconcileNormal k c sdk helper s = (q, v)"
  shows "object (world v) \<in> {scope_ScalewayCluster s,
    SetFinalizers (meta_Finalizers (sc_Meta (scope_ScalewayCluster v))) (scope_ScalewayCluster s)}"
proof -
  let ?x = "scope_ScalewayCluster s"
  obtain fs added where add: "k_AddFinalizer k (meta_Finalizers (sc_Meta ?x)) ClusterFinalizer = (fs, added)" by fastforce
  then have fins: "meta_Finalizers (sc_Meta (scope_ScalewayCluster v)) = fs" using reconcileNormal_meta [OF run] by simp
  have first: "object (world u) \<in> {?x, SetFinalizers fs ?x}" if fin: "addClusterFinalizer k helper s = (r, u)" for r u
  proof (cases added)
    case True
    with fin add obtain a w where "helper (SetFinalizers fs ?x) (world s) = (a, w)" "world u = w"
      by (auto simp: addClusterFinalizer_def bind_gets_run bind_Ok_run [OF modify_cluster_run] cluster_PatchObject_def sdk_call_def split: prod.splits)
    with helper [of "SetFinalizers fs ?x"] start partly_finalizers [of ?x fs] show ?thesis by (simp add: writes_def)
  next
    case False
    with fin add start show ?thesis by (auto simp: addClusterFinalizer_def bind_gets_run bind_Ok_run [OF modify_cluster_run] ret_def)
  qed
  from run [unfolded reconcileNormal_split] show ?thesis
  proof (cases rule: bind_run)
    case (Ok x u)
    with first [OF Ok(1)] fins storesD [OF stores_concluded [OF client] Ok(2)] show ?thesis by simp
  qed (use first fins in auto)
qed

lemma normal_progress:
  assumes grants: "grants_cluster p (loadBalancerIP (scope_ScalewayCluster s)) (gatewayIP (scope_ScalewayCluster s)) c"
    and sc: "buildable (scope_ScalewayCluster s)" and client: "client_keeps object c" and contract: "finalizer_contract k"
    and helper: "\<And>after. relents p anything (helper after)" "\<And>after. writes object (scope_ScalewayCluster s) after (helper after)"
    and run: "cluster_reconcileNormal k c sdk helper s = (q, v)" and start: "object (world s) = scope_ScalewayCluster s"
  shows "q \<noteq> Panic \<and> (q = Ok no_requeue \<and> p (world v) = p (world s) \<or> p (world v) < p (world s))
    \<and> intent (scope_ScalewayCluster v) = intent (scope_ScalewayCluster s)
    \<and> object (world v) \<in> {scope_ScalewayCluster s, SetFinalizers (meta_Finalizers (sc_Meta (scope_ScalewayCluster v))) (scope_ScalewayCluster s)}
    \<and> ClusterFinalizer \<in> set (meta_Finalizers (sc_Meta (scope_ScalewayCluster v)))
    \<and> (q = Ok no_requeue \<longrightarrow> cst_Ready (sc_Status (scope_ScalewayCluster v)))"
proof -
  have "network_readable (scope_ScalewayCluster s)"
    using sc by (auto simp: buildable_def network_readable_def PrivateNetworkID_def split: option.splits if_splits)
  then have "q \<noteq> Panic" using reconcileNormal_no_panic [of s k c sdk helper] run by simp
  moreover have "q = Ok no_requeue \<longrightarrow> cst_Ready (sc_Status (scope_ScalewayCluster v))"
    using run unfolding reconcileNormal_split by (auto simp: bind_Ok dest!: conclude_cluster_run)
  moreover have "ClusterFinalizer \<in> set (meta_Finalizers (sc_Meta (scope_ScalewayCluster v)))"
    using reconcileNormal_meta [OF run] contract by (simp add: finalizer_contract_def)
  moreover have "intent (scope_ScalewayCluster v) = intent (scope_ScalewayCluster s)"
    using keepsD [OF reconcileNormal_intent, of k c sdk helper s] run by simp
  ultimately show ?thesis
    using surelyD [OF sure_reconcileNormal [OF grants sc helper(1)] refl run] normal_stored [OF client start helper(2) run] by auto
qed

section \<open>A session\<close>

lemma deferred_progress:
  assumes work: "m s = (q, v)" "q \<noteq> Panic" "q = Ok no_requeue \<and> p (world v) = p (world s) \<or> p (world v) < p (world s)"
    and scope: "intent (scope_ScalewayCluster v) = intent x" "q = Ok no_requeue \<Longrightarrow> finished (scope_ScalewayCluster v)"
    and stored: "object (world v) \<in> {x, SetFinalizers (meta_Finalizers (sc_Meta (scope_ScalewayCluster v))) x}"
    and helper: "\<And>after. relents p anything (helper after)" "\<And>after. writes object x after (helper after)"
    and run: "deferred (cluster_Close helper) m s = (r, t)"
  shows "r \<noteq> Panic \<and> intent (object (world t)) = intent x \<and> (if r = Ok no_requeue then finished (object (world t)) else p (world t) < p (world s))"
proof -
  let ?y = "scope_ScalewayCluster v"
  obtain a w where patch: "helper ?y (world v) = (a, w)" by fastforce
  then have close: "cluster_Close helper v = (api_result a, v\<lparr>world := w, trace := trace v @ [CallPatchCluster ?y]\<rparr>)"
    by (simp add: cluster_Close_def cluster_PatchObject_def bind_gets_run sdk_call_def)
  have patched: "partly (object (world v)) ?y (object w)" "a = Inr () \<longrightarrow> object w = ?y"
    using helper(2) [of ?y] patch stored intent_meta [OF scope(1)] by (auto simp: writes_def)
  have "intent (object (world v)) = intent x" using stored by auto
  with partly_intent [OF patched(1)] scope(1) have "intent (object w) = intent x" by simp
  with deferred_outcome [where p = p, OF work close _ run] relentsD [OF helper(1) patch] patched(2) scope(2) show ?thesis by (auto split: if_splits)
qed

lemma scope_progress:
  assumes served: "served p sc c" and client: "client_keeps object c" and contract: "finalizer_contract k"
    and helper: "\<And>after. relents p anything (helper after)" "\<And>after. writes object x after (helper after)"
    and x: "object (world s) = x" "intent x = intent sc"
    and run: "in_cluster_scope x cluster (deferred (cluster_Close helper)
      (if meta_DeletionTimestamp (sc_Meta x) then cluster_reconcileDelete k c sdk else cluster_reconcileNormal k c sdk helper)) s = (r, t)"
  shows "r \<noteq> Panic \<and> intent (object (world t)) = intent sc \<and> (if r = Ok no_requeue then finished (object (world t)) else p (world t) < p (world s))"
proof -
  let ?s = "\<lparr>world = world s, trace = trace s, scope_ScalewayCluster = x, scope_InfrastructureReady = cc_InfrastructureReady cluster\<rparr>"
  let ?m = "if meta_DeletionTimestamp (sc_Meta x) then cluster_reconcileDelete k c sdk else cluster_reconcileNormal k c sdk helper"
  obtain u where deferred: "deferred (cluster_Close helper) ?m ?s = (r, u)" and t: "world t = world u"
    using run by (auto simp: in_cluster_scope_def split: prod.splits)
  obtain q v where work: "?m ?s = (q, v)" by fastforce
  have "q \<noteq> Panic \<and> (q = Ok no_requeue \<and> p (world v) = p (world ?s) \<or> p (world v) < p (world ?s))
    \<and> intent (scope_ScalewayCluster v) = intent x
    \<and> object (world v) \<in> {x, SetFinalizers (meta_Finalizers (sc_Meta (scope_ScalewayCluster v))) x}
    \<and> (q = Ok no_requeue \<longrightarrow> finished (scope_ScalewayCluster v))"
  proof (cases "meta_DeletionTimestamp (sc_Meta x)")
    case True
    then have "grants_removal p c" using served intent_decides(5) [OF x(2)] by (simp add: served_def)
    from delete_progress [OF this client contract, of sdk ?s q v] work True x(1) show ?thesis
      by (auto simp: finished_def dest: intent_decides(5))
  next
    case False
    then have "grants_cluster p (loadBalancerIP x) (gatewayIP x) c" "buildable x"
      using served intent_decides [OF x(2)] by (auto simp: served_def)
    with normal_progress [of p ?s c object k helper sdk q v] client contract helper work False x(1) show ?thesis
      by (auto simp: finished_def dest: intent_decides(5))
  qed
  with deferred_progress [OF work _ _ _ _ _ helper deferred] t x(2) show ?thesis by auto
qed

lemma session_progress:
  assumes server: "grants_server p object k unread sc" and x: "object (world s) = x" "intent x = intent sc"
    and run: "cluster_session k sdk x cluster s = (r, t)"
  shows "r \<noteq> Panic \<and> intent (object (world t)) = intent sc \<and> (if r = Ok no_requeue then finished (object (world t)) else p (world t) < p (world s))"
proof -
  obtain helper where helper: "k_NewClusterHelper k x = Inr helper" "\<And>after. relents p anything (helper after)" "\<And>after. writes object x after (helper after)"
    using grants_serverD(1) [OF server] intent_decides(6,7) [OF x(2)] unfolding grants_objects_def by metis
  have new: "NewCluster k x u = (Ok helper, u)" for u :: "'a env" using helper(1) by (simp add: NewCluster_def lift_api_def wrapping_def ret_def)
  show ?thesis
  proof (rule granted_session [OF grants_serverD(2) [OF server] new run [unfolded cluster_session_def]])
    fix c u
    assume opened: "served p sc c" "client_keeps object c" "object (world u) = object (world s)" "p (world u) \<le> p (world s)"
      "in_cluster_scope x cluster (deferred (cluster_Close helper)
        (if meta_DeletionTimestamp (sc_Meta x) then cluster_reconcileDelete k c sdk else cluster_reconcileNormal k c sdk helper)) u = (r, t)"
    with scope_progress [OF opened(1,2) grants_serverD(4) [OF server] helper(2,3) _ x(2) opened(5)] x(1)
    show ?thesis by (auto split: if_splits)
  qed (use x in auto)
qed

section \<open>Runs\<close>

lemma run_progress:
  assumes server: "grants_server p object k unread sc" and named: "intent (object (world s)) = intent sc"
    and run: "cluster_Reconcile k sdk unread (meta_Namespace (sc_Meta sc)) (meta_Name (sc_Meta sc)) s = (r, t)"
  shows "r \<noteq> Panic \<and> intent (object (world t)) = intent sc \<and> (if r = Ok no_requeue then finished (object (world t)) else p (world t) < p (world s))"
proof -
  obtain q u where lookup: "cluster_lookup k unread (meta_Namespace (sc_Meta sc)) (meta_Name (sc_Meta sc)) s = (q, u)" by fastforce
  note found = lookup_progress [OF server named lookup]
  show ?thesis
  proof (cases "\<exists>cluster. q = Ok (Inr (object (world s), cluster))")
    case True
    then obtain cluster where "cluster_session k sdk (object (world s)) cluster u = (r, t)"
      using run lookup by (auto simp: cluster_Reconcile_split then_session_def bind_def)
    from session_progress [OF server _ named this] found show ?thesis by (auto split: if_splits)
  next
    case False
    with found have stopped: "q \<noteq> Panic" "q \<noteq> Ok (Inl no_requeue)" "\<forall>y. q \<noteq> Ok (Inr y)" "p (world u) < p (world s)" by auto
    then have "t = u \<and> r \<noteq> Panic \<and> r \<noteq> Ok no_requeue"
      using run lookup by (cases q) (auto simp: cluster_Reconcile_split then_session_def bind_def ret_def split: sum.splits)
    with stopped found named show ?thesis by simp
  qed
qed

interpretation cluster_runs: retried "cluster_Reconcile k sdk unread (meta_Namespace (sc_Meta sc)) (meta_Name (sc_Meta sc))"
  "\<lambda>s. grants_server p object k unread sc \<and> intent (object (world s)) = intent sc" "\<lambda>s. p (world s)" for k sdk unread sc p object
proof
  fix k :: "'a k8s_API" and sdk unread sc s r t and p :: "'a \<Rightarrow> nat" and object
  assume good: "grants_server p object k unread sc \<and> intent (object (world s)) = intent sc" and "r \<noteq> Ok no_requeue"
    and "cluster_Reconcile k sdk unread (meta_Namespace (sc_Meta sc)) (meta_Name (sc_Meta sc)) s = (r, t)"
  with run_progress [of p object k unread sc s sdk r t]
  show "r \<noteq> Panic \<and> (grants_server p object k unread sc \<and> intent (object (world t)) = intent sc) \<and> p (world t) < p (world s)" by simp
qed

lemma cluster_finishes:
  assumes "grants_server p object k unread sc" "object (world s) = sc"
  shows "\<exists>n t. again_until (cluster_Reconcile k sdk unread (meta_Namespace (sc_Meta sc)) (meta_Name (sc_Meta sc))) s = Some (n, t)
    \<and> n \<le> Suc (p (world s)) \<and> finished (object (world t)) \<and> intent (object (world t)) = intent sc"
proof -
  obtain n t u where "again_until (cluster_Reconcile k sdk unread (meta_Namespace (sc_Meta sc)) (meta_Name (sc_Meta sc))) s = Some (n, t)"
    "n \<le> Suc (p (world s))" "intent (object (world u)) = intent sc"
    and last: "cluster_Reconcile k sdk unread (meta_Namespace (sc_Meta sc)) (meta_Name (sc_Meta sc)) u = (Ok no_requeue, t)"
    using cluster_runs.done_eventually [of p object k unread sc s sdk] assms by blast
  with run_progress [OF assms(1) _ last] show ?thesis by (intro exI [where x = n] exI [where x = t]) simp
qed

section \<open>A server and a cloud to apply them at\<close>

text \<open>Every call is refused as long as the number in the world is not zero; it is counted down.\<close>

type_synonym 'o mood = "nat \<times> 'o"

definition moody :: "'a \<Rightarrow> ('o mood, 'a) act" where
  "moody a = (\<lambda>w. if fst w = 0 then (Inr a, w) else (Inl ApiPreconditionFailed, fst w - 1, snd w))"

definition moody_lb :: LB where
  "moody_lb = \<lparr>lb_ID = ''lb-1'', lb_Name = ''caps-c'', lb_Zone = ''fr-par-1'', lb_Status = LBStatusReady,
     lb_IP = [\<lparr>lbip_ID = ''ip-1'', lbip_IPAddress = ''51.15.0.1''\<rparr>]\<rparr>"

definition moody_gateway_API :: "'o mood vpcgw_API" where
  "moody_gateway_API = \<lparr>vpcgw_Zones = [''fr-par-1''], vpcgw_ListGateways = (\<lambda>_. moody []), vpcgw_ListIPs = (\<lambda>_ _ _ _. moody []),
     vpcgw_ListGatewayNetworks = (\<lambda>_ _ _. moody 0), vpcgw_CreateIP = (\<lambda>_ _. moody \<lparr>gip_ID = ''gip-1'', gip_Address = [51, 15, 0, 2]\<rparr>),
     vpcgw_CreateGateway = (\<lambda>_ n _ _. moody \<lparr>gw_ID = ''gw-1'', gw_Name = n, gw_IP = None\<rparr>), vpcgw_CreateGatewayNetwork = (\<lambda>_. moody ()),
     vpcgw_DeleteGateway = (\<lambda>_ _. moody ()), vpcgw_DeleteIP = (\<lambda>_ _. moody ())\<rparr>"

definition moody_scw :: "'o mood scw_Client" where
  "moody_scw = down_scw\<lparr>
     sw_lb := down_lb\<lparr>lb_ListLBs := (\<lambda>_ _. moody []), lb_ListBackends := (\<lambda>_ _ _. moody []), lb_ListFrontends := (\<lambda>_ _ _. moody []),
       lb_ListACLs := (\<lambda>_ _ _. moody []), lb_ListLBPrivateNetworks := (\<lambda>_ _. moody []), lb_CreateLB := (\<lambda>_ _ _ _. moody moody_lb),
       lb_AttachPrivateNetwork := (\<lambda>_ _ _. moody ()), lb_CreateBackend := (\<lambda>r. moody \<lparr>be_ID = ''b-1'', be_Name = cb_Name r, be_Pool = []\<rparr>),
       lb_DeleteBackend := (\<lambda>_ _. moody ()), lb_CreateFrontend := (\<lambda>r. moody \<lparr>fe_ID = ''f-1'', fe_Name = cf_Name r, fe_InboundPort = cf_InboundPort r\<rparr>),
       lb_DeleteFrontend := (\<lambda>_ _. moody ()), lb_CreateACL := (\<lambda>_ _ _. moody ()), lb_UpdateACL := (\<lambda>_ _ _. moody ()),
       lb_DeleteACL := (\<lambda>_ _. moody ()), lb_DeleteLB := (\<lambda>_ _ _. moody ())\<rparr>,
     sw_instance := down_instance\<lparr>instance_ListSecurityGroups := (\<lambda>_ _ _. moody []), instance_ListSecurityGroupRules := (\<lambda>_ _. moody []),
       instance_CreateSecurityGroup := (\<lambda>r. moody \<lparr>isg_ID = ''sg-1'', isg_Name = csg_Name r, isg_Zone = csg_Zone r,
         isg_InboundDefaultPolicy = csg_InboundDefaultPolicy r, isg_OutboundDefaultPolicy = csg_OutboundDefaultPolicy r,
         isg_EnableDefaultSecurity = csg_EnableDefaultSecurity r\<rparr>),
       instance_UpdateSecurityGroup := (\<lambda>_. moody ()), instance_DeleteSecurityGroup := (\<lambda>_ _. moody ()),
       instance_SetSecurityGroupRules := (\<lambda>_. moody ())\<rparr>,
     sw_vpc := \<lparr>vpc_ListPrivateNetworks = (\<lambda>_ _ _. moody []), vpc_CreatePrivateNetwork = (\<lambda>_ n _. moody \<lparr>pn_ID = ''pn-1'', pn_Name = n, pn_DHCPEnabled = True\<rparr>),
       vpc_DeletePrivateNetwork = (\<lambda>_ _. moody ())\<rparr>,
     sw_vpcgw := moody_gateway_API\<rparr>"

definition moody_client :: "'o mood Client" where
  "moody_client = (case NewClient moody_scw of Ok c \<Rightarrow> c | _ \<Rightarrow> down_client)"

definition moody_k8s :: "ScalewayCluster mood k8s_API" where
  "moody_k8s = down_k8s\<lparr>
     k_GetScalewayCluster := (\<lambda>ns n w. moody (snd w) w),
     k_GetSecret := (\<lambda>ns n. moody (ex_secret ns n)), k_UpdateSecret := moody,
     k_GetOwnerCluster := (\<lambda>meta. moody (if meta_Name meta = [] then None else Some ex_capi_cluster)),
     k_NewClusterHelper := (\<lambda>sc. Inr (\<lambda>after w. if fst w = 0 then (Inr (), 0, after) else moody () w)),
     k_NewScwClient := (\<lambda>_. Inr moody_scw)\<rparr>"

lemma moody_acts [simp]: "act_keeps snd (moody a)" "act_steps (lowers fst) (moody a)" "relents fst ok (moody a) \<longleftrightarrow> ok a"
  "act_steps (lowers fst) down"
  by (auto simp: act_steps_def same_def lowers_def relents_def moody_def down_def)

lemma moody_NewClient: "NewClient moody_scw = Ok moody_client"
  by (simp add: moody_client_def NewClient_def moody_scw_def down_scw_def)

lemma moody_client_simps:
  "cl_LoadBalancer moody_client = sw_lb moody_scw" "cl_Instance moody_client = sw_instance moody_scw" "cl_VPC moody_client = sw_vpc moody_scw"
  "cl_VPCGW moody_client = moody_gateway_API" "cl_PublicGateway moody_client = moody_gateway_API"
  "cl_Marketplace moody_client = sw_marketplace moody_scw" "cl_IPAM moody_client = sw_ipam moody_scw"
  by (simp_all add: moody_client_def NewClient_def moody_scw_def down_scw_def)

lemma moody_client_steps: "client_keeps snd moody_client" "client_steps (lowers fst) moody_client"
  by (simp_all add: client_steps_def instance_steps_def lb_steps_def vpc_steps_def vpcgw_steps_def moody_client_simps
      moody_scw_def down_scw_def moody_gateway_API_def down_instance_def down_lb_def)

lemma moody_lb_serves: "serves moody_lb"
proof -
  have "endpoint_ip (lb_IP moody_lb) = Inr ''51.15.0.1''" by code_simp
  then show ?thesis by (simp add: serves_def) (simp add: moody_lb_def)
qed

lemma moody_grants: "grants_cluster fst None None moody_client" "grants_removal fst moody_client"
  using moody_client_steps(2)
  by (simp_all add: grants_cluster_def grants_removal_def grants_groups_def grants_networks_def grants_gateways_def grants_balancers_def
      moody_client_simps moody_scw_def moody_gateway_API_def moody_lb_serves)

text \<open>A cluster with a managed network and gateway, and the same being deleted.\<close>

definition moody_cluster :: ScalewayCluster where
  "moody_cluster = ex_cluster\<lparr>sc_Spec := ex_spec\<lparr>spec_Network := Some \<lparr>ns_PrivateNetwork =
     Some \<lparr>pns_Enabled = True, pns_ID = None, pns_Subnet = None\<rparr>,
     ns_PublicGateway = Some \<lparr>pgs_Enabled = True, pgs_ID = None, pgs_Type = None, pgs_IP = None, pgs_Zone = None\<rparr>, ns_SecurityGroups = []\<rparr>\<rparr>\<rparr>"

definition moody_leaving :: ScalewayCluster where
  "moody_leaving = moody_cluster\<lparr>sc_Meta := (ex_meta ''c'')\<lparr>meta_DeletionTimestamp := True, meta_Finalizers := [ClusterFinalizer]\<rparr>\<rparr>"

lemma moody_server:
  assumes "served fst sc (moody_client :: ScalewayCluster mood Client)" "meta_Name (sc_Meta sc) \<noteq> []"
  shows "grants_server fst snd moody_k8s ex_unread sc"
proof -
  have "grants_objects fst snd moody_k8s (meta_Namespace (sc_Meta sc)) (meta_Name (sc_Meta sc))"
    using assms(2) by (auto simp: grants_objects_def moody_k8s_def down_k8s_def relents_def writes_def partly_def) (auto simp: moody_def split: if_splits)
  moreover have "grants_client fst snd (served fst sc) moody_k8s"
    using assms(1) moody_client_steps(1) by (auto simp: grants_client_def cloud_keeps_def moody_k8s_def down_k8s_def moody_NewClient)
  moreover have "finalizer_contract moody_k8s" by (auto simp: finalizer_contract_def moody_k8s_def down_k8s_def)
  ultimately show ?thesis
    by (simp add: grants_server_def) (simp add: moody_k8s_def moody_def ex_unread_def ex_cluster_def ex_meta_def)
qed

section \<open>Properties\<close>





end
