(* ===== verification/Machine_Convergence.thy ===== *)
theory Machine_Convergence
  imports Machine_Retrying Cluster_Convergence
begin

text \<open>
  The whole reconciler of the machine controller, run again as long as it fails or asks for it: if
  the API server and the cloud refuse only finitely often, a machine becomes ready, and a machine
  that is being deleted loses its finalizer. A cluster whose infrastructure is not ready yet counts
  as a refusal, and so does bootstrap data that is not there yet.
\<close>

section \<open>The API server\<close>

text \<open>A patch of a machine, as of a cluster: in several requests, any of which may fail.\<close>

definition machine_partly :: "ScalewayMachine \<Rightarrow> ScalewayMachine \<Rightarrow> ScalewayMachine \<Rightarrow> bool" where
  "machine_partly x y z \<longleftrightarrow> sm_Spec z \<in> {sm_Spec x, sm_Spec y} \<and> sm_Status z \<in> {sm_Status x, sm_Status y}
     \<and> sm_Meta z \<in> {sm_Meta x, (sm_Meta x)\<lparr>meta_Finalizers := meta_Finalizers (sm_Meta y)\<rparr>}"

definition machine_writes :: "('w \<Rightarrow> ScalewayMachine) \<Rightarrow> ScalewayMachine \<Rightarrow> ScalewayMachine \<Rightarrow> ('w, unit) act \<Rightarrow> bool" where
  "machine_writes object before after f \<longleftrightarrow> (\<forall>w r v. f w = (r, v) \<longrightarrow>
     sm_Meta after = (sm_Meta before)\<lparr>meta_Finalizers := meta_Finalizers (sm_Meta after)\<rparr> \<longrightarrow>
     object w \<in> {before, SetMachineFinalizers (meta_Finalizers (sm_Meta after)) before} \<longrightarrow>
     machine_partly (object w) after (object v) \<and> (r = Inr () \<longrightarrow> object v = after))"

text \<open>What the provider does not change of a machine.\<close>

definition machine_intent :: "ScalewayMachine \<Rightarrow> ObjectMeta \<times> ScalewayMachineSpec" where
  "machine_intent m = ((sm_Meta m)\<lparr>meta_Finalizers := []\<rparr>, (sm_Spec m)\<lparr>ms_ProviderID := None\<rparr>)"

abbreviation leaving :: "ScalewayMachine \<Rightarrow> bool" where
  "leaving m \<equiv> meta_DeletionTimestamp (sm_Meta m)"

definition machine_served :: "('w \<Rightarrow> nat) \<Rightarrow> string option \<Rightarrow> ScalewayMachine \<Rightarrow> 'w Client \<Rightarrow> bool" where
  "machine_served p net m c \<longleftrightarrow> (if leaving m then grants_teardown p net c
     else \<exists>grouped. grants_machine p net grouped c \<and> startable grouped m)"

text \<open>
  The API server stores the machine, which nothing but its patch helper writes; it exists and is not
  paused. It has an owner, and the cluster of the owner can be read: a machine without an owner and any
  error of that read end a run without an error, so that there is no other. Once nothing is refused any more, the
  infrastructure is ready, the private network is recorded, and the owner names the secret with the bootstrap
  data. Whenever the infrastructure is ready, the status of the cluster has its network.
\<close>

definition grants_machine_reads :: "('w \<Rightarrow> nat) \<Rightarrow> ('w \<Rightarrow> ScalewayMachine) \<Rightarrow> 'w k8s_API \<Rightarrow> string option \<Rightarrow> string \<times> string
    \<Rightarrow> ScalewayMachine \<Rightarrow> bool" where
  "grants_machine_reads p object k net secret m \<longleftrightarrow>
     (\<forall>w r v. k_GetScalewayMachine k (meta_Namespace (sm_Meta m)) (meta_Name (sm_Meta m)) w = (r, v) \<longrightarrow>
        p v \<le> p w \<and> object v = object w \<and> r \<noteq> Inl ApiNotFound \<and> (p v = p w \<longrightarrow> (\<exists>x. r = Inr x)) \<and> (\<forall>x. r = Inr x \<longrightarrow> x = object w))
   \<and> (\<forall>x w r v. machine_intent x = machine_intent m \<longrightarrow> k_GetOwnerMachine k (sm_Meta x) w = (r, v) \<longrightarrow>
        p v \<le> p w \<and> object v = object w \<and> r \<noteq> Inr None
        \<and> (p v = p w \<longrightarrow> (\<exists>machine. r = Inr (Some machine) \<and> (leaving m \<or> has_bootstrap secret machine))))
   \<and> (\<forall>machine w r v. k_GetClusterFromMetadata k machine w = (r, v) \<longrightarrow> p v \<le> p w \<and> object v = object w
        \<and> (\<exists>cluster. r = Inr cluster \<and> cc_InfrastructureRef cluster \<noteq> None \<and> (p v = p w \<longrightarrow> leaving m \<or> cc_InfrastructureReady cluster)))
   \<and> (\<forall>cluster x. machine_intent x = machine_intent m \<longrightarrow> \<not> k_IsPausedMachine k cluster x)
   \<and> (\<forall>ns n. act_keeps object (k_GetScalewayCluster k ns n) \<and> relents p (in_network net) (k_GetScalewayCluster k ns n))
   \<and> (\<forall>machine w cluster v n sc u. k_GetClusterFromMetadata k machine w = (Inr cluster, v) \<longrightarrow>
        k_GetScalewayCluster k (cc_Namespace cluster) n v = (Inr sc, u) \<longrightarrow> leaving m \<or> cc_InfrastructureReady cluster \<longrightarrow>
        PrivateNetworkID sc \<noteq> Panic)"

definition grants_machine_server :: "('w \<Rightarrow> nat) \<Rightarrow> ('w \<Rightarrow> ScalewayMachine) \<Rightarrow> 'w k8s_API \<Rightarrow> template_engine \<Rightarrow> string option
    \<Rightarrow> string \<times> string \<Rightarrow> ScalewayMachine \<Rightarrow> bool" where
  "grants_machine_server p object k engine net secret m \<longleftrightarrow>
     grants_machine_reads p object k net secret m \<and> grants_client p object (machine_served p net m) k
   \<and> (leaving m \<or> grants_bootstrap p engine secret k)
   \<and> (\<forall>sc. \<exists>helper. k_NewClusterHelper k sc = Inr helper)
   \<and> (\<forall>x. machine_intent x = machine_intent m \<longrightarrow> (\<exists>helper. k_NewMachineHelper k x = Inr helper
        \<and> (\<forall>after. relents p anything (helper after) \<and> machine_writes object x after (helper after))))
   \<and> finalizer_contract k"

lemma machine_readsD:
  assumes "grants_machine_reads p object k net secret m"
  shows "k_GetScalewayMachine k (meta_Namespace (sm_Meta m)) (meta_Name (sm_Meta m)) w = (r1, v) \<Longrightarrow>
      p v \<le> p w \<and> object v = object w \<and> (r1 = Inr (object w) \<or> (\<exists>e. r1 = Inl e \<and> e \<noteq> ApiNotFound) \<and> p v < p w)"
    and "machine_intent x = machine_intent m \<Longrightarrow> k_GetOwnerMachine k (sm_Meta x) w = (r2, v) \<Longrightarrow>
      object v = object w \<and> ((\<exists>machine. r2 = Inr (Some machine) \<and> (p v < p w \<or> p v = p w \<and> (leaving m \<or> has_bootstrap secret machine)))
        \<or> (\<exists>e. r2 = Inl e) \<and> p v < p w)"
    and "k_GetClusterFromMetadata k machine w = (r3, v) \<Longrightarrow> object v = object w
      \<and> (\<exists>cluster ref. r3 = Inr cluster \<and> cc_InfrastructureRef cluster = Some ref \<and> (p v < p w \<or> p v = p w \<and> (leaving m \<or> cc_InfrastructureReady cluster)))"
    and "machine_intent x = machine_intent m \<Longrightarrow> \<not> k_IsPausedMachine k cluster x"
    and "k_GetScalewayCluster k ns n w = (r4, v) \<Longrightarrow> object v = object w \<and> (p v < p w \<or> p v = p w \<and> (\<exists>sc. r4 = Inr sc \<and> in_network net sc))"
    and "k_GetClusterFromMetadata k machine w = (Inr cluster, v) \<Longrightarrow> k_GetScalewayCluster k (cc_Namespace cluster) n v = (Inr sc, u) \<Longrightarrow>
      leaving m \<or> cc_InfrastructureReady cluster \<Longrightarrow> PrivateNetworkID sc \<noteq> Panic"
proof -
  note reads = assms [unfolded grants_machine_reads_def]
  show "p v \<le> p w \<and> object v = object w \<and> (r1 = Inr (object w) \<or> (\<exists>e. r1 = Inl e \<and> e \<noteq> ApiNotFound) \<and> p v < p w)"
    if "k_GetScalewayMachine k (meta_Namespace (sm_Meta m)) (meta_Name (sm_Meta m)) w = (r1, v)"
    using reads [THEN conjunct1, rule_format, OF that] by (cases r1) (auto simp: le_less)
  show "object v = object w \<and> ((\<exists>machine. r2 = Inr (Some machine) \<and> (p v < p w \<or> p v = p w \<and> (leaving m \<or> has_bootstrap secret machine)))
        \<or> (\<exists>e. r2 = Inl e) \<and> p v < p w)"
    if "machine_intent x = machine_intent m" "k_GetOwnerMachine k (sm_Meta x) w = (r2, v)"
    using reads [THEN conjunct2, THEN conjunct1, rule_format, OF that] by (cases r2) (auto simp: le_less)
  show "object v = object w \<and> (\<exists>cluster ref. r3 = Inr cluster \<and> cc_InfrastructureRef cluster = Some ref
      \<and> (p v < p w \<or> p v = p w \<and> (leaving m \<or> cc_InfrastructureReady cluster)))"
    if "k_GetClusterFromMetadata k machine w = (r3, v)"
    using reads [THEN conjunct2, THEN conjunct2, THEN conjunct1, rule_format, OF that] by (auto simp: le_less)
  show "\<not> k_IsPausedMachine k cluster x" if "machine_intent x = machine_intent m"
    using reads that by blast
  show "PrivateNetworkID sc \<noteq> Panic" if "k_GetClusterFromMetadata k machine w = (Inr cluster, v)"
    "k_GetScalewayCluster k (cc_Namespace cluster) n v = (Inr sc, u)" "leaving m \<or> cc_InfrastructureReady cluster"
    using reads that by blast
  assume get: "k_GetScalewayCluster k ns n w = (r4, v)"
  have keep: "act_keeps object (k_GetScalewayCluster k ns n)" and "relents p (in_network net) (k_GetScalewayCluster k ns n)" using reads by simp_all
  from keep get relentsD [OF this(2) get] show "object v = object w \<and> (p v < p w \<or> p v = p w \<and> (\<exists>sc. r4 = Inr sc \<and> in_network net sc))"
    by (auto simp: same_def dest: act_stepsD)
qed

lemma machine_grantsD:
  assumes "grants_machine_server p object k engine net secret m"
  shows "grants_machine_reads p object k net secret m" "grants_client p object (machine_served p net m) k"
    "leaving m \<or> grants_bootstrap p engine secret k" "\<exists>helper. k_NewClusterHelper k sc = Inr helper" "finalizer_contract k"
    "machine_intent x = machine_intent m \<Longrightarrow> \<exists>helper. k_NewMachineHelper k x = Inr helper
        \<and> (\<forall>after. relents p anything (helper after) \<and> machine_writes object x after (helper after))"
  using assms by (simp_all add: grants_machine_server_def)

section \<open>Looking the machine up\<close>

text \<open>Until the session, what has been found decides unless something was refused.\<close>

definition found_machine :: "('w \<Rightarrow> nat) \<Rightarrow> string option \<Rightarrow> string \<times> string \<Rightarrow> ScalewayMachine \<Rightarrow> 'w \<Rightarrow> 'w
    \<Rightarrow> CapiMachine \<Rightarrow> CapiCluster \<Rightarrow> ScalewayCluster \<Rightarrow> bool" where
  "found_machine p net secret m w v machine cluster sc \<longleftrightarrow> p v \<le> p w
   \<and> (leaving m \<or> cc_InfrastructureReady cluster \<longrightarrow> PrivateNetworkID sc \<noteq> Panic)
   \<and> (p v = p w \<longrightarrow> in_network net sc \<and> (leaving m \<or> has_bootstrap secret machine \<and> cc_InfrastructureReady cluster))"

lemma machine_lookup_progress:
  assumes reads: "grants_machine_reads p object k net secret m" and named: "machine_intent (object (world s)) = machine_intent m"
    and run: "machine_lookup k (meta_Namespace (sm_Meta m)) (meta_Name (sm_Meta m)) s = (r, u)"
  shows "object (world u) = object (world s)
    \<and> ((\<exists>machine cluster sc. r = Ok (Inr (object (world s), machine, cluster, sc)) \<and> found_machine p net secret m (world s) (world u) machine cluster sc)
       \<or> (\<exists>e. r = Err e) \<and> p (world u) < p (world s))"
proof (cases "k_GetScalewayMachine k (meta_Namespace (sm_Meta m)) (meta_Name (sm_Meta m)) (world s)")
  case (Pair a w)
  note get = machine_readsD(1) [OF reads Pair]
  show ?thesis
  proof (cases a)
    case (Inl e)
    with get run Pair show ?thesis by (auto simp: machine_lookup_def bind_read_run throw_def)
  next
    case (Inr x)
    with get have x: "x = object (world s)" "p w \<le> p (world s)" "object w = object (world s)" by auto
    obtain a2 w2 where own: "k_GetOwnerMachine k (sm_Meta x) w = (a2, w2)" by fastforce
    note owner = machine_readsD(2) [OF reads named own [unfolded x(1)]]
    show ?thesis
    proof (cases a2)
      case (Inl e)
      with owner run Pair Inr own x show ?thesis by (auto simp: machine_lookup_def bind_read_run)
    next
      case (Inr machine')
      with owner obtain machine where machine: "a2 = Inr (Some machine)" "object w2 = object (world s)"
        "p w2 < p w \<or> p w2 = p w \<and> (leaving m \<or> has_bootstrap secret machine)" using x(3) by auto
      obtain a3 w3 where found: "k_GetClusterFromMetadata k machine w2 = (a3, w3)" by fastforce
      obtain cluster ref where cluster: "a3 = Inr cluster" "cc_InfrastructureRef cluster = Some ref" "object w3 = object w2"
        "p w3 < p w2 \<or> p w3 = p w2 \<and> (leaving m \<or> cc_InfrastructureReady cluster)"
        using machine_readsD(3) [OF reads found] by auto
      obtain a4 w4 where last: "k_GetScalewayCluster k (cc_Namespace cluster) ref w3 = (a4, w4)" by fastforce
      note sc = machine_readsD(5) [OF reads last]
      note paused = machine_readsD(4) [OF reads named]
      have "u = s\<lparr>world := w4\<rparr> \<and> r = (case a4 of Inl e \<Rightarrow> Err (ApiErr e) | Inr sc \<Rightarrow> Ok (Inr (x, machine, cluster, sc)))"
        using run Pair \<open>a = Inr x\<close> own machine(1) found cluster(1,2) last paused x(1)
        by (cases a4) (auto simp: machine_lookup_def bind_read_run ret_def [of "Inr _"])
      moreover have "PrivateNetworkID y \<noteq> Panic" if "a4 = Inr y" "leaving m \<or> cc_InfrastructureReady cluster" for y
        using machine_readsD(6) [OF reads found [unfolded cluster(1)] last [unfolded that(1)] that(2)] .
      ultimately show ?thesis
        using sc machine(2,3) cluster(3,4) x by (cases a4) (auto simp: found_machine_def)
    qed
  qed
qed

section \<open>The work in the scope\<close>

definition machine_finished :: "ScalewayMachine \<Rightarrow> bool" where
  "machine_finished m \<longleftrightarrow> (if leaving m then MachineFinalizer \<notin> set (meta_Finalizers (sm_Meta m))
     else mst_Ready (sm_Status m) \<and> MachineFinalizer \<in> set (meta_Finalizers (sm_Meta m)))"

lemma machine_intent_setters [simp]:
  "machine_intent (SetMachineFinalizers fs m) = machine_intent m" "machine_intent (SetMachineReady m) = machine_intent m"
  "machine_intent (SetMachineResult i as m) = machine_intent m"
  by (simp_all add: machine_intent_def SetMachineResult_def)

lemma machine_intent_decides:
  assumes "machine_intent x = machine_intent y"
  shows "leaving x = leaving y" "meta_Name (sm_Meta x) = meta_Name (sm_Meta y)" "meta_Namespace (sm_Meta x) = meta_Namespace (sm_Meta y)"
    "startable grouped x = startable grouped y" "sm_Meta x = (sm_Meta y)\<lparr>meta_Finalizers := meta_Finalizers (sm_Meta x)\<rparr>"
proof -
  have meta: "(sm_Meta x)\<lparr>meta_Finalizers := []\<rparr> = (sm_Meta y)\<lparr>meta_Finalizers := []\<rparr>"
    and spec: "(sm_Spec x)\<lparr>ms_ProviderID := None\<rparr> = (sm_Spec y)\<lparr>ms_ProviderID := None\<rparr>"
    using assms by (simp_all add: machine_intent_def)
  from meta show "leaving x = leaving y" "meta_Name (sm_Meta x) = meta_Name (sm_Meta y)" "meta_Namespace (sm_Meta x) = meta_Namespace (sm_Meta y)"
    "sm_Meta x = (sm_Meta y)\<lparr>meta_Finalizers := meta_Finalizers (sm_Meta x)\<rparr>"
    by (cases "sm_Meta x"; cases "sm_Meta y"; simp)+
  have "ms_RootVolumeType (sm_Spec x) = ms_RootVolumeType (sm_Spec y)" "ms_SecurityGroupName (sm_Spec x) = ms_SecurityGroupName (sm_Spec y)"
    using spec by (cases "sm_Spec x"; cases "sm_Spec y"; simp)+
  then show "startable grouped x = startable grouped y" by (simp add: startable_def ScalewayRootVolumeType_def)
qed

lemma machine_partly_intent: "machine_partly x y z \<Longrightarrow> machine_intent y = machine_intent x \<Longrightarrow> machine_intent z = machine_intent x"
  by (auto simp: machine_partly_def machine_intent_def)

lemma machine_partly_finalizers: "machine_partly x (SetMachineFinalizers fs x) z \<Longrightarrow> z = x \<or> z = SetMachineFinalizers fs x"
  by (cases z; cases x) (auto simp: machine_partly_def SetMachineFinalizers_def)

text \<open>
  The measure was \<open>b\<close> when the run started. What the work leaves behind: a result that is not to be
  repeated only if the object in the scope is finished.
\<close>

definition worked :: "('w \<Rightarrow> nat) \<Rightarrow> nat \<Rightarrow> ('w \<Rightarrow> ScalewayMachine) \<Rightarrow> ScalewayMachine \<Rightarrow> ctrl_Result outcome \<Rightarrow> 'w MachineScope \<Rightarrow> bool" where
  "worked p b object x q v \<longleftrightarrow> q \<noteq> Panic \<and> (q = Ok no_requeue \<and> p (world v) = b \<or> p (world v) < b)
    \<and> machine_intent (scope_ScalewayMachine v) = machine_intent x
    \<and> object (world v) \<in> {x, SetMachineFinalizers (meta_Finalizers (sm_Meta (scope_ScalewayMachine v))) x}
    \<and> (q = Ok no_requeue \<longrightarrow> machine_finished (scope_ScalewayMachine v))"

lemma machine_delete_worked:
  assumes grants: "grants_teardown p net c" and client: "client_keeps object c" and contract: "finalizer_contract k"
    and run: "machine_reconcileDelete k c sdk s = (q, v)" and start: "object (world s) = scope_ScalewayMachine s" "leaving (scope_ScalewayMachine s)"
    and safe: "PrivateNetworkID (scope_ScalewayCluster s) \<noteq> Panic"
    and measure: "p (world s) \<le> b" "p (world s) = b \<Longrightarrow> in_network net (scope_ScalewayCluster s)"
  shows "worked p b object (scope_ScalewayMachine s) q v"
proof -
  have "steps (lowers p) (machine_reconcileDelete k c sdk)"
    unfolding machine_reconcileDelete_def by (intro store_intros lowered.steps_instance_Delete granted_teardown(1) [OF grants])
  from stepsD [OF this run] have low: "p (world v) \<le> p (world s)" by (simp add: lowers_def)
  have "machine_parts s = (scope_ScalewayCluster s, scope_ScalewayMachine s, scope_Machine s)" by (simp add: machine_parts_def)
  from surelyD [OF msure_machine_reconcileDelete [OF grants measure(2)] this run] low measure(1)
  have progress: "q = Ok no_requeue \<and> p (world v) = b \<or> p (world v) < b" by (cases "p (world s) = b") auto
  have "object (world v) = scope_ScalewayMachine s" using storesD [OF stores_machine_reconcileDelete [OF client] run] start(1) by simp
  moreover have "q \<noteq> Panic"
    using instance_Delete_safe [OF safe, of c sdk] run
    by (cases "instance_Delete c sdk s") (auto simp: machine_reconcileDelete_def bind_def [of "instance_Delete c sdk"] bind_Ok_run [OF modify_machine_run] ret_def split: outcome.splits)
  moreover have "scope_ScalewayMachine v = (if q = Ok no_requeue then SetMachineFinalizers (k_RemoveFinalizer k
      (meta_Finalizers (sm_Meta (scope_ScalewayMachine s))) MachineFinalizer) (scope_ScalewayMachine s) else scope_ScalewayMachine s)"
    using run by (rule machine_delete_run)
  ultimately show ?thesis
    using progress contract start(2) by (auto simp: worked_def machine_finished_def finalizer_contract_def)
qed

lemma machine_work_safe:
  assumes "scope_InfrastructureReady s \<Longrightarrow> PrivateNetworkID (scope_ScalewayCluster s) \<noteq> Panic" and run: "machine_work k c sdk engine s = (q, v)"
  shows "q \<noteq> Panic"
proof (cases "scope_InfrastructureReady s")
  case True
  then obtain r u where "instance_Reconcile c sdk k engine s = (r, u)"
    "q = (case r of Ok _ \<Rightarrow> Ok no_requeue | Err e \<Rightarrow> if retry_error e then Ok requeue_soon else Err e | Panic \<Rightarrow> Panic)"
    using machine_work_run [OF run] by auto
  with instance_Reconcile_safe [OF assms(1) [OF True], of c sdk k engine] show ?thesis by (cases r) auto
next
  case False
  with machine_work_run [OF run] show ?thesis by simp
qed

lemma lowers_machine_work:
  assumes "client_steps (lowers p) c" "\<And>ns n. relents p anything (k_GetSecret k ns n)"
  shows "steps (lowers p) (machine_work k c sdk engine)"
  unfolding machine_work_def by (intro store_intros lowered.steps_instance_Reconcile assms(1) relents_act [OF assms(2)])

lemma addMachineFinalizer_written:
  assumes start: "object (world s) = scope_ScalewayMachine s" and helper: "\<And>after. machine_writes object (scope_ScalewayMachine s) after (helper after)"
    and run: "addMachineFinalizer k helper s = (r, u)"
  shows "r \<noteq> Panic \<and> (\<exists>fs. fst (k_AddFinalizer k (meta_Finalizers (sm_Meta (scope_ScalewayMachine s))) MachineFinalizer) = fs
    \<and> scope_ScalewayMachine u = SetMachineFinalizers fs (scope_ScalewayMachine s) \<and> scope_InfrastructureReady u = scope_InfrastructureReady s
    \<and> scope_ScalewayCluster u = scope_ScalewayCluster s \<and> scope_Machine u = scope_Machine s
    \<and> object (world u) \<in> {scope_ScalewayMachine s, SetMachineFinalizers fs (scope_ScalewayMachine s)})"
proof -
  let ?x = "scope_ScalewayMachine s"
  obtain fs added where add: "k_AddFinalizer k (meta_Finalizers (sm_Meta ?x)) MachineFinalizer = (fs, added)" by fastforce
  obtain a w where patch: "helper (SetMachineFinalizers fs ?x) (world s) = (a, w)" by fastforce
  with helper [of "SetMachineFinalizers fs ?x"] start machine_partly_finalizers [of ?x fs]
  have "object w \<in> {?x, SetMachineFinalizers fs ?x}" by (simp add: machine_writes_def)
  with run add patch start show ?thesis
    by (cases added) (auto simp: addMachineFinalizer_def bind_gets_run bind_Ok_run [OF modify_machine_run] machine_PatchObject_def sdk_call_def ret_def
        api_result_def split: sum.splits)
qed

lemma machine_normal_worked:
  assumes grants: "grants_machine p net grouped c" "startable grouped (scope_ScalewayMachine s)" "grants_bootstrap p engine secret k"
    and secrets: "\<And>ns n. relents p anything (k_GetSecret k ns n)" and client: "client_keeps object c" "cloud_keeps object k" and contract: "finalizer_contract k"
    and helper: "\<And>after. relents p anything (helper after)" "\<And>after. machine_writes object (scope_ScalewayMachine s) after (helper after)"
    and run: "machine_reconcileNormal k c sdk engine helper s = (q, v)"
    and start: "object (world s) = scope_ScalewayMachine s" "\<not> leaving (scope_ScalewayMachine s)"
    and safe: "scope_InfrastructureReady s \<Longrightarrow> PrivateNetworkID (scope_ScalewayCluster s) \<noteq> Panic"
    and measure: "p (world s) \<le> b"
      "p (world s) = b \<Longrightarrow> in_network net (scope_ScalewayCluster s) \<and> has_bootstrap secret (scope_Machine s) \<and> scope_InfrastructureReady s"
  shows "worked p b object (scope_ScalewayMachine s) q v"
proof -
  let ?x = "scope_ScalewayMachine s"
  obtain r u where add: "addMachineFinalizer k helper s = (r, u)" by fastforce
  obtain fs where fs: "fst (k_AddFinalizer k (meta_Finalizers (sm_Meta ?x)) MachineFinalizer) = fs" "r \<noteq> Panic"
    "scope_ScalewayMachine u = SetMachineFinalizers fs ?x" "scope_InfrastructureReady u = scope_InfrastructureReady s"
    "scope_ScalewayCluster u = scope_ScalewayCluster s" "scope_Machine u = scope_Machine s"
    "object (world u) \<in> {?x, SetMachineFinalizers fs ?x}"
    using addMachineFinalizer_written [OF start(1) helper(2) add] by blast
  have "MachineFinalizer \<in> set fs" using fs(1) contract by (auto simp: finalizer_contract_def)
  have parts: "machine_parts s = (scope_ScalewayCluster s, ?x, scope_Machine s)" by (simp add: machine_parts_def)
  have first: "p (world u) < p (world s) \<or> p (world u) = p (world s) \<and> r = Ok ()"
    using surelyD [OF msure_addMachineFinalizer [OF helper(1)] parts add] by auto
  from run [unfolded machine_normal_split] show ?thesis
  proof (cases rule: bind_run)
    case (Ok y u')
    with add have work: "machine_work k c sdk engine u = (q, v)" and "r = Ok ()" by auto
    have "p (world v) \<le> p (world u)"
      using stepsD [OF lowers_machine_work [OF granted_machine(1) [OF grants(1)] secrets] work] by (simp add: lowers_def)
    moreover have "q = Ok no_requeue \<and> p (world v) = p (world u) \<or> p (world v) < p (world u)" if "p (world s) = b"
    proof -
      note now = measure(2) [OF that]
      have "startable grouped (scope_ScalewayMachine u)" using grants(2) fs(3) by (simp add: startable_def)
      from msure_instance_Reconcile [OF grants(1) this conjunct1 [OF now] grants(3)] now
      show ?thesis by (intro msure_machine_work [OF _ work]) (auto simp: machine_parts_def fs)
    qed
    ultimately have "q = Ok no_requeue \<and> p (world v) = b \<or> p (world v) < b" using first measure(1) by fastforce
    moreover have "q \<noteq> Panic" using machine_work_safe [OF _ work] safe fs(4,5) by simp
    moreover have "object (world v) = object (world u)" using storesD [OF stores_machine_work [OF client] work] .
    ultimately show ?thesis
      using machine_work_effect [OF work] fs(3,7) start(2) \<open>MachineFinalizer \<in> set fs\<close>
      by (auto simp: worked_def machine_finished_def split: if_splits)
  qed (use add fs first measure(1) in \<open>auto simp: worked_def\<close>)
qed

section \<open>A session\<close>

lemma machine_deferred_progress:
  assumes run: "m s = (q, v)" and work: "worked p b object x q v"
    and helper: "\<And>after. relents p anything (helper after)" "\<And>after. machine_writes object x after (helper after)"
    and deferred: "deferred (machine_Close helper) m s = (r, t)"
  shows "r \<noteq> Panic \<and> machine_intent (object (world t)) = machine_intent x
    \<and> (if r = Ok no_requeue then machine_finished (object (world t)) else p (world t) < b)"
proof -
  let ?y = "scope_ScalewayMachine v"
  have q: "q \<noteq> Panic" "q = Ok no_requeue \<and> p (world v) = b \<or> p (world v) < b" and scope: "machine_intent ?y = machine_intent x"
    and stored: "object (world v) \<in> {x, SetMachineFinalizers (meta_Finalizers (sm_Meta ?y)) x}"
    and finished: "q = Ok no_requeue \<longrightarrow> machine_finished ?y"
    using work by (simp_all add: worked_def)
  obtain a w where patch: "helper ?y (world v) = (a, w)" by fastforce
  then have close: "machine_Close helper v = (api_result a, v\<lparr>world := w, trace := trace v @ [CallPatchMachine ?y]\<rparr>)"
    by (simp add: machine_Close_def machine_PatchObject_def bind_gets_run sdk_call_def)
  have patched: "machine_partly (object (world v)) ?y (object w)" "a = Inr () \<longrightarrow> object w = ?y"
    using helper(2) [of ?y] patch stored machine_intent_decides(5) [OF scope] by (auto simp: machine_writes_def)
  have "machine_intent (object (world v)) = machine_intent x" using stored by auto
  with machine_partly_intent [OF patched(1)] scope have "machine_intent (object w) = machine_intent x" by simp
  with deferred_outcome [where p = p, OF run q close _ deferred] relentsD [OF helper(1) patch] patched(2) finished show ?thesis by (auto split: if_splits)
qed

lemma machine_scope_progress:
  assumes server: "grants_machine_server p object k engine net secret m" and served: "machine_served p net m c" and client: "client_keeps object c"
    and helper: "\<And>after. relents p anything (helper after)" "\<And>after. machine_writes object x after (helper after)"
    and x: "object (world s) = x" "machine_intent x = machine_intent m"
    and found: "found_machine p net secret m w (world s) machine cluster sc"
    and run: "in_machine_scope sc cluster x machine (deferred (machine_Close helper)
      (if leaving x then machine_reconcileDelete k c sdk else machine_reconcileNormal k c sdk engine helper)) s = (r, t)"
  shows "r \<noteq> Panic \<and> machine_intent (object (world t)) = machine_intent m
    \<and> (if r = Ok no_requeue then machine_finished (object (world t)) else p (world t) < p w)"
proof -
  let ?s = "\<lparr>world = world s, trace = trace s, scope_ScalewayCluster = sc, scope_InfrastructureReady = cc_InfrastructureReady cluster,
    scope_ScalewayMachine = x, scope_Machine = machine\<rparr>"
  let ?m = "if leaving x then machine_reconcileDelete k c sdk else machine_reconcileNormal k c sdk engine helper"
  obtain u where deferred: "deferred (machine_Close helper) ?m ?s = (r, u)" and t: "world t = world u"
    using run by (auto simp: in_machine_scope_def split: prod.splits)
  obtain q v where work: "?m ?s = (q, v)" by fastforce
  note same = machine_intent_decides [OF x(2)] and contract = machine_grantsD(5) [OF server] and grants = machine_grantsD(2) [OF server]
  have "worked p (p w) object x q v"
  proof (cases "leaving x")
    case True
    then have "grants_teardown p net c" using served same(1) by (simp add: machine_served_def)
    from machine_delete_worked [OF this client contract, of sdk ?s q v "p w"] work True x(1) found same(1) show ?thesis
      by (auto simp: found_machine_def)
  next
    case False
    then obtain grouped where grouped: "grants_machine p net grouped c" "startable grouped x"
      using served same by (auto simp: machine_served_def)
    have boot: "grants_bootstrap p engine secret k" using machine_grantsD(3) [OF server] False same(1) by simp
    have secrets: "relents p anything (k_GetSecret k ns n)" "cloud_keeps object k" for ns n using grants by (simp_all add: grants_client_def)
    show ?thesis
      using machine_normal_worked [where s = ?s and q = q and v = v and b = "p w" and sdk = sdk and helper = helper, OF grouped(1) _ boot secrets(1) client secrets(2) contract helper(1)] grouped(2) helper(2) work False x(1) found same(1)
      by (auto simp: found_machine_def)
  qed
  from machine_deferred_progress [OF work this helper deferred] t x(2) show ?thesis by simp
qed

lemma machine_session_progress:
  assumes server: "grants_machine_server p object k engine net secret m" and x: "object (world s) = x" "machine_intent x = machine_intent m"
    and found: "found_machine p net secret m w (world s) machine cluster sc"
    and run: "machine_session k sdk engine sc cluster x machine s = (r, t)"
  shows "r \<noteq> Panic \<and> machine_intent (object (world t)) = machine_intent m
    \<and> (if r = Ok no_requeue then machine_finished (object (world t)) else p (world t) < p w)"
proof -
  obtain helper where helper: "k_NewMachineHelper k x = Inr helper" "\<And>after. relents p anything (helper after)" "\<And>after. machine_writes object x after (helper after)"
    using machine_grantsD(6) [OF server x(2)] by blast
  have new: "NewMachine k sc x u = (Ok helper, u)" for u :: "'a env"
    using helper(1) machine_grantsD(4) [OF server, of sc] by (auto simp: NewMachine_def NewCluster_def lift_api_def wrapping_def bind_def ret_def)
  have le: "p (world s) \<le> p w" using found by (simp add: found_machine_def)
  show ?thesis
  proof (rule granted_session [OF machine_grantsD(2) [OF server] new run [unfolded machine_session_def]])
    fix c u
    assume opened: "machine_served p net m c" "client_keeps object c" "object (world u) = object (world s)" "p (world u) \<le> p (world s)"
      "in_machine_scope sc cluster x machine (deferred (machine_Close helper)
        (if leaving x then machine_reconcileDelete k c sdk else machine_reconcileNormal k c sdk engine helper)) u = (r, t)"
    from found opened(4) have "found_machine p net secret m w (world u) machine cluster sc" by (auto simp: found_machine_def)
    from machine_scope_progress [OF server opened(1,2) helper(2,3) _ x(2) this opened(5)] opened(3) x(1) show ?thesis by simp
  qed (use x le in auto)
qed

section \<open>Runs\<close>

lemma machine_run_progress:
  assumes server: "grants_machine_server p object k engine net secret m" and named: "machine_intent (object (world s)) = machine_intent m"
    and run: "machine_Reconcile k sdk engine (meta_Namespace (sm_Meta m)) (meta_Name (sm_Meta m)) s = (r, t)"
  shows "r \<noteq> Panic \<and> machine_intent (object (world t)) = machine_intent m
    \<and> (if r = Ok no_requeue then machine_finished (object (world t)) else p (world t) < p (world s))"
proof -
  obtain q u where lookup: "machine_lookup k (meta_Namespace (sm_Meta m)) (meta_Name (sm_Meta m)) s = (q, u)" by fastforce
  note looked = machine_lookup_progress [OF machine_grantsD(1) [OF server] named lookup]
  show ?thesis
  proof (cases "\<exists>e. q = Err e")
    case True
    with looked run lookup named show ?thesis by (auto simp: machine_Reconcile_split then_session_def bind_def)
  next
    case False
    with looked obtain machine cluster sc where found: "q = Ok (Inr (object (world s), machine, cluster, sc))"
      "found_machine p net secret m (world s) (world u) machine cluster sc" by blast
    then have "machine_session k sdk engine sc cluster (object (world s)) machine u = (r, t)"
      using run lookup by (simp add: machine_Reconcile_split then_session_def bind_def)
    from machine_session_progress [OF server _ named found(2) this] looked show ?thesis by simp
  qed
qed

interpretation machine_runs: retried "machine_Reconcile k sdk engine (meta_Namespace (sm_Meta m)) (meta_Name (sm_Meta m))"
  "\<lambda>s. grants_machine_server p object k engine net secret m \<and> machine_intent (object (world s)) = machine_intent m"
  "\<lambda>s. p (world s)" for k sdk engine m p object net secret
proof
  fix k :: "'a k8s_API" and sdk engine m s r t and p :: "'a \<Rightarrow> nat" and object net secret
  assume good: "grants_machine_server p object k engine net secret m \<and> machine_intent (object (world s)) = machine_intent m" and "r \<noteq> Ok no_requeue"
    and "machine_Reconcile k sdk engine (meta_Namespace (sm_Meta m)) (meta_Name (sm_Meta m)) s = (r, t)"
  with machine_run_progress [of p object k engine net secret m s sdk r t]
  show "r \<noteq> Panic \<and> (grants_machine_server p object k engine net secret m \<and> machine_intent (object (world t)) = machine_intent m)
    \<and> p (world t) < p (world s)" by simp
qed

lemma machine_finishes:
  assumes "grants_machine_server p object k engine net secret m" "object (world s) = m"
  shows "\<exists>n t. again_until (machine_Reconcile k sdk engine (meta_Namespace (sm_Meta m)) (meta_Name (sm_Meta m))) s = Some (n, t)
    \<and> n \<le> Suc (p (world s)) \<and> machine_finished (object (world t)) \<and> leaving (object (world t)) = leaving m"
proof -
  have "grants_machine_server p object k engine net secret m \<and> machine_intent (object (world s)) = machine_intent m" using assms by simp
  from machine_runs.done_eventually [OF this, of sdk] obtain n t u where "again_until (machine_Reconcile k sdk engine (meta_Namespace (sm_Meta m)) (meta_Name (sm_Meta m))) s = Some (n, t)"
    "n \<le> Suc (p (world s))" "machine_intent (object (world u)) = machine_intent m"
    and last: "machine_Reconcile k sdk engine (meta_Namespace (sm_Meta m)) (meta_Name (sm_Meta m)) u = (Ok no_requeue, t)"
    by (elim exE conjE) (rule that)
  moreover from this(3) machine_run_progress [OF assms(1) _ last]
  have "machine_finished (object (world t))" and intent: "machine_intent (object (world t)) = machine_intent m" by simp_all
  ultimately show ?thesis using machine_intent_decides(1) [OF intent] by blast
qed

section \<open>A server and a cloud to apply them at\<close>

text \<open>
  The cloud of a cluster with a private network, with its load balancer and the given servers; the
  infrastructure of the cluster is ready when nothing is refused any more.
\<close>

definition moody_machine_scw :: "(string \<Rightarrow> Server list) \<Rightarrow> 'o mood scw_Client" where
  "moody_machine_scw servers = down_scw\<lparr>
     sw_lb := down_lb\<lparr>
       lb_ListLBs := (\<lambda>z n. moody [moody_lb\<lparr>lb_Name := n, lb_Zone := z\<rparr>]),
       lb_ListBackends := (\<lambda>_ _ n. moody [\<lparr>be_ID = ''b-1'', be_Name = the n, be_Pool = []\<rparr>]),
       lb_ListFrontends := (\<lambda>_ _ n. moody [\<lparr>fe_ID = ''f-1'', fe_Name = the n, fe_InboundPort = 6443\<rparr>]),
       lb_AddBackendServers := (\<lambda>_ _ _. moody ()), lb_RemoveBackendServers := (\<lambda>_ _ _. moody ()), lb_ListACLs := (\<lambda>_ _ _. moody []),
       lb_CreateACL := (\<lambda>_ _ _. moody ()), lb_UpdateACL := (\<lambda>_ _ _. moody ()), lb_DeleteACL := (\<lambda>_ _. moody ())\<rparr>,
     sw_instance := down_instance\<lparr>
       instance_ListServers := (\<lambda>_ n. moody (servers n)), instance_ListIPs := (\<lambda>_ _. moody []), instance_CreateIP := (\<lambda>_ _. moody \<lparr>iip_ID = ''ip-1''\<rparr>),
       instance_CreateServer := (\<lambda>r. moody (ex_server (cs_Name r))),
       instance_ListPrivateNICs := (\<lambda>_ _. moody [\<lparr>pnic_ID = ''nic-1'', pnic_PrivateNetworkID = ''pn-1''\<rparr>]),
       instance_CreatePrivateNIC := (\<lambda>_ _ n. moody \<lparr>pnic_ID = ''nic-1'', pnic_PrivateNetworkID = n\<rparr>),
       instance_GetAllServerUserData := (\<lambda>_ _. moody []), instance_SetServerUserData := (\<lambda>_ _ _ _. moody ()), instance_ServerAction := (\<lambda>_ _ _. moody ()),
       instance_DeleteIP := (\<lambda>_ _. moody ()), instance_DetachVolume := (\<lambda>_ _. moody ()), instance_DeleteVolume := (\<lambda>_ _. moody ()),
       instance_DeleteServer := (\<lambda>_ _. moody ())\<rparr>,
     sw_marketplace := \<lparr>marketplace_GetLocalImageByLabel = (\<lambda>_ _ _. moody ''image-1'')\<rparr>,
     sw_ipam := \<lparr>ipam_ListIPs = (\<lambda>_ _ _ _. moody [\<lparr>net_IP = [10, 0, 0, 7], net_Mask = [255, 255, 255, 0]\<rparr>])\<rparr>\<rparr>"

definition moody_machine_client :: "(string \<Rightarrow> Server list) \<Rightarrow> 'o mood Client" where
  "moody_machine_client servers = (case NewClient (moody_machine_scw servers) of Ok c \<Rightarrow> c | _ \<Rightarrow> down_client)"

definition moody_networked :: ScalewayCluster where
  "moody_networked = moody_cluster\<lparr>sc_Status := ex_status\<lparr>cst_Network := Some \<lparr>nst_PrivateNetworkID = Some ''pn-1'', nst_PublicGatewayID = None\<rparr>\<rparr>\<rparr>"

definition moody_machine_k8s :: "(string \<Rightarrow> Server list) \<Rightarrow> ScalewayMachine mood k8s_API" where
  "moody_machine_k8s servers = down_k8s\<lparr>
     k_GetScalewayMachine := (\<lambda>ns n w. moody (snd w) w), k_GetOwnerMachine := (\<lambda>_. moody (Some ex_capi_machine)),
     k_GetClusterFromMetadata := (\<lambda>_ w. (Inr (ex_capi_cluster\<lparr>cc_InfrastructureReady := (fst w = 0)\<rparr>), fst w - 1, snd w)),
     k_GetScalewayCluster := (\<lambda>_ _. moody moody_networked),
     k_GetSecret := (\<lambda>ns n. moody ((ex_secret ns n)\<lparr>sec_Data := [(''value'', ''#cloud-config'')]\<rparr>)), k_UpdateSecret := moody,
     k_NewMachineHelper := (\<lambda>m. Inr (\<lambda>after w. if fst w = 0 then (Inr (), 0, after) else moody () w)),
     k_NewScwClient := (\<lambda>_. Inr (moody_machine_scw servers))\<rparr>"

definition moody_machine_leaving :: ScalewayMachine where
  "moody_machine_leaving = ex_machine\<lparr>sm_Meta := (ex_meta ''m'')\<lparr>meta_DeletionTimestamp := True, meta_Finalizers := [MachineFinalizer]\<rparr>\<rparr>"

lemma moody_machine_NewClient: "NewClient (moody_machine_scw servers) = Ok (moody_machine_client servers)"
  by (simp add: moody_machine_client_def NewClient_def moody_machine_scw_def down_scw_def)

lemma moody_machine_client_simps:
  "cl_LoadBalancer (moody_machine_client servers) = sw_lb (moody_machine_scw servers)"
  "cl_Instance (moody_machine_client servers) = sw_instance (moody_machine_scw servers)"
  "cl_VPC (moody_machine_client servers) = down_vpc" "cl_VPCGW (moody_machine_client servers) = down_vpcgw"
  "cl_PublicGateway (moody_machine_client servers) = down_vpcgw"
  "cl_Marketplace (moody_machine_client servers) = sw_marketplace (moody_machine_scw servers)"
  "cl_IPAM (moody_machine_client servers) = sw_ipam (moody_machine_scw servers)"
  by (simp_all add: moody_machine_client_def NewClient_def moody_machine_scw_def down_scw_def)

lemma moody_machine_client_steps:
  "client_keeps snd (moody_machine_client servers)" "client_steps (lowers fst) (moody_machine_client servers)"
  by (simp_all add: client_steps_def instance_steps_def lb_steps_def vpc_steps_def vpcgw_steps_def moody_machine_client_simps
      moody_machine_scw_def down_scw_def down_instance_def down_lb_def down_vpc_def down_vpcgw_def)

lemma moody_machine_grants:
  "grants_machine fst (Some ''pn-1'') False (moody_machine_client servers)" "grants_teardown fst (Some ''pn-1'') (moody_machine_client servers)"
  using moody_machine_client_steps(2) [of servers]
  by (simp_all add: grants_machine_def grants_teardown_def grants_membership_def grants_instance_def addressed_def
      moody_machine_client_simps moody_machine_scw_def)

lemma moody_machine_server:
  assumes "machine_served fst (Some ''pn-1'') m (moody_machine_client servers :: ScalewayMachine mood Client)"
  shows "grants_machine_server fst snd (moody_machine_k8s servers) ex_engine (Some ''pn-1'') (''default'', ''bootstrap'') m"
proof -
  have net: "PrivateNetworkID moody_networked = Ok ''pn-1''"
    by (simp add: PrivateNetworkID_def HasPrivateNetwork_def privateNetworkSpec_def moody_networked_def moody_cluster_def)
  have "grants_machine_reads fst snd (moody_machine_k8s servers) (Some ''pn-1'') (''default'', ''bootstrap'') m"
    using net by (auto simp: grants_machine_reads_def moody_machine_k8s_def down_k8s_def in_network_def has_bootstrap_def
        ex_capi_machine_def ex_capi_cluster_def) (auto simp: moody_def split: if_splits)
  moreover have "grants_client fst snd (machine_served fst (Some ''pn-1'') m) (moody_machine_k8s servers)"
    using assms moody_machine_client_steps(1) [of servers] by (auto simp: grants_client_def cloud_keeps_def moody_machine_k8s_def down_k8s_def moody_machine_NewClient)
  moreover have "grants_bootstrap fst ex_engine (''default'', ''bootstrap'') (moody_machine_k8s servers)"
    by (simp add: grants_bootstrap_def moody_machine_k8s_def renders_def patchBootstrapData_def ex_engine_def)
  moreover have "finalizer_contract (moody_machine_k8s servers)" by (auto simp: finalizer_contract_def moody_machine_k8s_def down_k8s_def)
  ultimately show ?thesis
    by (simp add: grants_machine_server_def)
      (auto simp: moody_machine_k8s_def down_k8s_def moody_def relents_def machine_writes_def machine_partly_def split: if_splits)
qed

section \<open>Properties\<close>





end
