(* ===== verification/Settling.thy ===== *)
theory Settling
  imports Controllers
begin

text \<open>
  Reconciling the public gateway settles: over a cloud that lists what it created, a second
  reconciliation asks for nothing.
\<close>

definition first_gateway :: "'w Client \<Rightarrow> zone \<Rightarrow> string \<Rightarrow> 'w \<Rightarrow> Gateway option" where
  "first_gateway c zone name w = (case vpcgw_ListGateways (cl_VPCGW c) \<lparr>lg_Zones = [zone], lg_Name = Some name,
       lg_ProjectID = Some (cl_ProjectID c), lg_PrivateNetworkID = None\<rparr> w of
     (Inr gws, _) \<Rightarrow> find (\<lambda>g. gw_Name g = name) gws | (Inl _, _) \<Rightarrow> None)"

definition attached :: "'w Client \<Rightarrow> zone \<Rightarrow> string \<Rightarrow> string \<Rightarrow> 'w \<Rightarrow> bool" where
  "attached c zone gatewayID pnID w =
     (case fst (vpcgw_ListGatewayNetworks (cl_VPCGW c) zone gatewayID pnID w) of Inr n \<Rightarrow> n \<noteq> 0 | Inl _ \<Rightarrow> False)"

text \<open>
  What is relied on: lists are only read; a gateway that was created is the one listed under its
  name; a gateway network that was created is counted, and creating it leaves the list of
  gateways as it is.
\<close>

definition gateways_are_listed :: "'w Client \<Rightarrow> bool" where
  "gateways_are_listed c \<longleftrightarrow>
     (\<forall>q w. snd (vpcgw_ListGateways (cl_VPCGW c) q w) = w)
   \<and> (\<forall>z g p w. snd (vpcgw_ListGatewayNetworks (cl_VPCGW c) z g p w) = w)
   \<and> (\<forall>z n i t w gw v. vpcgw_CreateGateway (cl_VPCGW c) z n i t w = (Inr gw, v) \<longrightarrow> first_gateway c z n v = Some gw)
   \<and> (\<forall>req w v. vpcgw_CreateGatewayNetwork (cl_VPCGW c) req w = (Inr (), v) \<longrightarrow>
        attached c (gn_Zone req) (gn_GatewayID req) (gn_PrivateNetworkID req) v
      \<and> (\<forall>z n. first_gateway c z n v = first_gateway c z n w))"

lemma gateways_are_listedD:
  assumes "gateways_are_listed c"
  shows "vpcgw_ListGateways (cl_VPCGW c) q w = (r, v) \<Longrightarrow> v = w"
    and "vpcgw_ListGatewayNetworks (cl_VPCGW c) z g p w = (m, v) \<Longrightarrow> v = w"
    and "vpcgw_CreateGateway (cl_VPCGW c) z n i t w = (Inr gw, v) \<Longrightarrow> first_gateway c z n v = Some gw"
    and "vpcgw_CreateGatewayNetwork (cl_VPCGW c) req w = (Inr (), v) \<Longrightarrow>
      attached c (gn_Zone req) (gn_GatewayID req) (gn_PrivateNetworkID req) v \<and> first_gateway c z n v = first_gateway c z n w"
proof -
  show "v = w" if "vpcgw_ListGateways (cl_VPCGW c) q w = (r, v)"
    using assms that unfolding gateways_are_listed_def by (metis snd_conv)
  show "v = w" if "vpcgw_ListGatewayNetworks (cl_VPCGW c) z g p w = (m, v)"
    using assms that unfolding gateways_are_listed_def by (metis snd_conv)
qed (use assms in \<open>simp_all add: gateways_are_listed_def\<close>)

lemma lookupGateway_first:
  assumes "gateways_are_listed c"
  shows "lookupGateway c zone s = (Ok (Some gw), t) \<longleftrightarrow>
    t = s \<and> first_gateway c zone (Name (scope_ScalewayCluster s)) (world s) = Some gw"
proof (cases "vpcgw_ListGateways (cl_VPCGW c) \<lparr>lg_Zones = [zone], lg_Name = Some (Name (scope_ScalewayCluster s)),
       lg_ProjectID = Some (cl_ProjectID c), lg_PrivateNetworkID = None\<rparr> (world s)")
  case (Pair r w)
  with gateways_are_listedD(1) [OF assms Pair] show ?thesis
    unfolding lookupGateway_def bind_gets_run wrapping_Ok gateway_by_name.optional_find
    by (cases r) (auto simp: sdk_read_def wrapping_def first_gateway_def)
qed

lemma keeps_createGateway: "keeps scope_ScalewayCluster (createGateway c zone)"
  unfolding createGateway_def vpcgw_getOrCreateIP_def lookupGatewayIP_def createGatewayIP_def Let_def
  by (intro keep_intros) simp_all

lemma gateway_first:
  assumes listed: "gateways_are_listed c" and run: "getOrCreateGateway c zone s = (Ok gw, t)"
  shows "scope_ScalewayCluster t = scope_ScalewayCluster s
    \<and> first_gateway c zone (Name (scope_ScalewayCluster s)) (world t) = Some gw"
proof -
  have "scope_ScalewayCluster t = scope_ScalewayCluster s"
    using keepsD [OF keeps_getOrCreateGateway, of c zone s] run by simp
  moreover have "first_gateway c zone (Name (scope_ScalewayCluster t)) (world t) = Some gw"
    using run unfolding getOrCreateGateway_def getOrCreate_Ok
  proof (elim disjE exE conjE)
    assume "lookupGateway c zone s = (Ok (Some gw), t)"
    then show ?thesis unfolding lookupGateway_first [OF listed] by simp
  next
    fix u
    assume "createGateway c zone u = (Ok gw, t)"
    moreover from this have "scope_ScalewayCluster t = scope_ScalewayCluster u"
      using keepsD [OF keeps_createGateway, of c zone u] by simp
    ultimately show ?thesis
      using gateways_are_listedD(3) [OF listed]
      by (auto simp: createGateway_def bind_Ok wrapping_Ok sdk_call_Ok Let_def pure_Ok)
  qed
  ultimately show ?thesis by simp
qed

text \<open>The last step of the reconciliation, and what it leaves.\<close>

definition attachGateway :: "'w Client \<Rightarrow> zone \<Rightarrow> string \<Rightarrow> string \<Rightarrow> (('w, 'z) ClusterScope_scheme, unit) go" where
  "attachGateway c zone gatewayID pnID =
     bind (sdk_read (vpcgw_ListGatewayNetworks (cl_VPCGW c) zone gatewayID pnID)) (\<lambda>totalCount.
     if totalCount = 0 then
       sdk_call (CallCreateGatewayNetwork (gatewayNetworkRequest zone gatewayID pnID))
         (vpcgw_CreateGatewayNetwork (cl_VPCGW c) (gatewayNetworkRequest zone gatewayID pnID))
     else ret ())"

lemma attachGateway_attaches:
  assumes listed: "gateways_are_listed c" and run: "attachGateway c zone gid pnID s = (Ok (), t)"
  shows "attached c zone gid pnID (world t) \<and> scope_ScalewayCluster t = scope_ScalewayCluster s
    \<and> first_gateway c z n (world t) = first_gateway c z n (world s)"
proof -
  obtain count u where count: "vpcgw_ListGatewayNetworks (cl_VPCGW c) zone gid pnID (world s) = (Inr count, world s)" "u = s"
    and rest: "(if count = 0 then sdk_call (CallCreateGatewayNetwork (gatewayNetworkRequest zone gid pnID))
        (vpcgw_CreateGatewayNetwork (cl_VPCGW c) (gatewayNetworkRequest zone gid pnID)) else ret ()) u = (Ok (), t)"
    using run gateways_are_listedD(2) [OF listed] unfolding attachGateway_def by (fastforce simp: bind_Ok sdk_read_Ok)
  show ?thesis
  proof (cases "count = 0")
    case True
    with rest count(2) obtain v where "vpcgw_CreateGatewayNetwork (cl_VPCGW c) (gatewayNetworkRequest zone gid pnID) (world s) = (Inr (), v)"
      "t = s\<lparr>world := v, trace := trace s @ [CallCreateGatewayNetwork (gatewayNetworkRequest zone gid pnID)]\<rparr>"
      by (auto simp: sdk_call_Ok)
    with gateways_are_listedD(4) [OF listed] show ?thesis by (fastforce simp: gatewayNetworkRequest_def)
  next
    case False
    with rest count show ?thesis by (simp add: attached_def pure_Ok)
  qed
qed

lemma attachGateway_again:
  assumes "gateways_are_listed c" "attached c zone gid pnID (world s)"
  shows "attachGateway c zone gid pnID s = (Ok (), s)"
proof (cases "vpcgw_ListGatewayNetworks (cl_VPCGW c) zone gid pnID (world s)")
  case (Pair r w)
  with gateways_are_listedD(2) [OF assms(1) Pair] assms(2) show ?thesis
    by (cases r) (simp_all add: attachGateway_def attached_def bind_def sdk_read_def ret_def)
qed

lemma vpcgw_Reconcile_parts:
  assumes "HasPrivateNetwork (scope_ScalewayCluster s)" "HasPublicGateway (scope_ScalewayCluster s)"
    and "publicGatewaySpec (scope_ScalewayCluster s) = Some spec"
  shows "vpcgw_Reconcile c s = bind (case pgs_ID spec of Some i \<Rightarrow> ret i
      | None \<Rightarrow> bind (getOrCreateGateway c (PublicGatewayZone (scope_ScalewayCluster s))) (\<lambda>gw. ret (gw_ID gw))) (\<lambda>gid.
    bind (lift_outcome (PrivateNetworkID (scope_ScalewayCluster s))) (attachGateway c (PublicGatewayZone (scope_ScalewayCluster s)) gid)) s"
  using assms by (simp add: vpcgw_Reconcile_def bind_gets_run Let_def attachGateway_def [abs_def])

text \<open>
  C27: reconciling the public gateway settles at once. If lists are only read, a gateway that was
  created is the one listed under its name, and a gateway network that was created is counted,
  then after a successful reconciliation another one succeeds, asks for nothing and changes nothing.
\<close>

theorem vpcgw_Reconcile_settles:
  assumes listed: "gateways_are_listed c" and run: "vpcgw_Reconcile c s = (Ok (), t)"
  shows "vpcgw_Reconcile c t = (Ok (), t)"
proof (cases "HasPrivateNetwork (scope_ScalewayCluster s) \<and> HasPublicGateway (scope_ScalewayCluster s)")
  case False
  then have "vpcgw_Reconcile c s = (Ok (), s)" by (auto simp: vpcgw_Reconcile_def bind_gets_run ret_def)
  with run show ?thesis by simp
next
  case True
  let ?sc = "scope_ScalewayCluster s"
  let ?zone = "PublicGatewayZone ?sc"
  obtain spec where spec: "publicGatewaySpec ?sc = Some spec" using True HasPublicGateway_spec by blast
  obtain gid u pnID where gid: "(case pgs_ID spec of Some i \<Rightarrow> ret i
        | None \<Rightarrow> bind (getOrCreateGateway c ?zone) (\<lambda>gw. ret (gw_ID gw))) s = (Ok gid, u)"
    and pn: "PrivateNetworkID ?sc = Ok pnID" and attach: "attachGateway c ?zone gid pnID u = (Ok (), t)"
    using run True unfolding vpcgw_Reconcile_parts [OF conjunct1 [OF True] conjunct2 [OF True] spec]
    by (auto simp: bind_Ok pure_Ok)
  note t = attachGateway_attaches [OF listed attach]
  have again: "(case pgs_ID spec of Some i \<Rightarrow> ret i | None \<Rightarrow> bind (getOrCreateGateway c ?zone) (\<lambda>gw. ret (gw_ID gw))) t = (Ok gid, t)
      \<and> scope_ScalewayCluster u = ?sc"
  proof (cases "pgs_ID spec")
    case (Some i)
    with gid show ?thesis by (simp add: ret_def)
  next
    case None
    with gid obtain gw where gw: "getOrCreateGateway c ?zone s = (Ok gw, u)" "gid = gw_ID gw" by (auto simp: bind_Ok pure_Ok)
    with gateway_first [OF listed gw(1)] t have "lookupGateway c ?zone t = (Ok (Some gw), t)"
      unfolding lookupGateway_first [OF listed] by simp
    then have "getOrCreateGateway c ?zone t = (Ok gw, t)" unfolding getOrCreateGateway_def getOrCreate_Ok by simp
    with None gw(2) gateway_first [OF listed gw(1)] show ?thesis by (simp add: bind_def ret_def)
  qed
  with t have same: "scope_ScalewayCluster t = ?sc" by simp
  have "vpcgw_Reconcile c t = bind (lift_outcome (PrivateNetworkID ?sc)) (attachGateway c ?zone gid) t"
    using True spec again vpcgw_Reconcile_parts [of t spec c, unfolded same] by (simp add: bind_def)
  with pn attachGateway_again [OF listed, where s = t] t show ?thesis by (simp add: bind_def lift_outcome_def)
qed

text \<open>A cloud that keeps gateways and whether one is attached.\<close>

definition ex_gateway_cloud :: "(Gateway list \<times> bool) Client" where
  "ex_gateway_cloud = down_client\<lparr>cl_VPCGW := down_vpcgw\<lparr>
     vpcgw_ListGateways := (\<lambda>q w. (Inr (fst w), w)), vpcgw_ListIPs := (\<lambda>z a ts p w. (Inr [], w)),
     vpcgw_CreateIP := (\<lambda>z ts w. (Inr \<lparr>gip_ID = ''ip-1'', gip_Address = []\<rparr>, w)),
     vpcgw_ListGatewayNetworks := (\<lambda>z g p w. (Inr (if snd w then 1 else 0), w)),
     vpcgw_CreateGateway := (\<lambda>z n i t w. let gw = \<lparr>gw_ID = ''gw-1'', gw_Name = n, gw_IP = None\<rparr> in (Inr gw, (gw # fst w, snd w))),
     vpcgw_CreateGatewayNetwork := (\<lambda>r w. (Inr (), (fst w, True)))\<rparr>\<rparr>"

lemma ex_gateway_cloud_lists: "gateways_are_listed ex_gateway_cloud"
  by (auto simp: gateways_are_listed_def ex_gateway_cloud_def down_client_def first_gateway_def attached_def Let_def)

theorem vpcgw_Reconcile_settles_witness:
  "let t = snd (vpcgw_Reconcile ex_gateway_cloud (ex_scope ex_gw_cluster ([], False))) in
   length (trace t) = 3 \<and> vpcgw_Reconcile ex_gateway_cloud t = (Ok (), t)"
proof -
  obtain t where run: "vpcgw_Reconcile ex_gateway_cloud (ex_scope ex_gw_cluster ([], False)) = (Ok (), t)" and calls: "length (trace t) = 3"
    by (simp add: vpcgw_Reconcile_def getOrCreateGateway_def lookupGateway_def createGateway_def
        vpcgw_getOrCreateIP_def lookupGatewayIP_def createGatewayIP_def run_defs ex_gateway_cloud_def ex_cloud
        ex_gw_cluster_def PrivateNetworkID_def SetStatusPrivateNetworkID_def PublicGatewayZone_def)
  with vpcgw_Reconcile_settles [OF ex_gateway_cloud_lists run] show ?thesis by simp
qed

end
