(* ===== verification/Balancer_Settling.thy ===== *)
theory Balancer_Settling
  imports Settling Stored_State
begin

text \<open>
  Reconciling the load balancer settles but for its ACLs: over a cloud that shows what was done, a
  second reconciliation finds the load balancer, its network, backend and frontend as they should
  be, and the only calls it makes are for ACLs (which are always updated, since their addresses
  are compared by pointer).
\<close>

section \<open>A cloud that shows what was done\<close>

text \<open>
  What the API shows of load balancers: the one listed first under a name, and the networks,
  backends and frontends of each.
\<close>

record lb_state =
  st_LB :: "zone \<Rightarrow> string \<Rightarrow> LB option"
  st_PNs :: "zone \<Rightarrow> string \<Rightarrow> string set"
  st_Backends :: "zone \<Rightarrow> string \<Rightarrow> Backend list"
  st_Frontends :: "zone \<Rightarrow> string \<Rightarrow> Frontend list"

definition answers :: "('w, 'a) act \<Rightarrow> ('w \<Rightarrow> 'a \<Rightarrow> bool) \<Rightarrow> bool" where
  "answers f P \<longleftrightarrow> (\<forall>w r v. f w = (r, v) \<longrightarrow> v = w \<and> (\<forall>x. r = Inr x \<longrightarrow> P w x))"

definition does :: "('w, 'a) act \<Rightarrow> ('w \<Rightarrow> 'a \<Rightarrow> 'w \<Rightarrow> bool) \<Rightarrow> bool" where
  "does f P \<longleftrightarrow> (\<forall>w x v. f w = (Inr x, v) \<longrightarrow> P w x v)"

definition lists_balancers :: "'w lb_API \<Rightarrow> ('w \<Rightarrow> lb_state) \<Rightarrow> bool" where
  "lists_balancers api view \<longleftrightarrow>
     (\<forall>z n. answers (lb_ListLBs api z n) (\<lambda>w ls. find (\<lambda>l. lb_Name l = n) ls = st_LB (view w) z n))
   \<and> (\<forall>z l. answers (lb_ListLBPrivateNetworks api z l) (\<lambda>w ps. set ps = st_PNs (view w) z l))
   \<and> (\<forall>z l. answers (lb_ListBackends api z l None) (\<lambda>w bs. bs = st_Backends (view w) z l))
   \<and> (\<forall>z l. answers (lb_ListFrontends api z l None) (\<lambda>w fs. fs = st_Frontends (view w) z l))
   \<and> (\<forall>z f n. answers (lb_ListACLs api z f n) (\<lambda>w as. True))
   \<and> (\<forall>w z l. distinct (map be_ID (st_Backends (view w) z l)) \<and> distinct (map fe_ID (st_Frontends (view w) z l)))"

definition changes_balancers :: "'w lb_API \<Rightarrow> ('w \<Rightarrow> lb_state) \<Rightarrow> bool" where
  "changes_balancers api view \<longleftrightarrow>
     (\<forall>z n t i. does (lb_CreateLB api z n t i) (\<lambda>w l v. st_LB (view v) z n = Some l))
   \<and> (\<forall>z l p. does (lb_AttachPrivateNetwork api z l p) (\<lambda>w _ v. st_LB (view v) = st_LB (view w) \<and> p \<in> st_PNs (view v) z l))
   \<and> (\<forall>z i. does (lb_DeleteBackend api z i) (\<lambda>w _ v. (\<forall>l. st_Backends (view v) z l = filter (\<lambda>b. be_ID b \<noteq> i) (st_Backends (view w) z l))
        \<and> st_LB (view v) = st_LB (view w) \<and> st_PNs (view v) = st_PNs (view w)))
   \<and> (\<forall>req. does (lb_CreateBackend api req) (\<lambda>w b v. be_Name b = cb_Name req
        \<and> st_Backends (view v) (cb_Zone req) (cb_LBID req) = st_Backends (view w) (cb_Zone req) (cb_LBID req) @ [b]
        \<and> st_LB (view v) = st_LB (view w) \<and> st_PNs (view v) = st_PNs (view w)))
   \<and> (\<forall>z i. does (lb_DeleteFrontend api z i) (\<lambda>w _ v. (\<forall>l. st_Frontends (view v) z l = filter (\<lambda>f. fe_ID f \<noteq> i) (st_Frontends (view w) z l))
        \<and> st_LB (view v) = st_LB (view w) \<and> st_PNs (view v) = st_PNs (view w) \<and> st_Backends (view v) = st_Backends (view w)))
   \<and> (\<forall>req. does (lb_CreateFrontend api req) (\<lambda>w f v. fe_Name f = cf_Name req
        \<and> st_Frontends (view v) (cf_Zone req) (cf_LBID req) = st_Frontends (view w) (cf_Zone req) (cf_LBID req) @ [f]
        \<and> st_LB (view v) = st_LB (view w) \<and> st_PNs (view v) = st_PNs (view w) \<and> st_Backends (view v) = st_Backends (view w)))
   \<and> (\<forall>z f r. act_keeps view (lb_CreateACL api z f r)) \<and> (\<forall>z i r. act_keeps view (lb_UpdateACL api z i r))
   \<and> (\<forall>z i. act_keeps view (lb_DeleteACL api z i))"

text \<open>
  The contract: lists are only read and tell what there is; what was created, attached or deleted
  is, or is no longer, in the lists; ACLs and the list of public gateways are a matter apart.
\<close>

definition shows_balancers :: "'w Client \<Rightarrow> ('w \<Rightarrow> lb_state) \<Rightarrow> bool" where
  "shows_balancers c view \<longleftrightarrow> lists_balancers (cl_LoadBalancer c) view \<and> changes_balancers (cl_LoadBalancer c) view
   \<and> (\<forall>q. act_keeps view (vpcgw_ListGateways (cl_PublicGateway c) q))"

lemma sdk_read_answers:
  assumes "answers f P" "sdk_read f s = (r, t)"
  shows "t = s \<and> (case r of Ok x \<Rightarrow> P (world s) x | Err e \<Rightarrow> True | Panic \<Rightarrow> False)"
  using assms by (auto simp: answers_def sdk_read_def api_result_def split: prod.splits sum.splits)

lemma sdk_call_does: "does f P \<Longrightarrow> sdk_call ev f s = (Ok x, t) \<Longrightarrow> P (world s) x (world t)"
  by (auto simp: does_def sdk_call_Ok)

section \<open>Keeping one of a list\<close>

text \<open>A call that returns \<open>x\<close> or fails, and in both cases leaves everything as it is.\<close>

definition stays :: "('s, 'a) go \<Rightarrow> 'a \<Rightarrow> 's \<Rightarrow> bool" where
  "stays m x s \<longleftrightarrow> m s = (Ok x, s) \<or> (\<exists>e. m s = (Err e, s))"

lemma stays_bind: "stays m x s \<Longrightarrow> stays (f x) y s \<Longrightarrow> stays (bind m f) y s"
  by (auto simp: stays_def bind_def)

lemma stays_ret: "stays (ret x) x s"
  by (simp add: stays_def ret_def)

lemma stays_wrapping: "stays m x s \<Longrightarrow> stays (wrapping msg m) x s"
  by (auto simp: stays_def wrapping_def)

lemma stays_read: "answers f P \<Longrightarrow> (\<And>x. P (world s) x \<Longrightarrow> stays (g x) y s) \<Longrightarrow> stays (bind (sdk_read f) g) y s"
  by (cases "sdk_read f s", drule (1) sdk_read_answers) (auto simp: stays_def bind_def split: outcome.splits)

text \<open>
  The loop of \<^verbatim>\<open>ensureBackend\<close> and \<^verbatim>\<open>ensureFrontend\<close> over a list \<open>L\<close> of which a deletion takes out one ID.
  \<open>g\<close> is what neither deletions nor creations change.
\<close>

lemma keep_named_leaves:
  assumes delete: "\<And>x s t. delete x s = (Ok (), t) \<Longrightarrow> L (world t) = filter (\<lambda>y. ident y \<noteq> ident x) (L (world s)) \<and> g (world t) = g (world s)"
    and "keep_named wanted delete kept xs s = (Ok k, t)"
  shows "L (world t) = filter (\<lambda>y. \<forall>x \<in> set xs. wanted x \<or> ident y \<noteq> ident x) (L (world s))
    \<and> g (world t) = g (world s) \<and> k = last_named wanted kept xs"
  using assms(2)
proof (induction xs arbitrary: kept s)
  case (Cons x xs)
  show ?case
  proof (cases "wanted x")
    case True
    with Cons.prems have "keep_named wanted delete (Some x) xs s = (Ok k, t)" by simp
    from Cons.IH [OF this] True show ?thesis by (simp add: last_named_Cons)
  next
    case False
    with Cons.prems obtain u where u: "delete x s = (Ok (), u)" "keep_named wanted delete kept xs u = (Ok k, t)"
      by (auto simp: bind_Ok)
    from Cons.IH [OF u(2)] delete [OF u(1)] False show ?thesis
      by (auto simp: last_named_Cons conj_commute intro!: filter_cong)
  qed
qed (simp add: pure_Ok last_named_def)

definition kept_only :: "('a \<Rightarrow> bool) \<Rightarrow> 'a list \<Rightarrow> 'a \<Rightarrow> bool" where
  "kept_only wanted ys x \<longleftrightarrow> ys \<noteq> [] \<and> (\<forall>y \<in> set ys. wanted y) \<and> last ys = x"

lemma keep_or_create_leaves:
  assumes list: "answers f (\<lambda>w xs. xs = L w)" and ids: "distinct (map ident (L (world s)))"
    and delete: "\<And>x s t. delete x s = (Ok (), t) \<Longrightarrow> L (world t) = filter (\<lambda>y. ident y \<noteq> ident x) (L (world s)) \<and> g (world t) = g (world s)"
    and create: "does c (\<lambda>w x v. wanted x \<and> L v = L w @ [x] \<and> g v = g w)"
    and run: "bind (sdk_read f) (\<lambda>xs. bind (keep_named wanted delete None xs)
      (\<lambda>k. case k of Some x \<Rightarrow> ret x | None \<Rightarrow> sdk_call ev c)) s = (Ok x, t)"
  shows "kept_only wanted (L (world t)) x \<and> g (world t) = g (world s)"
proof -
  obtain xs u where read: "sdk_read f s = (Ok xs, u)"
    and rest: "bind (keep_named wanted delete None xs) (\<lambda>k. case k of Some x \<Rightarrow> ret x | None \<Rightarrow> sdk_call ev c) u = (Ok x, t)"
    using run unfolding bind_Ok by blast
  have xs: "xs = L (world s)" "u = s" using sdk_read_answers [OF list read] by auto
  obtain k v where loop: "keep_named wanted delete None xs u = (Ok k, v)"
    and last: "(case k of Some x \<Rightarrow> ret x | None \<Rightarrow> sdk_call ev c) v = (Ok x, t)"
    using rest unfolding bind_Ok by blast
  have "(\<forall>z \<in> set xs. wanted z \<or> ident y \<noteq> ident z) \<longleftrightarrow> wanted y" if "y \<in> set xs" for y
    using that ids xs(1) by (auto simp: distinct_map inj_on_def)
  with keep_named_leaves [where L = L and ident = ident and g = g, OF delete loop] xs
  have v: "L (world v) = filter wanted xs" "g (world v) = g (world s)" "k = last_named wanted None xs"
    by (auto cong: filter_cong)
  show ?thesis
  proof (cases k)
    case None
    with last have "sdk_call ev c v = (Ok x, t)" by simp
    from sdk_call_does [OF create this] None v show ?thesis
      by (auto simp: kept_only_def last_named_def split: if_splits)
  next
    case (Some y)
    with last v show ?thesis by (auto simp: kept_only_def last_named_def pure_Ok split: if_splits)
  qed
qed

lemma keep_named_all: "(\<And>x. x \<in> set xs \<Longrightarrow> wanted x) \<Longrightarrow> keep_named wanted delete kept xs = ret (last_named wanted kept xs)"
  by (induction xs arbitrary: kept) (simp_all add: last_named_Cons, simp add: last_named_def)

lemma keep_or_create_again:
  assumes list: "answers f (\<lambda>w xs. xs = L w)" and kept: "kept_only wanted (L (world s)) x"
  shows "stays (bind (sdk_read f) (\<lambda>xs. bind (keep_named wanted delete None xs)
      (\<lambda>k. case k of Some x \<Rightarrow> ret x | None \<Rightarrow> sdk_call ev c))) x s"
proof (rule stays_read [OF list])
  fix xs
  assume "xs = L (world s)"
  with kept have "keep_named wanted delete None xs = ret (Some x)"
    by (subst keep_named_all) (auto simp: kept_only_def last_named_def filter_id_conv [THEN iffD2] filter_empty_conv)
  then show "stays (bind (keep_named wanted delete None xs) (\<lambda>k. case k of Some x \<Rightarrow> ret x | None \<Rightarrow> sdk_call ev c)) x s"
    by (simp add: stays_ret)
qed

section \<open>The steps\<close>

lemma lookupLB_shown:
  assumes cloud: "shows_balancers c view" and found: "st_LB (view (world s)) zone (Name (scope_ScalewayCluster s)) = Some l"
  shows "stays (lookupLB c zone) (Some l) s"
proof -
  let ?name = "Name (scope_ScalewayCluster s)"
  have list: "answers (lb_ListLBs (cl_LoadBalancer c) zone ?name) (\<lambda>w ls. find (\<lambda>l. lb_Name l = ?name) ls = st_LB (view w) zone ?name)"
    using cloud by (simp add: shows_balancers_def lists_balancers_def)
  obtain r t where run: "sdk_read (lb_ListLBs (cl_LoadBalancer c) zone ?name) s = (r, t)" by fastforce
  show ?thesis
    using sdk_read_answers [OF list run] run found api_errors_not_sentinel [OF lb_by_name.list_errors, of c zone ?name s]
    by (cases r) (auto simp: stays_def lookupLB_def gets_def optional_def attempt_def FindLoadBalancerByName_def
        bind_def first_match_def ret_def throw_def)
qed

lemma getOrCreateLB_again:
  assumes "shows_balancers c view" "st_LB (view (world s)) zone (Name (scope_ScalewayCluster s)) = Some l"
  shows "stays (getOrCreateLB c zone) l s"
  unfolding getOrCreateLB_def getOrCreate_def by (rule stays_bind [OF lookupLB_shown [OF assms]]) (simp add: stays_ret)

lemma getOrCreateLB_shown:
  assumes cloud: "shows_balancers c view" and run: "getOrCreateLB c zone s = (Ok l, t)"
  shows "st_LB (view (world t)) zone (Name (scope_ScalewayCluster s)) = Some l"
  using run unfolding getOrCreateLB_def getOrCreate_Ok
proof (elim disjE exE conjE)
  let ?name = "Name (scope_ScalewayCluster s)"
  assume "lookupLB c zone s = (Ok (Some l), t)"
  then obtain ls where "sdk_read (lb_ListLBs (cl_LoadBalancer c) zone ?name) s = (Ok ls, t)" "find (\<lambda>l. lb_Name l = ?name) ls = Some l"
    unfolding lookupLB_def bind_gets_run lb_by_name.optional_find by metis
  moreover have "answers (lb_ListLBs (cl_LoadBalancer c) zone ?name) (\<lambda>w ls. find (\<lambda>l. lb_Name l = ?name) ls = st_LB (view w) zone ?name)"
    using cloud by (simp add: shows_balancers_def lists_balancers_def)
  ultimately show ?thesis by (auto dest: sdk_read_answers)
next
  fix u
  assume lookup: "lookupLB c zone s = (Ok None, u)" and create: "createLB c zone u = (Ok l, t)"
  have "scope_ScalewayCluster u = scope_ScalewayCluster s"
    using reads_only_cluster [OF load_balancer.lookup_reads lookup] .
  moreover have "does (lb_CreateLB (cl_LoadBalancer c) zone n p i) (\<lambda>w l v. st_LB (view v) zone n = Some l)" for n p i
    using cloud by (simp add: shows_balancers_def changes_balancers_def)
  ultimately show ?thesis
    using create by (auto simp: createLB_def bind_Ok pure_Ok dest!: sdk_call_does [rotated])
qed

definition on_network :: "lb_state \<Rightarrow> LB \<Rightarrow> string option \<Rightarrow> bool" where
  "on_network st l pnID \<longleftrightarrow> (case pnID of None \<Rightarrow> True | Some pn \<Rightarrow> pn \<in> st_PNs st (lb_Zone l) (lb_ID l))"

lemma lists_networks: "shows_balancers c view \<Longrightarrow>
  answers (lb_ListLBPrivateNetworks (cl_LoadBalancer c) z l) (\<lambda>w ps. set ps = st_PNs (view w) z l)"
  by (simp add: shows_balancers_def lists_balancers_def)

lemma ensurePrivateNetwork_shown:
  assumes cloud: "shows_balancers c view" and run: "ensurePrivateNetwork c l pnID s = (Ok (), t)"
  shows "on_network (view (world t)) l pnID \<and> st_LB (view (world t)) = st_LB (view (world s))"
proof (cases pnID)
  case (Some pn)
  then obtain ps u where read: "sdk_read (lb_ListLBPrivateNetworks (cl_LoadBalancer c) (lb_Zone l) (lb_ID l)) s = (Ok ps, u)"
    and rest: "(if pn \<in> set ps then ret () else sdk_call (CallAttachPrivateNetwork (lb_Zone l) (lb_ID l) pn)
       (lb_AttachPrivateNetwork (cl_LoadBalancer c) (lb_Zone l) (lb_ID l) pn)) u = (Ok (), t)"
    using run by (auto simp: ensurePrivateNetwork_def bind_Ok)
  have "does (lb_AttachPrivateNetwork (cl_LoadBalancer c) (lb_Zone l) (lb_ID l) pn)
      (\<lambda>w _ v. st_LB (view v) = st_LB (view w) \<and> pn \<in> st_PNs (view v) (lb_Zone l) (lb_ID l))"
    using cloud by (simp add: shows_balancers_def changes_balancers_def)
  with sdk_read_answers [OF lists_networks [OF cloud] read] rest Some show ?thesis
    by (auto simp: on_network_def pure_Ok split: if_splits dest: sdk_call_does)
qed (use run in \<open>simp add: ensurePrivateNetwork_def on_network_def pure_Ok\<close>)

lemma ensurePrivateNetwork_again:
  "shows_balancers c view \<Longrightarrow> on_network (view (world s)) l pnID \<Longrightarrow> stays (ensurePrivateNetwork c l pnID) () s"
  by (auto simp: ensurePrivateNetwork_def on_network_def stays_ret split: option.split intro!: stays_read [OF lists_networks])

abbreviation cp_backend :: "Backend \<Rightarrow> bool" where
  "cp_backend \<equiv> \<lambda>b. be_Name b = ControlPlaneBackendName"

abbreviation cp_frontend :: "Frontend \<Rightarrow> bool" where
  "cp_frontend \<equiv> \<lambda>f. fe_Name f = ControlPlaneFrontendName"

lemma lists_backends: "shows_balancers c view \<Longrightarrow>
  answers (lb_ListBackends (cl_LoadBalancer c) z l None) (\<lambda>w bs. bs = st_Backends (view w) z l)"
  by (simp add: shows_balancers_def lists_balancers_def)

lemma lists_frontends: "shows_balancers c view \<Longrightarrow>
  answers (lb_ListFrontends (cl_LoadBalancer c) z l None) (\<lambda>w fs. fs = st_Frontends (view w) z l)"
  by (simp add: shows_balancers_def lists_balancers_def)

lemma ensureBackend_shown:
  assumes cloud: "shows_balancers c view" and run: "ensureBackend c l s = (Ok b, t)"
  shows "kept_only cp_backend (st_Backends (view (world t)) (lb_Zone l) (lb_ID l)) b
    \<and> (st_LB (view (world t)), st_PNs (view (world t))) = (st_LB (view (world s)), st_PNs (view (world s)))"
proof (rule keep_or_create_leaves [where L = "\<lambda>w. st_Backends (view w) (lb_Zone l) (lb_ID l)" and ident = be_ID
      and g = "\<lambda>w. (st_LB (view w), st_PNs (view w))", OF lists_backends [OF cloud] _ _ _ run [unfolded ensureBackend_def]])
  show "distinct (map be_ID (st_Backends (view (world s)) (lb_Zone l) (lb_ID l)))"
    using cloud by (simp add: shows_balancers_def lists_balancers_def)
next
  fix b s t
  assume "sdk_call (CallDeleteBackend (lb_Zone l) (be_ID b)) (lb_DeleteBackend (cl_LoadBalancer c) (lb_Zone l) (be_ID b)) s = (Ok (), t)"
  moreover have "does (lb_DeleteBackend (cl_LoadBalancer c) (lb_Zone l) (be_ID b)) (\<lambda>w _ v.
      (\<forall>i. st_Backends (view v) (lb_Zone l) i = filter (\<lambda>x. be_ID x \<noteq> be_ID b) (st_Backends (view w) (lb_Zone l) i))
      \<and> st_LB (view v) = st_LB (view w) \<and> st_PNs (view v) = st_PNs (view w))"
    using cloud by (simp add: shows_balancers_def changes_balancers_def)
  ultimately show "st_Backends (view (world t)) (lb_Zone l) (lb_ID l)
      = filter (\<lambda>y. be_ID y \<noteq> be_ID b) (st_Backends (view (world s)) (lb_Zone l) (lb_ID l))
    \<and> (st_LB (view (world t)), st_PNs (view (world t))) = (st_LB (view (world s)), st_PNs (view (world s)))"
    by (auto dest: sdk_call_does)
next
  show "does (lb_CreateBackend (cl_LoadBalancer c) (backendRequest l)) (\<lambda>w b v. cp_backend b
      \<and> st_Backends (view v) (lb_Zone l) (lb_ID l) = st_Backends (view w) (lb_Zone l) (lb_ID l) @ [b]
      \<and> (st_LB (view v), st_PNs (view v)) = (st_LB (view w), st_PNs (view w)))"
  proof -
    have "does (lb_CreateBackend (cl_LoadBalancer c) req) (\<lambda>w b v. be_Name b = cb_Name req
        \<and> st_Backends (view v) (cb_Zone req) (cb_LBID req) = st_Backends (view w) (cb_Zone req) (cb_LBID req) @ [b]
        \<and> st_LB (view v) = st_LB (view w) \<and> st_PNs (view v) = st_PNs (view w))" for req
      using cloud by (simp add: shows_balancers_def changes_balancers_def)
    from this [of "backendRequest l"] show ?thesis by (simp add: backendRequest_def)
  qed
qed

lemma ensureFrontend_shown:
  assumes cloud: "shows_balancers c view" and run: "ensureFrontend c l b s = (Ok f, t)"
  shows "kept_only cp_frontend (st_Frontends (view (world t)) (lb_Zone l) (lb_ID l)) f
    \<and> (st_LB (view (world t)), st_PNs (view (world t)), st_Backends (view (world t)))
      = (st_LB (view (world s)), st_PNs (view (world s)), st_Backends (view (world s)))"
proof (rule keep_or_create_leaves [where L = "\<lambda>w. st_Frontends (view w) (lb_Zone l) (lb_ID l)" and ident = fe_ID
      and g = "\<lambda>w. (st_LB (view w), st_PNs (view w), st_Backends (view w))",
      OF lists_frontends [OF cloud] _ _ _ run [unfolded ensureFrontend_def]])
  show "distinct (map fe_ID (st_Frontends (view (world s)) (lb_Zone l) (lb_ID l)))"
    using cloud by (simp add: shows_balancers_def lists_balancers_def)
next
  fix f s t
  assume "sdk_call (CallDeleteFrontend (lb_Zone l) (fe_ID f)) (lb_DeleteFrontend (cl_LoadBalancer c) (lb_Zone l) (fe_ID f)) s = (Ok (), t)"
  moreover have "does (lb_DeleteFrontend (cl_LoadBalancer c) (lb_Zone l) (fe_ID f)) (\<lambda>w _ v.
      (\<forall>i. st_Frontends (view v) (lb_Zone l) i = filter (\<lambda>x. fe_ID x \<noteq> fe_ID f) (st_Frontends (view w) (lb_Zone l) i))
      \<and> st_LB (view v) = st_LB (view w) \<and> st_PNs (view v) = st_PNs (view w) \<and> st_Backends (view v) = st_Backends (view w))"
    using cloud by (simp add: shows_balancers_def changes_balancers_def)
  ultimately show "st_Frontends (view (world t)) (lb_Zone l) (lb_ID l)
      = filter (\<lambda>y. fe_ID y \<noteq> fe_ID f) (st_Frontends (view (world s)) (lb_Zone l) (lb_ID l))
    \<and> (st_LB (view (world t)), st_PNs (view (world t)), st_Backends (view (world t)))
      = (st_LB (view (world s)), st_PNs (view (world s)), st_Backends (view (world s)))"
    by (auto dest: sdk_call_does)
next
  show "does (lb_CreateFrontend (cl_LoadBalancer c) (frontendRequest l b)) (\<lambda>w f v. cp_frontend f
      \<and> st_Frontends (view v) (lb_Zone l) (lb_ID l) = st_Frontends (view w) (lb_Zone l) (lb_ID l) @ [f]
      \<and> (st_LB (view v), st_PNs (view v), st_Backends (view v)) = (st_LB (view w), st_PNs (view w), st_Backends (view w)))"
  proof -
    have "does (lb_CreateFrontend (cl_LoadBalancer c) req) (\<lambda>w f v. fe_Name f = cf_Name req
        \<and> st_Frontends (view v) (cf_Zone req) (cf_LBID req) = st_Frontends (view w) (cf_Zone req) (cf_LBID req) @ [f]
        \<and> st_LB (view v) = st_LB (view w) \<and> st_PNs (view v) = st_PNs (view w) \<and> st_Backends (view v) = st_Backends (view w))" for req
      using cloud by (simp add: shows_balancers_def changes_balancers_def)
    from this [of "frontendRequest l b"] show ?thesis by (simp add: frontendRequest_def)
  qed
qed

lemma ensureBackend_again:
  "shows_balancers c view \<Longrightarrow> kept_only cp_backend (st_Backends (view (world s)) (lb_Zone l) (lb_ID l)) b \<Longrightarrow>
   stays (ensureBackend c l) b s"
  unfolding ensureBackend_def by (rule keep_or_create_again [OF lists_backends])

lemma ensureFrontend_again:
  "shows_balancers c view \<Longrightarrow> kept_only cp_frontend (st_Frontends (view (world s)) (lb_Zone l) (lb_ID l)) f \<Longrightarrow>
   stays (ensureFrontend c l b) f s"
  unfolding ensureFrontend_def by (rule keep_or_create_again [OF lists_frontends])

lemma stores_ACLs:
  assumes cloud: "shows_balancers c view"
  shows "stores view (ensureACLs c sdk f pnID)"
proof -
  have "act_keeps view (lb_ListACLs (cl_LoadBalancer c) z i n)" for z i n
    using cloud by (auto simp: shows_balancers_def lists_balancers_def answers_def act_keeps_iff split: prod.splits)
       (metis prod.collapse)
  moreover have "act_keeps view (lb_CreateACL (cl_LoadBalancer c) z i r)" "act_keeps view (lb_UpdateACL (cl_LoadBalancer c) z i r)"
    "act_keeps view (lb_DeleteACL (cl_LoadBalancer c) z i)" "act_keeps view (vpcgw_ListGateways (cl_PublicGateway c) q)" for z i r q
    using cloud by (simp_all add: shows_balancers_def changes_balancers_def)
  ultimately show ?thesis
    unfolding ensureACLs_def ensureGatewayACL_def ensureACL_def FindLoadBalancerACLByName_def FindGatewaysByPrivateNetworkID_def Let_def
    by (intro store_intros)
qed

definition acl_changes :: "call set" where
  "acl_changes = {CallCreateACL z f r |z f r. True} \<union> {CallUpdateACL z i r |z i r. True} \<union> {CallDeleteACL z i |z i. True}"

lemma emits_ACLs: "emits trace acl_changes (ensureACLs c sdk f pnID)"
proof -
  have acl: "emits trace acl_changes (ensureACL c sdk zone i n ips deny ix)" for zone i n ips deny ix
    by (rule emits_mono [OF lb_acl.keep_emits]) (auto simp: acl_calls_def acl_changes_def)
  show ?thesis
    unfolding ensureACLs_def ensureGatewayACL_def Let_def by (intro emit_intros acl)
qed

section \<open>Reconciling again\<close>

text \<open>What the first reconciliation leaves, and what the second finds.\<close>

definition balancer_settled :: "lb_state \<Rightarrow> ScalewayCluster \<Rightarrow> LB \<Rightarrow> string option \<Rightarrow> Backend \<Rightarrow> Frontend \<Rightarrow> bool" where
  "balancer_settled st sc l pnID b f \<longleftrightarrow> st_LB st (LoadBalancerZone sc) (Name sc) = Some l \<and> on_network st l pnID
   \<and> kept_only cp_backend (st_Backends st (lb_Zone l) (lb_ID l)) b
   \<and> kept_only cp_frontend (st_Frontends st (lb_Zone l) (lb_ID l)) f
   \<and> lb_Status l = LBStatusReady \<and> (if HasPrivateNetwork sc then \<exists>pn. PrivateNetworkID sc = Ok pn \<and> pnID = Some pn else pnID = None)
   \<and> endpoint_ip (lb_IP l) = Inr (ep_Host (spec_ControlPlaneEndpoint (sc_Spec sc)))
   \<and> ep_Port (spec_ControlPlaneEndpoint (sc_Spec sc)) = fe_InboundPort f"

lemma scope_of_endpoint:
  "Name (SetControlPlaneEndpoint h p sc) = Name sc" "LoadBalancerZone (SetControlPlaneEndpoint h p sc) = LoadBalancerZone sc"
  "HasPrivateNetwork (SetControlPlaneEndpoint h p sc) = HasPrivateNetwork sc"
  "PrivateNetworkID (SetControlPlaneEndpoint h p sc) = PrivateNetworkID sc"
  "spec_ControlPlaneEndpoint (sc_Spec (SetControlPlaneEndpoint h p sc)) = \<lparr>ep_Host = h, ep_Port = p\<rparr>"
  by (simp_all add: SetControlPlaneEndpoint_def Name_def LoadBalancerZone_def DefaultZone_def HasPrivateNetwork_def
      privateNetworkSpec_def PrivateNetworkID_def split: option.split list.split)

lemma SetControlPlaneEndpoint_same:
  "spec_ControlPlaneEndpoint (sc_Spec sc) = \<lparr>ep_Host = h, ep_Port = p\<rparr> \<Longrightarrow> SetControlPlaneEndpoint h p sc = sc"
  by (cases sc, cases "sc_Spec sc") (simp add: SetControlPlaneEndpoint_def)

lemma loadbalancer_Reconcile_settled:
  assumes cloud: "shows_balancers c view" and run: "loadbalancer_Reconcile c sdk s = (Ok (), t)"
  shows "\<exists>l pnID b f. balancer_settled (view (world t)) (scope_ScalewayCluster t) l pnID b f"
proof -
  let ?sc = "scope_ScalewayCluster s"
  from run obtain l u0 pn u1 u2 b u3 f u4 u5 host
    where l: "getOrCreateLB c (LoadBalancerZone ?sc) s = (Ok l, u0)" "lb_Status l = LBStatusReady"
    and pn: "(if HasPrivateNetwork ?sc then bind (lift_outcome (PrivateNetworkID ?sc)) (\<lambda>pn. ret (Some pn))
         else ret None) u0 = (Ok pn, u1)"
    and steps: "ensurePrivateNetwork c l pn u1 = (Ok (), u2)" "ensureBackend c l u2 = (Ok b, u3)"
      "ensureFrontend c l b u3 = (Ok f, u4)" "ensureACLs c sdk f pn u4 = (Ok (), u5)"
    and ip: "endpoint_ip (lb_IP l) = Inr host"
    and t: "t = u5\<lparr>scope_ScalewayCluster := SetControlPlaneEndpoint host (fe_InboundPort f) (scope_ScalewayCluster u5)\<rparr>"
    unfolding loadbalancer_Reconcile_def
    by (auto simp: bind_Ok pure_Ok wrapping_Ok lift_sum_Ok split: if_splits)
  have u1: "u1 = u0" and net: "if HasPrivateNetwork ?sc then \<exists>p. PrivateNetworkID ?sc = Ok p \<and> pn = Some p else pn = None"
    using pn by (auto simp: ok_iffs split: if_splits)
  then have sc: "scope_ScalewayCluster u5 = ?sc"
    using keeps_lb_steps [THEN keepsD] l(1) steps by (metis snd_conv)
  have same: "view (world u5) = view (world u4)" by (rule storesD [OF stores_ACLs [OF cloud] steps(4)])
  show ?thesis
    using getOrCreateLB_shown [OF cloud l(1)] ensurePrivateNetwork_shown [OF cloud steps(1)]
      ensureBackend_shown [OF cloud steps(2)] ensureFrontend_shown [OF cloud steps(3)] same net l(2) ip u1
    unfolding t balancer_settled_def scope_of_endpoint sc
    by (intro exI [where x = l] exI [where x = pn] exI [where x = b] exI [where x = f])
      (auto simp: scope_of_endpoint sc on_network_def split: option.splits if_splits)
qed

text \<open>A call that stays where it is can be passed over, unless it fails, and then nothing has happened.\<close>

lemma stays_then:
  "stays m x s \<Longrightarrow> bind m f s = (r, t) \<Longrightarrow> (\<exists>e. r = Err e) \<and> t = s \<or> f x s = (r, t)"
  by (auto simp: stays_def bind_def)

lemma loadbalancer_Reconcile_again:
  assumes cloud: "shows_balancers c view" and st: "balancer_settled (view (world s)) (scope_ScalewayCluster s) l pnID b f"
    and run: "loadbalancer_Reconcile c sdk s = (r, t)"
  shows "(\<exists>es. trace t = trace s @ es \<and> set es \<subseteq> acl_changes) \<and> view (world t) = view (world s)
    \<and> scope_ScalewayCluster t = scope_ScalewayCluster s \<and> r \<noteq> Panic"
proof -
  let ?sc = "scope_ScalewayCluster s"
  note st = st [unfolded balancer_settled_def]
  let ?last = "bind (wrapping ''failed to ensure LoadBalancer ACLs'' (ensureACLs c sdk f pnID)) (\<lambda>_.
       bind (lift_sum (endpoint_ip (lb_IP l))) (\<lambda>host.
       modify (\<lambda>s. s\<lparr>scope_ScalewayCluster :=
         SetControlPlaneEndpoint host (fe_InboundPort f) (scope_ScalewayCluster s)\<rparr>)))"
  have net: "stays (if HasPrivateNetwork ?sc then bind (lift_outcome (PrivateNetworkID ?sc)) (\<lambda>pn. ret (Some pn)) else ret None) pnID s"
    using st by (auto simp: stays_def bind_def lift_outcome_def ret_def split: if_splits)
  have "(\<exists>e. r = Err e) \<and> t = s \<or> ?last s = (r, t)"
    using run st unfolding loadbalancer_Reconcile_def bind_gets_run
    by (auto dest!: stays_then [OF getOrCreateLB_again [OF cloud]] stays_then [OF net] stays_then [OF ensurePrivateNetwork_again [OF cloud]]
        stays_then [OF stays_wrapping [OF ensureBackend_again [OF cloud]]] stays_then [OF stays_wrapping [OF ensureFrontend_again [OF cloud]]])
  then show ?thesis
  proof (elim disjE conjE)
    assume last: "?last s = (r, t)"
    obtain q u where acls: "ensureACLs c sdk f pnID s = (q, u)" by fastforce
    have u: "view (world u) = view (world s)" "scope_ScalewayCluster u = ?sc" "\<exists>es. trace u = trace s @ es \<and> set es \<subseteq> acl_changes"
      using storesD [OF stores_ACLs [OF cloud] acls] keepsD [OF keeps_lb_steps(5), of c sdk f pnID s] emits_grows [OF emits_ACLs acls] acls
      by auto
    moreover have "q \<noteq> Panic" using no_panic_lb_steps(5) acls unfolding no_panic_def by (metis fst_conv)
    moreover have "SetControlPlaneEndpoint host (fe_InboundPort f) ?sc = ?sc" if "endpoint_ip (lb_IP l) = Inr host" for host
      using st that by (intro SetControlPlaneEndpoint_same) simp
    ultimately show ?thesis
      using last st acls by (cases q) (auto simp: bind_def wrapping_def modify_def ret_def)
  qed auto
qed

text \<open>
  C25: the load balancer settles, but for its ACLs. Over a cloud that shows what was done, after a
  successful reconciliation another one, failed or not, leaves the load balancer, its networks,
  backends and frontends and the cluster object as they are, does not panic, and calls nothing but
  changes of ACLs.
\<close>

theorem loadbalancer_Reconcile_settles:
  assumes "shows_balancers c view" and "loadbalancer_Reconcile c sdk s = (Ok (), t)"
    and "loadbalancer_Reconcile c sdk t = (r, u)"
  shows "(\<exists>es. trace u = trace t @ es \<and> set es \<subseteq> acl_changes) \<and> view (world u) = view (world t)
    \<and> scope_ScalewayCluster u = scope_ScalewayCluster t \<and> r \<noteq> Panic"
  using loadbalancer_Reconcile_settled [OF assms(1,2)] loadbalancer_Reconcile_again [OF assms(1) _ assms(3)] by blast

text \<open>
  A cloud with one load balancer: the networks it is attached to, whether it has an old backend,
  and whether it has the backend and the frontend of the control plane.
\<close>

definition ex_backends :: "bool \<Rightarrow> bool \<Rightarrow> Backend list" where
  "ex_backends old b = (if old then [\<lparr>be_ID = ''b-0'', be_Name = ''old'', be_Pool = []\<rparr>] else [])
     @ (if b then [\<lparr>be_ID = ''b-1'', be_Name = ControlPlaneBackendName, be_Pool = []\<rparr>] else [])"

definition ex_frontends :: "bool \<Rightarrow> Frontend list" where
  "ex_frontends f = (if f then [\<lparr>fe_ID = ''f-1'', fe_Name = ControlPlaneFrontendName, fe_InboundPort = 6443\<rparr>] else [])"

definition ex_balancer :: "zone \<Rightarrow> string \<Rightarrow> LB" where
  "ex_balancer z n = \<lparr>lb_ID = ''lb-1'', lb_Name = n, lb_Zone = z, lb_Status = LBStatusReady,
     lb_IP = [\<lparr>lbip_ID = ''ip-1'', lbip_IPAddress = ''51.15.0.1''\<rparr>]\<rparr>"

type_synonym balancer_world = "string list \<times> bool \<times> bool \<times> bool"

fun ex_shown :: "balancer_world \<Rightarrow> lb_state" where
  "ex_shown (pns, old, b, f) = \<lparr>st_LB = (\<lambda>z n. Some (ex_balancer z n)), st_PNs = (\<lambda>z l. set pns),
     st_Backends = (\<lambda>z l. ex_backends old b), st_Frontends = (\<lambda>z l. ex_frontends f)\<rparr>"

definition ex_settling_lb :: "balancer_world lb_API" where
  "ex_settling_lb = down_lb\<lparr>
     lb_ListLBs := (\<lambda>z n w. (Inr [ex_balancer z n], w)),
     lb_ListLBPrivateNetworks := (\<lambda>z l (pns, w). (Inr pns, (pns, w))),
     lb_AttachPrivateNetwork := (\<lambda>z l p (pns, w). (Inr (), (p # pns, w))),
     lb_ListBackends := (\<lambda>z l n (pns, old, b, f). (Inr (ex_backends old b), (pns, old, b, f))),
     lb_DeleteBackend := (\<lambda>z i (pns, old, b, f). (Inr (), (pns, old \<and> i \<noteq> ''b-0'', b \<and> i \<noteq> ''b-1'', f))),
     lb_CreateBackend := (\<lambda>r (pns, old, b, f). if b \<or> cb_Name r \<noteq> ControlPlaneBackendName then (Inl ApiPreconditionFailed, (pns, old, b, f))
       else (Inr \<lparr>be_ID = ''b-1'', be_Name = ControlPlaneBackendName, be_Pool = []\<rparr>, (pns, old, True, f))),
     lb_ListFrontends := (\<lambda>z l n (pns, old, b, f). (Inr (ex_frontends f), (pns, old, b, f))),
     lb_CreateFrontend := (\<lambda>r (pns, old, b, f). if f \<or> cf_Name r \<noteq> ControlPlaneFrontendName then (Inl ApiPreconditionFailed, (pns, old, b, f))
       else (Inr \<lparr>fe_ID = ''f-1'', fe_Name = ControlPlaneFrontendName, fe_InboundPort = 6443\<rparr>, (pns, old, b, True))),
     lb_ListACLs := (\<lambda>z f n w. (Inr [], w)),
     lb_CreateACL := (\<lambda>z f r w. (Inr (), w))\<rparr>"

definition ex_settling_cloud :: "balancer_world Client" where
  "ex_settling_cloud = down_client\<lparr>cl_LoadBalancer := ex_settling_lb\<rparr>"

lemmas ex_settling = ex_settling_cloud_def ex_settling_lb_def ex_backends_def ex_frontends_def ex_balancer_def
  down_client_def down_lb_def down_vpcgw_def down_def

lemma ex_settling_shows: "shows_balancers ex_settling_cloud ex_shown"
proof -
  have "lists_balancers ex_settling_lb ex_shown"
    by (auto simp: lists_balancers_def answers_def ex_settling)
  moreover have "changes_balancers ex_settling_lb ex_shown"
    by (auto simp: changes_balancers_def does_def act_keeps_iff ex_settling split: if_splits)
  moreover have "act_keeps ex_shown (vpcgw_ListGateways (cl_PublicGateway ex_settling_cloud) q)" for q
    by (simp add: act_keeps_iff ex_settling)
  ultimately show ?thesis by (simp add: shows_balancers_def ex_settling_cloud_def)
qed

theorem loadbalancer_Reconcile_settles_witness:
  "let t = snd (loadbalancer_Reconcile ex_settling_cloud ex_sdk (ex_scope ex_lb_cluster ([], True, False, False)));
       u = snd (loadbalancer_Reconcile ex_settling_cloud ex_sdk t) in
   length (trace t) = 5 \<and> (\<exists>es. trace u = trace t @ es \<and> set es \<subseteq> acl_changes) \<and> ex_shown (world u) = ex_shown (world t)"
proof -
  let ?s = "ex_scope ex_lb_cluster ([], True, False, False)"
  obtain t where run: "loadbalancer_Reconcile ex_settling_cloud ex_sdk ?s = (Ok (), t)" and calls: "length (trace t) = 5"
    by (simp add: ex_lb_run ex_settling ex_endpoint_ip ControlPlaneFrontendName_def del: endpoint_ip.simps)
  obtain r u where again: "loadbalancer_Reconcile ex_settling_cloud ex_sdk t = (r, u)" by fastforce
  from loadbalancer_Reconcile_settles [OF ex_settling_shows run again] run calls again show ?thesis by (simp add: Let_def)
qed

end
