(* ===== verification/Manager.thy ===== *)
theory Manager
  imports Go_Prelude "HOL-Library.Sublist"
begin

text \<open>
  The start of the program (\<^verbatim>\<open>cmd/main.go\<close>): the scheme, the options of the manager, and the
  order in which controllers, webhooks and checks are set up before the manager starts. What
  controller-runtime does in each step is a parameter.
\<close>

section \<open>Options\<close>

text \<open>The values of the command line flags after \<^verbatim>\<open>flag.Parse\<close>, and their defaults.\<close>

record Flags =
  fl_metricsAddr :: string
  fl_probeAddr :: string
  fl_enableLeaderElection :: bool
  fl_secureMetrics :: bool
  fl_enableHTTP2 :: bool

definition defaultFlags :: Flags where
  "defaultFlags = \<lparr>fl_metricsAddr = '':8080'', fl_probeAddr = '':8081'', fl_enableLeaderElection = False,
     fl_secureMetrics = False, fl_enableHTTP2 = False\<rparr>"

record tls_Config =
  tls_NextProtos :: "string list"

definition disableHTTP2 :: "tls_Config \<Rightarrow> tls_Config" where
  "disableHTTP2 c = c\<lparr>tls_NextProtos := [''http/1.1'']\<rparr>"

definition tlsOpts :: "Flags \<Rightarrow> (tls_Config \<Rightarrow> tls_Config) list" where
  "tlsOpts flags = (if \<not> fl_enableHTTP2 flags then [disableHTTP2] else [])"

record 's ManagerOptions =
  mo_Scheme :: 's
  mo_MetricsBindAddress :: string
  mo_MetricsSecureServing :: bool
  mo_MetricsTLSOpts :: "(tls_Config \<Rightarrow> tls_Config) list"
  mo_WebhookTLSOpts :: "(tls_Config \<Rightarrow> tls_Config) list"
  mo_HealthProbeBindAddress :: string
  mo_LeaderElection :: bool
  mo_LeaderElectionID :: string

definition managerOptions :: "'s \<Rightarrow> Flags \<Rightarrow> 's ManagerOptions" where
  "managerOptions scheme flags = \<lparr>mo_Scheme = scheme, mo_MetricsBindAddress = fl_metricsAddr flags, mo_MetricsSecureServing = fl_secureMetrics flags,
     mo_MetricsTLSOpts = tlsOpts flags, mo_WebhookTLSOpts = tlsOpts flags, mo_HealthProbeBindAddress = fl_probeAddr flags,
     mo_LeaderElection = fl_enableLeaderElection flags, mo_LeaderElectionID = ''44a4366c.cluster.x-k8s.io''\<rparr>"

section \<open>Starting\<close>

text \<open>\<^verbatim>\<open>utilruntime.Must(...AddToScheme(scheme))\<close> for each API group: an error is a panic.\<close>

definition init_scheme :: "('s \<Rightarrow> go_error option \<times> 's) list \<Rightarrow> ('s, unit) go" where
  "init_scheme addToSchemes = for_each (\<lambda>add s. case add s of
       (None, s') \<Rightarrow> (Ok (), s')
     | (Some _, s') \<Rightarrow> (Panic, s')) addToSchemes"

datatype setup_step =
    SetupClusterController
  | SetupClusterWebhook
  | SetupMachineController
  | SetupMachineWebhook
  | AddHealthzCheck
  | AddReadyzCheck
  | Start

text \<open>
  What is used of controller-runtime: the configuration (\<^verbatim>\<open>GetConfigOrDie\<close> ends the program if there
  is none), the new manager, and each of the steps on it.
\<close>

record ('c, 's, 'm) manager_API =
  mg_GetConfig :: "go_error + 'c"
  mg_NewManager :: "'c \<Rightarrow> 's ManagerOptions \<Rightarrow> go_error + 'm"
  mg_step :: "setup_step \<Rightarrow> 'm \<Rightarrow> go_error option \<times> 'm"

record 'm boot =
  boot_mgr :: 'm
  boot_steps :: "setup_step list"

definition setup_with :: "('c, 's, 'm) manager_API \<Rightarrow> setup_step \<Rightarrow> ('m boot, unit) go" where
  "setup_with api st = (\<lambda>b. case mg_step api st (boot_mgr b) of (e, m) \<Rightarrow>
     (case e of None \<Rightarrow> Ok () | Some err \<Rightarrow> Err err, b\<lparr>boot_mgr := m, boot_steps := boot_steps b @ [st]\<rparr>))"

definition setup_manager :: "('c, 's, 'm) manager_API \<Rightarrow> (string \<Rightarrow> string) \<Rightarrow> ('m boot, unit) go" where
  "setup_manager api getenv =
     bind (setup_with api SetupClusterController) (\<lambda>_.
     bind (if getenv ''ENABLE_WEBHOOKS'' \<noteq> ''false'' then setup_with api SetupClusterWebhook else ret ()) (\<lambda>_.
     bind (setup_with api SetupMachineController) (\<lambda>_.
     bind (if getenv ''ENABLE_WEBHOOKS'' \<noteq> ''false'' then setup_with api SetupMachineWebhook else ret ()) (\<lambda>_.
     bind (setup_with api AddHealthzCheck) (\<lambda>_.
     bind (setup_with api AddReadyzCheck) (\<lambda>_.
     setup_with api Start))))))"

text \<open>
  The exit code of the program and the steps it made; every error of \<^verbatim>\<open>main\<close> ends in \<^verbatim>\<open>os.Exit(1)\<close>.
  \<^verbatim>\<open>init\<close> runs before \<^verbatim>\<open>main\<close>, and a panic there ends the program with code 2.
\<close>

definition main_run :: "('c, 's, 'm) manager_API \<Rightarrow> 's \<Rightarrow> Flags \<Rightarrow> (string \<Rightarrow> string) \<Rightarrow> int \<times> setup_step list" where
  "main_run api scheme flags getenv = (case mg_GetConfig api of
     Inl _ \<Rightarrow> (1, [])
   | Inr config \<Rightarrow> (case mg_NewManager api config (managerOptions scheme flags) of
       Inl _ \<Rightarrow> (1, [])
     | Inr mgr \<Rightarrow> (case setup_manager api getenv \<lparr>boot_mgr = mgr, boot_steps = []\<rparr> of
         (r, b) \<Rightarrow> (case r of Ok _ \<Rightarrow> 0 | Err _ \<Rightarrow> 1 | Panic \<Rightarrow> 2, boot_steps b))))"

definition program_run :: "('s \<Rightarrow> go_error option \<times> 's) list \<Rightarrow> ('c, 's, 'm) manager_API \<Rightarrow> 's \<Rightarrow> Flags \<Rightarrow> (string \<Rightarrow> string)
    \<Rightarrow> int \<times> setup_step list" where
  "program_run addToSchemes api newScheme flags getenv = (case init_scheme addToSchemes newScheme of
     (Ok _, scheme) \<Rightarrow> main_run api scheme flags getenv
   | (_, _) \<Rightarrow> (2, []))"

section \<open>The order of the steps\<close>

definition setup_plan :: "(string \<Rightarrow> string) \<Rightarrow> setup_step list" where
  "setup_plan getenv = (let webhooks = getenv ''ENABLE_WEBHOOKS'' \<noteq> ''false'' in
     [SetupClusterController] @ (if webhooks then [SetupClusterWebhook] else [])
   @ [SetupMachineController] @ (if webhooks then [SetupMachineWebhook] else [])
   @ [AddHealthzCheck, AddReadyzCheck, Start])"

text \<open>Every step of the plan is tried in turn, until one fails.\<close>

definition steps_along :: "('m boot, unit) go \<Rightarrow> setup_step list \<Rightarrow> bool" where
  "steps_along m plan \<longleftrightarrow> (\<forall>b. case m b of (r, b') \<Rightarrow> r \<noteq> Panic \<and>
     (\<exists>made. prefix made plan \<and> boot_steps b' = boot_steps b @ made \<and> (if made = plan then True else \<exists>e. r = Err e)))"

lemma steps_alongD:
  "steps_along m plan \<Longrightarrow> m b = (r, b') \<Longrightarrow> r \<noteq> Panic \<and>
     (\<exists>made. prefix made plan \<and> boot_steps b' = boot_steps b @ made \<and> (made = plan \<or> (\<exists>e. r = Err e)))"
  by (fastforce simp: steps_along_def dest!: spec [of _ b] split: if_splits)

lemma steps_along_setup: "steps_along (setup_with api st) [st]"
  by (auto simp: steps_along_def setup_with_def split: prod.split option.split)

lemma steps_along_if: "steps_along m p \<Longrightarrow> steps_along (if c then m else ret ()) (if c then p else [])"
  by (auto simp: steps_along_def ret_def)

lemma steps_along_bind:
  assumes m: "steps_along m p" and n: "steps_along n q"
  shows "steps_along (bind m (\<lambda>_. n)) (p @ q)"
  unfolding steps_along_def
proof
  fix b
  obtain r b1 where run: "m b = (r, b1)" by fastforce
  obtain made where made: "prefix made p" "boot_steps b1 = boot_steps b @ made" "made = p \<or> (\<exists>e. r = Err e)" "r \<noteq> Panic"
    using steps_alongD [OF m run] by blast
  show "case bind m (\<lambda>_. n) b of (r, b') \<Rightarrow> r \<noteq> Panic \<and> (\<exists>made. prefix made (p @ q) \<and> boot_steps b' = boot_steps b @ made
      \<and> (if made = p @ q then True else \<exists>e. r = Err e))"
  proof (cases r)
    case (Ok x)
    obtain r2 b2 where run2: "n b1 = (r2, b2)" by fastforce
    obtain made2 where "prefix made2 q" "boot_steps b2 = boot_steps b1 @ made2" "made2 = q \<or> (\<exists>e. r2 = Err e)" "r2 \<noteq> Panic"
      using steps_alongD [OF n run2] by blast
    with Ok run run2 made show ?thesis by (auto simp: bind_def intro!: exI [where x = "made @ made2"])
  next
    case (Err e)
    with run made show ?thesis by (auto simp: bind_def intro!: exI [where x = made])
  next
    case Panic
    with made show ?thesis by simp
  qed
qed

lemma setup_manager_steps: "steps_along (setup_manager api getenv) (setup_plan getenv)"
proof -
  have "steps_along (setup_manager api getenv) ([SetupClusterController]
    @ (if getenv ''ENABLE_WEBHOOKS'' \<noteq> ''false'' then [SetupClusterWebhook] else [])
    @ [SetupMachineController] @ (if getenv ''ENABLE_WEBHOOKS'' \<noteq> ''false'' then [SetupMachineWebhook] else [])
    @ [AddHealthzCheck] @ [AddReadyzCheck] @ [Start])"
    unfolding setup_manager_def by (intro steps_along_bind steps_along_setup steps_along_if)
  then show ?thesis by (simp add: setup_plan_def Let_def)
qed

lemma setup_plan_Start: "setup_plan getenv = butlast (setup_plan getenv) @ [Start]" "Start \<notin> set (butlast (setup_plan getenv))"
  by (simp_all add: setup_plan_def Let_def)

lemma prefix_with_Start: "prefix made (setup_plan getenv) \<Longrightarrow> Start \<in> set made \<Longrightarrow> made = setup_plan getenv"
  using setup_plan_Start [of getenv] prefix_snoc [of made "butlast (setup_plan getenv)" Start] set_mono_prefix by fastforce

lemma setup_manager_run:
  assumes run: "setup_manager api getenv \<lparr>boot_mgr = mgr, boot_steps = []\<rparr> = (r, b)"
  shows "r \<noteq> Panic" "prefix (boot_steps b) (setup_plan getenv)"
    "if Start \<in> set (boot_steps b) then boot_steps b = setup_plan getenv else \<exists>e. r = Err e"
proof -
  from steps_alongD [OF setup_manager_steps run]
  have made: "r \<noteq> Panic" "prefix (boot_steps b) (setup_plan getenv)" "boot_steps b = setup_plan getenv \<or> (\<exists>e. r = Err e)"
    by simp_all
  moreover have "Start \<in> set (setup_plan getenv)" by (simp add: setup_plan_def Let_def)
  ultimately show "r \<noteq> Panic" "prefix (boot_steps b) (setup_plan getenv)"
    "if Start \<in> set (boot_steps b) then boot_steps b = setup_plan getenv else \<exists>e. r = Err e"
    using prefix_with_Start [OF made(2)] by (simp_all, metis)
qed

lemma main_run_prefix:
  fixes api :: "('c, 's, 'm) manager_API"
  shows "case main_run api scheme flags getenv of (code, steps) \<Rightarrow> prefix steps (setup_plan getenv)
     \<and> (if Start \<in> set steps then steps = setup_plan getenv \<and> code \<in> {0, 1} else code = 1)"
proof (cases "mg_GetConfig api")
  case (Inr config)
  show ?thesis
  proof (cases "mg_NewManager api config (managerOptions scheme flags)")
    case mgr: (Inr mgr)
    obtain r b where run: "setup_manager api getenv \<lparr>boot_mgr = mgr, boot_steps = []\<rparr> = (r, b)" by fastforce
    from setup_manager_run [OF run] show ?thesis
      by (cases r) (simp_all add: main_run_def Inr mgr run split: if_splits)
  qed (simp add: main_run_def Inr)
qed (simp add: main_run_def)


end
