(* ===== verification/Registration.thy ===== *)
theory Registration
  imports Manager
begin

text \<open>
  The API group of the provider (\<^verbatim>\<open>api/v1beta1/groupversion_info.go\<close>), the registration of its kinds by
  the \<^verbatim>\<open>init\<close> functions of the type files, and the set-up of the controllers and webhooks for them
  (\<^verbatim>\<open>SetupWithManager\<close>, \<^verbatim>\<open>SetupWebhookWithManager\<close>), as the start of the program runs them. Schemes,
  scheme builders and the builders of controllers and webhooks are controller-runtime's and
  parameters.
\<close>

section \<open>The API group\<close>

record schema_GroupVersion =
  gv_Group :: string
  gv_Version :: string

definition GroupVersion :: schema_GroupVersion where
  "GroupVersion = \<lparr>gv_Group = ''infrastructure.cluster.x-k8s.io'', gv_Version = ''v1beta1''\<rparr>"

datatype api_kind =
    KindScalewayCluster
  | KindScalewayClusterList
  | KindScalewayClusterTemplate
  | KindScalewayClusterTemplateList
  | KindScalewayMachine
  | KindScalewayMachineList
  | KindScalewayMachineTemplate
  | KindScalewayMachineTemplateList

text \<open>
  What is used of controller-runtime: the builder of a scheme, and the builders that make a
  controller or a webhook for one kind of object (\<^verbatim>\<open>For(...).Complete(...)\<close>).
\<close>

record ('b, 's, 'm) runtime_API =
  rt_Builder :: "schema_GroupVersion \<Rightarrow> 'b"
  rt_Register :: "api_kind list \<Rightarrow> 'b \<Rightarrow> 'b"
  rt_AddToScheme :: "'b \<Rightarrow> 's \<Rightarrow> go_error option \<times> 's"
  rt_ControllerFor :: "api_kind \<Rightarrow> 'm \<Rightarrow> go_error option \<times> 'm"
  rt_WebhookFor :: "api_kind \<Rightarrow> 'm \<Rightarrow> go_error option \<times> 'm"

definition SchemeBuilder :: "('b, 's, 'm) runtime_API \<Rightarrow> 'b" where
  "SchemeBuilder rt = rt_Builder rt GroupVersion"

section \<open>Registration\<close>

definition init_scalewaycluster_types :: "('b, 's, 'm) runtime_API \<Rightarrow> 'b \<Rightarrow> 'b" where
  "init_scalewaycluster_types rt = rt_Register rt [KindScalewayCluster, KindScalewayClusterList]"

definition init_scalewayclustertemplate_types :: "('b, 's, 'm) runtime_API \<Rightarrow> 'b \<Rightarrow> 'b" where
  "init_scalewayclustertemplate_types rt = rt_Register rt [KindScalewayClusterTemplate, KindScalewayClusterTemplateList]"

definition init_scalewaymachine_types :: "('b, 's, 'm) runtime_API \<Rightarrow> 'b \<Rightarrow> 'b" where
  "init_scalewaymachine_types rt = rt_Register rt [KindScalewayMachine, KindScalewayMachineList]"

definition init_scalewaymachinetemplate_types :: "('b, 's, 'm) runtime_API \<Rightarrow> 'b \<Rightarrow> 'b" where
  "init_scalewaymachinetemplate_types rt = rt_Register rt [KindScalewayMachineTemplate, KindScalewayMachineTemplateList]"

text \<open>
  The package is initialised before \<^verbatim>\<open>main\<close>: its variables first, then the \<^verbatim>\<open>init\<close> functions in the
  order of their files. \<^verbatim>\<open>AddToScheme\<close> is a method value of the pointer \<^verbatim>\<open>SchemeBuilder\<close>, so that it
  sees what was registered after it was taken.
\<close>

definition registered :: "('b, 's, 'm) runtime_API \<Rightarrow> 'b" where
  "registered rt = init_scalewaymachinetemplate_types rt (init_scalewaymachine_types rt
     (init_scalewayclustertemplate_types rt (init_scalewaycluster_types rt (SchemeBuilder rt))))"

definition AddToScheme :: "('b, 's, 'm) runtime_API \<Rightarrow> 's \<Rightarrow> go_error option \<times> 's" where
  "AddToScheme rt = rt_AddToScheme rt (registered rt)"

section \<open>Controllers and webhooks\<close>

definition cluster_SetupWithManager :: "('b, 's, 'm) runtime_API \<Rightarrow> 'm \<Rightarrow> go_error option \<times> 'm" where
  "cluster_SetupWithManager rt mgr = rt_ControllerFor rt KindScalewayCluster mgr"

definition machine_SetupWithManager :: "('b, 's, 'm) runtime_API \<Rightarrow> 'm \<Rightarrow> go_error option \<times> 'm" where
  "machine_SetupWithManager rt mgr = rt_ControllerFor rt KindScalewayMachine mgr"

definition cluster_SetupWebhookWithManager :: "('b, 's, 'm) runtime_API \<Rightarrow> 'm \<Rightarrow> go_error option \<times> 'm" where
  "cluster_SetupWebhookWithManager rt mgr = rt_WebhookFor rt KindScalewayCluster mgr"

definition machine_SetupWebhookWithManager :: "('b, 's, 'm) runtime_API \<Rightarrow> 'm \<Rightarrow> go_error option \<times> 'm" where
  "machine_SetupWebhookWithManager rt mgr = rt_WebhookFor rt KindScalewayMachine mgr"

text \<open>The steps of \<^verbatim>\<open>main\<close>: these four, and the checks and the start, which stay parameters of the manager.\<close>

definition provider_step :: "('b, 's, 'm) runtime_API \<Rightarrow> ('c, 's, 'm) manager_API \<Rightarrow> setup_step \<Rightarrow> 'm \<Rightarrow> go_error option \<times> 'm" where
  "provider_step rt api st = (case st of
     SetupClusterController \<Rightarrow> cluster_SetupWithManager rt
   | SetupClusterWebhook \<Rightarrow> cluster_SetupWebhookWithManager rt
   | SetupMachineController \<Rightarrow> machine_SetupWithManager rt
   | SetupMachineWebhook \<Rightarrow> machine_SetupWebhookWithManager rt
   | _ \<Rightarrow> mg_step api st)"

text \<open>\<open>others\<close> are the API groups of client-go and of Cluster API, which are added before.\<close>

definition provider_run :: "('s \<Rightarrow> go_error option \<times> 's) list \<Rightarrow> ('b, 's, 'm) runtime_API \<Rightarrow> ('c, 's, 'm) manager_API \<Rightarrow> 's
    \<Rightarrow> Flags \<Rightarrow> (string \<Rightarrow> string) \<Rightarrow> int \<times> setup_step list" where
  "provider_run others rt api newScheme flags getenv =
     program_run (others @ [AddToScheme rt]) (api\<lparr>mg_step := provider_step rt api\<rparr>) newScheme flags getenv"

section \<open>What controller-runtime promises\<close>

text \<open>
  What can be seen of a builder, a scheme and a manager: the group and the kinds that a builder
  registers, the kinds that a scheme knows, the scheme of a manager.
\<close>

record ('b, 's, 'm) runtime_view =
  rv_group :: "'b \<Rightarrow> schema_GroupVersion"
  rv_kinds :: "'b \<Rightarrow> api_kind set"
  rv_known :: "'s \<Rightarrow> (schema_GroupVersion \<times> api_kind) set"
  rv_scheme :: "'m \<Rightarrow> 's"

text \<open>
  Adding a group to a scheme succeeds and loses no kind; a controller or a webhook is made for a
  kind that the scheme of the manager knows, which setting up leaves as it is.
\<close>

definition set_up :: "('b, 's, 'm) runtime_view \<Rightarrow> 'm \<Rightarrow> go_error option \<times> 'm \<Rightarrow> bool" where
  "set_up view m r \<longleftrightarrow> fst r = None \<and> rv_scheme view (snd r) = rv_scheme view m"

definition runtime_contract :: "('b, 's, 'm) runtime_view \<Rightarrow> ('s \<Rightarrow> go_error option \<times> 's) list \<Rightarrow> ('b, 's, 'm) runtime_API \<Rightarrow> bool" where
  "runtime_contract view others rt \<longleftrightarrow>
     (\<forall>gv. rv_group view (rt_Builder rt gv) = gv \<and> rv_kinds view (rt_Builder rt gv) = {})
   \<and> (\<forall>ks b. rv_group view (rt_Register rt ks b) = rv_group view b \<and> rv_kinds view (rt_Register rt ks b) = rv_kinds view b \<union> set ks)
   \<and> (\<forall>b s. fst (rt_AddToScheme rt b s) = None
        \<and> rv_known view (snd (rt_AddToScheme rt b s)) = rv_known view s \<union> {rv_group view b} \<times> rv_kinds view b)
   \<and> (\<forall>add \<in> set others. \<forall>s. fst (add s) = None)
   \<and> (\<forall>k m. (GroupVersion, k) \<in> rv_known view (rv_scheme view m) \<longrightarrow>
        set_up view m (rt_ControllerFor rt k m) \<and> set_up view m (rt_WebhookFor rt k m))"

text \<open>A configuration, a manager with the scheme it was given, checks that are accepted, and a start.\<close>

definition manager_contract :: "('b, 's, 'm) runtime_view \<Rightarrow> ('c, 's, 'm) manager_API \<Rightarrow> bool" where
  "manager_contract view api \<longleftrightarrow> (\<exists>config. mg_GetConfig api = Inr config
     \<and> (\<forall>options. \<exists>mgr. mg_NewManager api config options = Inr mgr \<and> rv_scheme view mgr = mo_Scheme options))
   \<and> (\<forall>st \<in> {AddHealthzCheck, AddReadyzCheck, Start}. \<forall>m. set_up view m (mg_step api st m))"

lemma registered_kinds:
  assumes "runtime_contract view others rt"
  shows "rv_group view (registered rt) = GroupVersion" "rv_kinds view (registered rt) = UNIV"
proof -
  show "rv_group view (registered rt) = GroupVersion"
    using assms by (simp add: runtime_contract_def registered_def SchemeBuilder_def init_scalewaycluster_types_def
        init_scalewayclustertemplate_types_def init_scalewaymachine_types_def init_scalewaymachinetemplate_types_def)
  have "k \<in> rv_kinds view (registered rt)" for k
    using assms by (cases k) (simp_all add: runtime_contract_def registered_def SchemeBuilder_def init_scalewaycluster_types_def
        init_scalewayclustertemplate_types_def init_scalewaymachine_types_def init_scalewaymachinetemplate_types_def)
  then show "rv_kinds view (registered rt) = UNIV" by blast
qed

lemma init_scheme_append:
  "init_scheme (xs @ ys) s = (case init_scheme xs s of (Ok _, t) \<Rightarrow> init_scheme ys t | (r, t) \<Rightarrow> (r, t))"
  by (induction xs arbitrary: s) (auto simp: init_scheme_def bind_def ret_def split: prod.splits outcome.splits option.splits)

lemma init_scheme_Ok:
  assumes "\<And>add s. add \<in> set adds \<Longrightarrow> fst (add s) = None"
  shows "fst (init_scheme adds s) = Ok ()"
  using assms
proof (induction adds arbitrary: s)
  case (Cons add adds)
  obtain t where "add s = (None, t)" using Cons.prems [of add s] by (cases "add s") simp
  with Cons show ?case by (simp add: init_scheme_def bind_def)
qed (simp add: init_scheme_def ret_def)

lemma scheme_knows_kinds:
  assumes "runtime_contract view others rt"
  shows "\<exists>scheme. init_scheme (others @ [AddToScheme rt]) newScheme = (Ok (), scheme) \<and> {GroupVersion} \<times> UNIV \<subseteq> rv_known view scheme"
proof -
  obtain s where "init_scheme others newScheme = (Ok (), s)"
    using init_scheme_Ok [of others newScheme] assms by (cases "init_scheme others newScheme") (auto simp: runtime_contract_def)
  moreover have "fst (rt_AddToScheme rt (registered rt) s) = None"
    "rv_known view (snd (rt_AddToScheme rt (registered rt) s)) = rv_known view s \<union> {GroupVersion} \<times> UNIV"
    using assms registered_kinds [OF assms] by (simp_all add: runtime_contract_def)
  ultimately show ?thesis
    by (cases "rt_AddToScheme rt (registered rt) s") (simp add: init_scheme_append AddToScheme_def, simp add: init_scheme_def bind_def ret_def)
qed

text \<open>Steps that succeed, in this order, on every manager whose scheme is \<open>scheme\<close>, and leave that as it is.\<close>

definition succeeds :: "('b, 's, 'm) runtime_view \<Rightarrow> 's \<Rightarrow> ('m boot, unit) go \<Rightarrow> setup_step list \<Rightarrow> bool" where
  "succeeds view scheme m steps \<longleftrightarrow> (\<forall>b. rv_scheme view (boot_mgr b) = scheme \<longrightarrow>
     (\<exists>b'. m b = (Ok (), b') \<and> rv_scheme view (boot_mgr b') = scheme \<and> boot_steps b' = boot_steps b @ steps))"

lemma succeeds_bind:
  fixes m n :: "('m boot, unit) go"
  assumes "succeeds view scheme m xs" "succeeds view scheme n ys"
  shows "succeeds view scheme (bind m (\<lambda>_. n)) (xs @ ys)"
  unfolding succeeds_def
proof (intro allI impI)
  fix b :: "'m boot"
  assume "rv_scheme view (boot_mgr b) = scheme"
  with assms(1) obtain u where "m b = (Ok (), u)" "rv_scheme view (boot_mgr u) = scheme" "boot_steps u = boot_steps b @ xs"
    unfolding succeeds_def by blast
  with assms(2) show "\<exists>b'. bind m (\<lambda>_. n) b = (Ok (), b') \<and> rv_scheme view (boot_mgr b') = scheme \<and> boot_steps b' = boot_steps b @ xs @ ys"
    unfolding succeeds_def by (auto simp: bind_def)
qed

lemma succeeds_if: "(c \<Longrightarrow> succeeds view scheme m xs) \<Longrightarrow> succeeds view scheme (if c then m else ret ()) (if c then xs else [])"
  by (simp add: succeeds_def ret_def)

lemma succeeds_step:
  fixes api :: "('c, 's, 'm) manager_API"
  assumes "\<And>m. rv_scheme view m = scheme \<Longrightarrow> set_up view m (mg_step api st m)"
  shows "succeeds view scheme (setup_with api st) [st]"
  unfolding succeeds_def
proof (intro allI impI)
  fix b :: "'m boot"
  assume "rv_scheme view (boot_mgr b) = scheme"
  with assms [of "boot_mgr b"] show "\<exists>b'. setup_with api st b = (Ok (), b') \<and> rv_scheme view (boot_mgr b') = scheme \<and> boot_steps b' = boot_steps b @ [st]"
    by (cases "mg_step api st (boot_mgr b)") (simp add: setup_with_def set_up_def)
qed

lemma setup_manager_succeeds:
  assumes "\<And>st m. rv_scheme view m = scheme \<Longrightarrow> set_up view m (mg_step api st m)"
  shows "succeeds view scheme (setup_manager api getenv) (setup_plan getenv)"
proof -
  have "succeeds view scheme (setup_manager api getenv) ([SetupClusterController]
    @ (if getenv ''ENABLE_WEBHOOKS'' \<noteq> ''false'' then [SetupClusterWebhook] else [])
    @ [SetupMachineController] @ (if getenv ''ENABLE_WEBHOOKS'' \<noteq> ''false'' then [SetupMachineWebhook] else [])
    @ [AddHealthzCheck] @ [AddReadyzCheck] @ [Start])"
    unfolding setup_manager_def by (intro succeeds_bind succeeds_step succeeds_if assms)
  then show ?thesis by (simp add: setup_plan_def Let_def)
qed

lemma provider_step_Ok:
  assumes "runtime_contract view others rt" "manager_contract view api" "{GroupVersion} \<times> UNIV \<subseteq> rv_known view (rv_scheme view m)"
  shows "set_up view m (provider_step rt api st m)"
proof -
  have "set_up view m (rt_ControllerFor rt k m)" "set_up view m (rt_WebhookFor rt k m)" for k
    using assms(1) assms(3) [THEN subsetD, of "(GroupVersion, k)"] unfolding runtime_contract_def by simp_all
  with assms(2) show ?thesis
    by (cases st) (auto simp: provider_step_def cluster_SetupWithManager_def machine_SetupWithManager_def
        cluster_SetupWebhookWithManager_def machine_SetupWebhookWithManager_def manager_contract_def)
qed

section \<open>Properties\<close>

text \<open>
  C38: the program comes up. If controller-runtime sets a controller or a webhook up for every kind
  that the scheme knows, and does all else it is asked for, then the program gets to the start of
  the manager through all its steps and ends with code 0: every kind that a controller or a
  webhook is set up for was registered, under the group of the provider, by the init functions, and
  their registrations are in the scheme that the manager is given.
\<close>

theorem provider_comes_up:
  assumes "runtime_contract view others rt" "manager_contract view api"
  shows "provider_run others rt api newScheme flags getenv = (0, setup_plan getenv)"
proof -
  obtain scheme where scheme: "init_scheme (others @ [AddToScheme rt]) newScheme = (Ok (), scheme)" "{GroupVersion} \<times> UNIV \<subseteq> rv_known view scheme"
    using scheme_knows_kinds [OF assms(1)] by blast
  obtain config mgr where mgr: "mg_GetConfig api = Inr config" "mg_NewManager api config (managerOptions scheme flags) = Inr mgr"
    "rv_scheme view mgr = scheme"
    using assms(2) unfolding manager_contract_def by (metis ManagerOptions.select_convs(1) managerOptions_def)
  have "succeeds view scheme (setup_manager (api\<lparr>mg_step := provider_step rt api\<rparr>) getenv) (setup_plan getenv)"
    using provider_step_Ok [OF assms] scheme(2) by (intro setup_manager_succeeds) simp
  with mgr scheme(1) show ?thesis
    unfolding succeeds_def provider_run_def program_run_def main_run_def by (fastforce dest: spec [of _ "\<lparr>boot_mgr = mgr, boot_steps = []\<rparr>"])
qed

text \<open>A controller-runtime whose builders and schemes are the sets of their kinds.\<close>

type_synonym ex_builder = "schema_GroupVersion \<times> api_kind list"
type_synonym ex_scheme = "(schema_GroupVersion \<times> api_kind) list"

definition ex_runtime :: "(ex_builder, ex_scheme, ex_scheme) runtime_API" where
  "ex_runtime = \<lparr>rt_Builder = (\<lambda>gv. (gv, [])), rt_Register = (\<lambda>ks b. (fst b, snd b @ ks)),
     rt_AddToScheme = (\<lambda>b s. (None, s @ map (Pair (fst b)) (snd b))),
     rt_ControllerFor = (\<lambda>k m. (if (GroupVersion, k) \<in> set m then None else Some (ErrNew ''no kind is registered''), m)),
     rt_WebhookFor = (\<lambda>k m. (if (GroupVersion, k) \<in> set m then None else Some (ErrNew ''no kind is registered''), m))\<rparr>"

definition ex_manager :: "(unit, ex_scheme, ex_scheme) manager_API" where
  "ex_manager = \<lparr>mg_GetConfig = Inr (), mg_NewManager = (\<lambda>_ options. Inr (mo_Scheme options)), mg_step = (\<lambda>_ m. (None, m))\<rparr>"

definition ex_view :: "(ex_builder, ex_scheme, ex_scheme) runtime_view" where
  "ex_view = \<lparr>rv_group = fst, rv_kinds = (\<lambda>b. set (snd b)), rv_known = set, rv_scheme = id\<rparr>"

theorem provider_comes_up_witness:
  "provider_run [\<lambda>s. (None, s)] ex_runtime ex_manager [] defaultFlags (\<lambda>_. [])
    = (0, [SetupClusterController, SetupClusterWebhook, SetupMachineController, SetupMachineWebhook, AddHealthzCheck, AddReadyzCheck, Start])"
proof -
  have "runtime_contract ex_view [\<lambda>s. (None, s)] ex_runtime"
    by (auto simp: runtime_contract_def ex_view_def ex_runtime_def set_up_def)
  moreover have "manager_contract ex_view ex_manager"
    by (auto simp: manager_contract_def ex_view_def ex_manager_def set_up_def)
  ultimately have "provider_run [\<lambda>s. (None, s)] ex_runtime ex_manager [] defaultFlags (\<lambda>_. []) = (0, setup_plan (\<lambda>_. []))"
    by (rule provider_comes_up)
  then show ?thesis by (simp add: setup_plan_def)
qed

end
