(* ===== verification/Go_Memory.thy ===== *)
theory Go_Memory
  imports Go_Prelude
begin

text \<open>
  Memory with explicit addresses, for the code whose purpose is that two objects share none: the
  generated deep copies. A cell holds a value of one Go type; a pointer is an address or nil; a
  slice is an array with an offset and a length; a map is a reference to its entries. The interface
  \<open>deep_copy\<close> says what a copying function promises: its result reads as the same value in the memory
  that was allocated by the call alone. Pointers and slices to what can be copied can be copied.
\<close>

section \<open>Cells, pointers and slices\<close>

type_synonym addr = nat
type_synonym 'c mem = "addr \<rightharpoonup> 'c"

record 'c heap =
  hp_mem :: "'c mem"
  hp_next :: addr

record slice =
  sl_array :: addr
  sl_off :: nat
  sl_len :: nat

text \<open>How the values of one Go type are held by a cell.\<close>

record ('c, 'v) kind =
  kd_cell :: "'v \<Rightarrow> 'c"
  kd_value :: "'c \<Rightarrow> 'v option"

definition kind_ok :: "('c, 'v) kind \<Rightarrow> bool" where
  "kind_ok k \<longleftrightarrow> (\<forall>v. kd_value k (kd_cell k v) = Some v)"

definition load :: "('c, 'v) kind \<Rightarrow> addr \<Rightarrow> ('c heap, 'v) go" where
  "load k a = (\<lambda>h. case Option.bind (hp_mem h a) (kd_value k) of Some v \<Rightarrow> (Ok v, h) | None \<Rightarrow> (Panic, h))"

definition alloc :: "'c \<Rightarrow> ('c heap, addr) go" where
  "alloc c = (\<lambda>h. (Ok (hp_next h), h\<lparr>hp_mem := (hp_mem h)(hp_next h \<mapsto> c), hp_next := Suc (hp_next h)\<rparr>))"

fun map_go :: "('a \<Rightarrow> ('s, 'b) go) \<Rightarrow> 'a list \<Rightarrow> ('s, 'b list) go" where
  "map_go f [] = ret []"
| "map_go f (x # xs) = bind (f x) (\<lambda>y. bind (map_go f xs) (\<lambda>ys. ret (y # ys)))"

text \<open>
  \<^verbatim>\<open>if in.X != nil { in, out := &in.X, &out.X; *out = new(T); (*in).DeepCopyInto(*out) }\<close>, and with \<open>ret\<close>
  for \<^verbatim>\<open>**out = **in\<close>. The new cell is filled in once its value is known: nothing reads it before.
\<close>

definition copy_pointer :: "('c, 'v) kind \<Rightarrow> ('v \<Rightarrow> ('c heap, 'v) go) \<Rightarrow> addr option \<Rightarrow> ('c heap, addr option) go" where
  "copy_pointer k into p = (case p of
     None \<Rightarrow> ret None
   | Some a \<Rightarrow> bind (load k a) (\<lambda>v. bind (into v) (\<lambda>v'. bind (alloc (kd_cell k v')) (\<lambda>b. ret (Some b)))))"

text \<open>
  \<^verbatim>\<open>if in.X != nil { ...; *out = make([]T, len(*in)); for i := range *in { (*in)[i].DeepCopyInto(&(*out)[i]) } }\<close>,
  and with \<open>ret\<close> for \<^verbatim>\<open>copy(*out, *in)\<close>.
\<close>

definition elements :: "slice \<Rightarrow> 'v list \<Rightarrow> 'v list option" where
  "elements s xs = (if sl_off s + sl_len s \<le> length xs then Some (take (sl_len s) (drop (sl_off s) xs)) else None)"

definition copy_slice :: "('c, 'v list) kind \<Rightarrow> ('v \<Rightarrow> ('c heap, 'v) go) \<Rightarrow> slice option \<Rightarrow> ('c heap, slice option) go" where
  "copy_slice k into s = (case s of
     None \<Rightarrow> ret None
   | Some s \<Rightarrow> bind (load k (sl_array s)) (\<lambda>xs. bind (deref (elements s xs)) (\<lambda>xs.
       bind (map_go into xs) (\<lambda>ys. bind (alloc (kd_cell k ys)) (\<lambda>b.
       ret (Some \<lparr>sl_array = b, sl_off = 0, sl_len = length ys\<rparr>))))))"

section \<open>What a piece of memory stands for\<close>

text \<open>
  The value behind a pointer or a slice, given how the values in the cells are read; there is none
  if an address is dangling or holds a value of another type. A nil slice is the empty list.
\<close>

definition read_pointer :: "('c, 'v) kind \<Rightarrow> ('c mem \<Rightarrow> 'v \<Rightarrow> 'a option) \<Rightarrow> 'c mem \<Rightarrow> addr option \<Rightarrow> 'a option option" where
  "read_pointer k rd m p = (case p of
     None \<Rightarrow> Some None
   | Some a \<Rightarrow> Option.bind (Option.bind (m a) (kd_value k)) (\<lambda>v. map_option Some (rd m v)))"

definition read_slice :: "('c, 'v list) kind \<Rightarrow> ('c mem \<Rightarrow> 'v \<Rightarrow> 'a option) \<Rightarrow> 'c mem \<Rightarrow> slice option \<Rightarrow> 'a list option" where
  "read_slice k rd m s = (case s of
     None \<Rightarrow> Some []
   | Some s \<Rightarrow> Option.bind (Option.bind (m (sl_array s)) (kd_value k)) (\<lambda>xs.
       Option.bind (elements s xs) (\<lambda>xs. those (map (rd m) xs))))"

text \<open>A value without pointers stands for itself.\<close>

definition plain :: "'c mem \<Rightarrow> 'v \<Rightarrow> 'v option" where
  "plain m v = Some v"

section \<open>The contract of a copy\<close>

definition heap_wf :: "'c heap \<Rightarrow> bool" where
  "heap_wf h \<longleftrightarrow> dom (hp_mem h) \<subseteq> {..<hp_next h}"

text \<open>The call returned a value, changed no cell that was there, and the value satisfies \<open>P\<close> in the
  memory that is new.\<close>

definition yields :: "'c heap \<Rightarrow> ('c heap, 'v) go \<Rightarrow> ('c mem \<Rightarrow> 'v \<Rightarrow> bool) \<Rightarrow> bool" where
  "yields h c P \<longleftrightarrow> (\<exists>v h' new. c h = (Ok v, h') \<and> hp_mem h' = hp_mem h ++ new \<and> hp_next h \<le> hp_next h'
     \<and> dom new \<subseteq> {hp_next h..<hp_next h'} \<and> P new v)"

definition reads :: "('c mem \<Rightarrow> 'v \<Rightarrow> 'a option) \<Rightarrow> bool" where
  "reads rd \<longleftrightarrow> (\<forall>m m' v a. m \<subseteq>\<^sub>m m' \<longrightarrow> rd m v = Some a \<longrightarrow> rd m' v = Some a)"

locale deep_copy =
  fixes copy :: "'v \<Rightarrow> ('c heap, 'v) go" and rd :: "'c mem \<Rightarrow> 'v \<Rightarrow> 'a option"
  assumes reads_rd: "reads rd"
    and copy_yields: "heap_wf h \<Longrightarrow> rd (hp_mem h) v = Some a \<Longrightarrow> yields h (copy v) (\<lambda>new v'. rd new v' = Some a)"
begin

text \<open>
  The original and the copy are independent: the original reads as before in every memory that
  has the old cells, the copy in every memory that has the new ones.
\<close>

lemma copy_independent:
  assumes wf: "heap_wf h" and rd: "rd (hp_mem h) v = Some a"
  obtains v' h' where "copy v h = (Ok v', h')" "heap_wf h'" "hp_next h \<le> hp_next h'"
    "\<And>m. (\<forall>x < hp_next h. m x = hp_mem h' x) \<Longrightarrow> rd m v = Some a"
    "\<And>m. (\<forall>x \<ge> hp_next h. m x = hp_mem h' x) \<Longrightarrow> rd m v' = Some a"
proof -
  from copy_yields [OF assms] obtain v' h' new where run: "copy v h = (Ok v', h')"
    "hp_mem h' = hp_mem h ++ new" "hp_next h \<le> hp_next h'" "dom new \<subseteq> {hp_next h..<hp_next h'}" "rd new v' = Some a"
    unfolding yields_def by blast
  have "hp_mem h \<subseteq>\<^sub>m m" if "\<forall>x < hp_next h. m x = hp_mem h' x" for m
    using that wf run(2,4) by (fastforce simp: map_le_def heap_wf_def map_add_def subset_iff split: option.split)
  moreover have "new \<subseteq>\<^sub>m m" if "\<forall>x \<ge> hp_next h. m x = hp_mem h' x" for m
    using that run(2,4) by (fastforce simp: map_le_def subset_iff)
  moreover have "heap_wf h'"
    using wf run(2,3,4) by (fastforce simp: heap_wf_def subset_iff)
  ultimately show thesis
    using reads_rd rd run that [of v' h'] unfolding reads_def by blast
qed

end

subsection \<open>Rules for runs\<close>

lemma readsD: "reads rd \<Longrightarrow> m \<subseteq>\<^sub>m m' \<Longrightarrow> rd m v = Some a \<Longrightarrow> rd m' v = Some a"
  unfolding reads_def by blast

lemma yields_ret: "P Map.empty v \<Longrightarrow> yields h (ret v) P"
  by (auto simp: yields_def ret_def)

lemma yields_mono: "yields h c P \<Longrightarrow> (\<And>new v. P new v \<Longrightarrow> Q new v) \<Longrightarrow> yields h c Q"
  unfolding yields_def by blast

lemma yields_bind:
  assumes wf: "heap_wf h" and c: "yields h c P"
    and f: "\<And>v h1 new. heap_wf h1 \<Longrightarrow> hp_mem h \<subseteq>\<^sub>m hp_mem h1 \<Longrightarrow> P new v \<Longrightarrow>
      yields h1 (f v) (\<lambda>new1 w. \<forall>m. new \<subseteq>\<^sub>m m \<longrightarrow> new1 \<subseteq>\<^sub>m m \<longrightarrow> Q m w)"
  shows "yields h (bind c f) Q"
proof -
  from c obtain v h1 new where run: "c h = (Ok v, h1)" "hp_mem h1 = hp_mem h ++ new" "hp_next h \<le> hp_next h1"
    "dom new \<subseteq> {hp_next h..<hp_next h1}" "P new v"
    unfolding yields_def by blast
  have "heap_wf h1" using wf run by (fastforce simp: heap_wf_def subset_iff)
  moreover have "hp_mem h \<subseteq>\<^sub>m hp_mem h1"
    using wf run(2,4) by (fastforce simp: map_le_def heap_wf_def map_add_def subset_iff split: option.split)
  ultimately obtain w h2 new1 where run1: "f v h1 = (Ok w, h2)" "hp_mem h2 = hp_mem h1 ++ new1" "hp_next h1 \<le> hp_next h2"
    "dom new1 \<subseteq> {hp_next h1..<hp_next h2}" "\<forall>m. new \<subseteq>\<^sub>m m \<longrightarrow> new1 \<subseteq>\<^sub>m m \<longrightarrow> Q m w"
    using f run(5) unfolding yields_def by blast
  have "dom new \<inter> dom new1 = {}" using run(4) run1(4) by fastforce
  then have "new \<subseteq>\<^sub>m new ++ new1" "new1 \<subseteq>\<^sub>m new ++ new1"
    by (metis map_add_comm map_le_map_add)+
  moreover have "dom (new ++ new1) \<subseteq> {hp_next h..<hp_next h2}" using run(3,4) run1(3,4) by fastforce
  ultimately show ?thesis
    using run run1 unfolding yields_def bind_def by (auto intro!: exI [where x = "new ++ new1"])
qed

lemma yields_alloc: "yields h (alloc c) (\<lambda>new a. new a = Some c)"
  by (auto simp: yields_def alloc_def split: if_splits intro!: exI [where x = "[hp_next h \<mapsto> c]"])

lemma yields_load: "Option.bind (hp_mem h a) (kd_value k) = Some v \<Longrightarrow> yields h (f v) P \<Longrightarrow> yields h (bind (load k a) f) P"
  by (simp add: yields_def load_def bind_def)

lemma map_leD: "m \<subseteq>\<^sub>m m' \<Longrightarrow> m a = Some c \<Longrightarrow> m' a = Some c"
  by (metis domI map_le_def)

lemma yields_store:
  assumes "heap_wf h" "yields h c P" "\<And>m m' v. m \<subseteq>\<^sub>m m' \<Longrightarrow> P m v \<Longrightarrow> P m' v"
  shows "yields h (bind c (\<lambda>v. bind (alloc (cell v)) (\<lambda>b. ret (f b v)))) (\<lambda>new w. \<exists>b v. new b = Some (cell v) \<and> P new v \<and> w = f b v)"
  by (rule yields_bind [OF assms(1,2)], rule yields_bind, assumption, rule yields_alloc, rule yields_ret)
    (use assms(3) in \<open>blast dest: map_le_trans map_leD\<close>)

lemma reads_those: "reads rd \<Longrightarrow> m \<subseteq>\<^sub>m m' \<Longrightarrow> those (map (rd m) xs) = Some as \<Longrightarrow> those (map (rd m') xs) = Some as"
  by (induction xs arbitrary: as) (auto simp: split: option.splits dest: readsD)

context deep_copy
begin

lemma yields_map_go:
  assumes "heap_wf h" and "those (map (rd (hp_mem h)) xs) = Some as"
  shows "yields h (map_go copy xs) (\<lambda>new ys. those (map (rd new) ys) = Some as \<and> length ys = length xs)"
  using assms
proof (induction xs arbitrary: h as)
  case (Cons x xs)
  then obtain b bs where b: "rd (hp_mem h) x = Some b" "those (map (rd (hp_mem h)) xs) = Some bs" "as = b # bs"
    by (auto split: option.splits)
  show ?case
    unfolding map_go.simps
  proof (rule yields_bind [OF Cons.prems(1) copy_yields [OF Cons.prems(1) b(1)]])
    fix v h1 new
    assume h1: "heap_wf h1" "hp_mem h \<subseteq>\<^sub>m hp_mem h1" and v: "rd new v = Some b"
    from Cons.IH [OF h1(1) reads_those [OF reads_rd h1(2) b(2)]]
    show "yields h1 (bind (map_go copy xs) (\<lambda>ys. ret (v # ys)))
      (\<lambda>new1 w. \<forall>m. new \<subseteq>\<^sub>m m \<longrightarrow> new1 \<subseteq>\<^sub>m m \<longrightarrow> those (map (rd m) w) = Some as \<and> length w = length (x # xs))"
      by (rule yields_bind [OF h1(1)]) (auto intro!: yields_ret simp: b(3) readsD [OF reads_rd _ v] dest: reads_those [OF reads_rd])
  qed
qed (auto intro!: yields_ret)

lemma deep_copy_pointer:
  assumes k: "kind_ok k"
  shows "deep_copy (copy_pointer k copy) (read_pointer k rd)"
proof
  show "reads (read_pointer k rd)"
    using readsD [OF reads_rd]
    by (fastforce simp: reads_def read_pointer_def map_le_def bind_eq_Some_conv dom_def split: option.splits)
next
  fix h p a
  assume wf: "heap_wf h" and rd: "read_pointer k rd (hp_mem h) p = Some a"
  show "yields h (copy_pointer k copy p) (\<lambda>new p'. read_pointer k rd new p' = Some a)"
  proof (cases p)
    case None
    with rd show ?thesis by (auto simp: copy_pointer_def read_pointer_def intro: yields_ret)
  next
    case (Some x)
    with rd obtain v b where v: "Option.bind (hp_mem h x) (kd_value k) = Some v" "rd (hp_mem h) v = Some b" "a = Some b"
      by (auto simp: read_pointer_def bind_eq_Some_conv)
    from yields_store [OF wf copy_yields [OF wf v(2)] readsD [OF reads_rd], where cell = "kd_cell k" and f = "\<lambda>b v. Some b"]
    show ?thesis
      unfolding Some copy_pointer_def option.case
      by (rule yields_load [OF v(1) yields_mono]) (use k in \<open>auto simp: read_pointer_def kind_ok_def v(3)\<close>)
  qed
qed

lemma deep_copy_slice:
  assumes k: "kind_ok k"
  shows "deep_copy (copy_slice k copy) (read_slice k rd)"
proof
  show "reads (read_slice k rd)"
    using reads_those [OF reads_rd]
    by (fastforce simp: reads_def read_slice_def map_le_def bind_eq_Some_conv dom_def split: option.splits)
next
  fix h s a
  assume wf: "heap_wf h" and rd: "read_slice k rd (hp_mem h) s = Some a"
  show "yields h (copy_slice k copy s) (\<lambda>new s'. read_slice k rd new s' = Some a)"
  proof (cases s)
    case None
    with rd show ?thesis by (auto simp: copy_slice_def read_slice_def intro: yields_ret)
  next
    case (Some x)
    with rd obtain vs xs where v: "Option.bind (hp_mem h (sl_array x)) (kd_value k) = Some vs" "elements x vs = Some xs"
      "those (map (rd (hp_mem h)) xs) = Some a"
      by (auto simp: read_slice_def bind_eq_Some_conv)
    show ?thesis
      unfolding Some copy_slice_def option.case
    proof (rule yields_load [OF v(1)], unfold v(2) deref_simps bind_ret,
        rule yields_mono [OF yields_store [OF wf yields_map_go [OF wf v(3)], where cell = "kd_cell k"]])
      show "read_slice k rd new w = Some a" if "\<exists>b ys. new b = Some (kd_cell k ys) \<and> (those (map (rd new) ys) = Some a \<and> length ys = length xs)
          \<and> w = Some \<lparr>sl_array = b, sl_off = 0, sl_len = length ys\<rparr>" for new w
        using that k by (auto simp: read_slice_def kind_ok_def elements_def)
    qed (auto dest: reads_those [OF reads_rd])
  qed
qed

lemma deep_copy_list: "deep_copy (map_go copy) (\<lambda>m xs. map_option g (those (map (rd m) xs)))"
proof
  show "reads (\<lambda>m xs. map_option g (those (map (rd m) xs)))"
    by (auto simp: reads_def dest: reads_those [OF reads_rd])
next
  fix h xs a
  assume wf: "heap_wf h" and "map_option g (those (map (rd (hp_mem h)) xs)) = Some a"
  then obtain as where "those (map (rd (hp_mem h)) xs) = Some as" "a = g as" by auto
  with yields_map_go [OF wf this(1)]
  show "yields h (map_go copy xs) (\<lambda>new ys. map_option g (those (map (rd new) ys)) = Some a)"
    by (auto elim: yields_mono)
qed

end

subsection \<open>Values without pointers, and structs\<close>

text \<open>A struct is copied field by field; \<open>m0\<close> is a part of the memory in which the original can be read.\<close>

definition yields_all :: "'c heap \<Rightarrow> ('c heap, 'v) go \<Rightarrow> ('c mem \<Rightarrow> 'v \<Rightarrow> bool) \<Rightarrow> bool" where
  "yields_all h c Q = yields h c (\<lambda>new v. \<forall>m. new \<subseteq>\<^sub>m m \<longrightarrow> Q m v)"

lemma struct_field:
  assumes "deep_copy copy rd" and wf: "heap_wf h" and h: "m0 \<subseteq>\<^sub>m hp_mem h" and v: "rd m0 v = Some a"
    and f: "\<And>v' h1. heap_wf h1 \<Longrightarrow> m0 \<subseteq>\<^sub>m hp_mem h1 \<Longrightarrow> yields_all h1 (f v') (\<lambda>m w. rd m v' = Some a \<longrightarrow> Q m w)"
  shows "yields_all h (bind (copy v) f) Q"
  unfolding yields_all_def
proof (rule yields_bind [OF wf deep_copy.copy_yields [OF assms(1) wf]])
  show "rd (hp_mem h) v = Some a"
    using deep_copy.reads_rd [OF assms(1)] h v by (rule readsD)
next
  fix v' h1 new
  assume h1: "heap_wf h1" "hp_mem h \<subseteq>\<^sub>m hp_mem h1" and v': "rd new v' = Some a"
  show "yields h1 (f v') (\<lambda>new1 w. \<forall>m. new \<subseteq>\<^sub>m m \<longrightarrow> new1 \<subseteq>\<^sub>m m \<longrightarrow> (\<forall>ma. m \<subseteq>\<^sub>m ma \<longrightarrow> Q ma w))"
    using f [OF h1(1) map_le_trans [OF h h1(2)], of v'] unfolding yields_all_def
    by (rule yields_mono) (use readsD [OF deep_copy.reads_rd [OF assms(1)] _ v'] in \<open>blast dest: map_le_trans\<close>)
qed

lemma struct_ret: "(\<And>m. Q m w) \<Longrightarrow> yields_all h (ret w) Q"
  by (simp add: yields_all_def yields_ret)

lemma deep_copyI:
  assumes "reads rd"
    and "\<And>h v a m0. heap_wf h \<Longrightarrow> m0 \<subseteq>\<^sub>m hp_mem h \<Longrightarrow> rd m0 v = Some a \<Longrightarrow> yields_all h (copy v) (\<lambda>m v'. rd m v' = Some a)"
  shows "deep_copy copy rd"
proof
  show "yields h (copy v) (\<lambda>new v'. rd new v' = Some a)" if "heap_wf h" "rd (hp_mem h) v = Some a" for h v a
    using assms(2) [OF that(1) map_le_refl that(2)] unfolding yields_all_def by (rule yields_mono) simp
qed (rule assms(1))

lemma deep_copy_plain: "deep_copy ret plain"
  by (rule deep_copyI) (auto simp: reads_def plain_def intro: struct_ret)

lemma reads_bind: "deep_copy c r1 \<Longrightarrow> (\<And>x. reads (\<lambda>m v. r2 m v x)) \<Longrightarrow> reads (\<lambda>m v. Option.bind (r1 m (f v)) (r2 m v))"
  using deep_copy.reads_rd [of c r1] by (auto simp: reads_def bind_eq_Some_conv)

lemma reads_Some: "reads (\<lambda>m v. Some (g v))"
  by (simp add: reads_def)

text \<open>Structs with five fields that are copied, and with fewer: absent fields hold nothing.\<close>

lemma deep_copy_struct5:
  assumes c: "deep_copy c1 r1" "deep_copy c2 r2" "deep_copy c3 r3" "deep_copy c4 r4" "deep_copy c5 r5"
    and copy: "\<And>v. copy v = bind (c1 (f1 v)) (\<lambda>x1. bind (c2 (f2 v)) (\<lambda>x2. bind (c3 (f3 v)) (\<lambda>x3.
      bind (c4 (f4 v)) (\<lambda>x4. bind (c5 (f5 v)) (\<lambda>x5. ret (put v x1 x2 x3 x4 x5))))))"
    and rd: "\<And>m v. rd m v = Option.bind (r1 m (f1 v)) (\<lambda>a1. Option.bind (r2 m (f2 v)) (\<lambda>a2. Option.bind (r3 m (f3 v)) (\<lambda>a3.
      Option.bind (r4 m (f4 v)) (\<lambda>a4. Option.bind (r5 m (f5 v)) (\<lambda>a5. Some (value_of v a1 a2 a3 a4 a5))))))"
    and put: "\<And>v x1 x2 x3 x4 x5. f1 (put v x1 x2 x3 x4 x5) = x1 \<and> f2 (put v x1 x2 x3 x4 x5) = x2 \<and> f3 (put v x1 x2 x3 x4 x5) = x3
      \<and> f4 (put v x1 x2 x3 x4 x5) = x4 \<and> f5 (put v x1 x2 x3 x4 x5) = x5 \<and> value_of (put v x1 x2 x3 x4 x5) = value_of v"
  shows "deep_copy copy rd"
proof (rule deep_copyI)
  show "reads rd"
    unfolding rd [abs_def] by (rule reads_bind [OF c(1)] reads_bind [OF c(2)] reads_bind [OF c(3)] reads_bind [OF c(4)] reads_bind [OF c(5)] reads_Some)+
next
  fix h v a m0
  assume h: "heap_wf h" "m0 \<subseteq>\<^sub>m hp_mem h" and "rd m0 v = Some a"
  then obtain a1 a2 a3 a4 a5 where a: "r1 m0 (f1 v) = Some a1" "r2 m0 (f2 v) = Some a2" "r3 m0 (f3 v) = Some a3"
    "r4 m0 (f4 v) = Some a4" "r5 m0 (f5 v) = Some a5" "a = value_of v a1 a2 a3 a4 a5"
    by (auto simp: rd bind_eq_Some_conv)
  show "yields_all h (copy v) (\<lambda>m v'. rd m v' = Some a)"
    unfolding copy
    by (rule struct_field [OF c(1) h a(1)], rule struct_field [OF c(2) _ _ a(2)], assumption, assumption,
        rule struct_field [OF c(3) _ _ a(3)], assumption, assumption, rule struct_field [OF c(4) _ _ a(4)], assumption, assumption,
        rule struct_field [OF c(5) _ _ a(5)], assumption, assumption, rule struct_ret) (simp add: rd put a(6))
qed

lemma deep_copy_struct4:
  assumes "deep_copy c1 r1" "deep_copy c2 r2" "deep_copy c3 r3" "deep_copy c4 r4"
    and "\<And>v. copy v = bind (c1 (f1 v)) (\<lambda>x1. bind (c2 (f2 v)) (\<lambda>x2. bind (c3 (f3 v)) (\<lambda>x3. bind (c4 (f4 v)) (\<lambda>x4. ret (put v x1 x2 x3 x4)))))"
    and "\<And>m v. rd m v = Option.bind (r1 m (f1 v)) (\<lambda>a1. Option.bind (r2 m (f2 v)) (\<lambda>a2. Option.bind (r3 m (f3 v)) (\<lambda>a3.
      Option.bind (r4 m (f4 v)) (\<lambda>a4. Some (value_of v a1 a2 a3 a4)))))"
    and "\<And>v x1 x2 x3 x4. f1 (put v x1 x2 x3 x4) = x1 \<and> f2 (put v x1 x2 x3 x4) = x2 \<and> f3 (put v x1 x2 x3 x4) = x3
      \<and> f4 (put v x1 x2 x3 x4) = x4 \<and> value_of (put v x1 x2 x3 x4) = value_of v"
  shows "deep_copy copy rd"
  by (rule deep_copy_struct5 [OF assms(1-4) deep_copy_plain, where ?f1.0 = f1 and ?f2.0 = f2 and ?f3.0 = f3 and ?f4.0 = f4 and ?f5.0 = "\<lambda>_. ()" and put = "\<lambda>v x1 x2 x3 x4 _. put v x1 x2 x3 x4"
        and value_of = "\<lambda>v a1 a2 a3 a4 _. value_of v a1 a2 a3 a4"]) (simp_all add: assms(5-) plain_def)

lemma deep_copy_struct3:
  assumes "deep_copy c1 r1" "deep_copy c2 r2" "deep_copy c3 r3"
    and "\<And>v. copy v = bind (c1 (f1 v)) (\<lambda>x1. bind (c2 (f2 v)) (\<lambda>x2. bind (c3 (f3 v)) (\<lambda>x3. ret (put v x1 x2 x3))))"
    and "\<And>m v. rd m v = Option.bind (r1 m (f1 v)) (\<lambda>a1. Option.bind (r2 m (f2 v)) (\<lambda>a2. Option.bind (r3 m (f3 v)) (\<lambda>a3. Some (value_of v a1 a2 a3))))"
    and "\<And>v x1 x2 x3. f1 (put v x1 x2 x3) = x1 \<and> f2 (put v x1 x2 x3) = x2 \<and> f3 (put v x1 x2 x3) = x3 \<and> value_of (put v x1 x2 x3) = value_of v"
  shows "deep_copy copy rd"
  by (rule deep_copy_struct4 [OF assms(1-3) deep_copy_plain, where ?f1.0 = f1 and ?f2.0 = f2 and ?f3.0 = f3 and ?f4.0 = "\<lambda>_. ()" and put = "\<lambda>v x1 x2 x3 _. put v x1 x2 x3"
        and value_of = "\<lambda>v a1 a2 a3 _. value_of v a1 a2 a3"]) (simp_all add: assms(4-) plain_def)

lemma deep_copy_struct2:
  assumes "deep_copy c1 r1" "deep_copy c2 r2"
    and "\<And>v. copy v = bind (c1 (f1 v)) (\<lambda>x1. bind (c2 (f2 v)) (\<lambda>x2. ret (put v x1 x2)))"
    and "\<And>m v. rd m v = Option.bind (r1 m (f1 v)) (\<lambda>a1. Option.bind (r2 m (f2 v)) (\<lambda>a2. Some (value_of v a1 a2)))"
    and "\<And>v x1 x2. f1 (put v x1 x2) = x1 \<and> f2 (put v x1 x2) = x2 \<and> value_of (put v x1 x2) = value_of v"
  shows "deep_copy copy rd"
  by (rule deep_copy_struct3 [OF assms(1-2) deep_copy_plain, where ?f1.0 = f1 and ?f2.0 = f2 and ?f3.0 = "\<lambda>_. ()" and put = "\<lambda>v x1 x2 _. put v x1 x2"
        and value_of = "\<lambda>v a1 a2 _. value_of v a1 a2"]) (simp_all add: assms(3-) plain_def)

lemma deep_copy_struct1:
  assumes "deep_copy c1 r1"
    and "\<And>v. copy v = bind (c1 (f1 v)) (\<lambda>x1. ret (put v x1))"
    and "\<And>m v. rd m v = Option.bind (r1 m (f1 v)) (\<lambda>a1. Some (value_of v a1))"
    and "\<And>v x1. f1 (put v x1) = x1 \<and> value_of (put v x1) = value_of v"
  shows "deep_copy copy rd"
  by (rule deep_copy_struct2 [OF assms(1) deep_copy_plain, where ?f1.0 = f1 and ?f2.0 = "\<lambda>_. ()" and put = "\<lambda>v x1 _. put v x1"
        and value_of = "\<lambda>v a1 _. value_of v a1"]) (simp_all add: assms(2-) plain_def)

end
