(* ===== verification/Memory_Types.thy ===== *)
theory Memory_Types
  imports API_Types Go_Memory
begin

text \<open>
  The custom resources of \<^verbatim>\<open>api/v1beta1\<close> as they are held in memory, for the deep copies. Each struct
  has a record \<open>..._mem\<close>: pointer and map fields are addresses, slice fields are slice headers, nested
  structs are held in place. The structs of apimachinery and cluster-api that these contain
  (\<^verbatim>\<open>ObjectMeta\<close>, \<^verbatim>\<open>ListMeta\<close>, \<^verbatim>\<open>FailureDomainSpec\<close>) are type parameters; what they point to is in cells
  \<open>C_string\<close>, \<open>C_strings\<close> or \<open>C_other\<close>. For every Go type there is the kind of its cells.
\<close>

section \<open>Structs in memory\<close>

record SecurityGroupRule_mem =
  sgrm_Action :: string
  sgrm_Protocol :: "addr option"
  sgrm_Ports :: "addr option"
  sgrm_IPRange :: "addr option"

record SecurityGroupPolicy_mem =
  sgpm_Default :: "addr option"
  sgpm_Rules :: "slice option"

record SecurityGroup_mem =
  sgm_Name :: string
  sgm_Inbound :: "addr option"
  sgm_Outbound :: "addr option"

record PrivateNetworkSpec_mem =
  pnsm_Enabled :: bool
  pnsm_ID :: "addr option"
  pnsm_Subnet :: "addr option"

record PublicGatewaySpec_mem =
  pgsm_Enabled :: bool
  pgsm_ID :: "addr option"
  pgsm_Type :: "addr option"
  pgsm_IP :: "addr option"
  pgsm_Zone :: "addr option"

record LoadBalancerSpec_mem =
  lbsm_Zone :: "addr option"
  lbsm_Type :: "addr option"
  lbsm_IP :: "addr option"
  lbsm_AllowedRanges :: "slice option"

record NetworkSpec_mem =
  nsm_PrivateNetwork :: "addr option"
  nsm_PublicGateway :: "addr option"
  nsm_SecurityGroups :: "slice option"

record ScalewayClusterSpec_mem =
  specm_ControlPlaneEndpoint :: APIEndpoint
  specm_FailureDomains :: "slice option"
  specm_Region :: string
  specm_Network :: "addr option"
  specm_ControlPlaneLoadBalancer :: "addr option"
  specm_ScalewaySecretName :: string

record NetworkStatus_mem =
  nstm_PrivateNetworkID :: "addr option"
  nstm_PublicGatewayID :: "addr option"

record ScalewayClusterStatus_mem =
  cstm_Ready :: bool
  cstm_FailureDomains :: "addr option"
  cstm_Network :: "addr option"

record TypeMeta =
  tm_Kind :: string
  tm_APIVersion :: string

record 'm ScalewayCluster_mem =
  scm_TypeMeta :: TypeMeta
  scm_Meta :: 'm
  scm_Spec :: ScalewayClusterSpec_mem
  scm_Status :: ScalewayClusterStatus_mem

record 'l ScalewayClusterList_mem =
  sclm_TypeMeta :: TypeMeta
  sclm_ListMeta :: 'l
  sclm_Items :: "slice option"

record 'm ScalewayClusterTemplateResource_mem =
  ctrm_Meta :: 'm
  ctrm_Spec :: ScalewayClusterSpec_mem

record 'm ScalewayClusterTemplateSpec_mem =
  ctsm_Template :: "'m ScalewayClusterTemplateResource_mem"

record 'm ScalewayClusterTemplate_mem =
  ctm_TypeMeta :: TypeMeta
  ctm_Meta :: 'm
  ctm_Spec :: "'m ScalewayClusterTemplateSpec_mem"

record 'l ScalewayClusterTemplateList_mem =
  ctlm_TypeMeta :: TypeMeta
  ctlm_ListMeta :: 'l
  ctlm_Items :: "slice option"

record ScalewayMachineSpec_mem =
  msm_ProviderID :: "addr option"
  msm_Image :: string
  msm_Type :: string
  msm_RootVolumeSize :: "addr option"
  msm_RootVolumeType :: "addr option"
  msm_PublicIP :: "addr option"
  msm_SecurityGroupName :: "addr option"

record ScalewayMachineStatus_mem =
  mstm_Ready :: bool
  mstm_Addresses :: "slice option"

record 'm ScalewayMachine_mem =
  smm_TypeMeta :: TypeMeta
  smm_Meta :: 'm
  smm_Spec :: ScalewayMachineSpec_mem
  smm_Status :: ScalewayMachineStatus_mem

record 'l ScalewayMachineList_mem =
  smlm_TypeMeta :: TypeMeta
  smlm_ListMeta :: 'l
  smlm_Items :: "slice option"

record 'm ScalewayMachineTemplateResource_mem =
  mtrm_Meta :: 'm
  mtrm_Spec :: ScalewayMachineSpec_mem

record 'm ScalewayMachineTemplateSpec_mem =
  mtsm_Template :: "'m ScalewayMachineTemplateResource_mem"

record 'm ScalewayMachineTemplate_mem =
  mtm_TypeMeta :: TypeMeta
  mtm_Meta :: 'm
  mtm_Spec :: "'m ScalewayMachineTemplateSpec_mem"

record 'l ScalewayMachineTemplateList_mem =
  mtlm_TypeMeta :: TypeMeta
  mtlm_ListMeta :: 'l
  mtlm_Items :: "slice option"

section \<open>Cells\<close>

text \<open>A cell is a variable that was allocated with \<^verbatim>\<open>new\<close>, an array behind a slice, or the entries of a map.\<close>

datatype ('m, 'l, 'f, 'x) cell =
    C_string string
  | C_int64 "64 word"
  | C_bool bool
  | C_strings "string list"
  | C_MachineAddresses "MachineAddress list"
  | C_SecurityGroups "SecurityGroup_mem list"
  | C_SecurityGroupRules "SecurityGroupRule_mem list"
  | C_ScalewayClusters "'m ScalewayCluster_mem list"
  | C_ScalewayClusterTemplates "'m ScalewayClusterTemplate_mem list"
  | C_ScalewayMachines "'m ScalewayMachine_mem list"
  | C_ScalewayMachineTemplates "'m ScalewayMachineTemplate_mem list"
  | C_FailureDomains "(string \<times> 'f) list"
  | C_LoadBalancerSpec LoadBalancerSpec_mem
  | C_NetworkSpec NetworkSpec_mem
  | C_NetworkStatus NetworkStatus_mem
  | C_PrivateNetworkSpec PrivateNetworkSpec_mem
  | C_PublicGatewaySpec PublicGatewaySpec_mem
  | C_ScalewayCluster "'m ScalewayCluster_mem"
  | C_ScalewayClusterList "'l ScalewayClusterList_mem"
  | C_ScalewayClusterSpec ScalewayClusterSpec_mem
  | C_ScalewayClusterStatus ScalewayClusterStatus_mem
  | C_ScalewayClusterTemplate "'m ScalewayClusterTemplate_mem"
  | C_ScalewayClusterTemplateList "'l ScalewayClusterTemplateList_mem"
  | C_ScalewayClusterTemplateResource "'m ScalewayClusterTemplateResource_mem"
  | C_ScalewayClusterTemplateSpec "'m ScalewayClusterTemplateSpec_mem"
  | C_ScalewayMachine "'m ScalewayMachine_mem"
  | C_ScalewayMachineList "'l ScalewayMachineList_mem"
  | C_ScalewayMachineSpec ScalewayMachineSpec_mem
  | C_ScalewayMachineStatus ScalewayMachineStatus_mem
  | C_ScalewayMachineTemplate "'m ScalewayMachineTemplate_mem"
  | C_ScalewayMachineTemplateList "'l ScalewayMachineTemplateList_mem"
  | C_ScalewayMachineTemplateResource "'m ScalewayMachineTemplateResource_mem"
  | C_ScalewayMachineTemplateSpec "'m ScalewayMachineTemplateSpec_mem"
  | C_SecurityGroup SecurityGroup_mem
  | C_SecurityGroupPolicy SecurityGroupPolicy_mem
  | C_SecurityGroupRule SecurityGroupRule_mem
  | C_other 'x

definition k_string :: "(('m, 'l, 'f, 'x) cell, string) kind" where
  "k_string = \<lparr>kd_cell = C_string, kd_value = (\<lambda>c. case c of C_string v \<Rightarrow> Some v | _ \<Rightarrow> None)\<rparr>"

definition k_int64 :: "(('m, 'l, 'f, 'x) cell, 64 word) kind" where
  "k_int64 = \<lparr>kd_cell = C_int64, kd_value = (\<lambda>c. case c of C_int64 v \<Rightarrow> Some v | _ \<Rightarrow> None)\<rparr>"

definition k_bool :: "(('m, 'l, 'f, 'x) cell, bool) kind" where
  "k_bool = \<lparr>kd_cell = C_bool, kd_value = (\<lambda>c. case c of C_bool v \<Rightarrow> Some v | _ \<Rightarrow> None)\<rparr>"

definition k_strings :: "(('m, 'l, 'f, 'x) cell, string list) kind" where
  "k_strings = \<lparr>kd_cell = C_strings, kd_value = (\<lambda>c. case c of C_strings v \<Rightarrow> Some v | _ \<Rightarrow> None)\<rparr>"

definition k_MachineAddresses :: "(('m, 'l, 'f, 'x) cell, MachineAddress list) kind" where
  "k_MachineAddresses = \<lparr>kd_cell = C_MachineAddresses, kd_value = (\<lambda>c. case c of C_MachineAddresses v \<Rightarrow> Some v | _ \<Rightarrow> None)\<rparr>"

definition k_SecurityGroups :: "(('m, 'l, 'f, 'x) cell, SecurityGroup_mem list) kind" where
  "k_SecurityGroups = \<lparr>kd_cell = C_SecurityGroups, kd_value = (\<lambda>c. case c of C_SecurityGroups v \<Rightarrow> Some v | _ \<Rightarrow> None)\<rparr>"

definition k_SecurityGroupRules :: "(('m, 'l, 'f, 'x) cell, SecurityGroupRule_mem list) kind" where
  "k_SecurityGroupRules = \<lparr>kd_cell = C_SecurityGroupRules, kd_value = (\<lambda>c. case c of C_SecurityGroupRules v \<Rightarrow> Some v | _ \<Rightarrow> None)\<rparr>"

definition k_ScalewayClusters :: "(('m, 'l, 'f, 'x) cell, 'm ScalewayCluster_mem list) kind" where
  "k_ScalewayClusters = \<lparr>kd_cell = C_ScalewayClusters, kd_value = (\<lambda>c. case c of C_ScalewayClusters v \<Rightarrow> Some v | _ \<Rightarrow> None)\<rparr>"

definition k_ScalewayClusterTemplates :: "(('m, 'l, 'f, 'x) cell, 'm ScalewayClusterTemplate_mem list) kind" where
  "k_ScalewayClusterTemplates = \<lparr>kd_cell = C_ScalewayClusterTemplates, kd_value = (\<lambda>c. case c of C_ScalewayClusterTemplates v \<Rightarrow> Some v | _ \<Rightarrow> None)\<rparr>"

definition k_ScalewayMachines :: "(('m, 'l, 'f, 'x) cell, 'm ScalewayMachine_mem list) kind" where
  "k_ScalewayMachines = \<lparr>kd_cell = C_ScalewayMachines, kd_value = (\<lambda>c. case c of C_ScalewayMachines v \<Rightarrow> Some v | _ \<Rightarrow> None)\<rparr>"

definition k_ScalewayMachineTemplates :: "(('m, 'l, 'f, 'x) cell, 'm ScalewayMachineTemplate_mem list) kind" where
  "k_ScalewayMachineTemplates = \<lparr>kd_cell = C_ScalewayMachineTemplates, kd_value = (\<lambda>c. case c of C_ScalewayMachineTemplates v \<Rightarrow> Some v | _ \<Rightarrow> None)\<rparr>"

definition k_FailureDomains :: "(('m, 'l, 'f, 'x) cell, (string \<times> 'f) list) kind" where
  "k_FailureDomains = \<lparr>kd_cell = C_FailureDomains, kd_value = (\<lambda>c. case c of C_FailureDomains v \<Rightarrow> Some v | _ \<Rightarrow> None)\<rparr>"

definition k_LoadBalancerSpec :: "(('m, 'l, 'f, 'x) cell, LoadBalancerSpec_mem) kind" where
  "k_LoadBalancerSpec = \<lparr>kd_cell = C_LoadBalancerSpec, kd_value = (\<lambda>c. case c of C_LoadBalancerSpec v \<Rightarrow> Some v | _ \<Rightarrow> None)\<rparr>"

definition k_NetworkSpec :: "(('m, 'l, 'f, 'x) cell, NetworkSpec_mem) kind" where
  "k_NetworkSpec = \<lparr>kd_cell = C_NetworkSpec, kd_value = (\<lambda>c. case c of C_NetworkSpec v \<Rightarrow> Some v | _ \<Rightarrow> None)\<rparr>"

definition k_NetworkStatus :: "(('m, 'l, 'f, 'x) cell, NetworkStatus_mem) kind" where
  "k_NetworkStatus = \<lparr>kd_cell = C_NetworkStatus, kd_value = (\<lambda>c. case c of C_NetworkStatus v \<Rightarrow> Some v | _ \<Rightarrow> None)\<rparr>"

definition k_PrivateNetworkSpec :: "(('m, 'l, 'f, 'x) cell, PrivateNetworkSpec_mem) kind" where
  "k_PrivateNetworkSpec = \<lparr>kd_cell = C_PrivateNetworkSpec, kd_value = (\<lambda>c. case c of C_PrivateNetworkSpec v \<Rightarrow> Some v | _ \<Rightarrow> None)\<rparr>"

definition k_PublicGatewaySpec :: "(('m, 'l, 'f, 'x) cell, PublicGatewaySpec_mem) kind" where
  "k_PublicGatewaySpec = \<lparr>kd_cell = C_PublicGatewaySpec, kd_value = (\<lambda>c. case c of C_PublicGatewaySpec v \<Rightarrow> Some v | _ \<Rightarrow> None)\<rparr>"

definition k_ScalewayCluster :: "(('m, 'l, 'f, 'x) cell, 'm ScalewayCluster_mem) kind" where
  "k_ScalewayCluster = \<lparr>kd_cell = C_ScalewayCluster, kd_value = (\<lambda>c. case c of C_ScalewayCluster v \<Rightarrow> Some v | _ \<Rightarrow> None)\<rparr>"

definition k_ScalewayClusterList :: "(('m, 'l, 'f, 'x) cell, 'l ScalewayClusterList_mem) kind" where
  "k_ScalewayClusterList = \<lparr>kd_cell = C_ScalewayClusterList, kd_value = (\<lambda>c. case c of C_ScalewayClusterList v \<Rightarrow> Some v | _ \<Rightarrow> None)\<rparr>"

definition k_ScalewayClusterSpec :: "(('m, 'l, 'f, 'x) cell, ScalewayClusterSpec_mem) kind" where
  "k_ScalewayClusterSpec = \<lparr>kd_cell = C_ScalewayClusterSpec, kd_value = (\<lambda>c. case c of C_ScalewayClusterSpec v \<Rightarrow> Some v | _ \<Rightarrow> None)\<rparr>"

definition k_ScalewayClusterStatus :: "(('m, 'l, 'f, 'x) cell, ScalewayClusterStatus_mem) kind" where
  "k_ScalewayClusterStatus = \<lparr>kd_cell = C_ScalewayClusterStatus, kd_value = (\<lambda>c. case c of C_ScalewayClusterStatus v \<Rightarrow> Some v | _ \<Rightarrow> None)\<rparr>"

definition k_ScalewayClusterTemplate :: "(('m, 'l, 'f, 'x) cell, 'm ScalewayClusterTemplate_mem) kind" where
  "k_ScalewayClusterTemplate = \<lparr>kd_cell = C_ScalewayClusterTemplate, kd_value = (\<lambda>c. case c of C_ScalewayClusterTemplate v \<Rightarrow> Some v | _ \<Rightarrow> None)\<rparr>"

definition k_ScalewayClusterTemplateList :: "(('m, 'l, 'f, 'x) cell, 'l ScalewayClusterTemplateList_mem) kind" where
  "k_ScalewayClusterTemplateList = \<lparr>kd_cell = C_ScalewayClusterTemplateList, kd_value = (\<lambda>c. case c of C_ScalewayClusterTemplateList v \<Rightarrow> Some v | _ \<Rightarrow> None)\<rparr>"

definition k_ScalewayClusterTemplateResource :: "(('m, 'l, 'f, 'x) cell, 'm ScalewayClusterTemplateResource_mem) kind" where
  "k_ScalewayClusterTemplateResource = \<lparr>kd_cell = C_ScalewayClusterTemplateResource, kd_value = (\<lambda>c. case c of C_ScalewayClusterTemplateResource v \<Rightarrow> Some v | _ \<Rightarrow> None)\<rparr>"

definition k_ScalewayClusterTemplateSpec :: "(('m, 'l, 'f, 'x) cell, 'm ScalewayClusterTemplateSpec_mem) kind" where
  "k_ScalewayClusterTemplateSpec = \<lparr>kd_cell = C_ScalewayClusterTemplateSpec, kd_value = (\<lambda>c. case c of C_ScalewayClusterTemplateSpec v \<Rightarrow> Some v | _ \<Rightarrow> None)\<rparr>"

definition k_ScalewayMachine :: "(('m, 'l, 'f, 'x) cell, 'm ScalewayMachine_mem) kind" where
  "k_ScalewayMachine = \<lparr>kd_cell = C_ScalewayMachine, kd_value = (\<lambda>c. case c of C_ScalewayMachine v \<Rightarrow> Some v | _ \<Rightarrow> None)\<rparr>"

definition k_ScalewayMachineList :: "(('m, 'l, 'f, 'x) cell, 'l ScalewayMachineList_mem) kind" where
  "k_ScalewayMachineList = \<lparr>kd_cell = C_ScalewayMachineList, kd_value = (\<lambda>c. case c of C_ScalewayMachineList v \<Rightarrow> Some v | _ \<Rightarrow> None)\<rparr>"

definition k_ScalewayMachineSpec :: "(('m, 'l, 'f, 'x) cell, ScalewayMachineSpec_mem) kind" where
  "k_ScalewayMachineSpec = \<lparr>kd_cell = C_ScalewayMachineSpec, kd_value = (\<lambda>c. case c of C_ScalewayMachineSpec v \<Rightarrow> Some v | _ \<Rightarrow> None)\<rparr>"

definition k_ScalewayMachineStatus :: "(('m, 'l, 'f, 'x) cell, ScalewayMachineStatus_mem) kind" where
  "k_ScalewayMachineStatus = \<lparr>kd_cell = C_ScalewayMachineStatus, kd_value = (\<lambda>c. case c of C_ScalewayMachineStatus v \<Rightarrow> Some v | _ \<Rightarrow> None)\<rparr>"

definition k_ScalewayMachineTemplate :: "(('m, 'l, 'f, 'x) cell, 'm ScalewayMachineTemplate_mem) kind" where
  "k_ScalewayMachineTemplate = \<lparr>kd_cell = C_ScalewayMachineTemplate, kd_value = (\<lambda>c. case c of C_ScalewayMachineTemplate v \<Rightarrow> Some v | _ \<Rightarrow> None)\<rparr>"

definition k_ScalewayMachineTemplateList :: "(('m, 'l, 'f, 'x) cell, 'l ScalewayMachineTemplateList_mem) kind" where
  "k_ScalewayMachineTemplateList = \<lparr>kd_cell = C_ScalewayMachineTemplateList, kd_value = (\<lambda>c. case c of C_ScalewayMachineTemplateList v \<Rightarrow> Some v | _ \<Rightarrow> None)\<rparr>"

definition k_ScalewayMachineTemplateResource :: "(('m, 'l, 'f, 'x) cell, 'm ScalewayMachineTemplateResource_mem) kind" where
  "k_ScalewayMachineTemplateResource = \<lparr>kd_cell = C_ScalewayMachineTemplateResource, kd_value = (\<lambda>c. case c of C_ScalewayMachineTemplateResource v \<Rightarrow> Some v | _ \<Rightarrow> None)\<rparr>"

definition k_ScalewayMachineTemplateSpec :: "(('m, 'l, 'f, 'x) cell, 'm ScalewayMachineTemplateSpec_mem) kind" where
  "k_ScalewayMachineTemplateSpec = \<lparr>kd_cell = C_ScalewayMachineTemplateSpec, kd_value = (\<lambda>c. case c of C_ScalewayMachineTemplateSpec v \<Rightarrow> Some v | _ \<Rightarrow> None)\<rparr>"

definition k_SecurityGroup :: "(('m, 'l, 'f, 'x) cell, SecurityGroup_mem) kind" where
  "k_SecurityGroup = \<lparr>kd_cell = C_SecurityGroup, kd_value = (\<lambda>c. case c of C_SecurityGroup v \<Rightarrow> Some v | _ \<Rightarrow> None)\<rparr>"

definition k_SecurityGroupPolicy :: "(('m, 'l, 'f, 'x) cell, SecurityGroupPolicy_mem) kind" where
  "k_SecurityGroupPolicy = \<lparr>kd_cell = C_SecurityGroupPolicy, kd_value = (\<lambda>c. case c of C_SecurityGroupPolicy v \<Rightarrow> Some v | _ \<Rightarrow> None)\<rparr>"

definition k_SecurityGroupRule :: "(('m, 'l, 'f, 'x) cell, SecurityGroupRule_mem) kind" where
  "k_SecurityGroupRule = \<lparr>kd_cell = C_SecurityGroupRule, kd_value = (\<lambda>c. case c of C_SecurityGroupRule v \<Rightarrow> Some v | _ \<Rightarrow> None)\<rparr>"

lemmas kind_defs = k_string_def k_int64_def k_bool_def k_strings_def k_MachineAddresses_def
  k_SecurityGroups_def k_SecurityGroupRules_def k_ScalewayClusters_def k_ScalewayClusterTemplates_def k_ScalewayMachines_def
  k_ScalewayMachineTemplates_def k_FailureDomains_def k_LoadBalancerSpec_def k_NetworkSpec_def k_NetworkStatus_def
  k_PrivateNetworkSpec_def k_PublicGatewaySpec_def k_ScalewayCluster_def k_ScalewayClusterList_def k_ScalewayClusterSpec_def
  k_ScalewayClusterStatus_def k_ScalewayClusterTemplate_def k_ScalewayClusterTemplateList_def k_ScalewayClusterTemplateResource_def k_ScalewayClusterTemplateSpec_def
  k_ScalewayMachine_def k_ScalewayMachineList_def k_ScalewayMachineSpec_def k_ScalewayMachineStatus_def k_ScalewayMachineTemplate_def
  k_ScalewayMachineTemplateList_def k_ScalewayMachineTemplateResource_def k_ScalewayMachineTemplateSpec_def k_SecurityGroup_def k_SecurityGroupPolicy_def
  k_SecurityGroupRule_def

lemma kinds_ok:
  shows k_string_ok: "kind_ok k_string" and k_int64_ok: "kind_ok k_int64"
  and k_bool_ok: "kind_ok k_bool" and k_strings_ok: "kind_ok k_strings"
  and k_MachineAddresses_ok: "kind_ok k_MachineAddresses" and k_SecurityGroups_ok: "kind_ok k_SecurityGroups"
  and k_SecurityGroupRules_ok: "kind_ok k_SecurityGroupRules" and k_ScalewayClusters_ok: "kind_ok k_ScalewayClusters"
  and k_ScalewayClusterTemplates_ok: "kind_ok k_ScalewayClusterTemplates" and k_ScalewayMachines_ok: "kind_ok k_ScalewayMachines"
  and k_ScalewayMachineTemplates_ok: "kind_ok k_ScalewayMachineTemplates" and k_FailureDomains_ok: "kind_ok k_FailureDomains"
  and k_LoadBalancerSpec_ok: "kind_ok k_LoadBalancerSpec" and k_NetworkSpec_ok: "kind_ok k_NetworkSpec"
  and k_NetworkStatus_ok: "kind_ok k_NetworkStatus" and k_PrivateNetworkSpec_ok: "kind_ok k_PrivateNetworkSpec"
  and k_PublicGatewaySpec_ok: "kind_ok k_PublicGatewaySpec" and k_ScalewayCluster_ok: "kind_ok k_ScalewayCluster"
  and k_ScalewayClusterList_ok: "kind_ok k_ScalewayClusterList" and k_ScalewayClusterSpec_ok: "kind_ok k_ScalewayClusterSpec"
  and k_ScalewayClusterStatus_ok: "kind_ok k_ScalewayClusterStatus" and k_ScalewayClusterTemplate_ok: "kind_ok k_ScalewayClusterTemplate"
  and k_ScalewayClusterTemplateList_ok: "kind_ok k_ScalewayClusterTemplateList" and k_ScalewayClusterTemplateResource_ok: "kind_ok k_ScalewayClusterTemplateResource"
  and k_ScalewayClusterTemplateSpec_ok: "kind_ok k_ScalewayClusterTemplateSpec" and k_ScalewayMachine_ok: "kind_ok k_ScalewayMachine"
  and k_ScalewayMachineList_ok: "kind_ok k_ScalewayMachineList" and k_ScalewayMachineSpec_ok: "kind_ok k_ScalewayMachineSpec"
  and k_ScalewayMachineStatus_ok: "kind_ok k_ScalewayMachineStatus" and k_ScalewayMachineTemplate_ok: "kind_ok k_ScalewayMachineTemplate"
  and k_ScalewayMachineTemplateList_ok: "kind_ok k_ScalewayMachineTemplateList" and k_ScalewayMachineTemplateResource_ok: "kind_ok k_ScalewayMachineTemplateResource"
  and k_ScalewayMachineTemplateSpec_ok: "kind_ok k_ScalewayMachineTemplateSpec" and k_SecurityGroup_ok: "kind_ok k_SecurityGroup"
  and k_SecurityGroupPolicy_ok: "kind_ok k_SecurityGroupPolicy" and k_SecurityGroupRule_ok: "kind_ok k_SecurityGroupRule"
  by (simp_all add: kind_ok_def kind_defs)

end
