(* ===== verification/Deep_Copy.thy ===== *)
theory Deep_Copy
  imports Memory_Types
begin

text \<open>
  The generated deep copies, \<^verbatim>\<open>api/v1beta1/zz_generated.deepcopy.go\<close>. \<^verbatim>\<open>(in *T) DeepCopyInto(out *T)\<close> is a
  function from the value \<^verbatim>\<open>*in\<close> to the value it leaves in \<^verbatim>\<open>*out\<close>: the assignment \<^verbatim>\<open>*out = *in\<close> starts from the
  record \<open>src\<close>, of which the fields that point somewhere are replaced. \<^verbatim>\<open>DeepCopy\<close> is a function on pointers.
\<close>

type_synonym ('m, 'l, 'f, 'x) memory = "('m, 'l, 'f, 'x) cell heap"

text \<open>\<^verbatim>\<open>DeepCopyInto\<close> of \<^verbatim>\<open>metav1.ObjectMeta\<close> and \<^verbatim>\<open>metav1.ListMeta\<close>, and \<^verbatim>\<open>*val.DeepCopy()\<close> of a failure domain.\<close>

record ('m, 'l, 'f, 'x) copy_API =
  ca_ObjectMeta :: "'m \<Rightarrow> (('m, 'l, 'f, 'x) memory, 'm) go"
  ca_ListMeta :: "'l \<Rightarrow> (('m, 'l, 'f, 'x) memory, 'l) go"
  ca_FailureDomainSpec :: "'f \<Rightarrow> (('m, 'l, 'f, 'x) memory, 'f) go"

section \<open>Security groups\<close>

definition SecurityGroupRule_DeepCopyInto :: "SecurityGroupRule_mem \<Rightarrow> (('m, 'l, 'f, 'x) memory, SecurityGroupRule_mem) go" where
  "SecurityGroupRule_DeepCopyInto src =
     bind (copy_pointer k_string ret (sgrm_Protocol src)) (\<lambda>protocol.
     bind (copy_pointer k_string ret (sgrm_Ports src)) (\<lambda>ports.
     bind (copy_pointer k_string ret (sgrm_IPRange src)) (\<lambda>ipRange.
     ret (src\<lparr>sgrm_Protocol := protocol, sgrm_Ports := ports, sgrm_IPRange := ipRange\<rparr>))))"

definition SecurityGroupRule_DeepCopy :: "addr option \<Rightarrow> (('m, 'l, 'f, 'x) memory, addr option) go" where
  "SecurityGroupRule_DeepCopy = copy_pointer k_SecurityGroupRule SecurityGroupRule_DeepCopyInto"

definition SecurityGroupPolicy_DeepCopyInto :: "SecurityGroupPolicy_mem \<Rightarrow> (('m, 'l, 'f, 'x) memory, SecurityGroupPolicy_mem) go" where
  "SecurityGroupPolicy_DeepCopyInto src =
     bind (copy_pointer k_string ret (sgpm_Default src)) (\<lambda>default.
     bind (copy_slice k_SecurityGroupRules SecurityGroupRule_DeepCopyInto (sgpm_Rules src)) (\<lambda>rules.
     ret (src\<lparr>sgpm_Default := default, sgpm_Rules := rules\<rparr>)))"

definition SecurityGroupPolicy_DeepCopy :: "addr option \<Rightarrow> (('m, 'l, 'f, 'x) memory, addr option) go" where
  "SecurityGroupPolicy_DeepCopy = copy_pointer k_SecurityGroupPolicy SecurityGroupPolicy_DeepCopyInto"

definition SecurityGroup_DeepCopyInto :: "SecurityGroup_mem \<Rightarrow> (('m, 'l, 'f, 'x) memory, SecurityGroup_mem) go" where
  "SecurityGroup_DeepCopyInto src =
     bind (copy_pointer k_SecurityGroupPolicy SecurityGroupPolicy_DeepCopyInto (sgm_Inbound src)) (\<lambda>inbound.
     bind (copy_pointer k_SecurityGroupPolicy SecurityGroupPolicy_DeepCopyInto (sgm_Outbound src)) (\<lambda>outbound.
     ret (src\<lparr>sgm_Inbound := inbound, sgm_Outbound := outbound\<rparr>)))"

definition SecurityGroup_DeepCopy :: "addr option \<Rightarrow> (('m, 'l, 'f, 'x) memory, addr option) go" where
  "SecurityGroup_DeepCopy = copy_pointer k_SecurityGroup SecurityGroup_DeepCopyInto"

section \<open>Clusters\<close>

definition PrivateNetworkSpec_DeepCopyInto :: "PrivateNetworkSpec_mem \<Rightarrow> (('m, 'l, 'f, 'x) memory, PrivateNetworkSpec_mem) go" where
  "PrivateNetworkSpec_DeepCopyInto src =
     bind (copy_pointer k_string ret (pnsm_ID src)) (\<lambda>ID.
     bind (copy_pointer k_string ret (pnsm_Subnet src)) (\<lambda>subnet.
     ret (src\<lparr>pnsm_ID := ID, pnsm_Subnet := subnet\<rparr>)))"

definition PrivateNetworkSpec_DeepCopy :: "addr option \<Rightarrow> (('m, 'l, 'f, 'x) memory, addr option) go" where
  "PrivateNetworkSpec_DeepCopy = copy_pointer k_PrivateNetworkSpec PrivateNetworkSpec_DeepCopyInto"

definition PublicGatewaySpec_DeepCopyInto :: "PublicGatewaySpec_mem \<Rightarrow> (('m, 'l, 'f, 'x) memory, PublicGatewaySpec_mem) go" where
  "PublicGatewaySpec_DeepCopyInto src =
     bind (copy_pointer k_string ret (pgsm_ID src)) (\<lambda>ID.
     bind (copy_pointer k_string ret (pgsm_Type src)) (\<lambda>type.
     bind (copy_pointer k_string ret (pgsm_IP src)) (\<lambda>IP.
     bind (copy_pointer k_string ret (pgsm_Zone src)) (\<lambda>zone.
     ret (src\<lparr>pgsm_ID := ID, pgsm_Type := type, pgsm_IP := IP, pgsm_Zone := zone\<rparr>)))))"

definition PublicGatewaySpec_DeepCopy :: "addr option \<Rightarrow> (('m, 'l, 'f, 'x) memory, addr option) go" where
  "PublicGatewaySpec_DeepCopy = copy_pointer k_PublicGatewaySpec PublicGatewaySpec_DeepCopyInto"

definition LoadBalancerSpec_DeepCopyInto :: "LoadBalancerSpec_mem \<Rightarrow> (('m, 'l, 'f, 'x) memory, LoadBalancerSpec_mem) go" where
  "LoadBalancerSpec_DeepCopyInto src =
     bind (copy_pointer k_string ret (lbsm_Zone src)) (\<lambda>zone.
     bind (copy_pointer k_string ret (lbsm_Type src)) (\<lambda>type.
     bind (copy_pointer k_string ret (lbsm_IP src)) (\<lambda>IP.
     bind (copy_slice k_strings ret (lbsm_AllowedRanges src)) (\<lambda>allowedRanges.
     ret (src\<lparr>lbsm_Zone := zone, lbsm_Type := type, lbsm_IP := IP, lbsm_AllowedRanges := allowedRanges\<rparr>)))))"

definition LoadBalancerSpec_DeepCopy :: "addr option \<Rightarrow> (('m, 'l, 'f, 'x) memory, addr option) go" where
  "LoadBalancerSpec_DeepCopy = copy_pointer k_LoadBalancerSpec LoadBalancerSpec_DeepCopyInto"

definition NetworkSpec_DeepCopyInto :: "NetworkSpec_mem \<Rightarrow> (('m, 'l, 'f, 'x) memory, NetworkSpec_mem) go" where
  "NetworkSpec_DeepCopyInto src =
     bind (copy_pointer k_PrivateNetworkSpec PrivateNetworkSpec_DeepCopyInto (nsm_PrivateNetwork src)) (\<lambda>privateNetwork.
     bind (copy_pointer k_PublicGatewaySpec PublicGatewaySpec_DeepCopyInto (nsm_PublicGateway src)) (\<lambda>publicGateway.
     bind (copy_slice k_SecurityGroups SecurityGroup_DeepCopyInto (nsm_SecurityGroups src)) (\<lambda>securityGroups.
     ret (src\<lparr>nsm_PrivateNetwork := privateNetwork, nsm_PublicGateway := publicGateway, nsm_SecurityGroups := securityGroups\<rparr>))))"

definition NetworkSpec_DeepCopy :: "addr option \<Rightarrow> (('m, 'l, 'f, 'x) memory, addr option) go" where
  "NetworkSpec_DeepCopy = copy_pointer k_NetworkSpec NetworkSpec_DeepCopyInto"

definition NetworkStatus_DeepCopyInto :: "NetworkStatus_mem \<Rightarrow> (('m, 'l, 'f, 'x) memory, NetworkStatus_mem) go" where
  "NetworkStatus_DeepCopyInto src =
     bind (copy_pointer k_string ret (nstm_PrivateNetworkID src)) (\<lambda>privateNetworkID.
     bind (copy_pointer k_string ret (nstm_PublicGatewayID src)) (\<lambda>publicGatewayID.
     ret (src\<lparr>nstm_PrivateNetworkID := privateNetworkID, nstm_PublicGatewayID := publicGatewayID\<rparr>)))"

definition NetworkStatus_DeepCopy :: "addr option \<Rightarrow> (('m, 'l, 'f, 'x) memory, addr option) go" where
  "NetworkStatus_DeepCopy = copy_pointer k_NetworkStatus NetworkStatus_DeepCopyInto"

definition ScalewayClusterSpec_DeepCopyInto :: "ScalewayClusterSpec_mem \<Rightarrow> (('m, 'l, 'f, 'x) memory, ScalewayClusterSpec_mem) go" where
  "ScalewayClusterSpec_DeepCopyInto src =
     bind (copy_slice k_strings ret (specm_FailureDomains src)) (\<lambda>failureDomains.
     bind (copy_pointer k_NetworkSpec NetworkSpec_DeepCopyInto (specm_Network src)) (\<lambda>network.
     bind (copy_pointer k_LoadBalancerSpec LoadBalancerSpec_DeepCopyInto (specm_ControlPlaneLoadBalancer src)) (\<lambda>loadBalancer.
     ret (src\<lparr>specm_FailureDomains := failureDomains, specm_Network := network, specm_ControlPlaneLoadBalancer := loadBalancer\<rparr>))))"

definition ScalewayClusterSpec_DeepCopy :: "addr option \<Rightarrow> (('m, 'l, 'f, 'x) memory, addr option) go" where
  "ScalewayClusterSpec_DeepCopy = copy_pointer k_ScalewayClusterSpec ScalewayClusterSpec_DeepCopyInto"

text \<open>\<^verbatim>\<open>for key, val := range *in { (*out)[key] = *val.DeepCopy() }\<close>, over the entries of the map in any order.\<close>

definition copy_failure_domains :: "('m, 'l, 'f, 'x) copy_API \<Rightarrow> (string \<times> 'f) list \<Rightarrow> (('m, 'l, 'f, 'x) memory, (string \<times> 'f) list) go" where
  "copy_failure_domains api = map_go (\<lambda>entry. case entry of (key, val) \<Rightarrow>
     bind (ca_FailureDomainSpec api val) (\<lambda>v. ret (key, v)))"

definition ScalewayClusterStatus_DeepCopyInto :: "('m, 'l, 'f, 'x) copy_API \<Rightarrow> ScalewayClusterStatus_mem \<Rightarrow> (('m, 'l, 'f, 'x) memory, ScalewayClusterStatus_mem) go" where
  "ScalewayClusterStatus_DeepCopyInto api src =
     bind (copy_pointer k_FailureDomains (copy_failure_domains api) (cstm_FailureDomains src)) (\<lambda>failureDomains.
     bind (copy_pointer k_NetworkStatus NetworkStatus_DeepCopyInto (cstm_Network src)) (\<lambda>network.
     ret (src\<lparr>cstm_FailureDomains := failureDomains, cstm_Network := network\<rparr>)))"

definition ScalewayClusterStatus_DeepCopy :: "('m, 'l, 'f, 'x) copy_API \<Rightarrow> addr option \<Rightarrow> (('m, 'l, 'f, 'x) memory, addr option) go" where
  "ScalewayClusterStatus_DeepCopy api = copy_pointer k_ScalewayClusterStatus (ScalewayClusterStatus_DeepCopyInto api)"

definition ScalewayCluster_DeepCopyInto :: "('m, 'l, 'f, 'x) copy_API \<Rightarrow> 'm ScalewayCluster_mem \<Rightarrow> (('m, 'l, 'f, 'x) memory, 'm ScalewayCluster_mem) go" where
  "ScalewayCluster_DeepCopyInto api src =
     bind (ca_ObjectMeta api (scm_Meta src)) (\<lambda>meta.
     bind (ScalewayClusterSpec_DeepCopyInto (scm_Spec src)) (\<lambda>spec.
     bind (ScalewayClusterStatus_DeepCopyInto api (scm_Status src)) (\<lambda>status.
     ret (src\<lparr>scm_Meta := meta, scm_Spec := spec, scm_Status := status\<rparr>))))"

definition ScalewayCluster_DeepCopy :: "('m, 'l, 'f, 'x) copy_API \<Rightarrow> addr option \<Rightarrow> (('m, 'l, 'f, 'x) memory, addr option) go" where
  "ScalewayCluster_DeepCopy api = copy_pointer k_ScalewayCluster (ScalewayCluster_DeepCopyInto api)"

definition ScalewayClusterList_DeepCopyInto :: "('m, 'l, 'f, 'x) copy_API \<Rightarrow> 'l ScalewayClusterList_mem \<Rightarrow> (('m, 'l, 'f, 'x) memory, 'l ScalewayClusterList_mem) go" where
  "ScalewayClusterList_DeepCopyInto api src =
     bind (ca_ListMeta api (sclm_ListMeta src)) (\<lambda>listMeta.
     bind (copy_slice k_ScalewayClusters (ScalewayCluster_DeepCopyInto api) (sclm_Items src)) (\<lambda>items.
     ret (src\<lparr>sclm_ListMeta := listMeta, sclm_Items := items\<rparr>)))"

definition ScalewayClusterList_DeepCopy :: "('m, 'l, 'f, 'x) copy_API \<Rightarrow> addr option \<Rightarrow> (('m, 'l, 'f, 'x) memory, addr option) go" where
  "ScalewayClusterList_DeepCopy api = copy_pointer k_ScalewayClusterList (ScalewayClusterList_DeepCopyInto api)"

section \<open>Cluster templates\<close>

definition ScalewayClusterTemplateResource_DeepCopyInto :: "('m, 'l, 'f, 'x) copy_API \<Rightarrow> 'm ScalewayClusterTemplateResource_mem \<Rightarrow> (('m, 'l, 'f, 'x) memory, 'm ScalewayClusterTemplateResource_mem) go" where
  "ScalewayClusterTemplateResource_DeepCopyInto api src =
     bind (ca_ObjectMeta api (ctrm_Meta src)) (\<lambda>meta.
     bind (ScalewayClusterSpec_DeepCopyInto (ctrm_Spec src)) (\<lambda>spec.
     ret (src\<lparr>ctrm_Meta := meta, ctrm_Spec := spec\<rparr>)))"

definition ScalewayClusterTemplateResource_DeepCopy :: "('m, 'l, 'f, 'x) copy_API \<Rightarrow> addr option \<Rightarrow> (('m, 'l, 'f, 'x) memory, addr option) go" where
  "ScalewayClusterTemplateResource_DeepCopy api = copy_pointer k_ScalewayClusterTemplateResource (ScalewayClusterTemplateResource_DeepCopyInto api)"

definition ScalewayClusterTemplateSpec_DeepCopyInto :: "('m, 'l, 'f, 'x) copy_API \<Rightarrow> 'm ScalewayClusterTemplateSpec_mem \<Rightarrow> (('m, 'l, 'f, 'x) memory, 'm ScalewayClusterTemplateSpec_mem) go" where
  "ScalewayClusterTemplateSpec_DeepCopyInto api src =
     bind (ScalewayClusterTemplateResource_DeepCopyInto api (ctsm_Template src)) (\<lambda>template.
     ret (src\<lparr>ctsm_Template := template\<rparr>))"

definition ScalewayClusterTemplateSpec_DeepCopy :: "('m, 'l, 'f, 'x) copy_API \<Rightarrow> addr option \<Rightarrow> (('m, 'l, 'f, 'x) memory, addr option) go" where
  "ScalewayClusterTemplateSpec_DeepCopy api = copy_pointer k_ScalewayClusterTemplateSpec (ScalewayClusterTemplateSpec_DeepCopyInto api)"

definition ScalewayClusterTemplate_DeepCopyInto :: "('m, 'l, 'f, 'x) copy_API \<Rightarrow> 'm ScalewayClusterTemplate_mem \<Rightarrow> (('m, 'l, 'f, 'x) memory, 'm ScalewayClusterTemplate_mem) go" where
  "ScalewayClusterTemplate_DeepCopyInto api src =
     bind (ca_ObjectMeta api (ctm_Meta src)) (\<lambda>meta.
     bind (ScalewayClusterTemplateSpec_DeepCopyInto api (ctm_Spec src)) (\<lambda>spec.
     ret (src\<lparr>ctm_Meta := meta, ctm_Spec := spec\<rparr>)))"

definition ScalewayClusterTemplate_DeepCopy :: "('m, 'l, 'f, 'x) copy_API \<Rightarrow> addr option \<Rightarrow> (('m, 'l, 'f, 'x) memory, addr option) go" where
  "ScalewayClusterTemplate_DeepCopy api = copy_pointer k_ScalewayClusterTemplate (ScalewayClusterTemplate_DeepCopyInto api)"

definition ScalewayClusterTemplateList_DeepCopyInto :: "('m, 'l, 'f, 'x) copy_API \<Rightarrow> 'l ScalewayClusterTemplateList_mem \<Rightarrow> (('m, 'l, 'f, 'x) memory, 'l ScalewayClusterTemplateList_mem) go" where
  "ScalewayClusterTemplateList_DeepCopyInto api src =
     bind (ca_ListMeta api (ctlm_ListMeta src)) (\<lambda>listMeta.
     bind (copy_slice k_ScalewayClusterTemplates (ScalewayClusterTemplate_DeepCopyInto api) (ctlm_Items src)) (\<lambda>items.
     ret (src\<lparr>ctlm_ListMeta := listMeta, ctlm_Items := items\<rparr>)))"

definition ScalewayClusterTemplateList_DeepCopy :: "('m, 'l, 'f, 'x) copy_API \<Rightarrow> addr option \<Rightarrow> (('m, 'l, 'f, 'x) memory, addr option) go" where
  "ScalewayClusterTemplateList_DeepCopy api = copy_pointer k_ScalewayClusterTemplateList (ScalewayClusterTemplateList_DeepCopyInto api)"

section \<open>Machines\<close>

definition ScalewayMachineSpec_DeepCopyInto :: "ScalewayMachineSpec_mem \<Rightarrow> (('m, 'l, 'f, 'x) memory, ScalewayMachineSpec_mem) go" where
  "ScalewayMachineSpec_DeepCopyInto src =
     bind (copy_pointer k_string ret (msm_ProviderID src)) (\<lambda>providerID.
     bind (copy_pointer k_int64 ret (msm_RootVolumeSize src)) (\<lambda>rootVolumeSize.
     bind (copy_pointer k_string ret (msm_RootVolumeType src)) (\<lambda>rootVolumeType.
     bind (copy_pointer k_bool ret (msm_PublicIP src)) (\<lambda>publicIP.
     bind (copy_pointer k_string ret (msm_SecurityGroupName src)) (\<lambda>securityGroupName.
     ret (src\<lparr>msm_ProviderID := providerID, msm_RootVolumeSize := rootVolumeSize, msm_RootVolumeType := rootVolumeType, msm_PublicIP := publicIP, msm_SecurityGroupName := securityGroupName\<rparr>))))))"

definition ScalewayMachineSpec_DeepCopy :: "addr option \<Rightarrow> (('m, 'l, 'f, 'x) memory, addr option) go" where
  "ScalewayMachineSpec_DeepCopy = copy_pointer k_ScalewayMachineSpec ScalewayMachineSpec_DeepCopyInto"

definition ScalewayMachineStatus_DeepCopyInto :: "ScalewayMachineStatus_mem \<Rightarrow> (('m, 'l, 'f, 'x) memory, ScalewayMachineStatus_mem) go" where
  "ScalewayMachineStatus_DeepCopyInto src =
     bind (copy_slice k_MachineAddresses ret (mstm_Addresses src)) (\<lambda>addresses.
     ret (src\<lparr>mstm_Addresses := addresses\<rparr>))"

definition ScalewayMachineStatus_DeepCopy :: "addr option \<Rightarrow> (('m, 'l, 'f, 'x) memory, addr option) go" where
  "ScalewayMachineStatus_DeepCopy = copy_pointer k_ScalewayMachineStatus ScalewayMachineStatus_DeepCopyInto"

definition ScalewayMachine_DeepCopyInto :: "('m, 'l, 'f, 'x) copy_API \<Rightarrow> 'm ScalewayMachine_mem \<Rightarrow> (('m, 'l, 'f, 'x) memory, 'm ScalewayMachine_mem) go" where
  "ScalewayMachine_DeepCopyInto api src =
     bind (ca_ObjectMeta api (smm_Meta src)) (\<lambda>meta.
     bind (ScalewayMachineSpec_DeepCopyInto (smm_Spec src)) (\<lambda>spec.
     bind (ScalewayMachineStatus_DeepCopyInto (smm_Status src)) (\<lambda>status.
     ret (src\<lparr>smm_Meta := meta, smm_Spec := spec, smm_Status := status\<rparr>))))"

definition ScalewayMachine_DeepCopy :: "('m, 'l, 'f, 'x) copy_API \<Rightarrow> addr option \<Rightarrow> (('m, 'l, 'f, 'x) memory, addr option) go" where
  "ScalewayMachine_DeepCopy api = copy_pointer k_ScalewayMachine (ScalewayMachine_DeepCopyInto api)"

definition ScalewayMachineList_DeepCopyInto :: "('m, 'l, 'f, 'x) copy_API \<Rightarrow> 'l ScalewayMachineList_mem \<Rightarrow> (('m, 'l, 'f, 'x) memory, 'l ScalewayMachineList_mem) go" where
  "ScalewayMachineList_DeepCopyInto api src =
     bind (ca_ListMeta api (smlm_ListMeta src)) (\<lambda>listMeta.
     bind (copy_slice k_ScalewayMachines (ScalewayMachine_DeepCopyInto api) (smlm_Items src)) (\<lambda>items.
     ret (src\<lparr>smlm_ListMeta := listMeta, smlm_Items := items\<rparr>)))"

definition ScalewayMachineList_DeepCopy :: "('m, 'l, 'f, 'x) copy_API \<Rightarrow> addr option \<Rightarrow> (('m, 'l, 'f, 'x) memory, addr option) go" where
  "ScalewayMachineList_DeepCopy api = copy_pointer k_ScalewayMachineList (ScalewayMachineList_DeepCopyInto api)"

section \<open>Machine templates\<close>

definition ScalewayMachineTemplateResource_DeepCopyInto :: "('m, 'l, 'f, 'x) copy_API \<Rightarrow> 'm ScalewayMachineTemplateResource_mem \<Rightarrow> (('m, 'l, 'f, 'x) memory, 'm ScalewayMachineTemplateResource_mem) go" where
  "ScalewayMachineTemplateResource_DeepCopyInto api src =
     bind (ca_ObjectMeta api (mtrm_Meta src)) (\<lambda>meta.
     bind (ScalewayMachineSpec_DeepCopyInto (mtrm_Spec src)) (\<lambda>spec.
     ret (src\<lparr>mtrm_Meta := meta, mtrm_Spec := spec\<rparr>)))"

definition ScalewayMachineTemplateResource_DeepCopy :: "('m, 'l, 'f, 'x) copy_API \<Rightarrow> addr option \<Rightarrow> (('m, 'l, 'f, 'x) memory, addr option) go" where
  "ScalewayMachineTemplateResource_DeepCopy api = copy_pointer k_ScalewayMachineTemplateResource (ScalewayMachineTemplateResource_DeepCopyInto api)"

definition ScalewayMachineTemplateSpec_DeepCopyInto :: "('m, 'l, 'f, 'x) copy_API \<Rightarrow> 'm ScalewayMachineTemplateSpec_mem \<Rightarrow> (('m, 'l, 'f, 'x) memory, 'm ScalewayMachineTemplateSpec_mem) go" where
  "ScalewayMachineTemplateSpec_DeepCopyInto api src =
     bind (ScalewayMachineTemplateResource_DeepCopyInto api (mtsm_Template src)) (\<lambda>template.
     ret (src\<lparr>mtsm_Template := template\<rparr>))"

definition ScalewayMachineTemplateSpec_DeepCopy :: "('m, 'l, 'f, 'x) copy_API \<Rightarrow> addr option \<Rightarrow> (('m, 'l, 'f, 'x) memory, addr option) go" where
  "ScalewayMachineTemplateSpec_DeepCopy api = copy_pointer k_ScalewayMachineTemplateSpec (ScalewayMachineTemplateSpec_DeepCopyInto api)"

definition ScalewayMachineTemplate_DeepCopyInto :: "('m, 'l, 'f, 'x) copy_API \<Rightarrow> 'm ScalewayMachineTemplate_mem \<Rightarrow> (('m, 'l, 'f, 'x) memory, 'm ScalewayMachineTemplate_mem) go" where
  "ScalewayMachineTemplate_DeepCopyInto api src =
     bind (ca_ObjectMeta api (mtm_Meta src)) (\<lambda>meta.
     bind (ScalewayMachineTemplateSpec_DeepCopyInto api (mtm_Spec src)) (\<lambda>spec.
     ret (src\<lparr>mtm_Meta := meta, mtm_Spec := spec\<rparr>)))"

definition ScalewayMachineTemplate_DeepCopy :: "('m, 'l, 'f, 'x) copy_API \<Rightarrow> addr option \<Rightarrow> (('m, 'l, 'f, 'x) memory, addr option) go" where
  "ScalewayMachineTemplate_DeepCopy api = copy_pointer k_ScalewayMachineTemplate (ScalewayMachineTemplate_DeepCopyInto api)"

definition ScalewayMachineTemplateList_DeepCopyInto :: "('m, 'l, 'f, 'x) copy_API \<Rightarrow> 'l ScalewayMachineTemplateList_mem \<Rightarrow> (('m, 'l, 'f, 'x) memory, 'l ScalewayMachineTemplateList_mem) go" where
  "ScalewayMachineTemplateList_DeepCopyInto api src =
     bind (ca_ListMeta api (mtlm_ListMeta src)) (\<lambda>listMeta.
     bind (copy_slice k_ScalewayMachineTemplates (ScalewayMachineTemplate_DeepCopyInto api) (mtlm_Items src)) (\<lambda>items.
     ret (src\<lparr>mtlm_ListMeta := listMeta, mtlm_Items := items\<rparr>)))"

definition ScalewayMachineTemplateList_DeepCopy :: "('m, 'l, 'f, 'x) copy_API \<Rightarrow> addr option \<Rightarrow> (('m, 'l, 'f, 'x) memory, addr option) go" where
  "ScalewayMachineTemplateList_DeepCopy api = copy_pointer k_ScalewayMachineTemplateList (ScalewayMachineTemplateList_DeepCopyInto api)"

section \<open>Copies behind an interface\<close>

text \<open>
  A \<^verbatim>\<open>runtime.Object\<close> is nil, or a pointer with its type; a nil pointer with a type is not the nil interface.
\<close>

datatype object_type =
    T_ScalewayCluster
  | T_ScalewayClusterList
  | T_ScalewayClusterTemplate
  | T_ScalewayClusterTemplateList
  | T_ScalewayMachine
  | T_ScalewayMachineList
  | T_ScalewayMachineTemplate
  | T_ScalewayMachineTemplateList

datatype runtime_Object = NilInterface | Iface object_type "addr option"

definition ScalewayCluster_DeepCopyObject :: "('m, 'l, 'f, 'x) copy_API \<Rightarrow> addr option \<Rightarrow> (('m, 'l, 'f, 'x) memory, runtime_Object) go" where
  "ScalewayCluster_DeepCopyObject api src = bind (ScalewayCluster_DeepCopy api src) (\<lambda>c.
     if c \<noteq> None then ret (Iface T_ScalewayCluster c) else ret NilInterface)"

definition ScalewayClusterList_DeepCopyObject :: "('m, 'l, 'f, 'x) copy_API \<Rightarrow> addr option \<Rightarrow> (('m, 'l, 'f, 'x) memory, runtime_Object) go" where
  "ScalewayClusterList_DeepCopyObject api src = bind (ScalewayClusterList_DeepCopy api src) (\<lambda>c.
     if c \<noteq> None then ret (Iface T_ScalewayClusterList c) else ret NilInterface)"

definition ScalewayClusterTemplate_DeepCopyObject :: "('m, 'l, 'f, 'x) copy_API \<Rightarrow> addr option \<Rightarrow> (('m, 'l, 'f, 'x) memory, runtime_Object) go" where
  "ScalewayClusterTemplate_DeepCopyObject api src = bind (ScalewayClusterTemplate_DeepCopy api src) (\<lambda>c.
     if c \<noteq> None then ret (Iface T_ScalewayClusterTemplate c) else ret NilInterface)"

definition ScalewayClusterTemplateList_DeepCopyObject :: "('m, 'l, 'f, 'x) copy_API \<Rightarrow> addr option \<Rightarrow> (('m, 'l, 'f, 'x) memory, runtime_Object) go" where
  "ScalewayClusterTemplateList_DeepCopyObject api src = bind (ScalewayClusterTemplateList_DeepCopy api src) (\<lambda>c.
     if c \<noteq> None then ret (Iface T_ScalewayClusterTemplateList c) else ret NilInterface)"

definition ScalewayMachine_DeepCopyObject :: "('m, 'l, 'f, 'x) copy_API \<Rightarrow> addr option \<Rightarrow> (('m, 'l, 'f, 'x) memory, runtime_Object) go" where
  "ScalewayMachine_DeepCopyObject api src = bind (ScalewayMachine_DeepCopy api src) (\<lambda>c.
     if c \<noteq> None then ret (Iface T_ScalewayMachine c) else ret NilInterface)"

definition ScalewayMachineList_DeepCopyObject :: "('m, 'l, 'f, 'x) copy_API \<Rightarrow> addr option \<Rightarrow> (('m, 'l, 'f, 'x) memory, runtime_Object) go" where
  "ScalewayMachineList_DeepCopyObject api src = bind (ScalewayMachineList_DeepCopy api src) (\<lambda>c.
     if c \<noteq> None then ret (Iface T_ScalewayMachineList c) else ret NilInterface)"

definition ScalewayMachineTemplate_DeepCopyObject :: "('m, 'l, 'f, 'x) copy_API \<Rightarrow> addr option \<Rightarrow> (('m, 'l, 'f, 'x) memory, runtime_Object) go" where
  "ScalewayMachineTemplate_DeepCopyObject api src = bind (ScalewayMachineTemplate_DeepCopy api src) (\<lambda>c.
     if c \<noteq> None then ret (Iface T_ScalewayMachineTemplate c) else ret NilInterface)"

definition ScalewayMachineTemplateList_DeepCopyObject :: "('m, 'l, 'f, 'x) copy_API \<Rightarrow> addr option \<Rightarrow> (('m, 'l, 'f, 'x) memory, runtime_Object) go" where
  "ScalewayMachineTemplateList_DeepCopyObject api src = bind (ScalewayMachineTemplateList_DeepCopy api src) (\<lambda>c.
     if c \<noteq> None then ret (Iface T_ScalewayMachineTemplateList c) else ret NilInterface)"

text \<open>The call \<^verbatim>\<open>obj.DeepCopyObject()\<close>, by the type in the interface; on the nil interface it panics.\<close>

definition DeepCopyObject :: "('m, 'l, 'f, 'x) copy_API \<Rightarrow> runtime_Object \<Rightarrow> (('m, 'l, 'f, 'x) memory, runtime_Object) go" where
  "DeepCopyObject api obj = (case obj of
     NilInterface \<Rightarrow> panic
   | Iface t p \<Rightarrow> (case t of
       T_ScalewayCluster \<Rightarrow> ScalewayCluster_DeepCopyObject api p
     | T_ScalewayClusterList \<Rightarrow> ScalewayClusterList_DeepCopyObject api p
     | T_ScalewayClusterTemplate \<Rightarrow> ScalewayClusterTemplate_DeepCopyObject api p
     | T_ScalewayClusterTemplateList \<Rightarrow> ScalewayClusterTemplateList_DeepCopyObject api p
     | T_ScalewayMachine \<Rightarrow> ScalewayMachine_DeepCopyObject api p
     | T_ScalewayMachineList \<Rightarrow> ScalewayMachineList_DeepCopyObject api p
     | T_ScalewayMachineTemplate \<Rightarrow> ScalewayMachineTemplate_DeepCopyObject api p
     | T_ScalewayMachineTemplateList \<Rightarrow> ScalewayMachineTemplateList_DeepCopyObject api p))"

end
