(* ===== verification/Deep_Copy_Refinement.thy ===== *)
theory Deep_Copy_Refinement
  imports Deep_Copy
begin

text \<open>
  That the deep copies are what the rest of the model takes them for, the identity on values: what
  the memory of an object stands for is a value of \<open>API_Types\<close>, and a copy stands for the same value
  in memory of its own. Every function of \<open>Deep_Copy\<close> meets the contract \<open>deep_copy\<close>, provided the ones
  of apimachinery and cluster-api do (\<open>copy_contract\<close>).
\<close>

section \<open>Templates\<close>

record ScalewayClusterTemplateResource =
  ctr_Meta :: ObjectMeta
  ctr_Spec :: ScalewayClusterSpec

record ScalewayClusterTemplateSpec =
  cts_Template :: ScalewayClusterTemplateResource

record ScalewayClusterTemplate =
  ct_Meta :: ObjectMeta
  ct_Spec :: ScalewayClusterTemplateSpec

record ScalewayMachineTemplateResource =
  mtr_Meta :: ObjectMeta
  mtr_Spec :: ScalewayMachineSpec

record ScalewayMachineTemplateSpec =
  mts_Template :: ScalewayMachineTemplateResource

record ScalewayMachineTemplate =
  mt_Meta :: ObjectMeta
  mt_Spec :: ScalewayMachineTemplateSpec

section \<open>Reading memory\<close>

record ('m, 'l, 'f, 'x, 'a) readers =
  rd_ObjectMeta :: "('m, 'l, 'f, 'x) cell mem \<Rightarrow> 'm \<Rightarrow> ObjectMeta option"
  rd_ListMeta :: "('m, 'l, 'f, 'x) cell mem \<Rightarrow> 'l \<Rightarrow> 'a option"
  rd_FailureDomainSpec :: "('m, 'l, 'f, 'x) cell mem \<Rightarrow> 'f \<Rightarrow> bool option"

definition read_SecurityGroupRule :: "('m, 'l, 'f, 'x) cell mem \<Rightarrow> SecurityGroupRule_mem \<Rightarrow> SecurityGroupRule option" where
  "read_SecurityGroupRule m v =
     Option.bind (read_pointer k_string plain m (sgrm_Protocol v)) (\<lambda>protocol.
     Option.bind (read_pointer k_string plain m (sgrm_Ports v)) (\<lambda>ports.
     Option.bind (read_pointer k_string plain m (sgrm_IPRange v)) (\<lambda>ipRange.
     Some \<lparr>sgr_Action = sgrm_Action v, sgr_Protocol = protocol, sgr_Ports = ports, sgr_IPRange = ipRange\<rparr>)))"

definition read_SecurityGroupPolicy :: "('m, 'l, 'f, 'x) cell mem \<Rightarrow> SecurityGroupPolicy_mem \<Rightarrow> SecurityGroupPolicy option" where
  "read_SecurityGroupPolicy m v =
     Option.bind (read_pointer k_string plain m (sgpm_Default v)) (\<lambda>default.
     Option.bind (read_slice k_SecurityGroupRules read_SecurityGroupRule m (sgpm_Rules v)) (\<lambda>rules.
     Some \<lparr>sgp_Default = default, sgp_Rules = rules\<rparr>))"

definition read_SecurityGroup :: "('m, 'l, 'f, 'x) cell mem \<Rightarrow> SecurityGroup_mem \<Rightarrow> SecurityGroup option" where
  "read_SecurityGroup m v =
     Option.bind (read_pointer k_SecurityGroupPolicy read_SecurityGroupPolicy m (sgm_Inbound v)) (\<lambda>inbound.
     Option.bind (read_pointer k_SecurityGroupPolicy read_SecurityGroupPolicy m (sgm_Outbound v)) (\<lambda>outbound.
     Some \<lparr>sg_Name = sgm_Name v, sg_Inbound = inbound, sg_Outbound = outbound\<rparr>))"

definition read_PrivateNetworkSpec :: "('m, 'l, 'f, 'x) cell mem \<Rightarrow> PrivateNetworkSpec_mem \<Rightarrow> PrivateNetworkSpec option" where
  "read_PrivateNetworkSpec m v =
     Option.bind (read_pointer k_string plain m (pnsm_ID v)) (\<lambda>ID.
     Option.bind (read_pointer k_string plain m (pnsm_Subnet v)) (\<lambda>subnet.
     Some \<lparr>pns_Enabled = pnsm_Enabled v, pns_ID = ID, pns_Subnet = subnet\<rparr>))"

definition read_PublicGatewaySpec :: "('m, 'l, 'f, 'x) cell mem \<Rightarrow> PublicGatewaySpec_mem \<Rightarrow> PublicGatewaySpec option" where
  "read_PublicGatewaySpec m v =
     Option.bind (read_pointer k_string plain m (pgsm_ID v)) (\<lambda>ID.
     Option.bind (read_pointer k_string plain m (pgsm_Type v)) (\<lambda>type.
     Option.bind (read_pointer k_string plain m (pgsm_IP v)) (\<lambda>IP.
     Option.bind (read_pointer k_string plain m (pgsm_Zone v)) (\<lambda>zone.
     Some \<lparr>pgs_Enabled = pgsm_Enabled v, pgs_ID = ID, pgs_Type = type, pgs_IP = IP, pgs_Zone = zone\<rparr>))))"

definition read_LoadBalancerSpec :: "('m, 'l, 'f, 'x) cell mem \<Rightarrow> LoadBalancerSpec_mem \<Rightarrow> LoadBalancerSpec option" where
  "read_LoadBalancerSpec m v =
     Option.bind (read_pointer k_string plain m (lbsm_Zone v)) (\<lambda>zone.
     Option.bind (read_pointer k_string plain m (lbsm_Type v)) (\<lambda>type.
     Option.bind (read_pointer k_string plain m (lbsm_IP v)) (\<lambda>IP.
     Option.bind (read_slice k_strings plain m (lbsm_AllowedRanges v)) (\<lambda>allowedRanges.
     Some \<lparr>lbs_Zone = zone, lbs_Type = type, lbs_IP = IP, lbs_AllowedRanges = allowedRanges\<rparr>))))"

definition read_NetworkSpec :: "('m, 'l, 'f, 'x) cell mem \<Rightarrow> NetworkSpec_mem \<Rightarrow> NetworkSpec option" where
  "read_NetworkSpec m v =
     Option.bind (read_pointer k_PrivateNetworkSpec read_PrivateNetworkSpec m (nsm_PrivateNetwork v)) (\<lambda>privateNetwork.
     Option.bind (read_pointer k_PublicGatewaySpec read_PublicGatewaySpec m (nsm_PublicGateway v)) (\<lambda>publicGateway.
     Option.bind (read_slice k_SecurityGroups read_SecurityGroup m (nsm_SecurityGroups v)) (\<lambda>securityGroups.
     Some \<lparr>ns_PrivateNetwork = privateNetwork, ns_PublicGateway = publicGateway, ns_SecurityGroups = securityGroups\<rparr>)))"

definition read_NetworkStatus :: "('m, 'l, 'f, 'x) cell mem \<Rightarrow> NetworkStatus_mem \<Rightarrow> NetworkStatus option" where
  "read_NetworkStatus m v =
     Option.bind (read_pointer k_string plain m (nstm_PrivateNetworkID v)) (\<lambda>privateNetworkID.
     Option.bind (read_pointer k_string plain m (nstm_PublicGatewayID v)) (\<lambda>publicGatewayID.
     Some \<lparr>nst_PrivateNetworkID = privateNetworkID, nst_PublicGatewayID = publicGatewayID\<rparr>))"

definition read_ScalewayClusterSpec :: "('m, 'l, 'f, 'x) cell mem \<Rightarrow> ScalewayClusterSpec_mem \<Rightarrow> ScalewayClusterSpec option" where
  "read_ScalewayClusterSpec m v =
     Option.bind (read_slice k_strings plain m (specm_FailureDomains v)) (\<lambda>failureDomains.
     Option.bind (read_pointer k_NetworkSpec read_NetworkSpec m (specm_Network v)) (\<lambda>network.
     Option.bind (read_pointer k_LoadBalancerSpec read_LoadBalancerSpec m (specm_ControlPlaneLoadBalancer v)) (\<lambda>loadBalancer.
     Some \<lparr>spec_ControlPlaneEndpoint = specm_ControlPlaneEndpoint v, spec_FailureDomains = failureDomains, spec_Region = specm_Region v,
       spec_Network = network, spec_ControlPlaneLoadBalancer = loadBalancer, spec_ScalewaySecretName = specm_ScalewaySecretName v\<rparr>)))"

definition read_entry :: "('m, 'l, 'f, 'x, 'a) readers \<Rightarrow> ('m, 'l, 'f, 'x) cell mem \<Rightarrow> string \<times> 'f \<Rightarrow> (string \<times> bool) option" where
  "read_entry rd m e = Option.bind (rd_FailureDomainSpec rd m (snd e)) (\<lambda>controlPlane. Some (fst e, controlPlane))"

definition read_failure_domains :: "('m, 'l, 'f, 'x, 'a) readers \<Rightarrow> ('m, 'l, 'f, 'x) cell mem \<Rightarrow> (string \<times> 'f) list \<Rightarrow> (string \<rightharpoonup> bool) option" where
  "read_failure_domains rd m es = map_option map_of (those (map (read_entry rd m) es))"

definition read_ScalewayClusterStatus :: "('m, 'l, 'f, 'x, 'a) readers \<Rightarrow> ('m, 'l, 'f, 'x) cell mem \<Rightarrow> ScalewayClusterStatus_mem \<Rightarrow> ScalewayClusterStatus option" where
  "read_ScalewayClusterStatus rd m v =
     Option.bind (read_pointer k_FailureDomains (read_failure_domains rd) m (cstm_FailureDomains v)) (\<lambda>failureDomains.
     Option.bind (read_pointer k_NetworkStatus read_NetworkStatus m (cstm_Network v)) (\<lambda>network.
     Some \<lparr>cst_Ready = cstm_Ready v, cst_FailureDomains = (case failureDomains of None \<Rightarrow> Map.empty | Some f \<Rightarrow> f), cst_Network = network\<rparr>))"

definition read_ScalewayCluster :: "('m, 'l, 'f, 'x, 'a) readers \<Rightarrow> ('m, 'l, 'f, 'x) cell mem \<Rightarrow> 'm ScalewayCluster_mem \<Rightarrow> (TypeMeta \<times> ScalewayCluster) option" where
  "read_ScalewayCluster rd m v =
     Option.bind (rd_ObjectMeta rd m (scm_Meta v)) (\<lambda>meta.
     Option.bind (read_ScalewayClusterSpec m (scm_Spec v)) (\<lambda>spec.
     Option.bind (read_ScalewayClusterStatus rd m (scm_Status v)) (\<lambda>status.
     Some (scm_TypeMeta v, \<lparr>sc_Meta = meta, sc_Spec = spec, sc_Status = status\<rparr>))))"

definition read_ScalewayClusterTemplateResource :: "('m, 'l, 'f, 'x, 'a) readers \<Rightarrow> ('m, 'l, 'f, 'x) cell mem \<Rightarrow> 'm ScalewayClusterTemplateResource_mem \<Rightarrow> ScalewayClusterTemplateResource option" where
  "read_ScalewayClusterTemplateResource rd m v =
     Option.bind (rd_ObjectMeta rd m (ctrm_Meta v)) (\<lambda>meta.
     Option.bind (read_ScalewayClusterSpec m (ctrm_Spec v)) (\<lambda>spec.
     Some \<lparr>ctr_Meta = meta, ctr_Spec = spec\<rparr>))"

definition read_ScalewayClusterTemplateSpec :: "('m, 'l, 'f, 'x, 'a) readers \<Rightarrow> ('m, 'l, 'f, 'x) cell mem \<Rightarrow> 'm ScalewayClusterTemplateSpec_mem \<Rightarrow> ScalewayClusterTemplateSpec option" where
  "read_ScalewayClusterTemplateSpec rd m v =
     Option.bind (read_ScalewayClusterTemplateResource rd m (ctsm_Template v)) (\<lambda>template.
     Some \<lparr>cts_Template = template\<rparr>)"

definition read_ScalewayClusterTemplate :: "('m, 'l, 'f, 'x, 'a) readers \<Rightarrow> ('m, 'l, 'f, 'x) cell mem \<Rightarrow> 'm ScalewayClusterTemplate_mem \<Rightarrow> (TypeMeta \<times> ScalewayClusterTemplate) option" where
  "read_ScalewayClusterTemplate rd m v =
     Option.bind (rd_ObjectMeta rd m (ctm_Meta v)) (\<lambda>meta.
     Option.bind (read_ScalewayClusterTemplateSpec rd m (ctm_Spec v)) (\<lambda>spec.
     Some (ctm_TypeMeta v, \<lparr>ct_Meta = meta, ct_Spec = spec\<rparr>)))"

definition read_ScalewayMachineSpec :: "('m, 'l, 'f, 'x) cell mem \<Rightarrow> ScalewayMachineSpec_mem \<Rightarrow> ScalewayMachineSpec option" where
  "read_ScalewayMachineSpec m v =
     Option.bind (read_pointer k_string plain m (msm_ProviderID v)) (\<lambda>providerID.
     Option.bind (read_pointer k_int64 plain m (msm_RootVolumeSize v)) (\<lambda>rootVolumeSize.
     Option.bind (read_pointer k_string plain m (msm_RootVolumeType v)) (\<lambda>rootVolumeType.
     Option.bind (read_pointer k_bool plain m (msm_PublicIP v)) (\<lambda>publicIP.
     Option.bind (read_pointer k_string plain m (msm_SecurityGroupName v)) (\<lambda>securityGroupName.
     Some \<lparr>ms_ProviderID = providerID, ms_Image = msm_Image v, ms_Type = msm_Type v, ms_RootVolumeSize = rootVolumeSize,
       ms_RootVolumeType = rootVolumeType, ms_PublicIP = publicIP, ms_SecurityGroupName = securityGroupName\<rparr>)))))"

definition read_ScalewayMachineStatus :: "('m, 'l, 'f, 'x) cell mem \<Rightarrow> ScalewayMachineStatus_mem \<Rightarrow> ScalewayMachineStatus option" where
  "read_ScalewayMachineStatus m v =
     Option.bind (read_slice k_MachineAddresses plain m (mstm_Addresses v)) (\<lambda>addresses.
     Some \<lparr>mst_Ready = mstm_Ready v, mst_Addresses = addresses\<rparr>)"

definition read_ScalewayMachine :: "('m, 'l, 'f, 'x, 'a) readers \<Rightarrow> ('m, 'l, 'f, 'x) cell mem \<Rightarrow> 'm ScalewayMachine_mem \<Rightarrow> (TypeMeta \<times> ScalewayMachine) option" where
  "read_ScalewayMachine rd m v =
     Option.bind (rd_ObjectMeta rd m (smm_Meta v)) (\<lambda>meta.
     Option.bind (read_ScalewayMachineSpec m (smm_Spec v)) (\<lambda>spec.
     Option.bind (read_ScalewayMachineStatus m (smm_Status v)) (\<lambda>status.
     Some (smm_TypeMeta v, \<lparr>sm_Meta = meta, sm_Spec = spec, sm_Status = status\<rparr>))))"

definition read_ScalewayMachineTemplateResource :: "('m, 'l, 'f, 'x, 'a) readers \<Rightarrow> ('m, 'l, 'f, 'x) cell mem \<Rightarrow> 'm ScalewayMachineTemplateResource_mem \<Rightarrow> ScalewayMachineTemplateResource option" where
  "read_ScalewayMachineTemplateResource rd m v =
     Option.bind (rd_ObjectMeta rd m (mtrm_Meta v)) (\<lambda>meta.
     Option.bind (read_ScalewayMachineSpec m (mtrm_Spec v)) (\<lambda>spec.
     Some \<lparr>mtr_Meta = meta, mtr_Spec = spec\<rparr>))"

definition read_ScalewayMachineTemplateSpec :: "('m, 'l, 'f, 'x, 'a) readers \<Rightarrow> ('m, 'l, 'f, 'x) cell mem \<Rightarrow> 'm ScalewayMachineTemplateSpec_mem \<Rightarrow> ScalewayMachineTemplateSpec option" where
  "read_ScalewayMachineTemplateSpec rd m v =
     Option.bind (read_ScalewayMachineTemplateResource rd m (mtsm_Template v)) (\<lambda>template.
     Some \<lparr>mts_Template = template\<rparr>)"

definition read_ScalewayMachineTemplate :: "('m, 'l, 'f, 'x, 'a) readers \<Rightarrow> ('m, 'l, 'f, 'x) cell mem \<Rightarrow> 'm ScalewayMachineTemplate_mem \<Rightarrow> (TypeMeta \<times> ScalewayMachineTemplate) option" where
  "read_ScalewayMachineTemplate rd m v =
     Option.bind (rd_ObjectMeta rd m (mtm_Meta v)) (\<lambda>meta.
     Option.bind (read_ScalewayMachineTemplateSpec rd m (mtm_Spec v)) (\<lambda>spec.
     Some (mtm_TypeMeta v, \<lparr>mt_Meta = meta, mt_Spec = spec\<rparr>)))"

definition read_ScalewayClusterList :: "('m, 'l, 'f, 'x, 'a) readers \<Rightarrow> ('m, 'l, 'f, 'x) cell mem \<Rightarrow> 'l ScalewayClusterList_mem \<Rightarrow> (TypeMeta \<times> 'a \<times> (TypeMeta \<times> ScalewayCluster) list) option" where
  "read_ScalewayClusterList rd m v =
     Option.bind (rd_ListMeta rd m (sclm_ListMeta v)) (\<lambda>listMeta.
     Option.bind (read_slice k_ScalewayClusters (read_ScalewayCluster rd) m (sclm_Items v)) (\<lambda>items.
     Some (sclm_TypeMeta v, listMeta, items)))"

definition read_ScalewayClusterTemplateList :: "('m, 'l, 'f, 'x, 'a) readers \<Rightarrow> ('m, 'l, 'f, 'x) cell mem \<Rightarrow> 'l ScalewayClusterTemplateList_mem \<Rightarrow> (TypeMeta \<times> 'a \<times> (TypeMeta \<times> ScalewayClusterTemplate) list) option" where
  "read_ScalewayClusterTemplateList rd m v =
     Option.bind (rd_ListMeta rd m (ctlm_ListMeta v)) (\<lambda>listMeta.
     Option.bind (read_slice k_ScalewayClusterTemplates (read_ScalewayClusterTemplate rd) m (ctlm_Items v)) (\<lambda>items.
     Some (ctlm_TypeMeta v, listMeta, items)))"

definition read_ScalewayMachineList :: "('m, 'l, 'f, 'x, 'a) readers \<Rightarrow> ('m, 'l, 'f, 'x) cell mem \<Rightarrow> 'l ScalewayMachineList_mem \<Rightarrow> (TypeMeta \<times> 'a \<times> (TypeMeta \<times> ScalewayMachine) list) option" where
  "read_ScalewayMachineList rd m v =
     Option.bind (rd_ListMeta rd m (smlm_ListMeta v)) (\<lambda>listMeta.
     Option.bind (read_slice k_ScalewayMachines (read_ScalewayMachine rd) m (smlm_Items v)) (\<lambda>items.
     Some (smlm_TypeMeta v, listMeta, items)))"

definition read_ScalewayMachineTemplateList :: "('m, 'l, 'f, 'x, 'a) readers \<Rightarrow> ('m, 'l, 'f, 'x) cell mem \<Rightarrow> 'l ScalewayMachineTemplateList_mem \<Rightarrow> (TypeMeta \<times> 'a \<times> (TypeMeta \<times> ScalewayMachineTemplate) list) option" where
  "read_ScalewayMachineTemplateList rd m v =
     Option.bind (rd_ListMeta rd m (mtlm_ListMeta v)) (\<lambda>listMeta.
     Option.bind (read_slice k_ScalewayMachineTemplates (read_ScalewayMachineTemplate rd) m (mtlm_Items v)) (\<lambda>items.
     Some (mtlm_TypeMeta v, listMeta, items)))"

section \<open>Every copy keeps the contract\<close>

definition copy_contract :: "('m, 'l, 'f, 'x) copy_API \<Rightarrow> ('m, 'l, 'f, 'x, 'a) readers \<Rightarrow> bool" where
  "copy_contract api rd \<longleftrightarrow> deep_copy (ca_ObjectMeta api) (rd_ObjectMeta rd) \<and> deep_copy (ca_ListMeta api) (rd_ListMeta rd)
     \<and> deep_copy (ca_FailureDomainSpec api) (rd_FailureDomainSpec rd)"

interpretation flat: deep_copy ret plain
  by (rule deep_copy_plain)

lemmas copy_string = flat.deep_copy_pointer [OF k_string_ok]
lemmas copy_int64 = flat.deep_copy_pointer [OF k_int64_ok]
lemmas copy_bool = flat.deep_copy_pointer [OF k_bool_ok]
lemmas copy_strings = flat.deep_copy_slice [OF k_strings_ok]
lemmas copy_addresses = flat.deep_copy_slice [OF k_MachineAddresses_ok]

interpretation sg_rule: deep_copy SecurityGroupRule_DeepCopyInto read_SecurityGroupRule
  by (rule deep_copy_struct3 [OF copy_string copy_string copy_string
        SecurityGroupRule_DeepCopyInto_def read_SecurityGroupRule_def]) simp

interpretation sg_policy: deep_copy SecurityGroupPolicy_DeepCopyInto read_SecurityGroupPolicy
  by (rule deep_copy_struct2 [OF copy_string sg_rule.deep_copy_slice [OF k_SecurityGroupRules_ok]
        SecurityGroupPolicy_DeepCopyInto_def read_SecurityGroupPolicy_def]) simp

interpretation sg: deep_copy SecurityGroup_DeepCopyInto read_SecurityGroup
  by (rule deep_copy_struct2 [OF sg_policy.deep_copy_pointer [OF k_SecurityGroupPolicy_ok] sg_policy.deep_copy_pointer [OF k_SecurityGroupPolicy_ok]
        SecurityGroup_DeepCopyInto_def read_SecurityGroup_def]) simp

interpretation pn_spec: deep_copy PrivateNetworkSpec_DeepCopyInto read_PrivateNetworkSpec
  by (rule deep_copy_struct2 [OF copy_string copy_string
        PrivateNetworkSpec_DeepCopyInto_def read_PrivateNetworkSpec_def]) simp

interpretation gw_spec: deep_copy PublicGatewaySpec_DeepCopyInto read_PublicGatewaySpec
  by (rule deep_copy_struct4 [OF copy_string copy_string copy_string copy_string
        PublicGatewaySpec_DeepCopyInto_def read_PublicGatewaySpec_def]) simp

interpretation lb_spec: deep_copy LoadBalancerSpec_DeepCopyInto read_LoadBalancerSpec
  by (rule deep_copy_struct4 [OF copy_string copy_string copy_string copy_strings
        LoadBalancerSpec_DeepCopyInto_def read_LoadBalancerSpec_def]) simp

interpretation net_spec: deep_copy NetworkSpec_DeepCopyInto read_NetworkSpec
  by (rule deep_copy_struct3 [OF pn_spec.deep_copy_pointer [OF k_PrivateNetworkSpec_ok] gw_spec.deep_copy_pointer [OF k_PublicGatewaySpec_ok] sg.deep_copy_slice [OF k_SecurityGroups_ok]
        NetworkSpec_DeepCopyInto_def read_NetworkSpec_def]) simp

interpretation net_status: deep_copy NetworkStatus_DeepCopyInto read_NetworkStatus
  by (rule deep_copy_struct2 [OF copy_string copy_string
        NetworkStatus_DeepCopyInto_def read_NetworkStatus_def]) simp

interpretation cluster_spec: deep_copy ScalewayClusterSpec_DeepCopyInto read_ScalewayClusterSpec
  by (rule deep_copy_struct3 [OF copy_strings net_spec.deep_copy_pointer [OF k_NetworkSpec_ok] lb_spec.deep_copy_pointer [OF k_LoadBalancerSpec_ok]
        ScalewayClusterSpec_DeepCopyInto_def read_ScalewayClusterSpec_def]) simp

interpretation machine_spec: deep_copy ScalewayMachineSpec_DeepCopyInto read_ScalewayMachineSpec
  by (rule deep_copy_struct5 [OF copy_string copy_int64 copy_string copy_bool copy_string
        ScalewayMachineSpec_DeepCopyInto_def read_ScalewayMachineSpec_def]) simp

interpretation machine_status: deep_copy ScalewayMachineStatus_DeepCopyInto read_ScalewayMachineStatus
  by (rule deep_copy_struct1 [OF copy_addresses
        ScalewayMachineStatus_DeepCopyInto_def read_ScalewayMachineStatus_def]) simp

subsection \<open>What contains parts of other packages\<close>

lemma copy_contractD:
  assumes "copy_contract api rd"
  shows "deep_copy (ca_ObjectMeta api) (rd_ObjectMeta rd)" "deep_copy (ca_ListMeta api) (rd_ListMeta rd)"
    "deep_copy (ca_FailureDomainSpec api) (rd_FailureDomainSpec rd)"
  using assms by (simp_all add: copy_contract_def)

lemma deep_copy_failure_domains:
  assumes "copy_contract api rd"
  shows "deep_copy (copy_failure_domains api) (read_failure_domains rd)"
proof -
  have "deep_copy (\<lambda>entry. case entry of (key, val) \<Rightarrow> bind (ca_FailureDomainSpec api val) (\<lambda>v. ret (key, v))) (read_entry rd)"
    by (rule deep_copy_struct1 [OF copy_contractD(3) [OF assms] _ read_entry_def, where put = "\<lambda>e v. (fst e, v)"])
      (simp_all split: prod.split)
  from deep_copy.deep_copy_list [OF this] show ?thesis
    unfolding copy_failure_domains_def read_failure_domains_def [abs_def] .
qed

lemma deep_copy_ScalewayClusterStatus: "copy_contract api rd \<Longrightarrow> deep_copy (ScalewayClusterStatus_DeepCopyInto api) (read_ScalewayClusterStatus rd)"
  by (rule deep_copy_struct2 [OF deep_copy.deep_copy_pointer [OF deep_copy_failure_domains k_FailureDomains_ok] net_status.deep_copy_pointer [OF k_NetworkStatus_ok]
        ScalewayClusterStatus_DeepCopyInto_def read_ScalewayClusterStatus_def]) simp_all

lemma deep_copy_ScalewayCluster: "copy_contract api rd \<Longrightarrow> deep_copy (ScalewayCluster_DeepCopyInto api) (read_ScalewayCluster rd)"
  by (rule deep_copy_struct3 [OF copy_contractD(1) cluster_spec.deep_copy_axioms deep_copy_ScalewayClusterStatus
        ScalewayCluster_DeepCopyInto_def read_ScalewayCluster_def]) simp_all

lemma deep_copy_ScalewayClusterTemplateResource: "copy_contract api rd \<Longrightarrow> deep_copy (ScalewayClusterTemplateResource_DeepCopyInto api) (read_ScalewayClusterTemplateResource rd)"
  by (rule deep_copy_struct2 [OF copy_contractD(1) cluster_spec.deep_copy_axioms
        ScalewayClusterTemplateResource_DeepCopyInto_def read_ScalewayClusterTemplateResource_def]) simp_all

lemma deep_copy_ScalewayClusterTemplateSpec: "copy_contract api rd \<Longrightarrow> deep_copy (ScalewayClusterTemplateSpec_DeepCopyInto api) (read_ScalewayClusterTemplateSpec rd)"
  by (rule deep_copy_struct1 [OF deep_copy_ScalewayClusterTemplateResource
        ScalewayClusterTemplateSpec_DeepCopyInto_def read_ScalewayClusterTemplateSpec_def]) simp_all

lemma deep_copy_ScalewayClusterTemplate: "copy_contract api rd \<Longrightarrow> deep_copy (ScalewayClusterTemplate_DeepCopyInto api) (read_ScalewayClusterTemplate rd)"
  by (rule deep_copy_struct2 [OF copy_contractD(1) deep_copy_ScalewayClusterTemplateSpec
        ScalewayClusterTemplate_DeepCopyInto_def read_ScalewayClusterTemplate_def]) simp_all

lemma deep_copy_ScalewayClusterList: "copy_contract api rd \<Longrightarrow> deep_copy (ScalewayClusterList_DeepCopyInto api) (read_ScalewayClusterList rd)"
  by (rule deep_copy_struct2 [OF copy_contractD(2) deep_copy.deep_copy_slice [OF deep_copy_ScalewayCluster k_ScalewayClusters_ok]
        ScalewayClusterList_DeepCopyInto_def read_ScalewayClusterList_def]) simp_all

lemma deep_copy_ScalewayClusterTemplateList: "copy_contract api rd \<Longrightarrow> deep_copy (ScalewayClusterTemplateList_DeepCopyInto api) (read_ScalewayClusterTemplateList rd)"
  by (rule deep_copy_struct2 [OF copy_contractD(2) deep_copy.deep_copy_slice [OF deep_copy_ScalewayClusterTemplate k_ScalewayClusterTemplates_ok]
        ScalewayClusterTemplateList_DeepCopyInto_def read_ScalewayClusterTemplateList_def]) simp_all

lemma deep_copy_ScalewayMachine: "copy_contract api rd \<Longrightarrow> deep_copy (ScalewayMachine_DeepCopyInto api) (read_ScalewayMachine rd)"
  by (rule deep_copy_struct3 [OF copy_contractD(1) machine_spec.deep_copy_axioms machine_status.deep_copy_axioms
        ScalewayMachine_DeepCopyInto_def read_ScalewayMachine_def]) simp_all

lemma deep_copy_ScalewayMachineTemplateResource: "copy_contract api rd \<Longrightarrow> deep_copy (ScalewayMachineTemplateResource_DeepCopyInto api) (read_ScalewayMachineTemplateResource rd)"
  by (rule deep_copy_struct2 [OF copy_contractD(1) machine_spec.deep_copy_axioms
        ScalewayMachineTemplateResource_DeepCopyInto_def read_ScalewayMachineTemplateResource_def]) simp_all

lemma deep_copy_ScalewayMachineTemplateSpec: "copy_contract api rd \<Longrightarrow> deep_copy (ScalewayMachineTemplateSpec_DeepCopyInto api) (read_ScalewayMachineTemplateSpec rd)"
  by (rule deep_copy_struct1 [OF deep_copy_ScalewayMachineTemplateResource
        ScalewayMachineTemplateSpec_DeepCopyInto_def read_ScalewayMachineTemplateSpec_def]) simp_all

lemma deep_copy_ScalewayMachineTemplate: "copy_contract api rd \<Longrightarrow> deep_copy (ScalewayMachineTemplate_DeepCopyInto api) (read_ScalewayMachineTemplate rd)"
  by (rule deep_copy_struct2 [OF copy_contractD(1) deep_copy_ScalewayMachineTemplateSpec
        ScalewayMachineTemplate_DeepCopyInto_def read_ScalewayMachineTemplate_def]) simp_all

lemma deep_copy_ScalewayMachineList: "copy_contract api rd \<Longrightarrow> deep_copy (ScalewayMachineList_DeepCopyInto api) (read_ScalewayMachineList rd)"
  by (rule deep_copy_struct2 [OF copy_contractD(2) deep_copy.deep_copy_slice [OF deep_copy_ScalewayMachine k_ScalewayMachines_ok]
        ScalewayMachineList_DeepCopyInto_def read_ScalewayMachineList_def]) simp_all

lemma deep_copy_ScalewayMachineTemplateList: "copy_contract api rd \<Longrightarrow> deep_copy (ScalewayMachineTemplateList_DeepCopyInto api) (read_ScalewayMachineTemplateList rd)"
  by (rule deep_copy_struct2 [OF copy_contractD(2) deep_copy.deep_copy_slice [OF deep_copy_ScalewayMachineTemplate k_ScalewayMachineTemplates_ok]
        ScalewayMachineTemplateList_DeepCopyInto_def read_ScalewayMachineTemplateList_def]) simp_all

section \<open>Objects behind an interface\<close>

datatype 'a object_value =
    V_nil
  | V_ScalewayCluster "TypeMeta \<times> ScalewayCluster"
  | V_ScalewayClusterList "TypeMeta \<times> 'a \<times> (TypeMeta \<times> ScalewayCluster) list"
  | V_ScalewayClusterTemplate "TypeMeta \<times> ScalewayClusterTemplate"
  | V_ScalewayClusterTemplateList "TypeMeta \<times> 'a \<times> (TypeMeta \<times> ScalewayClusterTemplate) list"
  | V_ScalewayMachine "TypeMeta \<times> ScalewayMachine"
  | V_ScalewayMachineList "TypeMeta \<times> 'a \<times> (TypeMeta \<times> ScalewayMachine) list"
  | V_ScalewayMachineTemplate "TypeMeta \<times> ScalewayMachineTemplate"
  | V_ScalewayMachineTemplateList "TypeMeta \<times> 'a \<times> (TypeMeta \<times> ScalewayMachineTemplate) list"

definition read_object :: "('m, 'l, 'f, 'x, 'a) readers \<Rightarrow> ('m, 'l, 'f, 'x) cell mem \<Rightarrow> runtime_Object \<Rightarrow> 'a object_value option" where
  "read_object rd m obj = (case obj of
     NilInterface \<Rightarrow> Some V_nil
   | Iface t p \<Rightarrow> (case t of
       T_ScalewayCluster \<Rightarrow> map_option (case_option V_nil V_ScalewayCluster) (read_pointer k_ScalewayCluster (read_ScalewayCluster rd) m p)
     | T_ScalewayClusterList \<Rightarrow> map_option (case_option V_nil V_ScalewayClusterList) (read_pointer k_ScalewayClusterList (read_ScalewayClusterList rd) m p)
     | T_ScalewayClusterTemplate \<Rightarrow> map_option (case_option V_nil V_ScalewayClusterTemplate) (read_pointer k_ScalewayClusterTemplate (read_ScalewayClusterTemplate rd) m p)
     | T_ScalewayClusterTemplateList \<Rightarrow> map_option (case_option V_nil V_ScalewayClusterTemplateList) (read_pointer k_ScalewayClusterTemplateList (read_ScalewayClusterTemplateList rd) m p)
     | T_ScalewayMachine \<Rightarrow> map_option (case_option V_nil V_ScalewayMachine) (read_pointer k_ScalewayMachine (read_ScalewayMachine rd) m p)
     | T_ScalewayMachineList \<Rightarrow> map_option (case_option V_nil V_ScalewayMachineList) (read_pointer k_ScalewayMachineList (read_ScalewayMachineList rd) m p)
     | T_ScalewayMachineTemplate \<Rightarrow> map_option (case_option V_nil V_ScalewayMachineTemplate) (read_pointer k_ScalewayMachineTemplate (read_ScalewayMachineTemplate rd) m p)
     | T_ScalewayMachineTemplateList \<Rightarrow> map_option (case_option V_nil V_ScalewayMachineTemplateList) (read_pointer k_ScalewayMachineTemplateList (read_ScalewayMachineTemplateList rd) m p)))"

text \<open>
  The outcome of a copy: a run that returns, after which the original reads as before in every
  memory that agrees on the old cells, and the copy reads as the same value in every memory that
  agrees on the new ones. So whatever is written through one of them, the other does not change.
\<close>

definition independent_copy :: "('c mem \<Rightarrow> 'p \<Rightarrow> 'a option) \<Rightarrow> 'p \<Rightarrow> 'a \<Rightarrow> 'c heap \<Rightarrow> 'p outcome \<times> 'c heap \<Rightarrow> bool" where
  "independent_copy rd p value h run \<longleftrightarrow> (\<exists>p' h'. run = (Ok p', h') \<and> heap_wf h'
     \<and> (\<forall>m. (\<forall>x < hp_next h. m x = hp_mem h' x) \<longrightarrow> rd m p = Some value)
     \<and> (\<forall>m. (\<forall>x \<ge> hp_next h. m x = hp_mem h' x) \<longrightarrow> rd m p' = Some value))"

lemma independent_pointer:
  assumes "deep_copy into rd" and "kind_ok k" and "heap_wf h" and "read_pointer k rd (hp_mem h) p = Some value"
  shows "independent_copy (read_pointer k rd) p value h (copy_pointer k into p h)"
  using deep_copy.copy_independent [OF deep_copy.deep_copy_pointer [OF assms(1,2)] assms(3,4)]
  unfolding independent_copy_def by metis

lemma copy_pointer_nil: "fst (copy_pointer k into p h) = Ok None \<longleftrightarrow> p = None"
  by (auto simp: copy_pointer_def ret_def bind_def alloc_def split: option.split prod.split outcome.split)

lemma read_NilInterface: "read_object rd m NilInterface = Some V_nil"
  by (simp add: read_object_def)

lemma independent_object:
  assumes copies: "deep_copy into r" "kind_ok k" and h: "heap_wf h" "read_object rd (hp_mem h) (Iface t p) = Some value"
    and obj: "\<And>m q. read_object rd m (Iface t q) = map_option (case_option V_nil V) (read_pointer k r m q)"
    and run: "DeepCopyObject api (Iface t p) = bind (copy_pointer k into p) (\<lambda>c. if c \<noteq> None then ret (Iface t c) else ret NilInterface)"
  shows "independent_copy (read_object rd) (Iface t p) value h (DeepCopyObject api (Iface t p) h)
    \<and> (fst (DeepCopyObject api (Iface t p) h) = Ok NilInterface \<longleftrightarrow> p = None)"
proof -
  from h(2) obtain v where v: "read_pointer k r (hp_mem h) p = Some v" "value = case_option V_nil V v"
    by (auto simp: obj)
  from independent_pointer [OF copies h(1) v(1)]
  obtain p' h' where copied: "copy_pointer k into p h = (Ok p', h')" "heap_wf h'"
    "\<And>m. (\<forall>x < hp_next h. m x = hp_mem h' x) \<Longrightarrow> read_pointer k r m p = Some v"
    "\<And>m. (\<forall>x \<ge> hp_next h. m x = hp_mem h' x) \<Longrightarrow> read_pointer k r m p' = Some v"
    unfolding independent_copy_def by blast
  have "p' = None \<longleftrightarrow> p = None" using copied(1) copy_pointer_nil [of k into p h] by simp
  moreover have "v = None" if "p' = None" using copied(4) [of "hp_mem h'"] that by (simp add: read_pointer_def)
  ultimately show ?thesis
    unfolding independent_copy_def run v(2) using copied by (auto simp: bind_def ret_def obj read_NilInterface)
qed

lemma read_object_simps:
  "read_object rd m (Iface T_ScalewayCluster p) = map_option (case_option V_nil V_ScalewayCluster) (read_pointer k_ScalewayCluster (read_ScalewayCluster rd) m p)"
  "read_object rd m (Iface T_ScalewayClusterList p) = map_option (case_option V_nil V_ScalewayClusterList) (read_pointer k_ScalewayClusterList (read_ScalewayClusterList rd) m p)"
  "read_object rd m (Iface T_ScalewayClusterTemplate p) = map_option (case_option V_nil V_ScalewayClusterTemplate) (read_pointer k_ScalewayClusterTemplate (read_ScalewayClusterTemplate rd) m p)"
  "read_object rd m (Iface T_ScalewayClusterTemplateList p) = map_option (case_option V_nil V_ScalewayClusterTemplateList) (read_pointer k_ScalewayClusterTemplateList (read_ScalewayClusterTemplateList rd) m p)"
  "read_object rd m (Iface T_ScalewayMachine p) = map_option (case_option V_nil V_ScalewayMachine) (read_pointer k_ScalewayMachine (read_ScalewayMachine rd) m p)"
  "read_object rd m (Iface T_ScalewayMachineList p) = map_option (case_option V_nil V_ScalewayMachineList) (read_pointer k_ScalewayMachineList (read_ScalewayMachineList rd) m p)"
  "read_object rd m (Iface T_ScalewayMachineTemplate p) = map_option (case_option V_nil V_ScalewayMachineTemplate) (read_pointer k_ScalewayMachineTemplate (read_ScalewayMachineTemplate rd) m p)"
  "read_object rd m (Iface T_ScalewayMachineTemplateList p) = map_option (case_option V_nil V_ScalewayMachineTemplateList) (read_pointer k_ScalewayMachineTemplateList (read_ScalewayMachineTemplateList rd) m p)"
  by (simp_all add: read_object_def)

lemma DeepCopyObject_simps:
  "DeepCopyObject api (Iface T_ScalewayCluster p) = bind (copy_pointer k_ScalewayCluster (ScalewayCluster_DeepCopyInto api) p) (\<lambda>c. if c \<noteq> None then ret (Iface T_ScalewayCluster c) else ret NilInterface)"
  "DeepCopyObject api (Iface T_ScalewayClusterList p) = bind (copy_pointer k_ScalewayClusterList (ScalewayClusterList_DeepCopyInto api) p) (\<lambda>c. if c \<noteq> None then ret (Iface T_ScalewayClusterList c) else ret NilInterface)"
  "DeepCopyObject api (Iface T_ScalewayClusterTemplate p) = bind (copy_pointer k_ScalewayClusterTemplate (ScalewayClusterTemplate_DeepCopyInto api) p) (\<lambda>c. if c \<noteq> None then ret (Iface T_ScalewayClusterTemplate c) else ret NilInterface)"
  "DeepCopyObject api (Iface T_ScalewayClusterTemplateList p) = bind (copy_pointer k_ScalewayClusterTemplateList (ScalewayClusterTemplateList_DeepCopyInto api) p) (\<lambda>c. if c \<noteq> None then ret (Iface T_ScalewayClusterTemplateList c) else ret NilInterface)"
  "DeepCopyObject api (Iface T_ScalewayMachine p) = bind (copy_pointer k_ScalewayMachine (ScalewayMachine_DeepCopyInto api) p) (\<lambda>c. if c \<noteq> None then ret (Iface T_ScalewayMachine c) else ret NilInterface)"
  "DeepCopyObject api (Iface T_ScalewayMachineList p) = bind (copy_pointer k_ScalewayMachineList (ScalewayMachineList_DeepCopyInto api) p) (\<lambda>c. if c \<noteq> None then ret (Iface T_ScalewayMachineList c) else ret NilInterface)"
  "DeepCopyObject api (Iface T_ScalewayMachineTemplate p) = bind (copy_pointer k_ScalewayMachineTemplate (ScalewayMachineTemplate_DeepCopyInto api) p) (\<lambda>c. if c \<noteq> None then ret (Iface T_ScalewayMachineTemplate c) else ret NilInterface)"
  "DeepCopyObject api (Iface T_ScalewayMachineTemplateList p) = bind (copy_pointer k_ScalewayMachineTemplateList (ScalewayMachineTemplateList_DeepCopyInto api) p) (\<lambda>c. if c \<noteq> None then ret (Iface T_ScalewayMachineTemplateList c) else ret NilInterface)"
  by (simp_all add: DeepCopyObject_def ScalewayCluster_DeepCopyObject_def ScalewayCluster_DeepCopy_def
    ScalewayClusterList_DeepCopyObject_def ScalewayClusterList_DeepCopy_def
    ScalewayClusterTemplate_DeepCopyObject_def ScalewayClusterTemplate_DeepCopy_def
    ScalewayClusterTemplateList_DeepCopyObject_def ScalewayClusterTemplateList_DeepCopy_def
    ScalewayMachine_DeepCopyObject_def ScalewayMachine_DeepCopy_def
    ScalewayMachineList_DeepCopyObject_def ScalewayMachineList_DeepCopy_def
    ScalewayMachineTemplate_DeepCopyObject_def ScalewayMachineTemplate_DeepCopy_def
    ScalewayMachineTemplateList_DeepCopyObject_def ScalewayMachineTemplateList_DeepCopy_def)

lemmas root_copies = independent_object [OF deep_copy_ScalewayCluster k_ScalewayCluster_ok _ _ read_object_simps(1) DeepCopyObject_simps(1)]
  independent_object [OF deep_copy_ScalewayClusterList k_ScalewayClusterList_ok _ _ read_object_simps(2) DeepCopyObject_simps(2)]
  independent_object [OF deep_copy_ScalewayClusterTemplate k_ScalewayClusterTemplate_ok _ _ read_object_simps(3) DeepCopyObject_simps(3)]
  independent_object [OF deep_copy_ScalewayClusterTemplateList k_ScalewayClusterTemplateList_ok _ _ read_object_simps(4) DeepCopyObject_simps(4)]
  independent_object [OF deep_copy_ScalewayMachine k_ScalewayMachine_ok _ _ read_object_simps(5) DeepCopyObject_simps(5)]
  independent_object [OF deep_copy_ScalewayMachineList k_ScalewayMachineList_ok _ _ read_object_simps(6) DeepCopyObject_simps(6)]
  independent_object [OF deep_copy_ScalewayMachineTemplate k_ScalewayMachineTemplate_ok _ _ read_object_simps(7) DeepCopyObject_simps(7)]
  independent_object [OF deep_copy_ScalewayMachineTemplateList k_ScalewayMachineTemplateList_ok _ _ read_object_simps(8) DeepCopyObject_simps(8)]

text \<open>
  C22: the generated deep copies. For every kind of object of the API group, clusters, machines,
  their templates and the lists of these, an object in well-formed memory is copied without a
  panic. The copy is an object with the same value that shares no memory with the original, or with anything
  else that was allocated before: writing through one never shows in the other. The copy of a nil
  pointer is the nil interface, never an interface that holds a nil pointer.
\<close>

theorem DeepCopyObject_independent:
  assumes "copy_contract api rd" and "heap_wf h" and "read_object rd (hp_mem h) (Iface t p) = Some value"
  shows "independent_copy (read_object rd) (Iface t p) value h (DeepCopyObject api (Iface t p) h)
    \<and> (fst (DeepCopyObject api (Iface t p) h) = Ok NilInterface \<longleftrightarrow> p = None)"
  by (insert assms, cases t; hypsubst; rule root_copies; assumption)

text \<open>
  A cluster in memory, with metadata whose finalizers are a slice: the array at address 0 is shared
  by the finalizers (its first element) and the failure domains (the other two).
\<close>

record example_meta =
  em_Name :: string
  em_Finalizers :: "slice option"

definition ex_copy_api :: "(example_meta, string, bool, unit) copy_API" where
  "ex_copy_api = \<lparr>ca_ObjectMeta = (\<lambda>v. bind (copy_slice k_strings ret (em_Finalizers v)) (\<lambda>fs. ret (v\<lparr>em_Finalizers := fs\<rparr>))),
     ca_ListMeta = ret, ca_FailureDomainSpec = ret\<rparr>"

definition ex_readers :: "(example_meta, string, bool, unit, string) readers" where
  "ex_readers = \<lparr>rd_ObjectMeta = (\<lambda>m v. Option.bind (read_slice k_strings plain m (em_Finalizers v)) (\<lambda>fs.
     Some \<lparr>meta_Name = em_Name v, meta_Namespace = ''default'', meta_UID = [], meta_Finalizers = fs, meta_DeletionTimestamp = False\<rparr>)),
     rd_ListMeta = plain, rd_FailureDomainSpec = plain\<rparr>"

definition ex_heap :: "(example_meta, string, bool, unit) memory" where
  "ex_heap = \<lparr>hp_mem = [0 \<mapsto> C_strings [ClusterFinalizer, ''fr-par-1'', ''fr-par-2''], 1 \<mapsto> C_string ''fr-par-1'',
     2 \<mapsto> C_LoadBalancerSpec \<lparr>lbsm_Zone = Some 1, lbsm_Type = None, lbsm_IP = None, lbsm_AllowedRanges = None\<rparr>,
     3 \<mapsto> C_FailureDomains [(''fr-par-1'', True)],
     4 \<mapsto> C_ScalewayCluster \<lparr>scm_TypeMeta = \<lparr>tm_Kind = ''ScalewayCluster'', tm_APIVersion = ''v1beta1''\<rparr>,
       scm_Meta = \<lparr>em_Name = ''c'', em_Finalizers = Some \<lparr>sl_array = 0, sl_off = 0, sl_len = 1\<rparr>\<rparr>,
       scm_Spec = \<lparr>specm_ControlPlaneEndpoint = \<lparr>ep_Host = [], ep_Port = 0\<rparr>,
         specm_FailureDomains = Some \<lparr>sl_array = 0, sl_off = 1, sl_len = 2\<rparr>, specm_Region = ''fr-par'', specm_Network = None,
         specm_ControlPlaneLoadBalancer = Some 2, specm_ScalewaySecretName = ''s''\<rparr>,
       scm_Status = \<lparr>cstm_Ready = True, cstm_FailureDomains = Some 3, cstm_Network = None\<rparr>\<rparr>], hp_next = 5\<rparr>"

definition ex_cluster_value :: "string object_value" where
  "ex_cluster_value = V_ScalewayCluster (\<lparr>tm_Kind = ''ScalewayCluster'', tm_APIVersion = ''v1beta1''\<rparr>,
     \<lparr>sc_Meta = \<lparr>meta_Name = ''c'', meta_Namespace = ''default'', meta_UID = [], meta_Finalizers = [ClusterFinalizer], meta_DeletionTimestamp = False\<rparr>,
      sc_Spec = \<lparr>spec_ControlPlaneEndpoint = \<lparr>ep_Host = [], ep_Port = 0\<rparr>, spec_FailureDomains = [''fr-par-1'', ''fr-par-2''],
        spec_Region = ''fr-par'', spec_Network = None,
        spec_ControlPlaneLoadBalancer = Some \<lparr>lbs_Zone = Some ''fr-par-1'', lbs_Type = None, lbs_IP = None, lbs_AllowedRanges = []\<rparr>,
        spec_ScalewaySecretName = ''s''\<rparr>,
      sc_Status = \<lparr>cst_Ready = True, cst_FailureDomains = [''fr-par-1'' \<mapsto> True], cst_Network = None\<rparr>\<rparr>)"

lemma ex_copy_contract: "copy_contract ex_copy_api ex_readers"
  unfolding copy_contract_def ex_copy_api_def ex_readers_def
  by (auto intro: deep_copy_plain deep_copy_struct1 [OF copy_strings, where ?f1.0 = em_Finalizers])

lemma ex_heap_wf: "heap_wf ex_heap"
  by (simp add: heap_wf_def ex_heap_def)

lemma ex_heap_reads: "read_object ex_readers (hp_mem ex_heap) (Iface T_ScalewayCluster (Some 4)) = Some ex_cluster_value"
  by (simp add: ex_heap_def ex_cluster_value_def read_object_def read_pointer_def read_slice_def read_ScalewayCluster_def
      read_ScalewayClusterSpec_def read_ScalewayClusterStatus_def read_LoadBalancerSpec_def read_failure_domains_def read_entry_def
      ex_readers_def kind_defs elements_def plain_def)

theorem DeepCopyObject_independent_witness:
  "independent_copy (read_object ex_readers) (Iface T_ScalewayCluster (Some 4)) ex_cluster_value ex_heap
     (DeepCopyObject ex_copy_api (Iface T_ScalewayCluster (Some 4)) ex_heap)"
  using DeepCopyObject_independent [OF ex_copy_contract ex_heap_wf ex_heap_reads] by simp

end
