(* ===== verification/Spec2Isabelle.thy ===== *)
theory Spec2Isabelle
  imports Admission Machine_Convergence Balancer_Settling Registration Deep_Copy_Refinement
begin

text \<open>
  \<^bold>\<open>The Scaleway provider of Cluster API, verified\<close>

  The program is a Kubernetes controller manager. Two admission webhooks decide which
  \<^verbatim>\<open>ScalewayCluster\<close> and \<^verbatim>\<open>ScalewayMachine\<close> objects may be stored. Two controllers reconcile them
  with the cloud: the cluster controller runs four services in turn (security groups, private
  network, public gateway, load balancer), the machine controller one (the instance). A
  reconciliation reads the object and its owners, takes the credentials from a secret, opens a
  scope around the object, works, and writes the object back when the scope is closed. Services
  find their resources by name or tags through a thin client over the Scaleway SDK.

  \<^bold>\<open>How the code is modelled.\<close> A Go function with a result and an error that changes state is a
  function from a state to an outcome (a value, an error, or a panic) and a new state
  (\<open>Go_Prelude\<close>). The state of a run is a record: the world, the trace of the calls that ask for a
  change, and, within a scope, the objects of the scope (\<open>Environment\<close>, \<open>Scope\<close>). Following a nil
  pointer is a panic; errors keep how they are wrapped, so that \<^verbatim>\<open>errors.Is\<close> and \<^verbatim>\<open>errors.As\<close>
  are modelled; 32-bit and 64-bit integers are words. Loops are structural recursion over the list
  the code ranges over, so that every definition is total and none needs fuel. The one recursion that
  may not end is the manager's, which runs a reconciler again until it is done: it is
  \<open>again_until\<close>, with \<open>None\<close> for never, and that it ends is a theorem.

  \<^bold>\<open>Parameters.\<close> Code outside the repository is an argument of the definitions that use it: the
  Scaleway SDK as records with one function per API call on an arbitrary world (\<open>Scw_SDK\<close>), the
  Kubernetes client, cluster-api and controller-runtime as the record \<open>k8s_API\<close> (\<open>K8s_API\<close>), the
  template engine of the bootstrap data, and the content of an object that could not be read.
  Nothing is assumed of them except where a theorem says so:
  \<^item> \<open>finalizer_contract\<close>: adding and removing a finalizer do what their names say;
  \<^item> \<open>fresh_pointers\<close>: \<^verbatim>\<open>StringSlicePtr\<close> returns pointers to new memory;
  \<^item> \<open>lists_only\<close>, \<open>deletes_take_out\<close>, \<open>gateways_are_listed\<close>: the lists of the cloud are only read, lose what
    was deleted and show what was created;
  \<^item> \<open>shows_balancers\<close>: the same of load balancers, their networks, backends and frontends;
  \<^item> \<open>copy_contract\<close>: the copies of the metadata and of a failure domain that apimachinery and cluster-api
    provide are deep;
  \<^item> \<open>cluster_server\<close>, \<open>machine_server\<close>: reads are current, patches replace the finalizers if they
    differ from those read, and the calls for other objects and to the cloud leave them alone;
  \<^item> \<open>relents\<close>: a call is refused only finitely often: a measure of the world, which no call raises,
    falls whenever the call fails or does not give what is needed. \<open>grants_cluster\<close> and \<open>grants_removal\<close>
    say so of the cloud, \<open>grants_server\<close> of the API server, for what a cluster or its deletion needs; \<open>grants_machine\<close>,
    \<open>grants_teardown\<close> and \<open>grants_machine_server\<close> do for a machine;
  \<^item> \<open>runtime_contract\<close>, \<open>manager_contract\<close>: schemes know the kinds that were registered, and a controller or
    webhook can be set up for these.

  \<^bold>\<open>The theories\<close>, each with the source it models:
  \<^item> \<open>Go_Prelude\<close>, \<open>Go_Strings\<close>, \<open>Go_Net\<close>: what is used of Go and its standard library (errors, calls,
    \<^verbatim>\<open>strings\<close> and \<^verbatim>\<open>strconv\<close>, \<^verbatim>\<open>net\<close> and \<^verbatim>\<open>netip\<close>), with the rule collections \<open>wp_simps\<close>, \<open>ok_iffs\<close>,
    \<open>emit_intros\<close>, \<open>keep_intros\<close>.
  \<^item> \<open>API_Types\<close>: the custom resources and conversions of \<^verbatim>\<open>api/v1beta1/*_types.go\<close>.
  \<^item> \<open>Cluster_Webhook\<close>, \<open>Machine_Webhook\<close>: \<^verbatim>\<open>api/v1beta1/*_webhook.go\<close>. The cluster webhook is shown
    equivalent to a declarative predicate, its only panic is characterised, and what no sequence
    of admitted updates can change is an invariant.
  \<^item> \<open>Scope\<close>: \<^verbatim>\<open>internal/scope\<close>, the names, zones and IDs a cluster or machine asks for.
  \<^item> \<open>Scw_Client\<close>: \<^verbatim>\<open>internal/service/scaleway/client\<close>. The functions that find a resource are
    interpretations of the interface \<open>finder\<close>.
  \<^item> \<open>Services\<close>, \<open>Plans\<close>: find-or-create (\<open>get_or_create\<close>), the contract of a cluster service
    (\<open>cluster_service\<close>), and code that makes the calls of a plan in order.
  \<^item> \<open>Vpc\<close>, \<open>Vpcgw\<close>, \<open>Load_Balancer_ACL\<close>, \<open>Loadbalancer\<close>, \<open>Securitygroup\<close>, \<open>Instance_Service\<close>: the services
    under \<^verbatim>\<open>internal/service/scaleway\<close>, each with what it creates, updates and deletes, in which
    order, what it records, and how it fails.
  \<^item> \<open>Secret_Client\<close>: \<^verbatim>\<open>internal/controller/secret.go\<close>.
  \<^item> \<open>Controllers\<close>, \<open>Cluster_Controller\<close>, \<open>Machine_Controller\<close>: \<^verbatim>\<open>internal/controller\<close> with the deferred
    closing of a scope (\<open>scope_closer\<close>). The order of the phases, when the finalizer is written and
    given up, when an object becomes ready, when a reconciliation asks for another try, when it
    cannot panic, and that the object is written back however the work ends.
  \<^item> \<open>Manager\<close>: \<^verbatim>\<open>cmd/main.go\<close>, the options of the manager and the order in which everything is set
    up before it starts. \<open>Registration\<close>: the API group, the kinds that the \<^verbatim>\<open>init\<close> functions register, and
    \<^verbatim>\<open>SetupWithManager\<close> and \<^verbatim>\<open>SetupWebhookWithManager\<close>; with them the program comes up.
  \<^item> \<open>Cluster_Removal\<close>: what is left of a cluster after a deletion, in terms of what the API lists; a
    deletion that succeeded leaves nothing, and one that finds nothing succeeds.
  \<^item> \<open>Settling\<close>, \<open>Balancer_Settling\<close>: a second reconciliation of the public gateway asks for nothing, and one
    of the load balancer for nothing but changes of ACLs.
  \<^item> \<open>Admission\<close>: the controllers and the webhooks together: which of the objects that a controller
    writes back its own webhook admits.
  \<^item> \<open>Go_Memory\<close>: memory as far as copies need it, pointers, slices with their arrays and maps, with
    the contract \<open>deep_copy\<close>. \<open>Memory_Types\<close>: the types of the API group, templates and lists included, as
    they lie in memory. \<open>Deep_Copy\<close>: \<^verbatim>\<open>api/v1beta1/zz_generated.deepcopy.go\<close>, every function.
    \<open>Deep_Copy_Refinement\<close>: what memory stands for is a value of \<open>API_Types\<close>, and a copy stands for the
    same value in memory of its own. This is why the rest of the model can do with values.
  \<^item> \<open>Stored_State\<close>: what a run can do to the world. If the calls of the environment stay within a
    reflexive and transitive relation, so do the services (\<open>world_relation\<close>), for two relations: a part
    of the world is kept, and a measure does not grow.
  \<^item> \<open>Lifecycle\<close>: many reconciliations in sequence. No service touches the finalizers
    in the API server, and one reconciliation follows the protocol of the interface
    \<open>finalizer_protocol\<close>; both controllers interpret it. The theorems of this theory are its
    consequence over all reachable states.
  \<^item> \<open>Retrying\<close>, \<open>Cluster_Retrying\<close>, \<open>Cluster_Convergence\<close>, \<open>Machine_Retrying\<close>, \<open>Machine_Convergence\<close>: reconciliations
    that are run again. Code that is \<open>surely\<close> successful when nothing is refused, rule by rule and service
    by service, and in the scope of a machine code that runs \<open>safely\<close>, without a panic; the reconcilers of
    clusters and of machines interpret \<open>retried\<close>, and so a cluster or machine becomes ready and its deletion
    comes to an end, within one run more than there are refusals.
  \<^item> \<open>Example_Objects\<close>, \<open>Example_Cloud\<close>, \<open>Example_Kubernetes\<close>, \<open>Example_Server\<close>: concrete objects, clouds and
    API servers at which theorems with hypotheses are applied; the model does not use them.

  \<^bold>\<open>Interfaces.\<close> \<open>finder\<close> (ten functions of the client), \<open>get_or_create\<close> (IPs, servers, networks,
  gateways, load balancers), \<open>cluster_service\<close> (the four services), \<open>acl_keeper\<close> (both services that keep
  ACLs), \<open>string_enum\<close> (the enumerations of the API), \<open>deep_copy\<close> (the
  generated copies), \<open>scope_closer\<close> and \<open>finalizer_protocol\<close> (both controllers), \<open>world_relation\<close> (what runs do
  to the world) and \<open>retried\<close> (both reconcilers) are locales; their laws are discharged
  for the definitions of the model where these are given.

  \<^bold>\<open>Not modelled.\<close> The command line is parsed by Go's \<^verbatim>\<open>flag\<close>; logging and the test utilities,
  which run shell commands, are left out. Contexts and their cancellation are not
  modelled: a cancelled call is one that returns an error. The order in which Go ranges over a map is fixed by
  the list that represents the map, which is arbitrary. Two reconciliations of one object do
  not overlap, as controller-runtime guarantees; reads from a cache that lags behind the API server
  are outside the hypotheses of the theorems on whole lives, and inside all others.

  \<^bold>\<open>Further work\<close>, in this order: that the instance settles up to the updates of its ACLs, as the
  network, the gateway, the security groups and the load balancer do; the life of an object under a
  cache that lags.
\<close>

section \<open>The finalizers guard the resources\<close>





section \<open>A machine that never got its server\<close>

text \<open>
  C39: an IP that is left behind. A machine with a public IP gets the IP before its server. If
  the server cannot be created, the reconciliation fails; if the machine is deleted then, the
  deletion finds no server, makes no call and gives the finalizer up: the IP that was created
  for the machine stays.
\<close>

theorem failed_machine_leaves_ip:
  assumes "NeedsPublicIP (scope_ScalewayMachine s)" and "lookupIP c s = (Ok None, s1)" and "createIP c s1 = (Ok ip, s2)"
    and "lookupServer c s2 = (Ok None, s3)" and "createServer c sdk (Some ip) s3 = (Err e, s4)"
    and "lookupServer c s4 = (Ok None, s5)"
  shows "instance_Reconcile c sdk k engine s = (Err e, s4)
    \<and> (\<exists>zone tags. CallCreateIP zone tags \<in> set (trace s4))
    \<and> machine_reconcileDelete k c sdk s4 = (Ok no_requeue, s5\<lparr>scope_ScalewayMachine := SetMachineFinalizers
        (k_RemoveFinalizer k (meta_Finalizers (sm_Meta (scope_ScalewayMachine s5))) MachineFinalizer) (scope_ScalewayMachine s5)\<rparr>)
    \<and> trace s5 = trace s4"
proof (intro conjI)
  have ip: "getOrCreateIP c s = (Ok (Some ip), s2)"
    using assms(1-3) by (simp add: getOrCreateIP_def with_scope_def getOrCreate_def bind_def ret_def)
  moreover have "getOrCreateServer c sdk (Some ip) s2 = (Err e, s4)"
    using assms(4,5) by (simp add: getOrCreateServer_def getOrCreate_def bind_def)
  ultimately show "instance_Reconcile c sdk k engine s = (Err e, s4)"
    by (simp add: instance_Reconcile_def prepareMachine_def bind_def)
  obtain zone tags where "trace s2 = trace s1 @ [CallCreateIP zone tags]"
    using assms(3) by (auto simp: createIP_def with_scope_run ok_iffs)
  moreover have "trace s3 = trace s2" by (rule reads_only_trace [OF machine_server.lookup_reads assms(4)])
  moreover obtain es where "trace s4 = trace s3 @ es" using emits_grows [OF machine_server.create_emits assms(5)] by blast
  ultimately have "CallCreateIP zone tags \<in> set (trace s4)" by simp
  then show "\<exists>zone tags. CallCreateIP zone tags \<in> set (trace s4)" by blast
  show "machine_reconcileDelete k c sdk s4 = (Ok no_requeue, s5\<lparr>scope_ScalewayMachine := SetMachineFinalizers
      (k_RemoveFinalizer k (meta_Finalizers (sm_Meta (scope_ScalewayMachine s5))) MachineFinalizer) (scope_ScalewayMachine s5)\<rparr>)"
    using assms(6) by (simp add: machine_reconcileDelete_def instance_Delete_def bind_def modify_machine_run ret_def)
  show "trace s5 = trace s4"
    by (rule reads_only_trace [OF machine_server.lookup_reads assms(6)])
qed

text \<open>A cloud in which IPs can be had, but no servers.\<close>

definition ex_no_servers :: "unit Client" where
  "ex_no_servers = down_client\<lparr>cl_Instance := down_instance\<lparr>
     instance_ListServers := (\<lambda>z n w. (Inr [], w)), instance_ListIPs := (\<lambda>z ts w. (Inr [], w)),
     instance_CreateIP := (\<lambda>z ts w. (Inr \<lparr>iip_ID = ''ip-1''\<rparr>, w))\<rparr>\<rparr>"

theorem failed_machine_leaves_ip_witness:
  "let s4 = snd (instance_Reconcile ex_no_servers ex_sdk down_k8s (\<lambda>b. Inr (\<lambda>v. Inr b)) (ex_machine_scope ex_public_machine ())) in
   (\<exists>zone tags. CallCreateIP zone tags \<in> set (trace s4))
   \<and> fst (machine_reconcileDelete down_k8s ex_no_servers ex_sdk s4) = Ok no_requeue"
proof -
  let ?s = "ex_machine_scope ex_public_machine ()"
  obtain ip s2 where create: "createIP ex_no_servers ?s = (Ok ip, s2)" and m: "scope_ScalewayMachine s2 = ex_public_machine"
    by (simp add: createIP_def with_scope_run wrapping_def sdk_call_def ex_no_servers_def ex_machine_scope_def)
  have none: "lookupServer ex_no_servers s = (Ok None, s)" "lookupIP ex_no_servers s = (Ok None, s)" for s :: "unit MachineScope"
    by (simp_all add: lookupServer_def lookupIP_def with_scope_run FindInstanceByName_def FindIPByTags_def ex_no_servers_def
        optional_def attempt_def bind_def wrapping_def sdk_read_def first_match_def only_item_def throw_def ret_def)
  obtain e s4 where "createServer ex_no_servers ex_sdk (Some ip) s2 = (Err e, s4)"
    using m by (simp add: createServer_def findImage_def isValidUUID_def with_scope_run bind_def wrapping_def sdk_read_def ex_no_servers_def ex_kubernetes)
  from failed_machine_leaves_ip [OF _ none(2) create none(1) this none(1)] show ?thesis
    by (simp add: Let_def NeedsPublicIP_def ex_kubernetes)
qed

end
